(* ===== verification/Prelude.thy ===== *)
theory Prelude
  imports Complex_Main "HOL-Library.AList" "HOL-Library.Multiset"
begin

text \<open>
  Shared vocabulary of the development. Python floats are modelled as \<open>real\<close>
  (rounding is not modelled), numpy arrays of one dimension as \<open>real list\<close>, and
  Python dictionaries, whose iteration order is insertion order, as association
  lists whose assignment is \<open>AList.update\<close> (in place for a known key, appended
  for a new one). Every exception the modelled code can raise is a constructor
  of \<open>py_error\<close>; a computation whose numpy result would be \<open>nan\<close> or
  \<open>inf\<close> (numpy warns and goes on, and the JSON response of the service then
  fails) is the value \<open>Inl NonFinite\<close>.
\<close>

named_theorems np_simps "characteristic equations of the numpy and scipy routines"
named_theorems model_simps "unfolding rules of the component operations"

type_synonym vec = "real list"
type_synonym 'v pydict = "(string \<times> 'v) list"

datatype py_error =
    ValueError
  | IndexError
  | AttributeError
  | UnboundLocalError
  | ZeroDivisionError
  | LinAlgError
  | TypeError
  | KeyError
  | NonFinite

text \<open>\<open>d.get(k, default)\<close> and \<open>k in d\<close> on a Python dictionary.\<close>

definition dict_get :: "'v pydict \<Rightarrow> string \<Rightarrow> 'v \<Rightarrow> 'v" where
  "dict_get d k dflt = (case map_of d k of None \<Rightarrow> dflt | Some v \<Rightarrow> v)"

definition dict_has :: "'v pydict \<Rightarrow> string \<Rightarrow> bool" where
  "dict_has d k \<longleftrightarrow> map_of d k \<noteq> None"

text \<open>\<open>int(x)\<close> of a float, and \<open>xs[i]\<close> with Python's negative indices.\<close>

definition py_int :: "real \<Rightarrow> int" where
  "py_int x = (if 0 \<le> x then \<lfloor>x\<rfloor> else \<lceil>x\<rceil>)"

definition py_nth :: "'a list \<Rightarrow> int \<Rightarrow> py_error + 'a" where
  "py_nth xs i =
     (if 0 \<le> i \<and> i < int (length xs) then Inr (xs ! nat i)
      else if - int (length xs) \<le> i \<and> i < 0 then Inr (xs ! nat (int (length xs) + i))
      else Inl IndexError)"

text \<open>\<open>str(n)\<close> of an integer and \<open>sep.join(parts)\<close>.\<close>

fun nat_str :: "nat \<Rightarrow> string" where
  "nat_str n = (if n < 10 then [char_of (48 + n)] else nat_str (n div 10) @ [char_of (48 + n mod 10)])"

definition py_str_int :: "int \<Rightarrow> string" where
  "py_str_int i = (if i < 0 then ''-'' @ nat_str (nat (- i)) else nat_str (nat i))"

fun py_join :: "string \<Rightarrow> string list \<Rightarrow> string" where
  "py_join sep [] = []"
| "py_join sep [x] = x"
| "py_join sep (x # y # zs) = x @ sep @ py_join sep (y # zs)"

text \<open>\<open>int(s)\<close> of a string in base 10: surrounding whitespace, an optional sign, and
  digits with single underscores between them; anything else raises \<open>ValueError\<close>.
  Strings are byte lists here, so only ASCII digits and whitespace are read.\<close>

definition is_digit :: "char \<Rightarrow> bool" where
  "is_digit c \<longleftrightarrow> (let k = (of_char c :: nat) in 48 \<le> k \<and> k \<le> 57)"

definition py_isspace :: "char \<Rightarrow> bool" where
  "py_isspace c \<longleftrightarrow> (let k = (of_char c :: nat) in (9 \<le> k \<and> k \<le> 13) \<or> (28 \<le> k \<and> k \<le> 32))"

definition py_strip :: "string \<Rightarrow> string" where
  "py_strip s = rev (dropWhile py_isspace (rev (dropWhile py_isspace s)))"

fun no_double_underscore :: "string \<Rightarrow> bool" where
  "no_double_underscore (a # b # cs) = (\<not> (a = CHR ''_'' \<and> b = CHR ''_'') \<and> no_double_underscore (b # cs))"
| "no_double_underscore _ = True"

definition digits_ok :: "string \<Rightarrow> bool" where
  "digits_ok s \<longleftrightarrow> s \<noteq> [] \<and> is_digit (hd s) \<and> is_digit (last s) \<and>
     list_all (\<lambda>c. is_digit c \<or> c = CHR ''_'') s \<and> no_double_underscore s"

definition digits_value :: "string \<Rightarrow> nat" where
  "digits_value s = foldl (\<lambda>acc c. 10 * acc + (of_char c - 48)) 0 (filter is_digit s)"

definition py_int_of_str :: "string \<Rightarrow> py_error + int" where
  "py_int_of_str s =
     (case py_strip s of
        [] \<Rightarrow> Inl ValueError
      | c # r \<Rightarrow>
          if c = CHR ''-'' then (if digits_ok r then Inr (- int (digits_value r)) else Inl ValueError)
          else if c = CHR ''+'' then (if digits_ok r then Inr (int (digits_value r)) else Inl ValueError)
          else if digits_ok (c # r) then Inr (int (digits_value (c # r))) else Inl ValueError)"

text \<open>\<open>xs[lo:hi]\<close>: a negative bound counts from the end, and both bounds are clamped
  to the list.\<close>

definition py_slice :: "'a list \<Rightarrow> int \<Rightarrow> int \<Rightarrow> 'a list" where
  "py_slice xs lo hi =
     (let n = int (length xs);
          norm = (\<lambda>j. if j < 0 then max 0 (j + n) else min j n)
      in take (nat (norm hi - norm lo)) (drop (nat (norm lo)) xs))"

lemma dict_get_Some [simp]: "map_of d k = Some v \<Longrightarrow> dict_get d k dflt = v"
  by (simp add: dict_get_def)

lemma dict_get_None [simp]: "map_of d k = None \<Longrightarrow> dict_get d k dflt = dflt"
  by (simp add: dict_get_def)

lemma dict_has_iff [simp]: "dict_has d k \<longleftrightarrow> k \<in> fst ` set d"
  by (simp add: dict_has_def map_of_eq_None_iff)

lemma dict_get_nonneg:
  fixes dflt :: real
  assumes "\<forall>k v. map_of d k = Some v \<longrightarrow> 0 \<le> v" "0 \<le> dflt"
  shows "0 \<le> dict_get d k dflt"
  using assms by (cases "map_of d k") auto

lemma update_new_key:
  "k \<notin> fst ` set al \<Longrightarrow> AList.update k v al = al @ [(k, v)]"
  by (induction al) auto

lemma set_update_subset: "set (AList.update k v al) \<subseteq> insert (k, v) (set al)"
  by (induction al) auto

lemma dict_get_keys:
  assumes "distinct (map fst d)"
  shows "map (\<lambda>k. dict_get d k dflt) (map fst d) = map snd d"
  unfolding map_map
proof (rule map_cong)
  fix x assume "x \<in> set d"
  then have "map_of d (fst x) = Some (snd x)" using map_of_is_SomeI [OF assms] by simp
  then show "((\<lambda>k. dict_get d k dflt) \<circ> fst) x = snd x" by simp
qed simp

lemma map_of_map_keyed:
  "map_of (map (\<lambda>(k, v). (k, g k v)) xs) k = map_option (g k) (map_of xs k)"
  by (induction xs) auto

lemma sum_list_map_divide:
  fixes c :: real
  shows "sum_list (map (\<lambda>x. f x / c) xs) = sum_list (map f xs) / c"
  by (induction xs) (simp_all add: add_divide_distrib)

lemma map2_map_map: "map2 g (map f xs) (map h xs) = map (\<lambda>x. g (f x) (h x)) xs"
  by (induction xs) auto

text \<open>Expanding a weighted sum of squared deviations from a point \<open>m\<close>.\<close>

lemma weighted_sq_dev:
  fixes w r :: "'a \<Rightarrow> real"
  shows "sum_list (map (\<lambda>x. w x * (r x - m)\<^sup>2) xs) =
         sum_list (map (\<lambda>x. w x * (r x)\<^sup>2) xs) - 2 * m * sum_list (map (\<lambda>x. w x * r x) xs)
         + m\<^sup>2 * sum_list (map w xs)"
  by (induction xs) (simp_all add: power2_diff algebra_simps)

subsection \<open>Convex combinations\<close>

text \<open>Linear interpolation between two ordered values stays between them.\<close>

lemma lerp_between:
  fixes a b t :: real
  assumes "a \<le> b" "0 \<le> t" "t \<le> 1"
  shows "a \<le> t * (b - a) + a" and "t * (b - a) + a \<le> b"
proof -
  have "0 \<le> t * (b - a)" using assms by simp
  then show "a \<le> t * (b - a) + a" by simp
  have "t * (b - a) \<le> 1 * (b - a)" using assms by (intro mult_right_mono) auto
  then show "t * (b - a) + a \<le> b" by simp
qed

lemma frac_unit_interval:
  fixes x x0 x1 :: real
  assumes "x0 \<le> x" "x < x1"
  shows "0 \<le> (x - x0) / (x1 - x0)" and "(x - x0) / (x1 - x0) \<le> 1"
  using assms by (simp_all add: divide_le_eq_1)

lemma sorted_hd_le_last:
  "sorted xs \<Longrightarrow> xs \<noteq> [] \<Longrightarrow> hd xs \<le> last xs"
  using sorted_nth_mono [of xs 0 "length xs - 1"] by (simp add: hd_conv_nth last_conv_nth)

lemma sort_eq_Nil_iff [simp]: "sort xs = [] \<longleftrightarrow> xs = []"
proof
  assume "sort xs = []"
  then have "length (sort xs) = 0" by simp
  then show "xs = []" by simp
qed simp

lemma nth_sort_in_set:
  assumes "y \<in> set xs"
  obtains k where "k < length (sort xs)" "sort xs ! k = y"
proof -
  have "y \<in> set (sort xs)" using assms by simp
  then show ?thesis using in_set_conv_nth [of y "sort xs"] that by blast
qed

lemma hd_sort_Min: "xs \<noteq> [] \<Longrightarrow> hd (sort xs) = Min (set xs)"
proof -
  assume ne: "xs \<noteq> []"
  then have ns: "sort xs \<noteq> []" by simp
  have "hd (sort xs) \<in> set (sort xs)" using ns by (rule hd_in_set)
  then have "hd (sort xs) \<in> set xs" by simp
  moreover have "\<forall>y\<in>set xs. hd (sort xs) \<le> y"
  proof
    fix y assume "y \<in> set xs"
    then obtain k where "k < length (sort xs)" "sort xs ! k = y" by (rule nth_sort_in_set)
    then show "hd (sort xs) \<le> y"
      using sorted_nth_mono [OF sorted_sort, of 0 k xs] ns by (simp add: hd_conv_nth)
  qed
  ultimately show ?thesis by (intro Min_eqI [symmetric]) auto
qed

lemma last_sort_Max: "xs \<noteq> [] \<Longrightarrow> last (sort xs) = Max (set xs)"
proof -
  assume ne: "xs \<noteq> []"
  then have ns: "sort xs \<noteq> []" by simp
  have "last (sort xs) \<in> set (sort xs)" using ns by (rule last_in_set)
  then have "last (sort xs) \<in> set xs" by simp
  moreover have "\<forall>y\<in>set xs. y \<le> last (sort xs)"
  proof
    fix y assume "y \<in> set xs"
    then obtain k where k: "k < length (sort xs)" "sort xs ! k = y" by (rule nth_sort_in_set)
    then show "y \<le> last (sort xs)"
      using sorted_nth_mono [OF sorted_sort, of k "length (sort xs) - 1" xs] ns
      by (simp add: last_conv_nth)
  qed
  ultimately show ?thesis by (intro Max_eqI [symmetric]) auto
qed

subsection \<open>Weighted sums\<close>

text \<open>A weighted sum of values that all lie in \<open>[lo, hi]\<close>, with non-negative
  weights of total 1, lies in \<open>[lo, hi]\<close>.\<close>

lemma weighted_sum_lower:
  fixes ws vs :: "real list"
  assumes "length ws = length vs" "\<forall>w\<in>set ws. 0 \<le> w" "\<forall>v\<in>set vs. lo \<le> v"
  shows "lo * sum_list ws \<le> sum_list (map2 (*) ws vs)"
  using assms
proof (induction ws vs rule: list_induct2)
  case Nil
  then show ?case by simp
next
  case (Cons w ws v vs)
  then have "lo * w \<le> v * w" by (intro mult_right_mono) auto
  with Cons show ?case by (simp add: distrib_left mult.commute)
qed

lemma weighted_sum_upper:
  fixes ws vs :: "real list"
  assumes "length ws = length vs" "\<forall>w\<in>set ws. 0 \<le> w" "\<forall>v\<in>set vs. v \<le> hi"
  shows "sum_list (map2 (*) ws vs) \<le> hi * sum_list ws"
  using assms
proof (induction ws vs rule: list_induct2)
  case Nil
  then show ?case by simp
next
  case (Cons w ws v vs)
  then have "v * w \<le> hi * w" by (intro mult_right_mono) auto
  with Cons show ?case by (simp add: distrib_left mult.commute)
qed

lemma py_slice_nat [simp]: "i + k \<le> length xs \<Longrightarrow> py_slice xs (int i) (int i + int k) = take k (drop i xs)"
  by (simp add: py_slice_def)

lemma py_slice_wrap [simp]: "0 \<le> i \<Longrightarrow> py_slice xs i (i - int (length xs)) = []"
  by (simp add: py_slice_def Let_def)

lemma py_slice_empty_tail [simp]: "m \<le> length xs \<Longrightarrow> py_slice xs (int m) 0 = []"
  by (simp add: py_slice_def)

lemma py_slice_head: "0 < m \<Longrightarrow> m < length xs \<Longrightarrow> length (py_slice xs 0 (- int m)) = length xs - m"
  by (simp add: py_slice_def Let_def nat_diff_distrib')

text \<open>\<open>int(str(i)) = i\<close>.\<close>

lemma nat_str_small: "n < 10 \<Longrightarrow> nat_str n = [char_of (48 + n)]"
  by simp

lemma nat_str_big: "\<not> n < 10 \<Longrightarrow> nat_str n = nat_str (n div 10) @ [char_of (48 + n mod 10)]"
  by simp

lemma is_digit_char [simp]: "n < 10 \<Longrightarrow> is_digit (char_of (48 + n :: nat))"
  by (simp add: is_digit_def Let_def)

lemma nat_str_digits: "list_all is_digit (nat_str n)"
proof (induction n rule: nat_str.induct)
  case (1 n)
  then show ?case
    by (cases "n < 10") (simp_all add: nat_str_small nat_str_big del: nat_str.simps)
qed


lemma nat_str_ne [simp]: "nat_str n \<noteq> []"
  by (cases "n < 10") (simp_all add: nat_str_small nat_str_big del: nat_str.simps)

lemma no_double_underscore_digits: "list_all is_digit s \<Longrightarrow> no_double_underscore s"
  by (induction s rule: no_double_underscore.induct) (auto simp: is_digit_def)

lemma nat_str_ok: "digits_ok (nat_str n)"
  using nat_str_digits [of n] no_double_underscore_digits [OF nat_str_digits [of n]]
  by (auto simp: digits_ok_def list_all_iff simp del: nat_str.simps)

lemma digits_value_snoc:
  "is_digit c \<Longrightarrow> digits_value (s @ [c]) = 10 * digits_value s + (of_char c - 48)"
  by (simp add: digits_value_def)

lemma nat_str_value: "digits_value (nat_str n) = n"
proof (induction n rule: nat_str.induct)
  case (1 n)
  show ?case
  proof (cases "n < 10")
    case True
    then show ?thesis by (simp add: nat_str_small digits_value_def del: nat_str.simps)
  next
    case False
    then have "digits_value (nat_str n) = 10 * digits_value (nat_str (n div 10)) + n mod 10"
      by (simp add: nat_str_big digits_value_snoc del: nat_str.simps)
    then show ?thesis using 1 False by simp
  qed
qed

lemma py_strip_id:
  assumes "s \<noteq> []" "\<not> py_isspace (hd s)" "\<not> py_isspace (last s)"
  shows "py_strip s = s"
proof -
  have d: "dropWhile py_isspace s = s" using assms by (cases s) simp_all
  have "dropWhile py_isspace (rev s) = rev s" using assms by (cases "rev s") (simp_all add: hd_rev)
  then show ?thesis using d by (simp add: py_strip_def)
qed

lemma digit_not_space: "is_digit c \<Longrightarrow> \<not> py_isspace c"
  by (simp add: is_digit_def py_isspace_def Let_def)

lemma nat_str_hd_last: "is_digit (hd (nat_str n)) \<and> is_digit (last (nat_str n))"
  using nat_str_digits [of n] by (simp add: list_all_iff del: nat_str.simps)

lemma int_str_roundtrip: "py_int_of_str (py_str_int i) = Inr i"
proof (cases "i < 0")
  case True
  let ?d = "nat_str (nat (- i))"
  have "py_strip (CHR ''-'' # ?d) = CHR ''-'' # ?d"
    using nat_str_hd_last [of "nat (- i)"] digit_not_space
    by (intro py_strip_id) (simp_all add: py_isspace_def del: nat_str.simps)
  then show ?thesis using True nat_str_ok [of "nat (- i)"] nat_str_value [of "nat (- i)"]
    by (simp add: py_int_of_str_def py_str_int_def del: nat_str.simps)
next
  case False
  let ?d = "nat_str (nat i)"
  obtain c r where cr: "?d = c # r" using nat_str_ne [of "nat i"] by (cases ?d) (auto simp del: nat_str.simps)
  have c: "is_digit c" using nat_str_hd_last [of "nat i"] cr by simp
  have "py_strip ?d = ?d"
    using nat_str_hd_last [of "nat i"] digit_not_space by (intro py_strip_id) simp_all
  then show ?thesis using False cr c nat_str_ok [of "nat i"] nat_str_value [of "nat i"]
    by (auto simp: py_int_of_str_def py_str_int_def is_digit_def del: nat_str.simps)
qed

end
