(* ===== verification/NumPy.thy ===== *)
theory NumPy
  imports Prelude
begin

text \<open>
  The numpy and scipy routines the repository calls, modelled from their library
  semantics (they are not code of the repository): \<open>np.mean\<close>, \<open>np.var\<close> and
  \<open>np.std\<close> (population forms, \<open>ddof = 0\<close>), element-wise subtraction with
  numpy broadcasting, \<open>np.interp\<close>, and \<open>scipy.interpolate.interp1d\<close> with
  \<open>bounds_error=False\<close> and a pair of fill values, which for one-dimensional
  float data delegates to \<open>np.interp\<close> and then overwrites the points outside
  the sample range with the fill values. The lemmas give the facts the components
  use: interpolation stays within its data, and reproduces the data at the knots.
\<close>

subsection \<open>Reductions\<close>

definition np_mean :: "vec \<Rightarrow> real" where
  "np_mean xs = sum_list xs / real (length xs)"

definition np_var :: "vec \<Rightarrow> real" where
  "np_var xs = np_mean (map (\<lambda>x. (x - np_mean xs)\<^sup>2) xs)"

definition np_std :: "vec \<Rightarrow> real" where
  "np_std xs = sqrt (np_var xs)"

lemma np_var_nonneg: "0 \<le> np_var xs"
  by (auto simp: np_var_def np_mean_def intro!: divide_nonneg_nonneg sum_list_nonneg)

lemma np_mean_squares_nonneg [simp]: "0 \<le> np_mean (map (\<lambda>d. d\<^sup>2) xs)"
  by (auto simp: np_mean_def intro!: divide_nonneg_nonneg sum_list_nonneg)

lemma np_mean_const [simp]: "np_mean (replicate n c) = (if n = 0 then 0 else c)"
  by (simp add: np_mean_def sum_list_replicate)

lemma np_var_const [simp]: "np_var (replicate n c) = 0"
  by (simp add: np_var_def map_replicate_const)

lemma sum_list_affine:
  "sum_list (map (\<lambda>x. a * x + b) xs) = a * sum_list xs + b * real (length xs)"
  by (induction xs) (simp_all add: algebra_simps)

lemma np_mean_affine:
  "xs \<noteq> [] \<Longrightarrow> np_mean (map (\<lambda>x. a * x + b) xs) = a * np_mean xs + b"
  unfolding np_mean_def sum_list_affine length_map by (simp add: field_simps)

lemma np_mean_scale:
  "np_mean (map (\<lambda>x. c * f x) xs) = c * np_mean (map f xs)"
  by (simp add: np_mean_def sum_list_const_mult)

lemma np_var_affine:
  "np_var (map (\<lambda>x. a * x + b) xs) = a\<^sup>2 * np_var xs"
proof (cases "xs = []")
  case True
  then show ?thesis by (simp add: np_var_def np_mean_def)
next
  case False
  have m: "np_mean (map (\<lambda>x. a * x + b) xs) = a * np_mean xs + b"
    using False by (rule np_mean_affine)
  have "\<And>x. (a * x + b - (a * np_mean xs + b))\<^sup>2 = a\<^sup>2 * (x - np_mean xs)\<^sup>2"
    by (simp add: power2_eq_square algebra_simps)
  then have "map (\<lambda>y. (y - np_mean (map (\<lambda>x. a * x + b) xs))\<^sup>2) (map (\<lambda>x. a * x + b) xs) =
        map (\<lambda>x. a\<^sup>2 * (x - np_mean xs)\<^sup>2) xs"
    unfolding m by simp
  then have "np_var (map (\<lambda>x. a * x + b) xs) = np_mean (map (\<lambda>x. a\<^sup>2 * (x - np_mean xs)\<^sup>2) xs)"
    by (simp only: np_var_def)
  then show ?thesis by (simp only: np_mean_scale np_var_def)
qed

lemma np_std_affine:
  "np_std (map (\<lambda>x. a * x + b) xs) = \<bar>a\<bar> * np_std xs"
  by (simp add: np_std_def np_var_affine real_sqrt_mult)

lemma np_std_nonneg: "0 \<le> np_std xs"
  by (simp add: np_std_def np_var_nonneg)

lemma np_std_Nil [simp]: "np_std [] = 0"
  by (simp add: np_std_def np_var_def np_mean_def)

lemma np_mean_pos:
  assumes "\<forall>x \<in> set xs. 0 \<le> x" "\<exists>x \<in> set xs. 0 < x"
  shows "0 < np_mean xs"
proof -
  obtain x where x: "x \<in> set xs" "0 < x" using assms(2) by blast
  have "x \<le> sum_list xs" using x(1) assms(1) by (intro member_le_sum_list) auto
  moreover have "xs \<noteq> []" using x(1) by auto
  ultimately show ?thesis using x(2) by (simp add: np_mean_def)
qed

lemma sum_list_lower: "\<forall>x \<in> set xs. a \<le> x \<Longrightarrow> real (length xs) * a \<le> sum_list xs"
  by (induction xs) (auto simp: algebra_simps)

lemma sum_list_upper: "\<forall>x \<in> set xs. x \<le> b \<Longrightarrow> sum_list xs \<le> real (length xs) * b"
  by (induction xs) (auto simp: algebra_simps)

text \<open>A mean lies between the least and the greatest value.\<close>

lemma np_mean_between:
  assumes "xs \<noteq> []"
  shows "Min (set xs) \<le> np_mean xs \<and> np_mean xs \<le> Max (set xs)"
proof -
  have n: "0 < real (length xs)" using assms by simp
  have "real (length xs) * Min (set xs) \<le> sum_list xs" using assms by (intro sum_list_lower) simp
  moreover have "sum_list xs \<le> real (length xs) * Max (set xs)" using assms by (intro sum_list_upper) simp
  ultimately show ?thesis using n by (simp add: np_mean_def field_simps)
qed

lemma np_mean_zeros:
  assumes "\<forall>x \<in> set xs. x = 0"
  shows "np_mean xs = 0"
proof -
  have "sum_list xs = 0" using assms by (induction xs) auto
  then show ?thesis by (simp add: np_mean_def)
qed

text \<open>Cauchy-Schwarz for a sum: \<open>(\<Sum> y)\<^sup>2 \<le> n \<Sum> y\<^sup>2\<close>.\<close>

lemma sum_sq_bound:
  fixes ys :: vec
  shows "(sum_list ys)\<^sup>2 \<le> real (length ys) * sum_list (map (\<lambda>y. y\<^sup>2) ys)"
proof (cases "ys = []")
  case False
  let ?n = "real (length ys)" and ?S = "sum_list ys" and ?Q = "sum_list (map (\<lambda>y. y\<^sup>2) ys)"
  let ?m = "?S / ?n"
  have n: "0 < ?n" using False by simp
  have "0 \<le> sum_list (map (\<lambda>y. 1 * (y - ?m)\<^sup>2) ys)" by (rule sum_list_nonneg) auto
  also have "\<dots> = sum_list (map (\<lambda>y. 1 * y\<^sup>2) ys) - 2 * ?m * sum_list (map (\<lambda>y. 1 * y) ys)
                    + ?m\<^sup>2 * sum_list (map (\<lambda>y. 1) ys)"
    by (rule weighted_sq_dev)
  also have "\<dots> = ?Q - ?S\<^sup>2 / ?n"
    using n by (simp add: sum_list_triv power2_eq_square field_simps)
  finally have "?S\<^sup>2 / ?n \<le> ?Q" by simp
  then show ?thesis using n by (simp add: divide_le_eq mult.commute)
qed simp

text \<open>Samuelson's inequality: no point of a sample lies more than \<open>\<surd>(n - 1)\<close>
  population standard deviations from the mean.\<close>

lemma samuelson:
  assumes "x \<in> set xs"
  shows "(x - np_mean xs)\<^sup>2 \<le> (real (length xs) - 1) * np_var xs"
proof -
  let ?n = "real (length xs)" and ?\<mu> = "np_mean xs"
  let ?rest = "remove1 x xs"
  let ?D = "map (\<lambda>y. y - ?\<mu>) ?rest"
  have ne: "xs \<noteq> []" using assms by auto
  then have n: "0 < ?n" by simp
  have "1 \<le> length xs" using ne by (cases xs) auto
  then have len: "real (length ?rest) = ?n - 1"
    using assms by (simp add: length_remove1 of_nat_diff)
  have sum_xs: "sum_list xs = ?n * ?\<mu>" using n by (simp add: np_mean_def)
  have rest: "sum_list ?rest = ?n * ?\<mu> - x"
    using sum_list_map_remove1 [OF assms, of id] sum_xs by simp
  have "sum_list ?D = sum_list ?rest - real (length ?rest) * ?\<mu>"
    by (simp add: sum_list_subtractf sum_list_triv)
  also have "\<dots> = (?n * ?\<mu> - x) - (?n - 1) * ?\<mu>" by (simp only: rest len)
  also have "\<dots> = ?\<mu> - x" by (simp add: algebra_simps)
  finally have "sum_list ?D = ?\<mu> - x" .
  then have cs: "(x - ?\<mu>)\<^sup>2 \<le> (?n - 1) * sum_list (map (\<lambda>y. y\<^sup>2) ?D)"
    using sum_sq_bound [of ?D] len by (simp add: power2_commute)
  have total: "sum_list (map (\<lambda>y. (y - ?\<mu>)\<^sup>2) xs) = (x - ?\<mu>)\<^sup>2 + sum_list (map (\<lambda>y. y\<^sup>2) ?D)"
    using sum_list_map_remove1 [OF assms, of "\<lambda>y. (y - ?\<mu>)\<^sup>2"] by (simp add: comp_def)
  have var: "sum_list (map (\<lambda>y. (y - ?\<mu>)\<^sup>2) xs) = ?n * np_var xs"
    using n by (simp add: np_var_def np_mean_def [of "map _ xs"])
  from cs total var have "?n * (x - ?\<mu>)\<^sup>2 \<le> (?n - 1) * (?n * np_var xs)"
    by (simp add: algebra_simps)
  then have "?n * (x - ?\<mu>)\<^sup>2 \<le> ?n * ((?n - 1) * np_var xs)" by (simp add: algebra_simps)
  then show ?thesis using n by simp
qed

text \<open>The reductions do not depend on the order of the array.\<close>

lemma np_mean_perm:
  assumes "mset xs = mset ys"
  shows "np_mean xs = np_mean ys"
proof -
  have "sum_list xs = sum_mset (mset xs)" by (simp add: sum_mset_sum_list)
  also have "\<dots> = sum_list ys" using assms by (simp add: sum_mset_sum_list)
  finally show ?thesis using mset_eq_length [OF assms] by (simp add: np_mean_def)
qed

lemma np_var_perm:
  assumes p: "mset xs = mset ys"
  shows "np_var xs = np_var ys"
proof -
  have m: "np_mean xs = np_mean ys" using p by (rule np_mean_perm)
  have "mset (map (\<lambda>x. (x - np_mean ys)\<^sup>2) xs) = mset (map (\<lambda>x. (x - np_mean ys)\<^sup>2) ys)"
    using p by simp
  then have "np_mean (map (\<lambda>x. (x - np_mean ys)\<^sup>2) xs) = np_mean (map (\<lambda>x. (x - np_mean ys)\<^sup>2) ys)"
    by (rule np_mean_perm)
  then show ?thesis by (simp only: np_var_def m)
qed

subsection \<open>Broadcasting subtraction\<close>

text \<open>\<open>a - b\<close> on two one-dimensional arrays: element-wise for equal lengths,
  a length-1 operand is broadcast, anything else raises \<open>ValueError\<close>.\<close>

definition np_sub :: "vec \<Rightarrow> vec \<Rightarrow> py_error + vec" where
  "np_sub xs ys =
     (if length xs = length ys then Inr (map2 (-) xs ys)
      else if length ys = 1 then Inr (map (\<lambda>x. x - hd ys) xs)
      else if length xs = 1 then Inr (map (\<lambda>y. hd xs - y) ys)
      else Inl ValueError)"

lemma np_sub_same_length [simp, np_simps]:
  "length xs = length ys \<Longrightarrow> np_sub xs ys = Inr (map2 (-) xs ys)"
  by (simp add: np_sub_def)

subsection \<open>\<open>np.interp\<close>\<close>

text \<open>
  For \<open>xp\<close> sorted, numpy returns \<open>fp[0]\<close> left of the range, \<open>fp[-1]\<close> right of
  it and at \<open>xp[-1]\<close>; otherwise it finds the \<open>j\<close> with
  \<open>xp[j] \<le> x < xp[j+1]\<close> and returns \<open>fp[j]\<close> when \<open>x = xp[j]\<close>, else
  \<open>slope * (x - xp[j]) + fp[j]\<close>. The search for \<open>j\<close> is a scan here.
\<close>

fun interp_scan :: "real \<Rightarrow> vec \<Rightarrow> vec \<Rightarrow> real" where
  "interp_scan x (x0 # x1 # xs) (y0 # y1 # ys) =
     (if x < x1 then (if x = x0 then y0 else (y1 - y0) / (x1 - x0) * (x - x0) + y0)
      else interp_scan x (x1 # xs) (y1 # ys))"
| "interp_scan x xs ys = last ys"

definition np_interp :: "real \<Rightarrow> vec \<Rightarrow> vec \<Rightarrow> real" where
  "np_interp x xp fp =
     (if last xp < x then last fp
      else if x < hd xp then hd fp
      else if x = last xp then last fp
      else interp_scan x xp fp)"

lemma interp_scan_bounds:
  assumes "sorted fp" "length xp = length fp" "xp \<noteq> []" "hd xp \<le> x"
  shows "hd fp \<le> interp_scan x xp fp \<and> interp_scan x xp fp \<le> last fp"
  using assms
proof (induction x xp fp rule: interp_scan.induct)
  case (1 x x0 x1 xs y0 y1 ys)
  show ?case
  proof (cases "x < x1")
    case True
    have y: "y0 \<le> y1" "y1 \<le> last (y1 # ys)" using "1.prems"(1) by auto
    define t where "t = (x - x0) / (x1 - x0)"
    have t: "0 \<le> t" "t \<le> 1"
      unfolding t_def using frac_unit_interval [of x0 x x1] True "1.prems"(4) by auto
    have eq: "(y1 - y0) / (x1 - x0) * (x - x0) + y0 = t * (y1 - y0) + y0"
      by (simp add: t_def mult.commute)
    from lerp_between [OF y(1) t]
    have "y0 \<le> t * (y1 - y0) + y0 \<and> t * (y1 - y0) + y0 \<le> y1" by simp
    then show ?thesis
      using True eq y by auto
  next
    case False
    then have "y1 \<le> interp_scan x (x1 # xs) (y1 # ys) \<and>
               interp_scan x (x1 # xs) (y1 # ys) \<le> last (y1 # ys)"
      using "1.IH" "1.prems" by simp
    moreover have "y0 \<le> y1" using "1.prems"(1) by simp
    ultimately show ?thesis using False by simp
  qed
qed (auto simp: length_Suc_conv Suc_length_conv)

lemma np_interp_bounds:
  assumes "sorted fp" "length xp = length fp" "xp \<noteq> []"
  shows "hd fp \<le> np_interp x xp fp \<and> np_interp x xp fp \<le> last fp"
proof -
  have "fp \<noteq> []" using assms by auto
  then have "hd fp \<le> last fp" using assms(1) by (simp add: sorted_hd_le_last)
  then show ?thesis
    using interp_scan_bounds [OF assms] by (auto simp: np_interp_def)
qed

lemma interp_scan_knot:
  assumes "sorted_wrt (<) xp" "length xp = length fp" "k < length xp" "x = xp ! k"
  shows "interp_scan x xp fp = fp ! k"
  using assms
proof (induction x xp fp arbitrary: k rule: interp_scan.induct)
  case (1 x x0 x1 xs y0 y1 ys)
  show ?case
  proof (cases k)
    case 0
    with "1.prems"(1,4) show ?thesis by simp
  next
    case (Suc k')
    then have "x1 \<le> (x1 # xs) ! k'"
      using "1.prems"(1,3) by (cases k') (auto simp: nth_Cons' less_imp_le)
    then have "\<not> x < x1" using Suc "1.prems"(4) by simp
    then show ?thesis using "1.IH" [of k'] "1.prems" Suc by simp
  qed
qed (auto simp: length_Suc_conv Suc_length_conv)

lemma np_interp_knot:
  assumes "sorted_wrt (<) xp" "length xp = length fp" "k < length xp"
  shows "np_interp (xp ! k) xp fp = fp ! k"
proof -
  have sx: "sorted xp" using assms(1) by (rule strict_sorted_imp_sorted)
  have ne: "xp \<noteq> []" "fp \<noteq> []" using assms by auto
  have le_last: "xp ! k \<le> last xp"
    using sorted_nth_mono [OF sx, of k "length xp - 1"] assms(3) ne by (simp add: last_conv_nth)
  have hd_le: "hd xp \<le> xp ! k"
    using sorted_nth_mono [OF sx, of 0 k] assms(3) ne by (simp add: hd_conv_nth)
  show ?thesis
  proof (cases "xp ! k = last xp")
    case True
    then have "k = length xp - 1"
      using assms(1,3) ne by (simp add: last_conv_nth nth_eq_iff_index_eq strict_sorted_iff)
    then show ?thesis using True ne hd_le assms(2) by (simp add: np_interp_def last_conv_nth)
  next
    case False
    then show ?thesis using le_last hd_le interp_scan_knot [OF assms refl] by (simp add: np_interp_def)
  qed
qed

subsection \<open>\<open>scipy.interpolate.interp1d\<close>\<close>

text \<open>
  The interpolant keeps its sample points sorted by \<open>x\<close> (a stable argsort of the
  pairs) and the two fill values used below and above the sample range.
  Construction raises \<open>ValueError\<close> for arrays of different lengths and for empty
  arrays.
\<close>

record interp1d =
  ix :: vec
  iy :: vec
  fill_below :: real
  fill_above :: real

definition mk_interp1d :: "vec \<Rightarrow> vec \<Rightarrow> real \<Rightarrow> real \<Rightarrow> py_error + interp1d" where
  "mk_interp1d xs ys lo hi =
     (if length xs \<noteq> length ys then Inl ValueError
      else if xs = [] then Inl ValueError
      else (let ps = sort_key fst (zip xs ys)
            in Inr \<lparr>ix = map fst ps, iy = map snd ps, fill_below = lo, fill_above = hi\<rparr>))"

definition interp1d_call :: "interp1d \<Rightarrow> real \<Rightarrow> real" where
  "interp1d_call f x =
     (if x < hd (ix f) then fill_below f
      else if last (ix f) < x then fill_above f
      else np_interp x (ix f) (iy f))"

definition wf_interp1d :: "interp1d \<Rightarrow> bool" where
  "wf_interp1d f \<longleftrightarrow> ix f \<noteq> [] \<and> length (ix f) = length (iy f) \<and> sorted (ix f)"

lemma mk_interp1d_Inr_wf:
  assumes "mk_interp1d xs ys lo hi = Inr f"
  shows "wf_interp1d f"
proof -
  let ?ps = "sort_key fst (zip xs ys)"
  have ok: "length xs = length ys" "xs \<noteq> []" and f: "f = \<lparr>ix = map fst ?ps, iy = map snd ?ps,
      fill_below = lo, fill_above = hi\<rparr>"
    using assms by (auto simp: mk_interp1d_def Let_def split: if_splits)
  have ne: "map fst ?ps \<noteq> []"
  proof
    assume "map fst ?ps = []"
    then have "length ?ps = 0" by simp
    with ok show False by simp
  qed
  have "sorted (map fst ?ps)" by (rule sorted_sort_key)
  with ne f show ?thesis by (simp add: wf_interp1d_def)
qed

lemma mk_interp1d_sorted [np_simps]:
  assumes "sorted xs" "length xs = length ys" "xs \<noteq> []"
  shows "mk_interp1d xs ys lo hi = Inr \<lparr>ix = xs, iy = ys, fill_below = lo, fill_above = hi\<rparr>"
proof -
  have "sort_key fst (zip xs ys) = zip xs ys"
    using assms by (simp add: sort_key_id_if_sorted)
  then show ?thesis using assms by (simp add: mk_interp1d_def)
qed

lemma mk_interp1d_Inl:
  "mk_interp1d xs ys lo hi = Inl e \<longleftrightarrow> e = ValueError \<and> (length xs \<noteq> length ys \<or> xs = [])"
  by (auto simp: mk_interp1d_def Let_def)

text \<open>The value of the interpolant is a fill value or lies between the first and the
  last sample value.\<close>

lemma interp1d_call_range:
  assumes "wf_interp1d f" "sorted (iy f)"
  shows "interp1d_call f x = fill_below f \<or> interp1d_call f x = fill_above f \<or>
         (hd (iy f) \<le> interp1d_call f x \<and> interp1d_call f x \<le> last (iy f))"
  using np_interp_bounds [OF assms(2), of "ix f" x] assms(1)
  by (auto simp: interp1d_call_def wf_interp1d_def)

lemma interp1d_call_knot:
  assumes "wf_interp1d f" "sorted_wrt (<) (ix f)" "k < length (ix f)"
  shows "interp1d_call f (ix f ! k) = iy f ! k"
proof -
  have sx: "sorted (ix f)" using assms(1) by (simp add: wf_interp1d_def)
  have ne: "ix f \<noteq> []" using assms(3) by auto
  have "hd (ix f) \<le> ix f ! k" "ix f ! k \<le> last (ix f)"
    using ne sorted_nth_mono [OF sx, of 0 k] sorted_nth_mono [OF sx, of k "length (ix f) - 1"] assms(3)
    by (auto simp: hd_conv_nth last_conv_nth)
  then show ?thesis
    using np_interp_knot [OF assms(2) _ assms(3)] assms(1)
    by (simp add: interp1d_call_def wf_interp1d_def)
qed

section \<open>Conversions\<close>

text \<open>\<open>np.array\<close> of a list of rows: a rectangular list becomes a two-dimensional
  array; rows of different lengths raise \<open>ValueError\<close> (numpy 1.24 and later).\<close>

definition np_array2 :: "vec list \<Rightarrow> py_error + vec list" where
  "np_array2 X = (if list_all (\<lambda>row. length row = length (hd X)) X then Inr X else Inl ValueError)"

lemma np_array2_rect [simp]: "list_all (\<lambda>row. length row = length (hd X)) X \<Longrightarrow> np_array2 X = Inr X"
  by (simp add: np_array2_def)

end
