(* ===== verification/BiasCorrection.thy ===== *)
theory BiasCorrection
  imports NumPy
begin

text \<open>
  Quantile-mapping bias correction, \<open>src/python-backend/algorithms/scientific/bias_correction.py\<close>.
  The object \<open>QuantileMappingCorrection\<close> is the record \<open>qm_state\<close>; an attribute the
  object does not have yet is \<open>None\<close>. \<open>fit\<close> returns the outcome of the call and the
  object after it: a call that raises leaves the assignments it made before the
  exception in place, as Python does. The gamma distribution of scipy is a parameter
  of the model (\<open>gamma_lib\<close>): its fit, CDF and quantile function are not code of
  the repository, and the lemmas about the gamma branch hold for every such library.
\<close>

section \<open>Data\<close>

datatype qm_method = Empirical | ParametricNormal | ParametricGamma | OtherMethod string

record 'g gamma_lib =
  gamma_fit :: "vec \<Rightarrow> 'g"
  gamma_cdf :: "'g \<Rightarrow> real \<Rightarrow> real"
  gamma_ppf :: "'g \<Rightarrow> real \<Rightarrow> real"

text \<open>\<open>normal_params\<close> holds \<open>(model_mean, model_std, obs_mean, obs_std)\<close>; after a
  fit of the normal method it is \<open>None\<close> exactly when numpy computed \<open>nan\<close>
  statistics, that is when a series was empty.\<close>

record 'g qm_state =
  meth :: qm_method
  fitted :: bool
  model_data :: "vec option"
  obs_data :: "vec option"
  quantiles :: "vec option"
  model_to_quantile :: "interp1d option"
  quantile_to_obs :: "interp1d option"
  normal_params :: "(real \<times> real \<times> real \<times> real) option"
  gamma_params :: "('g \<times> 'g) option"

definition qm_init :: "qm_method \<Rightarrow> 'g qm_state" where
  "qm_init m = \<lparr>meth = m, fitted = False, model_data = None, obs_data = None,
     quantiles = None, model_to_quantile = None, quantile_to_obs = None,
     normal_params = None, gamma_params = None\<rparr>"

text \<open>A gamma library for concrete runs of the model: the identity transfer, whose
  CDF and quantile function are inverse to each other.\<close>

definition identity_gamma :: "unit gamma_lib" where
  "identity_gamma = \<lparr>gamma_fit = (\<lambda>_. ()), gamma_cdf = (\<lambda>_ x. x), gamma_ppf = (\<lambda>_ q. q)\<rparr>"

section \<open>Operations\<close>

text \<open>\<open>(np.arange(1, n + 1) - 0.5) / n\<close>\<close>

definition rank_quantiles :: "nat \<Rightarrow> vec" where
  "rank_quantiles n = map (\<lambda>k. (real k - 1 / 2) / real n) [1..<Suc n]"

text \<open>The empirical branch of \<open>fit\<close>, on the sorted series.\<close>

definition fit_empirical :: "'g qm_state \<Rightarrow> vec \<Rightarrow> vec \<Rightarrow> (py_error + unit) \<times> 'g qm_state" where
  "fit_empirical s ms os =
     (let q = rank_quantiles (length ms); s2 = s\<lparr>quantiles := Some q\<rparr>
      in case mk_interp1d ms q 0 1 of
           Inl e \<Rightarrow> (Inl e, s2)
         | Inr f \<Rightarrow>
             (let s3 = s2\<lparr>model_to_quantile := Some f\<rparr>
              in if os = [] then (Inl IndexError, s3)
                 else case mk_interp1d q os (hd os) (last os) of
                        Inl e \<Rightarrow> (Inl e, s3)
                      | Inr g \<Rightarrow> (Inr (), s3\<lparr>quantile_to_obs := Some g\<rparr>)))"

definition normal_fit :: "vec \<Rightarrow> vec \<Rightarrow> (real \<times> real \<times> real \<times> real) option" where
  "normal_fit md ob =
     (if md = [] \<or> ob = [] then None else Some (np_mean md, np_std md, np_mean ob, np_std ob))"

text \<open>
  \<open>fit\<close>. The gamma branch falls back to the empirical method by setting
  \<open>self.method\<close> and calling \<open>fit\<close> again on the original data; the model keeps that
  re-entry, and its termination rests on the method no longer being the gamma method.
\<close>

function (domintros) fit :: "'g gamma_lib \<Rightarrow> 'g qm_state \<Rightarrow> vec \<Rightarrow> vec \<Rightarrow> (py_error + unit) \<times> 'g qm_state" where
  "fit L s md ob =
     (let s1 = s\<lparr>model_data := Some (sort md), obs_data := Some (sort ob)\<rparr>
      in case meth s of
           Empirical \<Rightarrow>
             (case fit_empirical s1 (sort md) (sort ob) of
                (Inl e, s2) \<Rightarrow> (Inl e, s2)
              | (Inr _, s2) \<Rightarrow> (Inr (), s2\<lparr>fitted := True\<rparr>))
         | ParametricNormal \<Rightarrow> (Inr (), s1\<lparr>normal_params := normal_fit md ob, fitted := True\<rparr>)
         | ParametricGamma \<Rightarrow>
             (let mp = filter (\<lambda>x. 0 < x) md; op = filter (\<lambda>x. 0 < x) ob
              in if 2 < length mp \<and> 2 < length op
                 then (Inr (), s1\<lparr>gamma_params := Some (gamma_fit L mp, gamma_fit L op),
                                  fitted := True\<rparr>)
                 else fit L (s1\<lparr>meth := Empirical\<rparr>) md ob)
         | OtherMethod _ \<Rightarrow> (Inr (), s1\<lparr>fitted := True\<rparr>))"
  by pat_completeness auto
termination
  by (relation "measure (\<lambda>(L, s, md, ob). if meth s = ParametricGamma then 1 else 0)") auto

text \<open>\<open>transform\<close>. In the gamma branch the fitted parameters are read only when
  some value is positive; the other values stay at the \<open>0\<close> of \<open>np.zeros_like\<close>.
  An unknown method leaves \<open>corrected\<close> unbound.\<close>

definition transform :: "'g gamma_lib \<Rightarrow> 'g qm_state \<Rightarrow> vec \<Rightarrow> py_error + vec" where
  "transform L s xs =
     (if \<not> fitted s then Inl ValueError
      else case meth s of
        Empirical \<Rightarrow>
          (case (model_to_quantile s, quantile_to_obs s) of
             (Some f, Some g) \<Rightarrow> Inr (map (\<lambda>x. interp1d_call g (interp1d_call f x)) xs)
           | _ \<Rightarrow> Inl AttributeError)
      | ParametricNormal \<Rightarrow>
          (case normal_params s of
             None \<Rightarrow> (if xs = [] then Inr [] else Inl NonFinite)
           | Some (mm, ms, om, os) \<Rightarrow>
               (if ms = 0 \<and> xs \<noteq> [] then Inl NonFinite
                else Inr (map (\<lambda>x. (x - mm) / ms * os + om) xs)))
      | ParametricGamma \<Rightarrow>
          (if \<not> list_ex (\<lambda>x. 0 < x) xs then Inr (map (\<lambda>_. 0) xs)
           else case gamma_params s of
             None \<Rightarrow> Inl AttributeError
           | Some (gm, go) \<Rightarrow>
               Inr (map (\<lambda>x. if 0 < x then gamma_ppf L go (gamma_cdf L gm x) else 0) xs))
      | OtherMethod _ \<Rightarrow> Inl UnboundLocalError)"

text \<open>\<open>compute_statistics\<close>: bias, RMSE and variance ratio before and after the
  correction. The Kolmogorov-Smirnov test is scipy's; the model keeps only its
  effect on the outcome: it raises \<open>ValueError\<close> on an empty sample. The
  subtractions raise \<open>ValueError\<close> when numpy cannot broadcast the operands, and a
  zero observation variance makes the variance ratios \<open>inf\<close> or \<open>nan\<close>.\<close>

record qm_statistics =
  bias_before :: real
  bias_after :: real
  bias_reduction_percent :: real
  rmse_before :: real
  rmse_after :: real
  rmse_reduction_percent :: real
  variance_ratio_before :: real
  variance_ratio_after :: real

definition compute_statistics :: "vec \<Rightarrow> vec \<Rightarrow> vec \<Rightarrow> py_error + qm_statistics" where
  "compute_statistics md ob cd =
     (case (np_sub md ob, np_sub cd ob) of
        (Inr dm, Inr dc) \<Rightarrow>
          (if md = [] \<or> ob = [] \<or> cd = [] then Inl ValueError
           else if np_var ob = 0 then Inl NonFinite
           else
             (let bb = np_mean md - np_mean ob; ba = np_mean cd - np_mean ob;
                  rb = sqrt (np_mean (map (\<lambda>d. d\<^sup>2) dm)); ra = sqrt (np_mean (map (\<lambda>d. d\<^sup>2) dc))
              in Inr \<lparr>bias_before = bb, bias_after = ba,
                      bias_reduction_percent = (if bb \<noteq> 0 then (1 - \<bar>ba\<bar> / \<bar>bb\<bar>) * 100 else 100),
                      rmse_before = rb, rmse_after = ra,
                      rmse_reduction_percent = (if 0 < rb then (1 - ra / rb) * 100 else 0),
                      variance_ratio_before = np_var md / np_var ob,
                      variance_ratio_after = np_var cd / np_var ob\<rparr>))
      | (Inl e, _) \<Rightarrow> Inl e
      | (_, Inl e) \<Rightarrow> Inl e)"

text \<open>\<open>run_correction\<close>: the request's method name is mapped to an internal method
  (unknown names to the empirical one), the corrector is fitted on the predictions
  and the observations, the predictions are corrected and the statistics computed.
  The percentile comparison and the distribution summary only restate these arrays
  (numpy's percentile, mean, std, min and max, none of which raises on the
  non-empty arrays reached here) and are not modelled.\<close>

definition method_map :: "string \<Rightarrow> qm_method" where
  "method_map m =
     (if m = ''quantile'' then Empirical
      else if m = ''linear'' then ParametricNormal
      else if m = ''gamma'' then ParametricGamma
      else if m = ''empirical'' then Empirical
      else Empirical)"

definition run_correction :: "'g gamma_lib \<Rightarrow> vec \<Rightarrow> vec \<Rightarrow> string \<Rightarrow> py_error + vec \<times> qm_statistics" where
  "run_correction L preds obs m =
     (case fit L (qm_init (method_map m)) preds obs of
        (Inl e, _) \<Rightarrow> Inl e
      | (Inr _, qm) \<Rightarrow>
          (case transform L qm preds of
             Inl e \<Rightarrow> Inl e
           | Inr corrected \<Rightarrow>
               (case compute_statistics preds obs corrected of
                  Inl e \<Rightarrow> Inl e
                | Inr st \<Rightarrow> Inr (corrected, st))))"

text \<open>The states an object created with a given method reaches through any sequence
  of \<open>fit\<close> calls, successful or not (\<open>transform\<close> does not change the object).\<close>

inductive qm_reach :: "'g gamma_lib \<Rightarrow> qm_method \<Rightarrow> 'g qm_state \<Rightarrow> bool"
  for L :: "'g gamma_lib" and m0 :: qm_method where
  created: "qm_reach L m0 (qm_init m0)"
| refit: "qm_reach L m0 s \<Longrightarrow> qm_reach L m0 (snd (fit L s md ob))"

text \<open>What an object on the empirical method keeps: every interpolant it holds is
  well formed, and a fitted object holds both.\<close>

definition emp_inv :: "'g qm_state \<Rightarrow> bool" where
  "emp_inv s \<longleftrightarrow> meth s = Empirical \<and>
     pred_option wf_interp1d (model_to_quantile s) \<and> pred_option wf_interp1d (quantile_to_obs s) \<and>
     (fitted s \<longrightarrow> model_to_quantile s \<noteq> None \<and> quantile_to_obs s \<noteq> None)"

section \<open>Characteristic equations\<close>

lemma rank_quantiles_length [simp]: "length (rank_quantiles n) = n"
  by (simp add: rank_quantiles_def)

lemma rank_quantiles_eq_Nil [simp]: "rank_quantiles n = [] \<longleftrightarrow> n = 0"
proof
  assume "rank_quantiles n = []"
  then have "length (rank_quantiles n) = 0" by simp
  then show "n = 0" by simp
qed (simp add: rank_quantiles_def)

lemma rank_quantiles_strict: "sorted_wrt (<) (rank_quantiles n)"
proof -
  have "sorted_wrt (\<lambda>i j. (real i - 1 / 2) / real n < (real j - 1 / 2) / real n) [1..<Suc n]"
  proof (rule sorted_wrt_mono_rel [OF _ sorted_wrt_upt])
    fix i j :: nat
    assume "i \<in> set [1..<Suc n]" "j \<in> set [1..<Suc n]" "i < j"
    then show "(real i - 1 / 2) / real n < (real j - 1 / 2) / real n"
      by (simp add: divide_strict_right_mono)
  qed
  then show ?thesis by (simp add: rank_quantiles_def sorted_wrt_map)
qed

lemma rank_quantiles_sorted: "sorted (rank_quantiles n)"
  using rank_quantiles_strict by (rule strict_sorted_imp_sorted)

declare fit.simps [simp del]

lemma fit_Empirical [model_simps]:
  "meth s = Empirical \<Longrightarrow> fit L s md ob =
     (case fit_empirical (s\<lparr>model_data := Some (sort md), obs_data := Some (sort ob)\<rparr>) (sort md) (sort ob) of
        (Inl e, s2) \<Rightarrow> (Inl e, s2)
      | (Inr _, s2) \<Rightarrow> (Inr (), s2\<lparr>fitted := True\<rparr>))"
  by (simp add: fit.simps)

lemma fit_ParametricNormal [model_simps]:
  "meth s = ParametricNormal \<Longrightarrow> fit L s md ob =
     (Inr (), s\<lparr>model_data := Some (sort md), obs_data := Some (sort ob),
        normal_params := normal_fit md ob, fitted := True\<rparr>)"
  by (simp add: fit.simps)

lemma fit_ParametricGamma [model_simps]:
  "meth s = ParametricGamma \<Longrightarrow> fit L s md ob =
     (let mp = filter (\<lambda>x. 0 < x) md; op = filter (\<lambda>x. 0 < x) ob
      in if 2 < length mp \<and> 2 < length op
         then (Inr (), s\<lparr>model_data := Some (sort md), obs_data := Some (sort ob),
                         gamma_params := Some (gamma_fit L mp, gamma_fit L op), fitted := True\<rparr>)
         else fit L (s\<lparr>model_data := Some (sort md), obs_data := Some (sort ob),
                       meth := Empirical\<rparr>) md ob)"
  by (simp add: fit.simps [of L s] Let_def)

lemma fit_OtherMethod [model_simps]:
  "meth s = OtherMethod nm \<Longrightarrow> fit L s md ob =
     (Inr (), s\<lparr>model_data := Some (sort md), obs_data := Some (sort ob), fitted := True\<rparr>)"
  by (simp add: fit.simps)

text \<open>The empirical fit succeeds exactly on two non-empty series of the same length,
  and then stores the two interpolants built from the sorted series.\<close>

lemma fit_empirical_ok:
  assumes "sorted ms" "sorted os" "ms \<noteq> []" "length os = length ms"
  shows "fit_empirical s ms os =
    (Inr (), s\<lparr>quantiles := Some (rank_quantiles (length ms)),
       model_to_quantile := Some \<lparr>ix = ms, iy = rank_quantiles (length ms), fill_below = 0, fill_above = 1\<rparr>,
       quantile_to_obs := Some \<lparr>ix = rank_quantiles (length ms), iy = os,
                                 fill_below = hd os, fill_above = last os\<rparr>\<rparr>)"
proof -
  have os: "os \<noteq> []" using assms by auto
  have "rank_quantiles (length ms) \<noteq> []" using assms(3) by simp
  then show ?thesis
    using assms os
    by (simp add: fit_empirical_def mk_interp1d_sorted rank_quantiles_sorted Let_def)
qed

lemma fit_empirical_fails:
  assumes "ms = [] \<or> length os \<noteq> length ms"
  shows "\<exists>e. fst (fit_empirical s ms os) = Inl e"
  using assms
  by (auto simp: fit_empirical_def mk_interp1d_def Let_def split: sum.split)

lemma fit_Empirical_Inr:
  assumes "meth s = Empirical" "fit L s md ob = (Inr u, s')"
  shows "md \<noteq> [] \<and> length ob = length md \<and> fitted s' \<and> meth s' = Empirical \<and>
    model_to_quantile s' = Some \<lparr>ix = sort md, iy = rank_quantiles (length md),
                                 fill_below = 0, fill_above = 1\<rparr> \<and>
    quantile_to_obs s' = Some \<lparr>ix = rank_quantiles (length md), iy = sort ob,
                               fill_below = hd (sort ob), fill_above = last (sort ob)\<rparr>"
proof (cases "md \<noteq> [] \<and> length ob = length md")
  case True
  then have "sort md \<noteq> []" "length (sort ob) = length (sort md)" by simp_all
  note eq = fit_empirical_ok [OF sorted_sort sorted_sort this]
  show ?thesis using assms True by (auto simp: fit_Empirical eq)
next
  case False
  let ?s1 = "s\<lparr>model_data := Some (sort md), obs_data := Some (sort ob)\<rparr>"
  from False have "sort md = [] \<or> length (sort ob) \<noteq> length (sort md)" by auto
  then obtain e where "fst (fit_empirical ?s1 (sort md) (sort ob)) = Inl e"
    using fit_empirical_fails by blast
  then obtain s2 where "fit_empirical ?s1 (sort md) (sort ob) = (Inl e, s2)"
    by (metis prod.collapse)
  then have "fst (fit L s md ob) = Inl e"
    using assms(1) by (simp add: fit_Empirical)
  with assms(2) show ?thesis by simp
qed

text \<open>A successful fit that leaves the object on the empirical method (the object
  was created with it, or with the gamma method and fell back) stores the
  interpolants of the sorted series.\<close>

lemma fit_Inr_Empirical:
  assumes "fit L s md ob = (Inr u, s')" "meth s' = Empirical"
  shows "md \<noteq> [] \<and> length ob = length md \<and> fitted s' \<and>
    model_to_quantile s' = Some \<lparr>ix = sort md, iy = rank_quantiles (length md),
                                 fill_below = 0, fill_above = 1\<rparr> \<and>
    quantile_to_obs s' = Some \<lparr>ix = rank_quantiles (length md), iy = sort ob,
                               fill_below = hd (sort ob), fill_above = last (sort ob)\<rparr>"
proof (cases "meth s")
  case Empirical
  then show ?thesis using fit_Empirical_Inr [OF Empirical assms(1)] by simp
next
  case ParametricNormal
  then show ?thesis using assms by (auto simp: fit_ParametricNormal)
next
  case ParametricGamma
  show ?thesis
  proof (cases "2 < length (filter (\<lambda>x. 0 < x) md) \<and> 2 < length (filter (\<lambda>x. 0 < x) ob)")
    case True
    then show ?thesis using assms ParametricGamma by (auto simp: fit_ParametricGamma)
  next
    case False
    let ?s1 = "s\<lparr>model_data := Some (sort md), obs_data := Some (sort ob), meth := Empirical\<rparr>"
    have "fit L ?s1 md ob = (Inr u, s')"
      using assms(1) ParametricGamma False by (simp add: fit_ParametricGamma)
    from fit_Empirical_Inr [OF _ this] show ?thesis by simp
  qed
next
  case (OtherMethod nm)
  then show ?thesis using assms by (auto simp: fit_OtherMethod)
qed

section \<open>Properties of the empirical method\<close>

text \<open>C1: after a successful fit on the empirical method (or the gamma method fallen
  back to it), \<open>transform\<close> succeeds on every input, and every corrected value lies
  between the smallest and the largest observation: the mapping clamps and never
  extrapolates.\<close>

theorem transform_clamped:
  assumes "fit L s md ob = (Inr u, s')" "meth s' = Empirical"
  shows "\<exists>ys. transform L s' xs = Inr ys \<and> (\<forall>y\<in>set ys. Min (set ob) \<le> y \<and> y \<le> Max (set ob))"
proof -
  note r = fit_Inr_Empirical [OF assms]
  let ?f = "\<lparr>ix = sort md, iy = rank_quantiles (length md), fill_below = 0, fill_above = 1\<rparr>"
  let ?g = "\<lparr>ix = rank_quantiles (length md), iy = sort ob,
              fill_below = hd (sort ob), fill_above = last (sort ob)\<rparr>"
  have ob: "ob \<noteq> []" using r by auto
  have wf: "wf_interp1d ?g"
    using r by (auto simp: wf_interp1d_def rank_quantiles_sorted)
  have "\<forall>z. Min (set ob) \<le> interp1d_call ?g z \<and> interp1d_call ?g z \<le> Max (set ob)"
  proof
    fix z
    from interp1d_call_range [OF wf, of z] ob hd_sort_Min [OF ob] last_sort_Max [OF ob]
      Min_le [of "set ob"] Max_ge [of "set ob"]
    show "Min (set ob) \<le> interp1d_call ?g z \<and> interp1d_call ?g z \<le> Max (set ob)"
      using sorted_hd_le_last [of "sort ob"] by auto
  qed
  then show ?thesis using r assms(2) by (auto simp: transform_def)
qed

theorem transform_clamped_witness:
  "\<exists>ys. transform identity_gamma (snd (fit identity_gamma (qm_init Empirical) [3, 1, 2] [20, 10, 30]))
      [0, 2, 7] = Inr ys \<and> (\<forall>y\<in>set ys. Min (set [20, 10, 30::real]) \<le> y \<and> y \<le> Max (set [20, 10, 30]))"
proof -
  let ?r = "fit identity_gamma (qm_init Empirical) [3, 1, 2] [20, 10, 30::real]"
  have "?r = (Inr (), snd ?r)" and "meth (snd ?r) = Empirical"
    by (simp_all add: fit_Empirical fit_empirical_def rank_quantiles_def qm_init_def mk_interp1d_def Let_def)
  then show ?thesis by (rule transform_clamped)
qed

text \<open>The two interpolants of an empirical fit, and the correction they compute.\<close>

lemma fitted_empirical_transform:
  assumes "fit L s md ob = (Inr u, s')" "meth s' = Empirical"
  shows "transform L s' xs = Inr (map (\<lambda>x.
           interp1d_call \<lparr>ix = rank_quantiles (length md), iy = sort ob,
                          fill_below = hd (sort ob), fill_above = last (sort ob)\<rparr>
             (interp1d_call \<lparr>ix = sort md, iy = rank_quantiles (length md),
                             fill_below = 0, fill_above = 1\<rparr> x)) xs)"
  using fit_Inr_Empirical [OF assms] assms(2) by (simp add: transform_def)

lemma training_points_map:
  assumes "distinct md" "md \<noteq> []" "length ob = length md"
  shows "map (\<lambda>x. interp1d_call \<lparr>ix = rank_quantiles (length md), iy = sort ob,
                          fill_below = hd (sort ob), fill_above = last (sort ob)\<rparr>
             (interp1d_call \<lparr>ix = sort md, iy = rank_quantiles (length md),
                             fill_below = 0, fill_above = 1\<rparr> x)) (sort md) = sort ob"
proof -
  let ?q = "rank_quantiles (length md)"
  let ?f = "\<lparr>ix = sort md, iy = ?q, fill_below = 0, fill_above = 1\<rparr>"
  let ?g = "\<lparr>ix = ?q, iy = sort ob, fill_below = hd (sort ob), fill_above = last (sort ob)\<rparr>"
  have len: "length (sort ob) = length (sort md)" using assms by simp
  have wf: "wf_interp1d ?f" "wf_interp1d ?g"
    using assms by (auto simp: wf_interp1d_def rank_quantiles_sorted)
  have strict: "sorted_wrt (<) (sort md)"
    using assms(1) by (simp add: strict_sorted_iff)
  have "\<And>k. k < length (sort md) \<Longrightarrow>
          interp1d_call ?g (interp1d_call ?f (sort md ! k)) = sort ob ! k"
  proof -
    fix k assume k: "k < length (sort md)"
    have "interp1d_call ?f (sort md ! k) = ?q ! k"
      using interp1d_call_knot [OF wf(1), of k] strict k by simp
    moreover have "interp1d_call ?g (?q ! k) = sort ob ! k"
      using interp1d_call_knot [OF wf(2) _, of k] rank_quantiles_strict k by simp
    ultimately show "interp1d_call ?g (interp1d_call ?f (sort md ! k)) = sort ob ! k" by simp
  qed
  then show ?thesis using len by (intro nth_equalityI) auto
qed

text \<open>C2: on the training data itself the empirical mapping matches ranks: when the
  model series has no repeated value, transforming the sorted model series gives the
  sorted observations, the k-th smallest model value becoming the k-th smallest
  observation.\<close>

theorem transform_at_training_points:
  assumes "fit L s md ob = (Inr u, s')" "meth s' = Empirical" "distinct md"
  shows "transform L s' (sort md) = Inr (sort ob)"
proof -
  have "md \<noteq> []" "length ob = length md" using fit_Inr_Empirical [OF assms(1,2)] by simp_all
  from training_points_map [OF assms(3) this] fitted_empirical_transform [OF assms(1,2)]
  show ?thesis by simp
qed

theorem transform_at_training_points_witness:
  "transform identity_gamma (snd (fit identity_gamma (qm_init Empirical) [1, 2, 3, 4, 5] [2, 3, 4, 5, 6]))
     (sort [1, 2, 3, 4, 5]) = Inr (sort [2, 3, 4, 5, 6::real])"
proof -
  let ?r = "fit identity_gamma (qm_init Empirical) [1, 2, 3, 4, 5] [2, 3, 4, 5, 6::real]"
  have "?r = (Inr (), snd ?r)" and "meth (snd ?r) = Empirical"
    by (simp_all add: fit_Empirical fit_empirical_def rank_quantiles_def qm_init_def mk_interp1d_def Let_def)
  moreover have "distinct [1, 2, 3, 4, 5::real]" by simp
  ultimately show ?thesis by (rule transform_at_training_points)
qed

section \<open>Properties of the parametric normal method\<close>

lemma fit_normal_Inr:
  assumes "fit L s md ob = (Inr u, s')" "meth s = ParametricNormal" "md \<noteq> []" "ob \<noteq> []"
  shows "fitted s' \<and> meth s' = ParametricNormal \<and>
         normal_params s' = Some (np_mean md, np_std md, np_mean ob, np_std ob)"
  using assms by (auto simp: fit_ParametricNormal normal_fit_def)

lemma normal_map_affine:
  fixes mm ms om os :: real
  shows "(\<lambda>x. (x - mm) / ms * os + om) = (\<lambda>x. (os / ms) * x + (om - mm * os / ms))"
  by (intro ext) (simp add: diff_divide_distrib algebra_simps)

text \<open>C7: the parametric normal mapping matches the first two moments: after a fit,
  transforming the model series gives values with the mean and the standard
  deviation of the observations (the model series having a non-zero spread).\<close>

theorem normal_transform_matches_moments:
  assumes "fit L s md ob = (Inr u, s')" "meth s = ParametricNormal"
    and "np_std md \<noteq> 0" "ob \<noteq> []"
  shows "\<exists>ys. transform L s' md = Inr ys \<and> np_mean ys = np_mean ob \<and> np_std ys = np_std ob"
proof -
  have md: "md \<noteq> []" using assms(3) by auto
  note r = fit_normal_Inr [OF assms(1,2) md assms(4)]
  let ?a = "np_std ob / np_std md" and ?b = "np_mean ob - np_mean md * np_std ob / np_std md"
  have "transform L s' md = Inr (map (\<lambda>x. (x - np_mean md) / np_std md * np_std ob + np_mean ob) md)"
    using r md assms(3) by (simp add: transform_def)
  then have tr: "transform L s' md = Inr (map (\<lambda>x. ?a * x + ?b) md)"
    unfolding normal_map_affine .
  have "np_mean (map (\<lambda>x. ?a * x + ?b) md) = np_mean ob"
    unfolding np_mean_affine [OF md] by simp
  moreover have "np_std (map (\<lambda>x. ?a * x + ?b) md) = np_std ob"
    unfolding np_std_affine using assms(3) np_std_nonneg [of md] np_std_nonneg [of ob] by simp
  ultimately show ?thesis using tr by blast
qed

theorem normal_transform_matches_moments_witness:
  "\<exists>ys. transform identity_gamma (snd (fit identity_gamma (qm_init ParametricNormal) [1, 3] [10, 20])) [1, 3]
      = Inr ys \<and> np_mean ys = np_mean [10, 20] \<and> np_std ys = np_std [10, 20::real]"
proof -
  let ?r = "fit identity_gamma (qm_init ParametricNormal) [1, 3] [10, 20::real]"
  have "?r = (Inr (), snd ?r)" and "meth (qm_init ParametricNormal :: unit qm_state) = ParametricNormal"
    by (simp_all add: fit_ParametricNormal qm_init_def)
  moreover have "np_std [1, 3::real] \<noteq> 0" and "[10, 20::real] \<noteq> []"
    by (simp_all add: np_std_def np_var_def np_mean_def)
  ultimately show ?thesis by (rule normal_transform_matches_moments)
qed

text \<open>When the model series and the observations are the same series (no bias),
  the parametric normal correction is the identity on every input.\<close>

theorem normal_transform_identity:
  assumes "fit L s md md = (Inr u, s')" "meth s = ParametricNormal" "np_std md \<noteq> 0"
  shows "transform L s' xs = Inr xs"
proof -
  have md: "md \<noteq> []" using assms(3) by auto
  note r = fit_normal_Inr [OF assms(1,2) md md]
  have "(\<lambda>x. (x - np_mean md) / np_std md * np_std md + np_mean md) = (\<lambda>x. x)"
    using assms(3) by (intro ext) simp
  then show ?thesis using r assms(3) by (simp add: transform_def)
qed

theorem normal_transform_identity_witness:
  "transform identity_gamma (snd (fit identity_gamma (qm_init ParametricNormal) [1, 3] [1, 3])) [5, -2]
     = Inr [5, -2::real]"
proof -
  let ?r = "fit identity_gamma (qm_init ParametricNormal) [1, 3] [1, 3::real]"
  have "?r = (Inr (), snd ?r)" and "meth (qm_init ParametricNormal :: unit qm_state) = ParametricNormal"
    by (simp_all add: fit_ParametricNormal qm_init_def)
  moreover have "np_std [1, 3::real] \<noteq> 0"
    by (simp add: np_std_def np_var_def np_mean_def)
  ultimately show ?thesis by (rule normal_transform_identity)
qed

section \<open>Properties of the gamma method\<close>

lemma fit_empirical_frame:
  "meth (snd (fit_empirical s ms os)) = meth s \<and> fitted (snd (fit_empirical s ms os)) = fitted s \<and>
   normal_params (snd (fit_empirical s ms os)) = normal_params s \<and>
   gamma_params (snd (fit_empirical s ms os)) = gamma_params s"
  by (simp add: fit_empirical_def Let_def split: sum.split)

lemma fit_Empirical_meth:
  assumes "meth s = Empirical"
  shows "meth (snd (fit L s md ob)) = Empirical"
proof -
  let ?s1 = "s\<lparr>model_data := Some (sort md), obs_data := Some (sort ob)\<rparr>"
  obtain r s2 where fe: "fit_empirical ?s1 (sort md) (sort ob) = (r, s2)" by fastforce
  then have "meth s2 = Empirical" using fit_empirical_frame [of ?s1 "sort md" "sort ob"] assms by simp
  then show ?thesis using fe assms by (cases r) (simp_all add: fit_Empirical)
qed

text \<open>The method of the object changes only through the gamma fallback.\<close>

lemma fit_meth:
  "meth (snd (fit L s md ob)) =
     (if meth s = ParametricGamma \<and>
         \<not> (2 < length (filter (\<lambda>x. 0 < x) md) \<and> 2 < length (filter (\<lambda>x. 0 < x) ob))
      then Empirical else meth s)"
proof (cases "meth s")
  case Empirical
  then show ?thesis using fit_Empirical_meth by simp
next
  case ParametricGamma
  let ?s1 = "s\<lparr>model_data := Some (sort md), obs_data := Some (sort ob), meth := Empirical\<rparr>"
  have "meth (snd (fit L ?s1 md ob)) = Empirical" by (rule fit_Empirical_meth) simp
  then show ?thesis using ParametricGamma by (simp add: fit_ParametricGamma Let_def)
qed (simp_all add: fit_ParametricNormal fit_OtherMethod)

text \<open>An object that stays on the gamma method after a successful fit maps every
  positive value through the model's gamma CDF and the observations' gamma quantile
  function, both fitted to the positive values only, and every other value to
  \<open>0\<close>; the length and the order of the input are kept.\<close>

theorem gamma_transform_values:
  assumes "fit L s md ob = (Inr u, s')" "meth s' = ParametricGamma"
  shows "transform L s' xs = Inr (map (\<lambda>x. if 0 < x
            then gamma_ppf L (gamma_fit L (filter (\<lambda>x. 0 < x) ob))
                   (gamma_cdf L (gamma_fit L (filter (\<lambda>x. 0 < x) md)) x)
            else 0) xs)"
proof -
  have m: "meth s = ParametricGamma"
    and el: "2 < length (filter (\<lambda>x. 0 < x) md) \<and> 2 < length (filter (\<lambda>x. 0 < x) ob)"
    using fit_meth [of L s md ob] assms by (auto split: if_splits)
  then have s': "fitted s' \<and> gamma_params s' = Some (gamma_fit L (filter (\<lambda>x. 0 < x) md),
                                                     gamma_fit L (filter (\<lambda>x. 0 < x) ob))"
    using assms(1) by (auto simp: fit_ParametricGamma)
  show ?thesis
  proof (cases "list_ex (\<lambda>x. 0 < x) xs")
    case True
    then show ?thesis using s' assms(2) by (simp add: transform_def)
  next
    case False
    then have "map (\<lambda>_. 0) xs = map (\<lambda>x. if 0 < x then gamma_ppf L (gamma_fit L (filter (\<lambda>x. 0 < x) ob))
            (gamma_cdf L (gamma_fit L (filter (\<lambda>x. 0 < x) md)) x) else 0) xs"
      by (auto simp: list_ex_iff)
    then show ?thesis using False s' assms(2) by (simp add: transform_def)
  qed
qed

theorem gamma_transform_values_witness:
  "transform identity_gamma (snd (fit identity_gamma (qm_init ParametricGamma) [1, 2, 3] [4, 5, 6])) [-1, 0, 2]
     = Inr [0, 0, 2::real]"
proof -
  let ?r = "fit identity_gamma (qm_init ParametricGamma) [1, 2, 3] [4, 5, 6::real]"
  have "?r = (Inr (), snd ?r)" and "meth (snd ?r) = ParametricGamma"
    by (simp_all add: fit_ParametricGamma qm_init_def)
  from gamma_transform_values [OF this, of "[-1, 0, 2]"]
  show ?thesis by (simp add: identity_gamma_def)
qed

text \<open>C10: the fallback of the gamma method, taken when either series has fewer than
  three positive values, is the same call as a fit of an empirical object: same
  outcome, same object afterwards.\<close>

theorem gamma_fallback_is_empirical_fit:
  assumes "meth s = ParametricGamma"
    and "\<not> (2 < length (filter (\<lambda>x. 0 < x) md) \<and> 2 < length (filter (\<lambda>x. 0 < x) ob))"
  shows "fit L s md ob = fit L (s\<lparr>meth := Empirical\<rparr>) md ob"
proof -
  have "fit L s md ob =
        fit L (s\<lparr>model_data := Some (sort md), obs_data := Some (sort ob), meth := Empirical\<rparr>) md ob"
    using assms by (auto simp: fit_ParametricGamma Let_def)
  also have "\<dots> = fit L (s\<lparr>meth := Empirical\<rparr>) md ob"
    by (simp add: fit_Empirical)
  finally show ?thesis .
qed

theorem gamma_fallback_is_empirical_fit_witness:
  "fit identity_gamma (qm_init ParametricGamma) [1, -1, 2] [2, 3, 4]
     = fit identity_gamma ((qm_init ParametricGamma)\<lparr>meth := Empirical\<rparr>) [1, -1, 2] [2, 3, 4::real]"
  by (rule gamma_fallback_is_empirical_fit) (simp_all add: qm_init_def)

section \<open>Life cycle of the object\<close>

lemma fit_empirical_interps:
  "(model_to_quantile (snd (fit_empirical s ms os)) = model_to_quantile s \<or>
      (\<exists>f. model_to_quantile (snd (fit_empirical s ms os)) = Some f \<and> wf_interp1d f)) \<and>
   (quantile_to_obs (snd (fit_empirical s ms os)) = quantile_to_obs s \<or>
      (\<exists>g. quantile_to_obs (snd (fit_empirical s ms os)) = Some g \<and> wf_interp1d g)) \<and>
   (fst (fit_empirical s ms os) = Inr () \<longrightarrow>
      (\<exists>f g. model_to_quantile (snd (fit_empirical s ms os)) = Some f \<and>
             quantile_to_obs (snd (fit_empirical s ms os)) = Some g))"
  by (auto simp: fit_empirical_def Let_def split: sum.splits dest: mk_interp1d_Inr_wf)

lemma fit_keeps_emp_inv:
  assumes "emp_inv s"
  shows "emp_inv (snd (fit L s md ob))"
proof -
  let ?s1 = "s\<lparr>model_data := Some (sort md), obs_data := Some (sort ob)\<rparr>"
  obtain r s2 where fe: "fit_empirical ?s1 (sort md) (sort ob) = (r, s2)" by fastforce
  have m: "meth s = Empirical" using assms by (simp add: emp_inv_def)
  have fr: "meth s2 = Empirical" "fitted s2 = fitted s"
    using fit_empirical_frame [of ?s1 "sort md" "sort ob"] fe m by simp_all
  have i: "pred_option wf_interp1d (model_to_quantile s2)" "pred_option wf_interp1d (quantile_to_obs s2)"
    "model_to_quantile s \<noteq> None \<longrightarrow> model_to_quantile s2 \<noteq> None"
    "quantile_to_obs s \<noteq> None \<longrightarrow> quantile_to_obs s2 \<noteq> None"
    "r = Inr () \<longrightarrow> model_to_quantile s2 \<noteq> None \<and> quantile_to_obs s2 \<noteq> None"
    using fit_empirical_interps [of ?s1 "sort md" "sort ob"] fe assms by (auto simp: emp_inv_def)
  show ?thesis
  proof (cases r)
    case (Inl e)
    then show ?thesis using fe m fr i assms by (auto simp: fit_Empirical emp_inv_def)
  next
    case (Inr v)
    then show ?thesis using fe m fr i by (auto simp: fit_Empirical emp_inv_def)
  qed
qed

lemma qm_reach_emp_inv:
  "qm_reach L Empirical s \<Longrightarrow> emp_inv s"
proof (induction rule: qm_reach.induct)
  case created
  then show ?case by (simp add: emp_inv_def qm_init_def)
next
  case (refit s md ob)
  from refit.IH show ?case by (rule fit_keeps_emp_inv)
qed

text \<open>C8: the life cycle of an object created with the empirical method. Whatever
  sequence of \<open>fit\<close> calls it went through, successful or raising, \<open>transform\<close>
  raises \<open>ValueError\<close> while no fit has succeeded, and succeeds on every input once
  one has.\<close>

theorem empirical_object_lifecycle:
  assumes "qm_reach L Empirical s"
  shows "(\<not> fitted s \<longrightarrow> transform L s xs = Inl ValueError) \<and>
         (fitted s \<longrightarrow> (\<exists>ys. transform L s xs = Inr ys))"
  using qm_reach_emp_inv [OF assms]
  by (auto simp: transform_def emp_inv_def)

theorem empirical_object_lifecycle_witness:
  "\<exists>ys. transform identity_gamma
      (snd (fit identity_gamma (snd (fit identity_gamma (qm_init Empirical) [1, 2] [3, 4])) [1] [3, 4]))
      [0] = Inr ys"
proof -
  let ?s = "snd (fit identity_gamma (snd (fit identity_gamma (qm_init Empirical) [1, 2] [3, 4])) [1] [3, 4::real])"
  have reach: "qm_reach identity_gamma Empirical ?s"
    by (intro qm_reach.refit qm_reach.created)
  have "fitted ?s"
    by (simp add: fit_Empirical fit_empirical_def rank_quantiles_def qm_init_def mk_interp1d_def Let_def)
  then show ?thesis using empirical_object_lifecycle [OF reach, of "[0]"] by simp
qed

text \<open>C12: the same guarantee fails for an object created with the gamma method. After
  a fit on enough positive values, a second fit on data without enough positive
  values switches the object to the empirical method for good and, when that
  empirical fit raises, leaves it marked fitted without interpolants: \<open>transform\<close>
  then raises \<open>AttributeError\<close> instead of correcting or reporting the object
  unfitted.\<close>

theorem gamma_object_attribute_error:
  "qm_reach L ParametricGamma
     (snd (fit L (snd (fit L (qm_init ParametricGamma) [1, 2, 3] [1, 2, 3])) [] [])) \<and>
   fitted (snd (fit L (snd (fit L (qm_init ParametricGamma) [1, 2, 3] [1, 2, 3])) [] [])) \<and>
   transform L (snd (fit L (snd (fit L (qm_init ParametricGamma) [1, 2, 3] [1, 2, 3])) [] [])) [1]
     = Inl AttributeError"
proof -
  let ?s1 = "snd (fit L (qm_init ParametricGamma) [1, 2, 3] [1, 2, 3::real])"
  have s1: "meth ?s1 = ParametricGamma" "fitted ?s1" "model_to_quantile ?s1 = None"
    by (simp_all add: fit_ParametricGamma qm_init_def Let_def)
  let ?s2 = "snd (fit L ?s1 [] [])"
  have "fit L ?s1 [] [] = fit L (?s1\<lparr>model_data := Some [], obs_data := Some [], meth := Empirical\<rparr>) [] []"
    using s1 by (simp add: fit_ParametricGamma)
  then have s2: "meth ?s2 = Empirical" "fitted ?s2" "model_to_quantile ?s2 = None"
    using s1 by (simp_all add: fit_Empirical fit_empirical_def mk_interp1d_def rank_quantiles_def Let_def)
  have "qm_reach L ParametricGamma ?s2" by (intro qm_reach.refit qm_reach.created)
  then show ?thesis using s2 by (simp add: transform_def)
qed

text \<open>\<open>fit\<close> is not atomic. A re-fit of a fitted empirical object on series of
  different lengths raises \<open>ValueError\<close> after it has replaced the model CDF but
  before it has replaced the inverse observation CDF; the object stays fitted, and
  \<open>transform\<close> silently maps through the new model CDF and the old observations:
  the value \<open>2\<close> becomes \<open>15\<close>, a result of neither fit (the first fit maps it to
  \<open>20\<close>).\<close>

theorem failed_refit_mixes_fits:
  "transform L (snd (fit L (qm_init Empirical) [1, 2] [10, 20])) [2] = Inr [20] \<and>
   fst (fit L (snd (fit L (qm_init Empirical) [1, 2] [10, 20])) [1, 2, 3] [5]) = Inl ValueError \<and>
   transform L (snd (fit L (snd (fit L (qm_init Empirical) [1, 2] [10, 20])) [1, 2, 3] [5])) [2]
     = Inr [15]"
  by (simp add: fit_Empirical fit_empirical_def rank_quantiles_def qm_init_def mk_interp1d_def Let_def
      transform_def interp1d_call_def np_interp_def)

section \<open>Statistics and the request function\<close>

lemma fit_empirical_succeeds:
  assumes "meth s = Empirical" "md \<noteq> []" "length ob = length md"
  shows "\<exists>s'. fit L s md ob = (Inr (), s') \<and> meth s' = Empirical"
proof -
  have "sort md \<noteq> []" "length (sort ob) = length (sort md)" using assms by simp_all
  note eq = fit_empirical_ok [OF sorted_sort sorted_sort this]
  show ?thesis using assms(1) by (simp add: fit_Empirical eq)
qed

lemma compute_statistics_ok:
  assumes "length ob = length md" "length cd = length md" "md \<noteq> []" "np_var ob \<noteq> 0"
  shows "\<exists>st. compute_statistics md ob cd = Inr st \<and>
           bias_after st = np_mean cd - np_mean ob \<and> variance_ratio_after st = np_var cd / np_var ob"
  using assms by (auto simp: compute_statistics_def Let_def)

text \<open>C11: the request function with the default method \<open>quantile\<close>, on predictions
  without repeated values and observations of the same length with non-zero
  variance, returns corrected values that are a rearrangement of the observations;
  hence the reported bias after correction is \<open>0\<close> and the variance ratio after
  correction is \<open>1\<close>.\<close>

theorem run_correction_quantile_matches_observations:
  assumes "distinct preds" "preds \<noteq> []" "length obs = length preds" "np_var obs \<noteq> 0"
  shows "\<exists>c st. run_correction L preds obs ''quantile'' = Inr (c, st) \<and> mset c = mset obs \<and>
           bias_after st = 0 \<and> variance_ratio_after st = 1"
proof -
  have m: "meth (qm_init Empirical :: 'g qm_state) = Empirical" by (simp add: qm_init_def)
  obtain s' where fit: "fit L (qm_init Empirical) preds obs = (Inr (), s')" and ms': "meth s' = Empirical"
    using fit_empirical_succeeds [OF m assms(2,3)] by blast
  let ?F = "\<lambda>x. interp1d_call \<lparr>ix = rank_quantiles (length preds), iy = sort obs,
                          fill_below = hd (sort obs), fill_above = last (sort obs)\<rparr>
             (interp1d_call \<lparr>ix = sort preds, iy = rank_quantiles (length preds),
                             fill_below = 0, fill_above = 1\<rparr> x)"
  have tr: "transform L s' preds = Inr (map ?F preds)"
    by (rule fitted_empirical_transform [OF fit ms'])
  have "mset (map ?F preds) = mset (map ?F (sort preds))" by simp
  also have "\<dots> = mset obs" using training_points_map [OF assms(1-3)] by simp
  finally have perm: "mset (map ?F preds) = mset obs" .
  have len: "length (map ?F preds) = length preds" by simp
  obtain st where st: "compute_statistics preds obs (map ?F preds) = Inr st"
    "bias_after st = np_mean (map ?F preds) - np_mean obs"
    "variance_ratio_after st = np_var (map ?F preds) / np_var obs"
    using compute_statistics_ok [OF assms(3) len assms(2,4)] by blast
  have "run_correction L preds obs ''quantile'' = Inr (map ?F preds, st)"
    using fit tr st(1) by (simp add: run_correction_def method_map_def)
  moreover have "bias_after st = 0" using st(2) np_mean_perm [OF perm] by simp
  moreover have "variance_ratio_after st = 1" using st(3) np_var_perm [OF perm] assms(4) by simp
  ultimately show ?thesis using perm by blast
qed

theorem run_correction_quantile_matches_observations_witness:
  "\<exists>c st. run_correction identity_gamma [21, 22.5, 23] [20, 22, 21] ''quantile'' = Inr (c, st) \<and>
     mset c = mset [20, 22, 21::real] \<and> bias_after st = 0 \<and> variance_ratio_after st = 1"
proof (rule run_correction_quantile_matches_observations)
  show "np_var [20, 22, 21::real] \<noteq> 0" by (simp add: np_var_def np_mean_def)
qed simp_all

text \<open>The reported reduction percentages never exceed \<open>100\<close>; the bias
  reduction is \<open>100\<close> when no bias remains, and, by the code's convention, also
  when there was no bias to begin with.\<close>

theorem statistics_reduction_bounds:
  assumes "compute_statistics md ob cd = Inr st"
  shows "bias_reduction_percent st \<le> 100 \<and> rmse_reduction_percent st \<le> 100 \<and>
         (bias_after st = 0 \<longrightarrow> bias_reduction_percent st = 100) \<and>
         (bias_before st = 0 \<longrightarrow> bias_reduction_percent st = 100)"
  using assms
  using assms np_mean_squares_nonneg
  by (auto simp: compute_statistics_def Let_def not_less split: sum.splits if_splits)

theorem statistics_reduction_bounds_witness:
  "bias_reduction_percent (projr (compute_statistics [1, 2] [2, 4] [2, 4])) \<le> 100 \<and>
   rmse_reduction_percent (projr (compute_statistics [1, 2] [2, 4] [2, 4::real])) \<le> 100"
proof -
  have "compute_statistics [1, 2] [2, 4] [2, 4::real] = Inr (projr (compute_statistics [1, 2] [2, 4] [2, 4]))"
    by (simp add: compute_statistics_def np_var_def np_mean_def Let_def)
  from statistics_reduction_bounds [OF this] show ?thesis by simp
qed

section \<open>Error behaviour\<close>

text \<open>The empirical fit raises on series it cannot pair: \<open>ValueError\<close> for an
  empty model series or for series of different lengths, \<open>IndexError\<close> for an
  empty observation series with a non-empty model series.\<close>

theorem empirical_fit_errors:
  assumes "meth s = Empirical"
  shows "(md = [] \<longrightarrow> fst (fit L s md ob) = Inl ValueError) \<and>
         (md \<noteq> [] \<and> ob = [] \<longrightarrow> fst (fit L s md ob) = Inl IndexError) \<and>
         (md \<noteq> [] \<and> ob \<noteq> [] \<and> length ob \<noteq> length md \<longrightarrow> fst (fit L s md ob) = Inl ValueError)"
  using assms
  by (auto simp: fit_Empirical fit_empirical_def mk_interp1d_def Let_def split: prod.split sum.split)

theorem empirical_fit_errors_witness:
  "fst (fit identity_gamma (qm_init Empirical) [1, 2, 3] [1, 2]) = Inl ValueError"
  using empirical_fit_errors [where s = "qm_init Empirical" and L = identity_gamma
      and md = "[1, 2, 3]" and ob = "[1, 2::real]"]
  by (simp add: qm_init_def)

text \<open>A method name other than the three known ones is accepted by the
  constructor and by \<open>fit\<close>, which marks the object fitted; \<open>transform\<close> then
  raises \<open>UnboundLocalError\<close> on every input.\<close>

theorem unknown_method_fails_late:
  "fit L (qm_init (OtherMethod nm)) md ob = (Inr (), s') \<Longrightarrow>
     fitted s' \<and> transform L s' xs = Inl UnboundLocalError"
  by (auto simp: fit_OtherMethod qm_init_def transform_def)

theorem unknown_method_fails_late_witness:
  "fitted (snd (fit identity_gamma (qm_init (OtherMethod ''linear_scaling'')) [1] [2])) \<and>
   transform identity_gamma (snd (fit identity_gamma (qm_init (OtherMethod ''linear_scaling'')) [1] [2])) [1]
     = Inl UnboundLocalError"
proof -
  have "fit identity_gamma (qm_init (OtherMethod ''linear_scaling'')) [1] [2::real] =
        (Inr (), snd (fit identity_gamma (qm_init (OtherMethod ''linear_scaling'')) [1] [2]))"
    by (simp add: fit_OtherMethod qm_init_def)
  then show ?thesis by (rule unknown_method_fails_late)
qed

text \<open>The parametric normal method does not guard its division: a model series
  with zero standard deviation makes every correction of a non-empty input
  non-finite (numpy's \<open>inf\<close> or \<open>nan\<close>), whatever the input.\<close>

theorem normal_zero_std_nonfinite:
  assumes "fit L s md ob = (Inr u, s')" "meth s = ParametricNormal" "np_std md = 0" "xs \<noteq> []"
  shows "transform L s' xs = Inl NonFinite"
  using assms by (auto simp: fit_ParametricNormal normal_fit_def transform_def)

theorem normal_zero_std_nonfinite_witness:
  "transform identity_gamma (snd (fit identity_gamma (qm_init ParametricNormal) [5, 5] [1, 2])) [5]
     = Inl NonFinite"
proof (rule normal_zero_std_nonfinite)
  show "fit identity_gamma (qm_init ParametricNormal) [5, 5] [1, 2::real] =
        (Inr (), snd (fit identity_gamma (qm_init ParametricNormal) [5, 5] [1, 2]))"
    by (simp add: fit_ParametricNormal qm_init_def)
  show "np_std [5, 5::real] = 0" by (simp add: np_std_def np_var_def np_mean_def)
qed (simp_all add: qm_init_def)


text \<open>C26: \<open>fit\<close> terminates on every input: the gamma branch's fallback re-enters
  \<open>fit\<close> with the method switched to the empirical one, which never recurses, so the
  recursion is well founded (the domain of the recursive definition is everything),
  and the object's method after the call is its method before or the empirical one.\<close>

theorem fit_terminates:
  "fit_dom (L, s, md, ob) \<and> meth (snd (fit L s md ob)) \<in> {meth s, Empirical}"
proof
  show "fit_dom (L, s, md, ob)"
    by (induction L s md ob rule: fit.induct) (rule fit.domintros, auto)
  show "meth (snd (fit L s md ob)) \<in> {meth s, Empirical}" by (simp add: fit_meth)
qed

end
