(* ===== verification/BMA.thy ===== *)
theory BMA
  imports NumPy
begin

text \<open>
  Bayesian model averaging, \<open>src/python-backend/algorithms/scientific/bayesian_ensemble.py\<close>.
  The object \<open>BayesianModelAveraging\<close> is the record \<open>bma_state\<close>; the dictionaries
  of predictions, priors, log-likelihoods, variances and weights are association lists
  in insertion order. A log-posterior is \<open>Some l\<close>, or \<open>None\<close> for the \<open>-inf\<close> of a
  zero prior. \<open>compute_weights\<close> and \<open>predict\<close> return their outcome and, for
  \<open>compute_weights\<close>, the object after the call.
\<close>

section \<open>Data\<close>

record bma_state =
  model_names :: "string list"
  n_models :: nat
  posterior_weights :: "real pydict option"
  model_variances :: "real pydict option"

definition bma_init :: "string list \<Rightarrow> bma_state" where
  "bma_init names = \<lparr>model_names = names, n_models = length names,
     posterior_weights = None, model_variances = None\<rparr>"

record bma_prediction =
  pred_mean :: vec
  pred_std :: vec
  lower_95 :: vec
  upper_95 :: vec

section \<open>Operations\<close>

text \<open>The constant added to the variance estimate, \<open>1e-10\<close>.\<close>

definition var_eps :: real where
  "var_eps = 1 / 10 ^ 10"

text \<open>\<open>compute_log_likelihood\<close>: the Gaussian log-likelihood of the residuals. A
  variance that is not positive makes numpy's logarithm \<open>-inf\<close> or \<open>nan\<close>.\<close>

definition compute_log_likelihood :: "vec \<Rightarrow> vec \<Rightarrow> real \<Rightarrow> py_error + real" where
  "compute_log_likelihood preds obs var =
     (case np_sub obs preds of
        Inl e \<Rightarrow> Inl e
      | Inr res \<Rightarrow>
          (if var \<le> 0 then Inl NonFinite
           else Inr (- real (length obs) / 2 * ln (2 * pi * var)
                     - sum_list (map (\<lambda>r. r\<^sup>2) res) / (2 * var))))"

text \<open>\<open>estimate_variance\<close>: \<open>np.var(residuals, ddof=0) + 1e-10\<close>; numpy's variance
  of an empty array is \<open>nan\<close>.\<close>

definition estimate_variance :: "vec \<Rightarrow> vec \<Rightarrow> py_error + real" where
  "estimate_variance preds obs =
     (case np_sub obs preds of
        Inl e \<Rightarrow> Inl e
      | Inr res \<Rightarrow> (if res = [] then Inl NonFinite else Inr (np_var res + var_eps)))"

text \<open>The loop of \<open>compute_weights\<close> over \<open>self.model_names\<close>: a name without
  predictions is skipped; otherwise its variance and log-likelihood are stored.\<close>

fun loglik_loop :: "string list \<Rightarrow> vec pydict \<Rightarrow> vec \<Rightarrow> real pydict \<Rightarrow> real pydict \<Rightarrow>
    py_error + real pydict \<times> real pydict" where
  "loglik_loop [] mp obs vs ls = Inr (vs, ls)"
| "loglik_loop (nm # nms) mp obs vs ls =
     (case map_of mp nm of
        None \<Rightarrow> loglik_loop nms mp obs vs ls
      | Some preds \<Rightarrow>
          (case estimate_variance preds obs of
             Inl e \<Rightarrow> Inl e
           | Inr v \<Rightarrow>
               (case compute_log_likelihood preds obs v of
                  Inl e \<Rightarrow> Inl e
                | Inr l \<Rightarrow> loglik_loop nms mp obs (AList.update nm v vs) (AList.update nm l ls))))"

text \<open>The prior of a model: the given dictionary, or the uniform one over the
  model names, read with the default \<open>1 / n_models\<close>.\<close>

definition prior_of :: "bma_state \<Rightarrow> real pydict option \<Rightarrow> string \<Rightarrow> real" where
  "prior_of st prior nm =
     dict_get (case prior of None \<Rightarrow> map (\<lambda>n. (n, 1 / real (n_models st))) (model_names st) | Some p \<Rightarrow> p)
       nm (1 / real (n_models st))"

text \<open>\<open>log(prior) + log_likelihood\<close>, with \<open>None\<close> for the \<open>-inf\<close> of a zero prior.\<close>

definition log_posteriors :: "bma_state \<Rightarrow> real pydict option \<Rightarrow> real pydict \<Rightarrow> (string \<times> real option) list" where
  "log_posteriors st prior lls =
     map (\<lambda>(nm, l). (nm, if 0 < prior_of st prior nm then Some (ln (prior_of st prior nm) + l) else None)) lls"

definition logsumexp :: "real option list \<Rightarrow> real" where
  "logsumexp lps = ln (sum_list (map (\<lambda>lp. case lp of None \<Rightarrow> 0 | Some l \<Rightarrow> exp l) lps))"

definition normalise :: "(string \<times> real option) list \<Rightarrow> real pydict" where
  "normalise lps =
     map (\<lambda>(nm, lp). (nm, case lp of None \<Rightarrow> 0 | Some l \<Rightarrow> exp (l - logsumexp (map snd lps)))) lps"

text \<open>
  \<open>compute_weights\<close>. The variances are stored before the normalisation. numpy's
  maximum of an empty array raises \<open>ValueError\<close> in \<open>logsumexp\<close>; a negative prior
  gives \<open>nan\<close> weights, and so does a zero prior for every present model
  (\<open>-inf - (-inf)\<close>): the model reports both as \<open>NonFinite\<close> and stores no weights.
\<close>

definition compute_weights :: "bma_state \<Rightarrow> vec pydict \<Rightarrow> vec \<Rightarrow> real pydict option \<Rightarrow>
    (py_error + real pydict) \<times> bma_state" where
  "compute_weights st mp obs prior =
     (case loglik_loop (model_names st) mp obs [] [] of
        Inl e \<Rightarrow> (Inl e, st)
      | Inr (vs, lls) \<Rightarrow>
          (let st1 = st\<lparr>model_variances := Some vs\<rparr>; lps = log_posteriors st prior lls
           in if lls = [] then (Inl ValueError, st1)
              else if \<exists>(nm, _) \<in> set lls. prior_of st prior nm < 0 then (Inl NonFinite, st1)
              else if \<forall>(nm, lp) \<in> set lps. lp = None then (Inl NonFinite, st1)
              else (Inr (normalise lps), st1\<lparr>posterior_weights := Some (normalise lps)\<rparr>)))"

text \<open>The second loop of \<open>predict\<close>: it enumerates \<open>models_predictions\<close> and reads
  row \<open>i\<close> of the stacked predictions, where \<open>i\<close> counts every model of the
  dictionary, weighted or not.\<close>

fun variance_loop :: "nat \<Rightarrow> vec pydict \<Rightarrow> real pydict \<Rightarrow> real pydict \<Rightarrow> vec list \<Rightarrow> vec \<Rightarrow>
    vec \<times> vec \<Rightarrow> py_error + vec \<times> vec" where
  "variance_loop i [] W V rows mu acc = Inr acc"
| "variance_loop i ((nm, _) # rest) W V rows mu (wv, bv) =
     (case map_of W nm of
        None \<Rightarrow> variance_loop (Suc i) rest W V rows mu (wv, bv)
      | Some w \<Rightarrow>
          (if i < length rows
           then variance_loop (Suc i) rest W V rows mu
                  (map (\<lambda>x. x + w * dict_get V nm 1) wv,
                   map2 (\<lambda>b d. b + w * d\<^sup>2) bv (map2 (-) (rows ! i) mu))
           else Inl IndexError))"

text \<open>\<open>predict\<close>. The weighted rows are stacked in the order of the dictionary;
  no weighted row makes \<open>all_preds.shape[1]\<close> raise \<open>IndexError\<close>, rows of different
  lengths make \<open>np.array\<close> raise \<open>ValueError\<close>.\<close>

definition predict :: "bma_state \<Rightarrow> vec pydict \<Rightarrow> py_error + bma_prediction" where
  "predict st mp =
     (case posterior_weights st of
        None \<Rightarrow> Inl ValueError
      | Some W \<Rightarrow>
          (let sel = filter (\<lambda>(nm, _). map_of W nm \<noteq> None) mp;
               rows = map snd sel; ws = map (\<lambda>(nm, _). dict_get W nm 0) sel
           in if rows = [] then Inl IndexError
              else if \<exists>r \<in> set rows. length r \<noteq> length (hd rows) then Inl ValueError
              else case model_variances st of
                None \<Rightarrow> Inl AttributeError
              | Some V \<Rightarrow>
                  (let T = length (hd rows);
                       mu = map (\<lambda>t. sum_list (map2 (\<lambda>w r. w * r ! t) ws rows)) [0..<T]
                   in case variance_loop 0 mp W V rows mu (replicate T 0, replicate T 0) of
                        Inl e \<Rightarrow> Inl e
                      | Inr (wv, bv) \<Rightarrow>
                          (let sd = map sqrt (map2 (+) wv bv)
                           in Inr \<lparr>pred_mean = mu, pred_std = sd,
                                   lower_95 = map2 (\<lambda>m s. m - 1.96 * s) mu sd,
                                   upper_95 = map2 (\<lambda>m s. m + 1.96 * s) mu sd\<rparr>))))"


section \<open>Specification of the mixture\<close>

text \<open>The abstract contract of \<open>predict\<close>: a mixture of models, model \<open>x\<close> with weight
  \<open>w x\<close>, mean \<open>m x\<close> and variance \<open>v x\<close>, has the weighted mean of the means, and
  by the law of total variance the variance \<open>E[v + m\<^sup>2] - E[m]\<^sup>2\<close>.\<close>

definition mixture_mean :: "('a \<Rightarrow> real) \<Rightarrow> ('a \<Rightarrow> real) \<Rightarrow> 'a list \<Rightarrow> real" where
  "mixture_mean w m xs = sum_list (map (\<lambda>x. w x * m x) xs)"

definition mixture_var :: "('a \<Rightarrow> real) \<Rightarrow> ('a \<Rightarrow> real) \<Rightarrow> ('a \<Rightarrow> real) \<Rightarrow> 'a list \<Rightarrow> real" where
  "mixture_var w v m xs = sum_list (map (\<lambda>x. w x * (v x + (m x)\<^sup>2)) xs) - (mixture_mean w m xs)\<^sup>2"

section \<open>Normalisation\<close>

definition lp_exp :: "real option \<Rightarrow> real" where
  "lp_exp lp = (case lp of None \<Rightarrow> 0 | Some l \<Rightarrow> exp l)"

lemma lp_exp_nonneg [simp]: "0 \<le> lp_exp lp"
  by (simp add: lp_exp_def split: option.split)

lemma logsumexp_lp_exp: "logsumexp lps = ln (sum_list (map lp_exp lps))"
  by (simp add: logsumexp_def lp_exp_def [abs_def])

lemma lp_exp_le_sum:
  assumes "(nm, lp) \<in> set lps"
  shows "lp_exp lp \<le> sum_list (map (lp_exp \<circ> snd) lps)"
proof (rule member_le_sum_list)
  show "lp_exp lp \<in> set (map (lp_exp \<circ> snd) lps)" using assms by force
qed auto

lemma lp_sum_pos:
  assumes "\<exists>(nm, lp) \<in> set lps. lp \<noteq> None"
  shows "0 < sum_list (map (lp_exp \<circ> snd) lps)"
proof -
  obtain nm l where "(nm, Some l) \<in> set lps" using assms by auto
  then have "lp_exp (Some l) \<le> sum_list (map (lp_exp \<circ> snd) lps)" by (rule lp_exp_le_sum)
  then show ?thesis by (smt (verit) exp_gt_zero lp_exp_def option.case(2))
qed

text \<open>Each normalised weight is the exponential of its log-posterior divided by the
  sum of all exponentials: the log-sum-exp computation is exact normalisation.\<close>

lemma normalise_eq:
  assumes "\<exists>(nm, lp) \<in> set lps. lp \<noteq> None"
  shows "normalise lps = map (\<lambda>(nm, lp). (nm, lp_exp lp / sum_list (map (lp_exp \<circ> snd) lps))) lps"
proof -
  let ?S = "sum_list (map (lp_exp \<circ> snd) lps)"
  have S: "0 < ?S" using assms by (rule lp_sum_pos)
  have "\<And>l. exp (l - ln ?S) = exp l / ?S" using S by (simp add: exp_diff)
  then show ?thesis
    by (auto simp: normalise_def logsumexp_lp_exp lp_exp_def [abs_def] comp_def split: option.split)
qed

lemma normalise_distribution:
  assumes "\<exists>(nm, lp) \<in> set lps. lp \<noteq> None"
  shows "sum_list (map snd (normalise lps)) = 1 \<and> (\<forall>(nm, w) \<in> set (normalise lps). 0 \<le> w \<and> w \<le> 1)"
proof -
  let ?S = "sum_list (map (lp_exp \<circ> snd) lps)"
  have S: "0 < ?S" using assms by (rule lp_sum_pos)
  have "sum_list (map snd (normalise lps)) = sum_list (map (\<lambda>x. (lp_exp \<circ> snd) x / ?S) lps)"
    by (simp add: normalise_eq [OF assms] comp_def case_prod_beta)
  also have "\<dots> = ?S / ?S" by (rule sum_list_map_divide)
  also have "\<dots> = 1" using S by simp
  finally have sum: "sum_list (map snd (normalise lps)) = 1" .
  have "\<forall>(nm, w) \<in> set (normalise lps). 0 \<le> w \<and> w \<le> 1"
  proof (clarsimp simp: normalise_eq [OF assms])
    fix nm lp assume "(nm, lp) \<in> set lps"
    then have "lp_exp lp \<le> ?S" by (rule lp_exp_le_sum)
    then show "0 \<le> lp_exp lp / ?S \<and> lp_exp lp / ?S \<le> 1" using S by simp
  qed
  with sum show ?thesis by blast
qed

lemma compute_weights_Inr:
  assumes "compute_weights st mp obs prior = (Inr W, st')"
  shows "\<exists>vs lls. loglik_loop (model_names st) mp obs [] [] = Inr (vs, lls) \<and> lls \<noteq> [] \<and>
           (\<forall>(nm, _) \<in> set lls. 0 \<le> prior_of st prior nm) \<and>
           (\<exists>(nm, lp) \<in> set (log_posteriors st prior lls). lp \<noteq> None) \<and>
           W = normalise (log_posteriors st prior lls) \<and>
           st' = st\<lparr>model_variances := Some vs, posterior_weights := Some W\<rparr>"
  using assms
  by (auto simp: compute_weights_def Let_def not_less split: sum.splits prod.splits if_splits)

text \<open>The law of total variance for a finite mixture whose weights sum to 1.\<close>

lemma law_of_total_variance:
  assumes "sum_list (map w xs) = 1"
  shows "sum_list (map (\<lambda>x. w x * v x) xs) + sum_list (map (\<lambda>x. w x * (m x - mixture_mean w m xs)\<^sup>2) xs)
         = mixture_var w v m xs"
proof -
  let ?M = "mixture_mean w m xs"
  have "sum_list (map (\<lambda>x. w x * (m x - ?M)\<^sup>2) xs)
      = sum_list (map (\<lambda>x. w x * (m x)\<^sup>2) xs) - 2 * ?M * sum_list (map (\<lambda>x. w x * m x) xs) + ?M\<^sup>2 * sum_list (map w xs)"
    by (rule weighted_sq_dev)
  also have "\<dots> = sum_list (map (\<lambda>x. w x * (m x)\<^sup>2) xs) - ?M\<^sup>2"
    using assms by (simp only: mixture_mean_def) (simp add: power2_eq_square)
  finally show ?thesis by (simp add: mixture_var_def distrib_left sum_list_addf)
qed

section \<open>Log-likelihoods of the models\<close>

lemma loglik_loop_entry:
  assumes "loglik_loop nms mp obs vs ls = Inr (vs', ls')" "map_of mp nm = Some preds"
    "estimate_variance preds obs = Inr v" "compute_log_likelihood preds obs v = Inr l"
  shows "map_of vs' nm = (if nm \<in> set nms then Some v else map_of vs nm) \<and>
         map_of ls' nm = (if nm \<in> set nms then Some l else map_of ls nm)"
  using assms(1)
proof (induction nms arbitrary: vs ls)
  case (Cons n nms)
  then show ?case
    using assms(2-4) by (auto simp: update_conv' split: option.splits sum.splits if_splits)
qed simp

lemma loglik_loop_defined:
  assumes "loglik_loop nms mp obs vs ls = Inr (vs', ls')" "nm \<in> set nms" "map_of mp nm = Some preds"
  shows "\<exists>v l. estimate_variance preds obs = Inr v \<and> compute_log_likelihood preds obs v = Inr l"
  using assms(1,2)
proof (induction nms arbitrary: vs ls)
  case (Cons n nms)
  then show ?case
    using assms(3) by (auto split: option.splits sum.splits if_splits)
qed simp

lemma loglik_loop_lookup:
  assumes "loglik_loop nms mp obs vs ls = Inr (vs', ls')" "nm \<in> set nms" "map_of mp nm = Some preds"
  shows "\<exists>v l. estimate_variance preds obs = Inr v \<and> compute_log_likelihood preds obs v = Inr l \<and>
           map_of vs' nm = Some v \<and> map_of ls' nm = Some l"
  using loglik_loop_defined [OF assms] loglik_loop_entry [OF assms(1,3)] assms(2) by auto

lemma map_of_normalise:
  "map_of (normalise lps) nm =
     map_option (\<lambda>lp. case lp of None \<Rightarrow> 0 | Some l \<Rightarrow> exp (l - logsumexp (map snd lps))) (map_of lps nm)"
  unfolding normalise_def by (rule map_of_map_keyed)

lemma map_of_log_posteriors:
  "map_of (log_posteriors st prior lls) nm =
     map_option (\<lambda>l. if 0 < prior_of st prior nm then Some (ln (prior_of st prior nm) + l) else None)
       (map_of lls nm)"
  unfolding log_posteriors_def by (rule map_of_map_keyed)

text \<open>The weight of a model with a positive prior is
  \<open>exp (log prior + log-likelihood - log evidence)\<close>, with one log evidence for all.\<close>

lemma compute_weights_weights:
  assumes "compute_weights st mp obs prior = (Inr W, st')"
  obtains lse where
    "\<And>nm preds. nm \<in> set (model_names st) \<Longrightarrow> map_of mp nm = Some preds \<Longrightarrow>
       0 < prior_of st prior nm \<Longrightarrow>
       \<exists>v l. estimate_variance preds obs = Inr v \<and> compute_log_likelihood preds obs v = Inr l \<and>
             dict_get W nm 0 = exp (ln (prior_of st prior nm) + l - lse)"
proof -
  obtain vs lls where loop: "loglik_loop (model_names st) mp obs [] [] = Inr (vs, lls)"
    and W: "W = normalise (log_posteriors st prior lls)"
    using compute_weights_Inr [OF assms] by blast
  let ?lse = "logsumexp (map snd (log_posteriors st prior lls))"
  have "\<exists>v l. estimate_variance preds obs = Inr v \<and> compute_log_likelihood preds obs v = Inr l \<and>
             dict_get W nm 0 = exp (ln (prior_of st prior nm) + l - ?lse)"
    if nm: "nm \<in> set (model_names st)" "map_of mp nm = Some preds" "0 < prior_of st prior nm" for nm preds
  proof -
    obtain v l where vl: "estimate_variance preds obs = Inr v" "compute_log_likelihood preds obs v = Inr l"
      "map_of lls nm = Some l"
      using loglik_loop_lookup [OF loop nm(1,2)] by blast
    have "map_of W nm = Some (exp (ln (prior_of st prior nm) + l - ?lse))"
      using vl(3) nm(3) by (simp only: W map_of_normalise map_of_log_posteriors) simp
    with vl show ?thesis by simp
  qed
  then show ?thesis by (rule that)
qed

lemma map2_minus_self: "map2 (-) xs xs = replicate (length xs) (0::real)"
  by (induction xs) simp_all

lemma sum_squares_pos:
  fixes xs ys :: vec
  assumes "length xs = length ys" "xs \<noteq> ys"
  shows "0 < sum_list (map (\<lambda>r. r\<^sup>2) (map2 (-) xs ys))"
  using assms
proof (induction xs ys rule: list_induct2)
  case (Cons x xs y ys)
  have "0 \<le> sum_list (map (\<lambda>r. r\<^sup>2) (map2 (-) xs ys))" by (rule sum_list_nonneg) auto
  then show ?case using Cons by (cases "x = y") (auto simp: add_pos_nonneg)
qed simp

lemma exact_loglik:
  assumes "obs \<noteq> []"
  shows "estimate_variance obs obs = Inr var_eps \<and>
         compute_log_likelihood obs obs var_eps = Inr (- real (length obs) / 2 * ln (2 * pi * var_eps))"
  using assms
  by (simp add: estimate_variance_def compute_log_likelihood_def map2_minus_self var_eps_def sum_list_replicate)

lemma inexact_loglik_lt:
  assumes "length p = length obs" "p \<noteq> obs"
    "estimate_variance p obs = Inr v" "compute_log_likelihood p obs v = Inr l"
  shows "l < - real (length obs) / 2 * ln (2 * pi * var_eps)"
proof -
  have v: "v = np_var (map2 (-) obs p) + var_eps"
    using assms by (auto simp: estimate_variance_def split: if_splits)
  have eps: "0 < var_eps" by (simp add: var_eps_def)
  have ve: "var_eps \<le> v" using v np_var_nonneg by simp
  have R: "0 < sum_list (map (\<lambda>r. r\<^sup>2) (map2 (-) obs p))"
    using assms(1,2) by (intro sum_squares_pos) auto
  have l: "l = - real (length obs) / 2 * ln (2 * pi * v) - sum_list (map (\<lambda>r. r\<^sup>2) (map2 (-) obs p)) / (2 * v)"
    using assms eps ve by (auto simp: compute_log_likelihood_def split: if_splits)
  have "ln (2 * pi * var_eps) \<le> ln (2 * pi * v)" using eps ve by simp
  then have "- real (length obs) / 2 * ln (2 * pi * v) \<le> - real (length obs) / 2 * ln (2 * pi * var_eps)"
    by (simp add: mult_left_mono)
  moreover have "0 < sum_list (map (\<lambda>r. r\<^sup>2) (map2 (-) obs p)) / (2 * v)" using R eps ve by simp
  ultimately show ?thesis using l by linarith
qed

lemma estimate_variance_ge:
  "estimate_variance p obs = Inr v \<Longrightarrow> var_eps \<le> v"
  using np_var_nonneg by (auto simp: estimate_variance_def split: sum.splits if_splits)

lemma var_eps_pos [simp]: "0 < var_eps"
  by (simp add: var_eps_def)

lemma model_loglik_ok:
  assumes "length p = length obs" "obs \<noteq> []"
  shows "\<exists>v l. estimate_variance p obs = Inr v \<and> compute_log_likelihood p obs v = Inr l"
proof -
  have "\<not> np_var (map2 (-) obs p) + var_eps \<le> 0"
    using np_var_nonneg [of "map2 (-) obs p"] var_eps_pos by linarith
  moreover have "p \<noteq> []" using assms by auto
  ultimately show ?thesis using assms by (simp add: estimate_variance_def compute_log_likelihood_def)
qed

lemma loglik_loop_total:
  assumes "obs \<noteq> []" "\<forall>nm \<in> set nms. \<forall>p. map_of mp nm = Some p \<longrightarrow> length p = length obs"
  shows "\<exists>vs' ls'. loglik_loop nms mp obs vs ls = Inr (vs', ls')"
  using assms(2)
proof (induction nms arbitrary: vs ls)
  case (Cons n nms)
  show ?case
  proof (cases "map_of mp n")
    case (Some p)
    then obtain v l where "estimate_variance p obs = Inr v" "compute_log_likelihood p obs v = Inr l"
      using model_loglik_ok [OF _ assms(1)] Cons.prems by force
    then show ?thesis using Some Cons by simp
  qed (use Cons in simp)
qed simp

lemma loglik_loop_variances_pos:
  assumes "loglik_loop nms mp obs vs ls = Inr (vs', ls')" "\<forall>k v. map_of vs k = Some v \<longrightarrow> 0 < v"
  shows "\<forall>k v. map_of vs' k = Some v \<longrightarrow> 0 < v"
  using assms
proof (induction nms arbitrary: vs ls)
  case (Cons n nms)
  show ?case
  proof (cases "map_of mp n")
    case None
    then show ?thesis using Cons by simp
  next
    case (Some p)
    then obtain v l where v: "estimate_variance p obs = Inr v" "compute_log_likelihood p obs v = Inr l"
      and rest: "loglik_loop nms mp obs (AList.update n v vs) (AList.update n l ls) = Inr (vs', ls')"
      using Cons.prems(1) by (auto split: sum.splits)
    have "0 < v" using estimate_variance_ge [OF v(1)] var_eps_pos by linarith
    then have "\<forall>k v'. map_of (AList.update n v vs) k = Some v' \<longrightarrow> 0 < v'"
      using Cons.prems(2) by (simp add: update_conv')
    then show ?thesis using Cons.IH [OF rest] by blast
  qed
qed simp

lemma loglik_loop_keys:
  assumes "loglik_loop nms mp obs vs ls = Inr (vs', ls')"
  shows "fst ` set ls' \<subseteq> fst ` set ls \<union> set nms"
  using assms
proof (induction nms arbitrary: vs ls)
  case (Cons n nms)
  show ?case
  proof (cases "map_of mp n")
    case None
    then show ?thesis using Cons.IH [of vs ls] Cons.prems by auto
  next
    case (Some p)
    then obtain v l where rest: "loglik_loop nms mp obs (AList.update n v vs) (AList.update n l ls) = Inr (vs', ls')"
      using Cons.prems(1) by (auto split: sum.splits)
    show ?thesis using Cons.IH [OF rest] by (auto simp: dom_update)
  qed
qed simp

text \<open>After a successful \<open>compute_weights\<close>: the object holds the returned weights,
  which are non-negative, and positive variances; every model of the object with
  predictions has a weight.\<close>

lemma compute_weights_facts:
  assumes "compute_weights st mp obs prior = (Inr W, st')"
  shows "posterior_weights st' = Some W \<and> model_names st' = model_names st \<and>
         (\<exists>V. model_variances st' = Some V \<and> (\<forall>k v. map_of V k = Some v \<longrightarrow> 0 < v)) \<and>
         (\<forall>k w. map_of W k = Some w \<longrightarrow> 0 \<le> w) \<and>
         (\<forall>nm \<in> set (model_names st). map_of mp nm \<noteq> None \<longrightarrow> map_of W nm \<noteq> None)"
proof -
  obtain vs lls where loop: "loglik_loop (model_names st) mp obs [] [] = Inr (vs, lls)"
    and some: "\<exists>(nm, lp) \<in> set (log_posteriors st prior lls). lp \<noteq> None"
    and W: "W = normalise (log_posteriors st prior lls)"
    and st': "st' = st\<lparr>model_variances := Some vs, posterior_weights := Some W\<rparr>"
    using compute_weights_Inr [OF assms] by blast
  have "\<forall>k v. map_of vs k = Some v \<longrightarrow> 0 < v"
    using loglik_loop_variances_pos [OF loop] by simp
  moreover have "\<forall>k w. map_of W k = Some w \<longrightarrow> 0 \<le> w"
    using normalise_distribution [OF some] by (auto simp: W dest!: map_of_SomeD)
  moreover have "map_of W nm \<noteq> None" if nm: "nm \<in> set (model_names st)" "map_of mp nm \<noteq> None" for nm
  proof -
    obtain preds where "map_of mp nm = Some preds" using nm(2) by blast
    then obtain l where "map_of lls nm = Some l" using loglik_loop_lookup [OF loop nm(1)] by blast
    then show ?thesis by (simp add: W map_of_normalise map_of_log_posteriors)
  qed
  ultimately show ?thesis using st' by auto
qed

lemma compute_weights_succeeds:
  assumes "obs \<noteq> []" "\<forall>nm \<in> set (model_names st). \<forall>p. map_of mp nm = Some p \<longrightarrow> length p = length obs"
    "\<forall>nm \<in> set (model_names st). 0 \<le> prior_of st prior nm"
    "\<exists>nm \<in> set (model_names st). map_of mp nm \<noteq> None \<and> 0 < prior_of st prior nm"
  shows "\<exists>W st'. compute_weights st mp obs prior = (Inr W, st')"
proof -
  obtain vs lls where loop: "loglik_loop (model_names st) mp obs [] [] = Inr (vs, lls)"
    using loglik_loop_total [OF assms(1,2)] by blast
  obtain nm preds where nm: "nm \<in> set (model_names st)" "map_of mp nm = Some preds"
      "0 < prior_of st prior nm"
    using assms(4) by blast
  then obtain l where l: "map_of lls nm = Some l" using loglik_loop_lookup [OF loop] by blast
  then have ne: "lls \<noteq> []" by auto
  have keys: "fst ` set lls \<subseteq> set (model_names st)" using loglik_loop_keys [OF loop] by simp
  then have "\<not> (\<exists>(k, _) \<in> set lls. prior_of st prior k < 0)" using assms(3) by fastforce
  moreover have "map_of (log_posteriors st prior lls) nm = Some (Some (ln (prior_of st prior nm) + l))"
    using l nm(3) by (simp add: map_of_log_posteriors)
  then have "\<exists>(k, lp) \<in> set (log_posteriors st prior lls). lp \<noteq> None"
    by (fastforce dest: map_of_SomeD)
  ultimately show ?thesis using loop ne by (auto simp: compute_weights_def Let_def)
qed

lemma loglik_loop_key_order:
  assumes "loglik_loop nms mp obs vs ls = Inr (vs', ls')" "distinct nms"
    "set nms \<inter> fst ` set ls = {}" "\<forall>nm \<in> set nms. map_of mp nm \<noteq> None"
  shows "map fst ls' = map fst ls @ nms"
  using assms
proof (induction nms arbitrary: vs ls)
  case (Cons n nms)
  obtain p where p: "map_of mp n = Some p" using Cons.prems(4) by auto
  then obtain v l where rest: "loglik_loop nms mp obs (AList.update n v vs) (AList.update n l ls) = Inr (vs', ls')"
    using Cons.prems(1) by (auto split: sum.splits)
  have new: "AList.update n l ls = ls @ [(n, l)]" using Cons.prems(3) by (intro update_new_key) auto
  have "map fst ls' = map fst (ls @ [(n, l)]) @ nms"
    using Cons.IH [OF rest] Cons.prems(2-4) new by auto
  then show ?case by simp
qed simp

lemma compute_weights_keys:
  assumes "compute_weights st mp obs prior = (Inr W, st')" "distinct (model_names st)"
    "\<forall>nm \<in> set (model_names st). map_of mp nm \<noteq> None"
  shows "map fst W = model_names st"
proof -
  obtain vs lls where loop: "loglik_loop (model_names st) mp obs [] [] = Inr (vs, lls)"
    and W: "W = normalise (log_posteriors st prior lls)"
    using compute_weights_Inr [OF assms(1)] by blast
  have "map fst lls = model_names st" using loglik_loop_key_order [OF loop assms(2) _ assms(3)] by simp
  then show ?thesis by (simp add: W normalise_def log_posteriors_def case_prod_unfold comp_def)
qed

lemma compute_weights_variances:
  assumes "compute_weights st mp obs prior = (Inr W, st')" "nm \<in> set (model_names st)" "map_of mp nm = Some r"
  shows "\<exists>V v. model_variances st' = Some V \<and> estimate_variance r obs = Inr v \<and> map_of V nm = Some v"
proof -
  obtain vs lls where loop: "loglik_loop (model_names st) mp obs [] [] = Inr (vs, lls)"
    and st': "st' = st\<lparr>model_variances := Some vs, posterior_weights := Some W\<rparr>"
    using compute_weights_Inr [OF assms(1)] by blast
  show ?thesis using loglik_loop_lookup [OF loop assms(2,3)] st' by auto
qed


lemma predict_Inr_rows:
  assumes "posterior_weights st = Some W" "\<forall>(nm, _) \<in> set mp. map_of W nm \<noteq> None" "predict st mp = Inr P"
  shows "mp \<noteq> [] \<and> (\<forall>(nm, r) \<in> set mp. length r = length (snd (hd mp)))"
proof -
  have sel: "filter (\<lambda>(nm, _). map_of W nm \<noteq> None) mp = mp" using assms(2) by (simp add: filter_id_conv)
  have ne: "map snd mp \<noteq> []"
  proof
    assume "map snd mp = []"
    then have "predict st mp = Inl IndexError"
      unfolding predict_def assms(1) option.case Let_def sel by (simp only: if_P)
    with assms(3) show False by simp
  qed
  have rag: "\<not> (\<exists>r \<in> set (map snd mp). length r \<noteq> length (hd (map snd mp)))"
  proof
    assume "\<exists>r \<in> set (map snd mp). length r \<noteq> length (hd (map snd mp))"
    then have "predict st mp = Inl ValueError"
      unfolding predict_def assms(1) option.case Let_def sel by (simp only: if_P if_not_P [OF ne])
    with assms(3) show False by simp
  qed
  have mpne: "mp \<noteq> []" using ne by simp
  then have h: "hd (map snd mp) = snd (hd mp)" by (rule hd_map)
  have "\<forall>(nm, r) \<in> set mp. length r = length (snd (hd mp))"
  proof clarify
    fix nm r assume "(nm, r) \<in> set mp"
    then have "r \<in> set (map snd mp)" by force
    with rag show "length r = length (snd (hd mp))" unfolding h by blast
  qed
  with mpne show ?thesis by blast
qed


section \<open>Properties of the weights\<close>

text \<open>C3: whenever \<open>compute_weights\<close> returns, the weights it returns (and stores)
  form a probability distribution over the models it kept: each lies in
  \<open>[0, 1]\<close> and they sum to \<open>1\<close>.\<close>

theorem compute_weights_distribution:
  assumes "compute_weights st mp obs prior = (Inr W, st')"
  shows "sum_list (map snd W) = 1 \<and> (\<forall>(nm, w) \<in> set W. 0 \<le> w \<and> w \<le> 1) \<and>
         posterior_weights st' = Some W"
  using compute_weights_Inr [OF assms] normalise_distribution by fastforce

section \<open>The combined prediction\<close>

text \<open>When row \<open>i\<close> of the stacked predictions is the row of the \<open>i\<close>-th model
  of the dictionary, the loop adds, at every time step, each model's weighted
  variance and weighted squared deviation from the mean.\<close>

lemma variance_loop_aligned:
  assumes "\<forall>(nm, _) \<in> set xs. map_of W nm \<noteq> None" "drop i rows = map snd xs"
    "\<forall>r \<in> set (map snd xs). length r = T" "length mu = T" "length wv = T" "length bv = T"
  shows "\<exists>wv' bv'. variance_loop i xs W V rows mu (wv, bv) = Inr (wv', bv') \<and>
           length wv' = T \<and> length bv' = T \<and>
           (\<forall>t < T. wv' ! t = wv ! t + sum_list (map (\<lambda>(nm, r). dict_get W nm 0 * dict_get V nm 1) xs)) \<and>
           (\<forall>t < T. bv' ! t = bv ! t + sum_list (map (\<lambda>(nm, r). dict_get W nm 0 * (r ! t - mu ! t)\<^sup>2) xs))"
  using assms
proof (induction xs arbitrary: i wv bv)
  case Nil
  then show ?case by simp
next
  case (Cons x xs)
  obtain nm r where x: "x = (nm, r)" by (cases x)
  obtain w where w: "map_of W nm = Some w" using Cons.prems(1) x by auto
  have d: "drop i rows = r # map snd xs" using Cons.prems(2) x by simp
  then have i: "i < length rows" by (cases "i < length rows") auto
  then have "rows ! i # drop (Suc i) rows = r # map snd xs" using d by (simp add: Cons_nth_drop_Suc)
  then have row: "rows ! i = r" and rest: "drop (Suc i) rows = map snd xs" by simp_all
  have r: "length r = T" using Cons.prems(3) x by simp
  let ?wv = "map (\<lambda>y. y + w * dict_get V nm 1) wv"
  let ?bv = "map2 (\<lambda>b d. b + w * d\<^sup>2) bv (map2 (-) (rows ! i) mu)"
  obtain wv' bv' where ih: "variance_loop (Suc i) xs W V rows mu (?wv, ?bv) = Inr (wv', bv')"
      "length wv' = T" "length bv' = T"
      "\<forall>t < T. wv' ! t = ?wv ! t + sum_list (map (\<lambda>(nm, r). dict_get W nm 0 * dict_get V nm 1) xs)"
      "\<forall>t < T. bv' ! t = ?bv ! t + sum_list (map (\<lambda>(nm, r). dict_get W nm 0 * (r ! t - mu ! t)\<^sup>2) xs)"
    using Cons.IH [where i = "Suc i" and wv = ?wv and bv = ?bv] Cons.prems rest r row by auto
  show ?case
    using ih w i row r Cons.prems(4-6) by (auto simp: x)
qed

text \<open>\<open>predict\<close> when every model of the dictionary has a weight and the rows have one
  length: the stacked rows are the rows of the dictionary in order, and at every time
  step the code returns the weighted mean, and the square root of the weighted
  variances plus the weighted squared deviations from that mean.\<close>

lemma predict_aligned:
  assumes W: "posterior_weights st = Some W" and V: "model_variances st = Some V"
    and weighted: "\<forall>(nm, _) \<in> set mp. map_of W nm \<noteq> None" and ne: "mp \<noteq> []"
    and len: "\<forall>(nm, r) \<in> set mp. length r = T"
  shows "\<exists>P. predict st mp = Inr P \<and> length (pred_mean P) = T \<and> length (pred_std P) = T \<and>
     length (lower_95 P) = T \<and> length (upper_95 P) = T \<and>
     (\<forall>t < T. pred_mean P ! t = mixture_mean (\<lambda>(nm, _). dict_get W nm 0) (\<lambda>(_, r). r ! t) mp \<and>
        pred_std P ! t = sqrt (sum_list (map (\<lambda>(nm, r). dict_get W nm 0 * dict_get V nm 1) mp) +
                               sum_list (map (\<lambda>(nm, r). dict_get W nm 0 * (r ! t - pred_mean P ! t)\<^sup>2) mp)) \<and>
        lower_95 P ! t = pred_mean P ! t - 1.96 * pred_std P ! t \<and>
        upper_95 P ! t = pred_mean P ! t + 1.96 * pred_std P ! t)"
proof -
  let ?w = "\<lambda>(nm, _). dict_get W nm 0"
  define mu where "mu = map (\<lambda>t. sum_list (map2 (\<lambda>w r. w * r ! t) (map ?w mp) (map snd mp))) [0..<T]"
  have sel: "filter (\<lambda>(nm, _). map_of W nm \<noteq> None) mp = mp" using weighted by (simp add: filter_id_conv)
  have rows: "\<forall>r \<in> set (map snd mp). length r = T" using len by auto
  then have hd: "length (hd (map snd mp)) = T" using ne by (cases mp) auto
  have mu_t: "mu ! t = mixture_mean ?w (\<lambda>(_, r). r ! t) mp" if "t < T" for t
    using that by (simp add: mu_def mixture_mean_def map2_map_map case_prod_beta)
  obtain wv bv where L: "variance_loop 0 mp W V (map snd mp) mu (replicate T 0, replicate T 0) = Inr (wv, bv)"
    "length wv = T" "length bv = T"
    "\<forall>t < T. wv ! t = sum_list (map (\<lambda>(nm, r). dict_get W nm 0 * dict_get V nm 1) mp)"
    "\<forall>t < T. bv ! t = sum_list (map (\<lambda>(nm, r). dict_get W nm 0 * (r ! t - mu ! t)\<^sup>2) mp)"
    using variance_loop_aligned [of mp W 0 "map snd mp" T mu "replicate T 0" "replicate T 0" V] weighted rows
    by (auto simp: mu_def)
  let ?sd = "map sqrt (map2 (+) wv bv)"
  have "predict st mp = Inr \<lparr>pred_mean = mu, pred_std = ?sd,
          lower_95 = map2 (\<lambda>m s. m - 1.96 * s) mu ?sd, upper_95 = map2 (\<lambda>m s. m + 1.96 * s) mu ?sd\<rparr>"
    using W V ne rows hd L(1) sel by (simp add: predict_def Let_def mu_def)
  moreover have "length mu = T" by (simp add: mu_def)
  ultimately show ?thesis using L(2-5) mu_t by auto
qed

text \<open>C4: \<open>predict\<close> refines the mixture. When every model of the dictionary has a
  weight, the weights sum to 1 and the rows have one length, \<open>predict\<close> returns, at
  every time step, the mixture's mean and the square root of its variance: the
  within-model plus between-model variance of the code is the law of total variance.\<close>

theorem predict_refines_mixture:
  assumes W: "posterior_weights st = Some W" and V: "model_variances st = Some V"
    and weighted: "\<forall>(nm, _) \<in> set mp. map_of W nm \<noteq> None" and ne: "mp \<noteq> []"
    and len: "\<forall>(nm, r) \<in> set mp. length r = T"
    and sum1: "sum_list (map (\<lambda>(nm, _). dict_get W nm 0) mp) = 1"
  shows "\<exists>P. predict st mp = Inr P \<and> length (pred_mean P) = T \<and> length (pred_std P) = T \<and>
     (\<forall>t < T. pred_mean P ! t = mixture_mean (\<lambda>(nm, _). dict_get W nm 0) (\<lambda>(_, r). r ! t) mp \<and>
        pred_std P ! t =
          sqrt (mixture_var (\<lambda>(nm, _). dict_get W nm 0) (\<lambda>(nm, _). dict_get V nm 1) (\<lambda>(_, r). r ! t) mp))"
proof -
  let ?w = "\<lambda>(nm, _). dict_get W nm 0" and ?v = "\<lambda>(nm, _). dict_get V nm 1"
  obtain P where P: "predict st mp = Inr P" "length (pred_mean P) = T" "length (pred_std P) = T"
    "\<forall>t < T. pred_mean P ! t = mixture_mean ?w (\<lambda>(_, r). r ! t) mp \<and>
        pred_std P ! t = sqrt (sum_list (map (\<lambda>(nm, r). dict_get W nm 0 * dict_get V nm 1) mp) +
                               sum_list (map (\<lambda>(nm, r). dict_get W nm 0 * (r ! t - pred_mean P ! t)\<^sup>2) mp))"
    using predict_aligned [OF W V weighted ne len] by blast
  have var_t: "sum_list (map (\<lambda>(nm, r). dict_get W nm 0 * dict_get V nm 1) mp) +
      sum_list (map (\<lambda>(nm, r). dict_get W nm 0 * (r ! t - m)\<^sup>2) mp) = mixture_var ?w ?v (\<lambda>(_, r). r ! t) mp"
    if m: "m = mixture_mean ?w (\<lambda>(_, r). r ! t) mp" for t m
    using law_of_total_variance [of ?w mp ?v "\<lambda>(_, r). r ! t"] sum1 m by (simp add: split_def)
  show ?thesis using P var_t by auto
qed


text \<open>C6: a model whose predictions equal the observations receives strictly more
  weight than any model whose predictions differ from them, when both have the same
  positive prior.\<close>

theorem exact_model_outweighs_inexact:
  assumes "compute_weights st mp obs prior = (Inr W, st')"
    "a \<in> set (model_names st)" "b \<in> set (model_names st)"
    "map_of mp a = Some obs" "map_of mp b = Some p" "length p = length obs" "p \<noteq> obs"
    "prior_of st prior a = prior_of st prior b" "0 < prior_of st prior b"
  shows "dict_get W b 0 < dict_get W a 0"
proof -
  obtain lse where w: "\<And>nm preds. nm \<in> set (model_names st) \<Longrightarrow> map_of mp nm = Some preds \<Longrightarrow>
       0 < prior_of st prior nm \<Longrightarrow>
       \<exists>v l. estimate_variance preds obs = Inr v \<and> compute_log_likelihood preds obs v = Inr l \<and>
             dict_get W nm 0 = exp (ln (prior_of st prior nm) + l - lse)"
    using compute_weights_weights [OF assms(1)] by blast
  have ne: "obs \<noteq> []" using assms(6,7) by auto
  obtain vb lb where b: "estimate_variance p obs = Inr vb" "compute_log_likelihood p obs vb = Inr lb"
      "dict_get W b 0 = exp (ln (prior_of st prior b) + lb - lse)"
    using w [OF assms(3,5,9)] by blast
  obtain va la where a: "estimate_variance obs obs = Inr va" "compute_log_likelihood obs obs va = Inr la"
      "dict_get W a 0 = exp (ln (prior_of st prior a) + la - lse)"
    using w [OF assms(2,4)] assms(8,9) by auto
  have "la = - real (length obs) / 2 * ln (2 * pi * var_eps)" using a(1,2) exact_loglik [OF ne] by simp
  then have "lb < la" using inexact_loglik_lt [OF assms(6,7) b(1,2)] by simp
  then show ?thesis using a(3) b(3) assms(8) by simp
qed

text \<open>The variance estimate is the variance of the residuals about their mean,
  not their mean square: predictions off by a constant offset \<open>c\<close> get the
  variance \<open>1e-10\<close> whatever \<open>c\<close> is.\<close>

theorem estimate_variance_ignores_offset:
  assumes "obs \<noteq> []"
  shows "estimate_variance (map (\<lambda>x. x + c) obs) obs = Inr var_eps"
proof -
  have "map2 (-) obs (map (\<lambda>x. x + c) obs) = replicate (length obs) (- c)"
    by (induction obs) simp_all
  then show ?thesis using assms by (simp add: estimate_variance_def)
qed

section \<open>Examples\<close>

lemma bma_example_weights:
  "\<exists>W st'. compute_weights (bma_init [''A'', ''B'']) [(''A'', [1, 2]), (''B'', [1, 3])] [1, 2] None = (Inr W, st')"
  by (simp add: compute_weights_def bma_init_def estimate_variance_def compute_log_likelihood_def
      log_posteriors_def prior_of_def np_var_def np_mean_def var_eps_def dict_get_def Let_def power2_eq_square)


theorem compute_weights_distribution_witness:
  "\<exists>W st'. compute_weights (bma_init [''A'', ''B'']) [(''A'', [1, 2]), (''B'', [1, 3])] [1, 2] None = (Inr W, st') \<and>
     sum_list (map snd W) = 1 \<and> (\<forall>(nm, w) \<in> set W. 0 \<le> w \<and> w \<le> 1) \<and> posterior_weights st' = Some W"
proof -
  obtain W st' where cw: "compute_weights (bma_init [''A'', ''B'']) [(''A'', [1, 2]), (''B'', [1, 3])] [1, 2] None = (Inr W, st')"
    using bma_example_weights by blast
  then show ?thesis using compute_weights_distribution [OF cw] by blast
qed

theorem exact_model_outweighs_inexact_witness:
  "\<exists>W st'. compute_weights (bma_init [''A'', ''B'']) [(''A'', [1, 2]), (''B'', [1, 3])] [1, 2] None = (Inr W, st') \<and>
     dict_get W ''B'' 0 < dict_get W ''A'' 0"
proof -
  obtain W st' where cw: "compute_weights (bma_init [''A'', ''B'']) [(''A'', [1, 2]), (''B'', [1, 3])] [1, 2] None = (Inr W, st')"
    using bma_example_weights by blast
  have "dict_get W ''B'' 0 < dict_get W ''A'' 0"
    using exact_model_outweighs_inexact [OF cw, of "''A''" "''B''" "[1, 3]"]
    by (simp add: bma_init_def prior_of_def dict_get_def)
  with cw show ?thesis by blast
qed

theorem estimate_variance_ignores_offset_witness:
  "estimate_variance [6, 7, 8] [1, 2, 3] = Inr var_eps"
  using estimate_variance_ignores_offset [of "[1, 2, 3]" 5] by simp

theorem predict_refines_mixture_witness:
  "\<exists>P. predict \<lparr>model_names = [''A'', ''B''], n_models = 2,
                  posterior_weights = Some [(''A'', 1/4), (''B'', 3/4)],
                  model_variances = Some [(''A'', 1), (''B'', 2)]\<rparr>
             [(''A'', [0, 4]), (''B'', [4, 0])] = Inr P \<and>
     length (pred_mean P) = 2 \<and> length (pred_std P) = 2 \<and>
     (\<forall>t < 2. pred_mean P ! t = mixture_mean (\<lambda>(nm, _). dict_get [(''A'', 1/4), (''B'', 3/4)] nm 0) (\<lambda>(_, r). r ! t)
                                 [(''A'', [0, 4]), (''B'', [4, 0])] \<and>
        pred_std P ! t = sqrt (mixture_var (\<lambda>(nm, _). dict_get [(''A'', 1/4), (''B'', 3/4)] nm 0)
                                 (\<lambda>(nm, _). dict_get [(''A'', 1), (''B'', 2)] nm 1) (\<lambda>(_, r). r ! t)
                                 [(''A'', [0, 4]), (''B'', [4, 0])]))"
  by (rule predict_refines_mixture) (simp_all add: dict_get_def del: not_None_eq)


end
