(* ===== verification/BMARun.thy ===== *)
theory BMARun
  imports BMA
begin

text \<open>
  The module function \<open>run_bma\<close> of
  \<open>src/python-backend/algorithms/scientific/bayesian_ensemble.py\<close>: it creates a
  \<open>BayesianModelAveraging\<close> object over the names of the prediction dictionary, computes
  the weights and the prediction on that dictionary, and then the error metrics of each
  model and of the combined mean. The result dictionary is the record \<open>bma_result\<close>;
  its constant entries (the algorithm's name, reference and formulas), the echo of the
  priors and the two counts are not modelled. numpy's mean of an empty array and the
  division \<open>0 / 0\<close> give \<open>nan\<close>, which the service cannot encode: the model returns
  \<open>Inl NonFinite\<close> there.
\<close>

section \<open>Data and operations\<close>

record model_metric =
  mae :: real
  rmse :: real
  bias :: real
  variance :: real

record bma_result =
  posterior :: "real pydict"
  prediction :: bma_prediction
  model_metrics :: "model_metric pydict"
  bma_mae :: real
  bma_rmse :: real
  skill_improvement :: real

text \<open>The metrics of one model: \<open>errors = obs_array - preds\<close>, their mean absolute
  value, root mean square and mean, and the stored variance (default \<open>0\<close>).\<close>

definition model_metric_of :: "vec \<Rightarrow> vec \<Rightarrow> real \<Rightarrow> py_error + model_metric" where
  "model_metric_of preds obs var =
     (case np_sub obs preds of
        Inl e \<Rightarrow> Inl e
      | Inr errs \<Rightarrow>
          (if errs = [] then Inl NonFinite
           else Inr \<lparr>mae = np_mean (map abs errs), rmse = sqrt (np_mean (map (\<lambda>e. e\<^sup>2) errs)),
                     bias = np_mean errs, variance = var\<rparr>))"

text \<open>The loop over \<open>model_names\<close>, the keys of the prediction dictionary in order.\<close>

fun metrics_loop :: "vec pydict \<Rightarrow> vec \<Rightarrow> real pydict \<Rightarrow> model_metric pydict \<Rightarrow>
    py_error + model_metric pydict" where
  "metrics_loop [] obs V acc = Inr acc"
| "metrics_loop ((nm, preds) # rest) obs V acc =
     (case model_metric_of preds obs (dict_get V nm 0) of
        Inl e \<Rightarrow> Inl e
      | Inr m \<Rightarrow> metrics_loop rest obs V (AList.update nm m acc))"

definition run_bma :: "vec pydict \<Rightarrow> vec \<Rightarrow> real pydict option \<Rightarrow> py_error + bma_result" where
  "run_bma mp obs prior =
     (let st = bma_init (map fst mp)
      in case compute_weights st mp obs prior of
           (Inl e, _) \<Rightarrow> Inl e
         | (Inr W, st') \<Rightarrow>
             (case predict st' mp of
                Inl e \<Rightarrow> Inl e
              | Inr P \<Rightarrow>
                  (case model_variances st' of
                     None \<Rightarrow> Inl AttributeError
                   | Some V \<Rightarrow>
                       (case metrics_loop mp obs V [] of
                          Inl e \<Rightarrow> Inl e
                        | Inr M \<Rightarrow>
                            (case np_sub obs (take (length obs) (pred_mean P)) of
                               Inl e \<Rightarrow> Inl e
                             | Inr be \<Rightarrow>
                                 (let denom = np_mean (map (\<lambda>(nm, m). (rmse m)\<^sup>2) M)
                                  in if be = [] \<or> M = [] \<or> denom = 0 then Inl NonFinite
                                     else Inr \<lparr>posterior = W, prediction = P, model_metrics = M,
                                                bma_mae = np_mean (map abs be),
                                                bma_rmse = sqrt (np_mean (map (\<lambda>e. e\<^sup>2) be)),
                                                skill_improvement =
                                                  1 - np_mean (map (\<lambda>e. e\<^sup>2) be) / denom\<rparr>))))))"

section \<open>Lemmas\<close>

lemma run_bma_Inr:
  assumes "run_bma mp obs prior = Inr R"
  shows "\<exists>st' V. compute_weights (bma_init (map fst mp)) mp obs prior = (Inr (posterior R), st') \<and>
           predict st' mp = Inr (prediction R) \<and> model_variances st' = Some V \<and>
           metrics_loop mp obs V [] = Inr (model_metrics R)"
  using assms
  by (auto simp: run_bma_def Let_def split: prod.splits sum.splits option.splits if_splits)

text \<open>In \<open>run_bma\<close> every model of the dictionary is a model of the object, so every
  one of them gets a weight and \<open>predict\<close> reads the rows in order.\<close>

lemma run_bma_weighted:
  assumes "compute_weights (bma_init (map fst mp)) mp obs prior = (Inr W, st')"
  shows "\<forall>(nm, _) \<in> set mp. map_of W nm \<noteq> None"
proof -
  have "\<forall>nm \<in> set (map fst mp). map_of mp nm \<noteq> None \<longrightarrow> map_of W nm \<noteq> None"
    using compute_weights_facts [OF assms] by (simp add: bma_init_def)
  then show ?thesis by (force simp: weak_map_of_SomeI)
qed


lemma model_metric_ok:
  assumes "length r = length obs" "obs \<noteq> []"
  shows "\<exists>m. model_metric_of r obs v = Inr m \<and> (rmse m)\<^sup>2 = np_mean (map (\<lambda>e. e\<^sup>2) (map2 (-) obs r))"
proof -
  have "0 \<le> np_mean (map (\<lambda>e. e\<^sup>2) (map2 (-) obs r))" by (rule np_mean_squares_nonneg)
  moreover have "r \<noteq> []" using assms by auto
  ultimately show ?thesis using assms by (simp add: model_metric_of_def)
qed

lemma metrics_loop_total:
  assumes "obs \<noteq> []" "\<forall>(nm, r) \<in> set xs. length r = length obs"
  shows "\<exists>M. metrics_loop xs obs V acc = Inr M"
  using assms(2)
proof (induction xs arbitrary: acc)
  case (Cons x xs)
  obtain nm r where x: "x = (nm, r)" by (cases x)
  obtain m where "model_metric_of r obs (dict_get V nm 0) = Inr m"
    using model_metric_ok [OF _ assms(1)] Cons.prems x by fastforce
  then show ?case using Cons x by simp
qed simp

lemma metrics_loop_members:
  assumes "metrics_loop xs obs V acc = Inr M" "distinct (map fst xs)" "fst ` set xs \<inter> fst ` set acc = {}"
  shows "set acc \<subseteq> set M \<and>
         (\<forall>(nm, r) \<in> set xs. \<exists>m. model_metric_of r obs (dict_get V nm 0) = Inr m \<and> (nm, m) \<in> set M)"
  using assms
proof (induction xs arbitrary: acc)
  case (Cons x xs)
  obtain nm r where x: "x = (nm, r)" by (cases x)
  obtain m where m: "model_metric_of r obs (dict_get V nm 0) = Inr m"
    and rest: "metrics_loop xs obs V (AList.update nm m acc) = Inr M"
    using Cons.prems(1) x by (auto split: sum.splits)
  have new: "AList.update nm m acc = acc @ [(nm, m)]"
    using Cons.prems(3) x by (intro update_new_key) auto
  have "set (acc @ [(nm, m)]) \<subseteq> set M \<and>
        (\<forall>(nm, r) \<in> set xs. \<exists>m. model_metric_of r obs (dict_get V nm 0) = Inr m \<and> (nm, m) \<in> set M)"
    using Cons.IH [OF rest [unfolded new]] Cons.prems(2,3) x by auto
  then show ?case using m x by auto
qed simp

lemma metrics_loop_exact:
  assumes "metrics_loop xs obs V acc = Inr M" "\<forall>(k, m) \<in> set acc. rmse m = 0" "\<forall>(nm, r) \<in> set xs. r = obs"
  shows "\<forall>(k, m) \<in> set M. rmse m = 0"
  using assms
proof (induction xs arbitrary: acc)
  case (Cons x xs)
  obtain nm r where x: "x = (nm, r)" by (cases x)
  obtain m where m: "model_metric_of obs obs (dict_get V nm 0) = Inr m"
    and rest: "metrics_loop xs obs V (AList.update nm m acc) = Inr M"
    using Cons.prems(1,3) x by (auto split: sum.splits)
  have "rmse m = 0"
    using m by (auto simp: model_metric_of_def map2_minus_self np_mean_zeros split: if_splits)
  then have "\<forall>(k, m') \<in> set (AList.update nm m acc). rmse m' = 0"
    using Cons.prems(2) set_update_subset [of nm m acc] by blast
  then show ?case using Cons.IH [OF rest] Cons.prems(3) by auto
qed simp


text \<open>On well-formed input, \<open>run_bma\<close> gets through the weights, the prediction and the
  metrics, and its outcome is decided by the denominator of \<open>skill_improvement\<close>.\<close>

lemma run_bma_reaches_metrics:
  assumes "mp \<noteq> []" "obs \<noteq> []" "\<forall>(nm, r) \<in> set mp. length r = length obs"
    "\<forall>nm \<in> fst ` set mp. 0 \<le> prior_of (bma_init (map fst mp)) prior nm"
    "\<exists>nm \<in> fst ` set mp. 0 < prior_of (bma_init (map fst mp)) prior nm"
  obtains W st' V M where "compute_weights (bma_init (map fst mp)) mp obs prior = (Inr W, st')"
    "model_variances st' = Some V" "metrics_loop mp obs V [] = Inr M"
    "M = [] \<or> np_mean (map (\<lambda>(nm, m). (rmse m)\<^sup>2) M) = 0 \<Longrightarrow> run_bma mp obs prior = Inl NonFinite"
    "\<not> (M = [] \<or> np_mean (map (\<lambda>(nm, m). (rmse m)\<^sup>2) M) = 0) \<Longrightarrow> \<exists>R. run_bma mp obs prior = Inr R"
proof -
  let ?st = "bma_init (map fst mp)"
  have names: "model_names ?st = map fst mp" by (simp add: bma_init_def)
  have lens: "\<forall>nm \<in> set (model_names ?st). \<forall>p. map_of mp nm = Some p \<longrightarrow> length p = length obs"
    using assms(3) by (auto dest!: map_of_SomeD)
  obtain nm where nm: "nm \<in> fst ` set mp" "0 < prior_of ?st prior nm" using assms(5) by blast
  then have "nm \<in> set (model_names ?st) \<and> map_of mp nm \<noteq> None" by (simp add: names map_of_eq_None_iff)
  then have some: "\<exists>nm \<in> set (model_names ?st). map_of mp nm \<noteq> None \<and> 0 < prior_of ?st prior nm"
    using nm(2) by blast
  obtain W st' where cw: "compute_weights ?st mp obs prior = (Inr W, st')"
    using compute_weights_succeeds [OF assms(2) lens _ some] assms(4) names by auto
  obtain V where W: "posterior_weights st' = Some W" and V: "model_variances st' = Some V"
    using compute_weights_facts [OF cw] by blast
  obtain P where pr: "predict st' mp = Inr P" and lenP: "length (pred_mean P) = length obs"
    using predict_aligned [OF W V run_bma_weighted [OF cw] assms(1,3)] by blast
  obtain M where mloop: "metrics_loop mp obs V [] = Inr M" using metrics_loop_total [OF assms(2,3)] by blast
  have be: "np_sub obs (take (length obs) (pred_mean P)) = Inr (map2 (-) obs (pred_mean P))"
    using lenP by simp
  have ne: "map2 (-) obs (pred_mean P) \<noteq> []" using lenP assms(2) by (cases obs; cases "pred_mean P") auto
  show ?thesis
  proof (rule that [OF cw V mloop])
    assume "M = [] \<or> np_mean (map (\<lambda>(nm, m). (rmse m)\<^sup>2) M) = 0"
    then show "run_bma mp obs prior = Inl NonFinite"
      using cw pr V mloop be by (auto simp: run_bma_def Let_def)
  next
    assume "\<not> (M = [] \<or> np_mean (map (\<lambda>(nm, m). (rmse m)\<^sup>2) M) = 0)"
    then show "\<exists>R. run_bma mp obs prior = Inr R"
      using cw pr V mloop be ne by (simp add: run_bma_def Let_def)
  qed
qed

lemma run_bma_mixture_core:
  assumes cw: "compute_weights (bma_init (map fst mp)) mp obs prior = (Inr W, st')"
    and pr: "predict st' mp = Inr P" and dist: "distinct (map fst mp)"
  shows "sum_list (map snd W) = 1 \<and> map fst W = map fst mp \<and>
    (\<forall>t < length (pred_mean P).
       pred_mean P ! t = mixture_mean (\<lambda>(nm, _). dict_get W nm 0) (\<lambda>(_, r). r ! t) mp \<and>
       pred_std P ! t = sqrt (mixture_var (\<lambda>(nm, _). dict_get W nm 0)
                                (\<lambda>(_, r). projr (estimate_variance r obs)) (\<lambda>(_, r). r ! t) mp) \<and>
       0 \<le> pred_std P ! t \<and> lower_95 P ! t \<le> pred_mean P ! t \<and> pred_mean P ! t \<le> upper_95 P ! t)"
proof -
  let ?st = "bma_init (map fst mp)" and ?w = "\<lambda>(nm, _). dict_get W nm 0"
  let ?v = "\<lambda>(_, r). projr (estimate_variance r obs)"
  have names: "model_names ?st = map fst mp" by (simp add: bma_init_def)
  obtain V where W: "posterior_weights st' = Some W" and V: "model_variances st' = Some V"
    and Vpos: "\<forall>k v. map_of V k = Some v \<longrightarrow> 0 < v" and Wnn: "\<forall>k w. map_of W k = Some w \<longrightarrow> 0 \<le> w"
    using compute_weights_facts [OF cw] by blast
  have weighted: "\<forall>(nm, _) \<in> set mp. map_of W nm \<noteq> None" by (rule run_bma_weighted [OF cw])
  have keys: "map fst W = map fst mp"
    using compute_weights_keys [OF cw] dist names by (simp add: map_of_eq_None_iff)
  have sum: "sum_list (map snd W) = 1"
    using compute_weights_Inr [OF cw] normalise_distribution by blast
  have sum1: "sum_list (map ?w mp) = 1"
  proof -
    have "map ?w mp = map (\<lambda>k. dict_get W k 0) (map fst mp)" by (simp add: case_prod_unfold)
    also have "\<dots> = map (\<lambda>k. dict_get W k 0) (map fst W)" by (simp only: keys)
    also have "\<dots> = map snd W" using dist keys by (intro dict_get_keys) simp
    finally show ?thesis using sum by simp
  qed
  obtain T where mpne: "mp \<noteq> []" and len: "\<forall>(nm, r) \<in> set mp. length r = T"
    using predict_Inr_rows [OF W weighted pr] by blast
  obtain P' where P': "predict st' mp = Inr P'" "length (pred_mean P') = T"
    "\<forall>t < T. pred_mean P' ! t = mixture_mean ?w (\<lambda>(_, r). r ! t) mp \<and>
        pred_std P' ! t = sqrt (sum_list (map (\<lambda>(nm, r). dict_get W nm 0 * dict_get V nm 1) mp) +
                               sum_list (map (\<lambda>(nm, r). dict_get W nm 0 * (r ! t - pred_mean P' ! t)\<^sup>2) mp)) \<and>
        lower_95 P' ! t = pred_mean P' ! t - 1.96 * pred_std P' ! t \<and>
        upper_95 P' ! t = pred_mean P' ! t + 1.96 * pred_std P' ! t"
    using predict_aligned [OF W V weighted mpne len] by blast
  have PP: "P' = P" using P'(1) pr by simp
  have vdict: "dict_get V nm 1 = projr (estimate_variance r obs)" if "(nm, r) \<in> set mp" for nm r
  proof -
    have "map_of mp nm = Some r" using that dist by (rule map_of_is_SomeI [rotated])
    moreover have "nm \<in> set (model_names ?st)" using that names by force
    ultimately obtain V' v where "model_variances st' = Some V'" "estimate_variance r obs = Inr v" "map_of V' nm = Some v"
      using compute_weights_variances [OF cw] by blast
    then show ?thesis using V by simp
  qed
  have within: "sum_list (map (\<lambda>(nm, r). dict_get W nm 0 * dict_get V nm 1) mp) = sum_list (map (\<lambda>x. ?w x * ?v x) mp)"
    using vdict by (intro arg_cong [where f = sum_list] map_cong) auto
  have wnn: "0 \<le> dict_get W nm 0" for nm using Wnn by (intro dict_get_nonneg) auto
  have vnn: "0 \<le> dict_get V nm 1" for nm using Vpos by (intro dict_get_nonneg) (auto intro: less_imp_le)
  show ?thesis
  proof (intro conjI sum keys allI impI)
    fix t assume t: "t < length (pred_mean P)"
    then have tT: "t < T" using P'(2) PP by simp
    let ?m = "pred_mean P ! t"
    have m: "?m = mixture_mean ?w (\<lambda>(_, r). r ! t) mp" using P'(3) tT PP by blast
    have sd: "pred_std P ! t = sqrt (sum_list (map (\<lambda>(nm, r). dict_get W nm 0 * dict_get V nm 1) mp) +
                               sum_list (map (\<lambda>(nm, r). dict_get W nm 0 * (r ! t - ?m)\<^sup>2) mp))"
      using P'(3) tT PP by blast
    have nn1: "0 \<le> sum_list (map (\<lambda>(nm, r). dict_get W nm 0 * dict_get V nm 1) mp)"
      using wnn vnn by (intro sum_list_nonneg) auto
    have nn2: "0 \<le> sum_list (map (\<lambda>(nm, r). dict_get W nm 0 * (r ! t - ?m)\<^sup>2) mp)"
      using wnn by (intro sum_list_nonneg) auto
    have sdnn: "0 \<le> pred_std P ! t" using sd nn1 nn2 by simp
    show "?m = mixture_mean ?w (\<lambda>(_, r). r ! t) mp" by (rule m)
    show "pred_std P ! t = sqrt (mixture_var ?w ?v (\<lambda>(_, r). r ! t) mp)"
      using sd law_of_total_variance [OF sum1, of ?v "\<lambda>(_, r). r ! t"] m within
      by (simp add: split_def)
    show "0 \<le> pred_std P ! t" by (rule sdnn)
    show "lower_95 P ! t \<le> ?m" using P'(3) tT PP sdnn by auto
    show "?m \<le> upper_95 P ! t" using P'(3) tT PP sdnn by auto
  qed
qed


lemma rmse_pos:
  assumes "model_metric_of r obs v = Inr m" "length r = length obs" "r \<noteq> obs"
  shows "0 < (rmse m)\<^sup>2"
proof -
  have ne: "obs \<noteq> []" using assms(2,3) by auto
  obtain m' where m': "model_metric_of r obs v = Inr m'"
    "(rmse m')\<^sup>2 = np_mean (map (\<lambda>e. e\<^sup>2) (map2 (-) obs r))"
    using model_metric_ok [OF assms(2) ne] by blast
  have S: "0 < sum_list (map (\<lambda>e. e\<^sup>2) (map2 (-) obs r))"
    using assms(2,3) by (intro sum_squares_pos) auto
  have "0 < np_mean (map (\<lambda>e. e\<^sup>2) (map2 (-) obs r))"
    unfolding np_mean_def using S ne assms(2) by simp
  then show ?thesis using m' assms(1) by simp
qed

text \<open>C9: \<open>run_bma\<close> returns a result (raises no exception and produces no \<open>nan\<close>)
  whenever the dictionary is non-empty, every prediction row is as long as the
  observations, at least one model is not exact, and the priors of the models are
  non-negative with at least one positive.\<close>

theorem run_bma_succeeds:
  assumes "mp \<noteq> []" "distinct (map fst mp)" "obs \<noteq> []" "\<forall>(nm, r) \<in> set mp. length r = length obs"
    "\<exists>(nm, r) \<in> set mp. r \<noteq> obs"
    "\<forall>nm \<in> fst ` set mp. 0 \<le> prior_of (bma_init (map fst mp)) prior nm"
    "\<exists>nm \<in> fst ` set mp. 0 < prior_of (bma_init (map fst mp)) prior nm"
  shows "\<exists>R. run_bma mp obs prior = Inr R"
proof -
  obtain W st' V M where mloop: "metrics_loop mp obs V [] = Inr M"
    and ok: "\<not> (M = [] \<or> np_mean (map (\<lambda>(nm, m). (rmse m)\<^sup>2) M) = 0) \<Longrightarrow> \<exists>R. run_bma mp obs prior = Inr R"
    using run_bma_reaches_metrics [OF assms(1,3,4,6,7)] by metis
  obtain nm r where nr: "(nm, r) \<in> set mp" "r \<noteq> obs" using assms(5) by blast
  obtain m where m: "model_metric_of r obs (dict_get V nm 0) = Inr m" "(nm, m) \<in> set M"
    using metrics_loop_members [OF mloop assms(2)] nr(1) by fastforce
  have "0 < (rmse m)\<^sup>2" using rmse_pos [OF m(1) _ nr(2)] assms(4) nr(1) by auto
  then have "0 < np_mean (map (\<lambda>(nm, m). (rmse m)\<^sup>2) M)"
    using m(2) by (intro np_mean_pos) force+
  moreover have "M \<noteq> []" using m(2) by auto
  ultimately show ?thesis using ok by simp
qed

text \<open>C5: whenever \<open>run_bma\<close> returns, its weights form a distribution over the
  models of the dictionary, in order, and at every time step its mean and standard
  deviation are those of the mixture whose components have the models' predictions as
  means and their estimated error variances as variances; the standard deviation is
  non-negative and the 95\<open>%\<close> interval contains the mean.\<close>

theorem run_bma_computes_mixture:
  assumes run: "run_bma mp obs prior = Inr R" and dist: "distinct (map fst mp)"
  shows "sum_list (map snd (posterior R)) = 1 \<and> map fst (posterior R) = map fst mp \<and>
    (\<forall>t < length (pred_mean (prediction R)).
       pred_mean (prediction R) ! t =
         mixture_mean (\<lambda>(nm, _). dict_get (posterior R) nm 0) (\<lambda>(_, r). r ! t) mp \<and>
       pred_std (prediction R) ! t = sqrt (mixture_var (\<lambda>(nm, _). dict_get (posterior R) nm 0)
                                (\<lambda>(_, r). projr (estimate_variance r obs)) (\<lambda>(_, r). r ! t) mp) \<and>
       0 \<le> pred_std (prediction R) ! t \<and> lower_95 (prediction R) ! t \<le> pred_mean (prediction R) ! t \<and>
       pred_mean (prediction R) ! t \<le> upper_95 (prediction R) ! t)"
proof -
  obtain st' V where cw: "compute_weights (bma_init (map fst mp)) mp obs prior = (Inr (posterior R), st')"
    and pr: "predict st' mp = Inr (prediction R)"
    using run_bma_Inr [OF run] by blast
  show ?thesis by (rule run_bma_mixture_core [OF cw pr dist])
qed

text \<open>C13: when every model's predictions equal the observations (the two identical,
  exact models of the specification's example among them), every model's RMSE is 0, and
  \<open>skill_improvement\<close> divides 0 by 0: \<open>run_bma\<close> yields \<open>nan\<close> instead of a result.\<close>

theorem run_bma_exact_models_nonfinite:
  assumes "mp \<noteq> []" "obs \<noteq> []" "\<forall>(nm, r) \<in> set mp. r = obs"
    "\<forall>nm \<in> fst ` set mp. 0 \<le> prior_of (bma_init (map fst mp)) prior nm"
    "\<exists>nm \<in> fst ` set mp. 0 < prior_of (bma_init (map fst mp)) prior nm"
  shows "run_bma mp obs prior = Inl NonFinite"
proof -
  have lens: "\<forall>(nm, r) \<in> set mp. length r = length obs" using assms(3) by auto
  obtain W st' V M where mloop: "metrics_loop mp obs V [] = Inr M"
    and nf: "M = [] \<or> np_mean (map (\<lambda>(nm, m). (rmse m)\<^sup>2) M) = 0 \<Longrightarrow> run_bma mp obs prior = Inl NonFinite"
    using run_bma_reaches_metrics [OF assms(1,2) lens assms(4,5)] by metis
  have "\<forall>(k, m) \<in> set M. rmse m = 0" using metrics_loop_exact [OF mloop _ assms(3)] by simp
  then have "np_mean (map (\<lambda>(nm, m). (rmse m)\<^sup>2) M) = 0" by (intro np_mean_zeros) auto
  then show ?thesis using nf by blast
qed

section \<open>Examples\<close>

lemma bma_example_run:
  "\<exists>R. run_bma [(''A'', [1, 2]), (''B'', [1, 3])] [1, 2] None = Inr R"
  by (simp add: run_bma_def predict_def compute_weights_def bma_init_def estimate_variance_def
      compute_log_likelihood_def log_posteriors_def prior_of_def np_var_def np_mean_def var_eps_def
      dict_get_def Let_def power2_eq_square normalise_def model_metric_of_def)

theorem run_bma_succeeds_witness:
  "\<exists>R. run_bma [(''A'', [1, 2]), (''B'', [1, 3])] [1, 2] None = Inr R"
  by (rule run_bma_succeeds) (simp_all add: bma_init_def prior_of_def dict_get_def)

theorem run_bma_computes_mixture_witness:
  "\<exists>R. run_bma [(''A'', [1, 2]), (''B'', [1, 3])] [1, 2] None = Inr R \<and>
     sum_list (map snd (posterior R)) = 1 \<and> map fst (posterior R) = [''A'', ''B''] \<and>
     (\<forall>t < length (pred_mean (prediction R)). 0 \<le> pred_std (prediction R) ! t \<and>
        lower_95 (prediction R) ! t \<le> pred_mean (prediction R) ! t \<and>
        pred_mean (prediction R) ! t \<le> upper_95 (prediction R) ! t)"
proof -
  obtain R where run: "run_bma [(''A'', [1, 2]), (''B'', [1, 3])] [1, 2] None = Inr R"
    using bma_example_run by blast
  have dist: "distinct (map fst [(''A'', [1::real, 2]), (''B'', [1, 3])])" by simp
  note C = run_bma_computes_mixture [OF run dist]
  from C have "map fst (posterior R) = [''A'', ''B'']" by simp
  moreover from C have "sum_list (map snd (posterior R)) = 1" by blast
  moreover from C have "\<forall>t < length (pred_mean (prediction R)). 0 \<le> pred_std (prediction R) ! t \<and>
        lower_95 (prediction R) ! t \<le> pred_mean (prediction R) ! t \<and>
        pred_mean (prediction R) ! t \<le> upper_95 (prediction R) ! t" by blast
  ultimately show ?thesis using run by (intro exI [of _ R]) simp
qed

theorem run_bma_exact_models_nonfinite_witness:
  "run_bma [(''A'', [20, 21, 22]), (''B'', [20, 21, 22])] [20, 21, 22] None = Inl NonFinite"
  by (rule run_bma_exact_models_nonfinite) (simp_all add: bma_init_def prior_of_def dict_get_def)

end
