(* ===== verification/NumPyOrder.thy ===== *)
theory NumPyOrder
  imports NumPy
begin

text \<open>
  Order statistics and boolean indexing of numpy, modelled from the library's
  semantics (they are not code of the repository): \<open>np.min\<close>, \<open>np.max\<close>,
  \<open>np.percentile\<close> with its default linear method, \<open>np.median\<close>,
  \<open>np.where(mask)[0]\<close> and \<open>data[mask]\<close>. A percentile is given as an integer
  number of percent, as every call of the repository does; the virtual index
  \<open>(n - 1) * p / 100\<close> is then split exactly into its integer and fractional parts.
\<close>

section \<open>Definitions\<close>

definition np_min :: "vec \<Rightarrow> real" where
  "np_min xs = hd (sort xs)"

definition np_max :: "vec \<Rightarrow> real" where
  "np_max xs = last (sort xs)"

text \<open>Linear interpolation in a sorted array at the virtual index \<open>h / 100\<close>.\<close>

definition lerp_at :: "vec \<Rightarrow> nat \<Rightarrow> real" where
  "lerp_at s h =
     (let k = h div 100; t = real (h mod 100) / 100
      in if Suc k < length s then s ! k + t * (s ! Suc k - s ! k) else s ! k)"

text \<open>\<open>np.percentile(a, p)\<close>: a percentile above 100 raises \<open>ValueError\<close>, an empty
  array \<open>IndexError\<close>.\<close>

definition np_percentile :: "vec \<Rightarrow> nat \<Rightarrow> py_error + real" where
  "np_percentile xs p =
     (if 100 < p then Inl ValueError
      else if xs = [] then Inl IndexError
      else Inr (lerp_at (sort xs) ((length xs - 1) * p)))"

text \<open>\<open>np.median\<close>: the middle element, or the mean of the two middle elements; the
  median of an empty array is \<open>nan\<close>, here \<open>None\<close>.\<close>

definition np_median :: "vec \<Rightarrow> real option" where
  "np_median xs =
     (let s = sort xs; n = length s
      in if n = 0 then None
         else Some (if even n then (s ! (n div 2 - 1) + s ! (n div 2)) / 2 else s ! (n div 2)))"

definition np_where :: "bool list \<Rightarrow> nat list" where
  "np_where m = filter (\<lambda>i. m ! i) [0..<length m]"

definition np_select :: "vec \<Rightarrow> bool list \<Rightarrow> vec" where
  "np_select xs m = map snd (filter fst (zip m xs))"

section \<open>Lemmas\<close>

lemma np_min_Min: "xs \<noteq> [] \<Longrightarrow> np_min xs = Min (set xs)"
  by (simp add: np_min_def hd_sort_Min)

lemma np_max_Max: "xs \<noteq> [] \<Longrightarrow> np_max xs = Max (set xs)"
  by (simp add: np_max_def last_sort_Max)

lemma sorted_nth_le_last:
  assumes "sorted s" "i < length s"
  shows "s ! i \<le> last s"
proof -
  have "s \<noteq> []" using assms(2) by auto
  then show ?thesis using assms sorted_nth_mono [of s i "length s - 1"] by (simp add: last_conv_nth)
qed

lemma sorted_hd_le_nth:
  assumes "sorted s" "i < length s"
  shows "hd s \<le> s ! i"
proof -
  have "s \<noteq> []" using assms(2) by auto
  then show ?thesis using assms sorted_nth_mono [of s 0 i] by (simp add: hd_conv_nth)
qed

lemma frac100_unit: "0 \<le> real (h mod 100) / 100" "real (h mod 100) / (100::real) \<le> 1"
  by simp_all

text \<open>The interpolated value lies between the two neighbouring elements.\<close>

lemma lerp_at_between:
  assumes "sorted s" "h div 100 < length s"
  shows "s ! (h div 100) \<le> lerp_at s h \<and>
         (Suc (h div 100) < length s \<longrightarrow> lerp_at s h \<le> s ! Suc (h div 100))"
proof (cases "Suc (h div 100) < length s")
  case True
  have le: "s ! (h div 100) \<le> s ! Suc (h div 100)" using assms True by (simp add: sorted_nth_mono)
  show ?thesis
    using lerp_between [OF le frac100_unit] True by (simp add: lerp_at_def Let_def algebra_simps)
next
  case False
  then show ?thesis by (simp add: lerp_at_def Let_def)
qed

lemma lerp_at_range:
  assumes "sorted s" "s \<noteq> []" "h div 100 < length s"
  shows "hd s \<le> lerp_at s h \<and> lerp_at s h \<le> last s"
proof -
  have "hd s \<le> s ! (h div 100)" using assms by (intro sorted_hd_le_nth)
  moreover have "lerp_at s h \<le> last s"
  proof (cases "Suc (h div 100) < length s")
    case True
    then show ?thesis using lerp_at_between [OF assms(1,3)] sorted_nth_le_last [OF assms(1) True] by simp
  next
    case False
    then show ?thesis using sorted_nth_le_last [OF assms(1,3)] by (simp add: lerp_at_def Let_def)
  qed
  ultimately show ?thesis using lerp_at_between [OF assms(1,3)] by linarith
qed

text \<open>Interpolation in a sorted array is monotone in the virtual index.\<close>

lemma lerp_at_mono:
  assumes "sorted s" "h \<le> h'" "h' div 100 < length s"
  shows "lerp_at s h \<le> lerp_at s h'"
proof -
  let ?k = "h div 100" and ?k' = "h' div 100"
  have kk: "?k \<le> ?k'" using assms(2) by (simp add: div_le_mono)
  then have k: "?k < length s" using assms(3) by simp
  show ?thesis
  proof (cases "?k < ?k'")
    case True
    then have up: "lerp_at s h \<le> s ! Suc ?k" using lerp_at_between [OF assms(1) k] assms(3) by auto
    have "s ! Suc ?k \<le> s ! ?k'" using True assms(1,3) by (simp add: sorted_nth_mono)
    moreover have "s ! ?k' \<le> lerp_at s h'" using lerp_at_between [OF assms(1,3)] by simp
    ultimately show ?thesis using up by linarith
  next
    case False
    then have eq: "?k' = ?k" using kk by simp
    then have "h mod 100 \<le> h' mod 100"
      using assms(2) by (metis add_le_cancel_left div_mult_mod_eq)
    then have t: "real (h mod 100) / 100 \<le> real (h' mod 100) / 100" by simp
    show ?thesis
    proof (cases "Suc ?k < length s")
      case True
      have "0 \<le> s ! Suc ?k - s ! ?k" using True assms(1) by (simp add: sorted_nth_mono)
      then have "real (h mod 100) / 100 * (s ! Suc ?k - s ! ?k) \<le> real (h' mod 100) / 100 * (s ! Suc ?k - s ! ?k)"
        by (rule mult_right_mono [OF t])
      then show ?thesis using True eq by (simp add: lerp_at_def Let_def)
    next
      case False
      then show ?thesis using eq by (simp add: lerp_at_def Let_def)
    qed
  qed
qed

lemma percentile_index_bound:
  assumes "p \<le> 100" "xs \<noteq> []"
  shows "(length xs - 1) * p div 100 < length (sort xs)"
proof -
  have "(length xs - 1) * p \<le> (length xs - 1) * 100" using assms(1) by simp
  then have "(length xs - 1) * p div 100 \<le> length xs - 1" by (metis div_le_mono div_mult_self_is_m zero_less_numeral)
  then show ?thesis using assms(2) by (cases xs) auto
qed

lemma np_percentile_Inr:
  assumes "p \<le> 100" "xs \<noteq> []"
  shows "np_percentile xs p = Inr (lerp_at (sort xs) ((length xs - 1) * p))"
  using assms by (simp add: np_percentile_def)

lemma np_percentile_range:
  assumes "p \<le> 100" "xs \<noteq> []"
  shows "Min (set xs) \<le> lerp_at (sort xs) ((length xs - 1) * p) \<and>
         lerp_at (sort xs) ((length xs - 1) * p) \<le> Max (set xs)"
  using lerp_at_range [OF sorted_sort _ percentile_index_bound [OF assms]] assms(2)
  by (simp add: hd_sort_Min last_sort_Max)

lemma np_percentile_mono:
  assumes "p \<le> p'" "p' \<le> 100" "xs \<noteq> []"
  shows "lerp_at (sort xs) ((length xs - 1) * p) \<le> lerp_at (sort xs) ((length xs - 1) * p')"
  using assms by (intro lerp_at_mono percentile_index_bound) auto

lemma np_median_None [simp]: "np_median xs = None \<longleftrightarrow> xs = []"
  by (simp add: np_median_def Let_def)

lemma length_np_where: "length (np_where m) = length (filter id m)"
proof -
  have "length (filter (\<lambda>i. m ! i) [0..<length m]) = length (filter id (map (\<lambda>i. m ! i) [0..<length m]))"
    by (simp add: length_filter_map comp_def)
  also have "map (\<lambda>i. m ! i) [0..<length m] = m" by (rule map_nth)
  finally show ?thesis by (simp add: np_where_def id_def)
qed

lemma np_where_quiet:
  assumes "\<forall>b \<in> set m. \<not> b"
  shows "np_where m = [] \<and> length (filter id m) = 0"
proof
  have "\<forall>i < length m. \<not> m ! i" using assms nth_mem by blast
  then show "np_where m = []" by (simp add: np_where_def filter_empty_conv)
  have "filter id m = []" using assms by (simp add: filter_empty_conv)
  then show "length (filter id m) = 0" by simp
qed

lemma np_where_nth: "i \<in> set (np_where m) \<longleftrightarrow> i < length m \<and> m ! i"
  by (auto simp: np_where_def)

lemma sorted_np_where: "sorted_wrt (<) (np_where m)"
  by (simp add: np_where_def sorted_wrt_filter)

lemma np_where_Cons:
  "np_where (b # m) = (if b then [0] else []) @ map Suc (np_where m)"
proof -
  have "[0..<Suc n] = 0 # map Suc [0..<n]" for n by (simp add: map_Suc_upt upt_conv_Cons del: upt_Suc)
  then have "[0..<length (b # m)] = 0 # map Suc [0..<length m]" by simp
  then show ?thesis by (simp add: np_where_def filter_map comp_def)
qed

lemma np_select_where:
  assumes "length m = length xs"
  shows "np_select xs m = map (\<lambda>i. xs ! i) (np_where m)"
  using assms
proof (induction m xs rule: list_induct2)
  case Nil
  then show ?case by (simp add: np_select_def np_where_def)
next
  case (Cons b m x xs)
  then show ?case by (simp add: np_select_def np_where_Cons comp_def)
qed

end
