(* ===== verification/Anomaly.thy ===== *)
theory Anomaly
  imports NumPyOrder
begin

text \<open>
  Anomaly detection, \<open>src/python-backend/algorithms/scientific/anomaly_detection.py\<close>.
  The object \<open>WeatherAnomalyDetector\<close> is the record \<open>anomaly_detector\<close>; its
  methods do not change it, so each is a function of the detector and the data.
  \<open>detector_detect\<close> is the method \<open>detect\<close>, \<open>detect\<close> the module function of the
  same name that the service calls. The result dictionaries are records, the
  method-specific entry a datatype with one constructor per method.
\<close>

section \<open>Data\<close>

record anomaly_detector =
  det_method :: string
  threshold :: real

definition detector_init :: "string \<Rightarrow> real \<Rightarrow> anomaly_detector" where
  "detector_init m t = \<lparr>det_method = m, threshold = t\<rparr>"

text \<open>The constant \<open>1e-10\<close> added to the spreads before dividing.\<close>

definition std_eps :: real where
  "std_eps = 1 / 10 ^ 10"

record iqr_bounds =
  q1 :: real
  q3 :: real
  iqr :: real
  lower_bound :: real
  upper_bound :: real

datatype method_specific =
    ZScores vec
  | IqrBounds iqr_bounds
  | ModifiedZScores vec

record detection =
  mask :: "bool list"
  anomaly_indices :: "nat list"
  anomaly_values :: vec
  n_anomalies :: nat
  method_specific :: method_specific

record classification =
  mild :: "nat list"
  moderate :: "nat list"
  severe :: "nat list"

record data_stats =
  st_mean :: real
  st_std :: real
  st_min :: real
  st_max :: real

record anomaly_report =
  rep_method :: string
  rep_threshold :: real
  total_points :: nat
  rep_n_anomalies :: nat
  anomaly_rate :: real
  rep_indices :: "nat list"
  rep_values :: vec
  severity :: classification
  method_details :: method_specific
  original :: data_stats
  cleaned :: "data_stats option"

section \<open>Operations\<close>

text \<open>\<open>detect_zscore\<close>: \<open>z = (x - mean) / (std + 1e-10)\<close>, flagged when \<open>|z| > threshold\<close>.
  On an empty array the mean is \<open>nan\<close> but never reaches the (empty) results.\<close>

definition detect_zscore :: "anomaly_detector \<Rightarrow> vec \<Rightarrow> bool list \<times> vec" where
  "detect_zscore d data =
     (let m = np_mean data; s = np_std data;
          z = map (\<lambda>x. (x - m) / (s + std_eps)) data
      in (map (\<lambda>v. threshold d < \<bar>v\<bar>) z, z))"

text \<open>\<open>detect_iqr\<close>: the quartiles by \<open>np.percentile\<close>, the fences \<open>Q1 - k IQR\<close> and
  \<open>Q3 + k IQR\<close>, flagged strictly outside them.\<close>

definition detect_iqr :: "anomaly_detector \<Rightarrow> vec \<Rightarrow> py_error + bool list \<times> iqr_bounds" where
  "detect_iqr d data =
     (case np_percentile data 25 of
        Inl e \<Rightarrow> Inl e
      | Inr a \<Rightarrow>
          (case np_percentile data 75 of
             Inl e \<Rightarrow> Inl e
           | Inr b \<Rightarrow>
               (let i = b - a; lo = a - threshold d * i; hi = b + threshold d * i
                in Inr (map (\<lambda>x. x < lo \<or> hi < x) data,
                        \<lparr>q1 = a, q3 = b, iqr = i, lower_bound = lo, upper_bound = hi\<rparr>))))"

text \<open>\<open>detect_modified_zscore\<close>: \<open>0.6745 (x - median) / (MAD + 1e-10)\<close>.\<close>

definition detect_modified_zscore :: "anomaly_detector \<Rightarrow> vec \<Rightarrow> bool list \<times> vec" where
  "detect_modified_zscore d data =
     (case np_median data of
        None \<Rightarrow> ([], [])
      | Some med \<Rightarrow>
          (case np_median (map (\<lambda>x. \<bar>x - med\<bar>) data) of
             None \<Rightarrow> ([], [])
           | Some mad \<Rightarrow>
               (let mz = map (\<lambda>x. 0.6745 * (x - med) / (mad + std_eps)) data
                in (map (\<lambda>v. threshold d < \<bar>v\<bar>) mz, mz))))"

text \<open>The method \<open>detect\<close>: dispatch on the method name, then the indices and values of
  the flagged points.\<close>

definition detector_detect :: "anomaly_detector \<Rightarrow> vec \<Rightarrow> py_error + detection" where
  "detector_detect d data =
     (let r = (if det_method d = ''zscore''
               then (case detect_zscore d data of (m, s) \<Rightarrow> Inr (m, ZScores s))
               else if det_method d = ''iqr''
               then (case detect_iqr d data of Inl e \<Rightarrow> Inl e | Inr (m, b) \<Rightarrow> Inr (m, IqrBounds b))
               else if det_method d = ''modified_zscore''
               then (case detect_modified_zscore d data of (m, s) \<Rightarrow> Inr (m, ModifiedZScores s))
               else Inl ValueError)
      in case r of
           Inl e \<Rightarrow> Inl e
         | Inr (m, ms) \<Rightarrow>
             Inr \<lparr>mask = m, anomaly_indices = np_where m, anomaly_values = np_select data m,
                  n_anomalies = length (filter id m), method_specific = ms\<rparr>)"

text \<open>\<open>get_anomaly_classification\<close>: severity classes of the absolute z-scores.\<close>

definition get_anomaly_classification :: "anomaly_detector \<Rightarrow> vec \<Rightarrow> classification" where
  "get_anomaly_classification d data =
     (let m = np_mean data; s = np_std data;
          z = map (\<lambda>x. \<bar>(x - m) / (s + std_eps)\<bar>) data
      in \<lparr>mild = np_where (map (\<lambda>v. 2 < v \<and> v \<le> 3) z),
          moderate = np_where (map (\<lambda>v. 3 < v \<and> v \<le> 4) z),
          severe = np_where (map (\<lambda>v. 4 < v) z)\<rparr>)"

definition stats_of :: "vec \<Rightarrow> data_stats" where
  "stats_of xs = \<lparr>st_mean = np_mean xs, st_std = np_std xs, st_min = np_min xs, st_max = np_max xs\<rparr>"

text \<open>The module function \<open>detect\<close>. The entries of the result are evaluated in order,
  so on an empty series the anomaly rate's division by \<open>len(data)\<close> raises
  \<open>ZeroDivisionError\<close> before \<open>np.min\<close> is reached. The constant entries of the
  result (names and formulas) are not modelled.\<close>

definition detect :: "vec \<Rightarrow> string \<Rightarrow> real \<Rightarrow> py_error + anomaly_report" where
  "detect data meth thr =
     (let d = detector_init meth thr
      in case detector_detect d data of
           Inl e \<Rightarrow> Inl e
         | Inr r \<Rightarrow>
             (let cls = get_anomaly_classification d data;
                  clean = np_select data (map Not (mask r))
              in if data = [] then Inl ZeroDivisionError
                 else Inr \<lparr>rep_method = meth, rep_threshold = thr, total_points = length data,
                           rep_n_anomalies = n_anomalies r,
                           anomaly_rate = real (n_anomalies r) / real (length data) * 100,
                           rep_indices = anomaly_indices r, rep_values = anomaly_values r,
                           severity = cls, method_details = method_specific r,
                           original = stats_of data,
                           cleaned = (if clean = [] then None else Some (stats_of clean))\<rparr>))"

section \<open>Lemmas\<close>

lemma std_eps_pos [simp]: "0 < std_eps"
  by (simp add: std_eps_def)

lemma length_np_select:
  "length m = length xs \<Longrightarrow> length (np_select xs m) = length (filter id m)"
  by (simp add: np_select_where length_np_where)

text \<open>Every z-score lies within \<open>\<surd>(n - 1)\<close> of zero (Samuelson's inequality).\<close>

lemma zscore_abs_le:
  assumes "v \<in> set (snd (detect_zscore d data))"
  shows "\<bar>v\<bar> \<le> sqrt (real (length data) - 1)"
proof -
  let ?m = "np_mean data" and ?s = "np_std data" and ?r = "sqrt (real (length data) - 1)"
  obtain x where x: "x \<in> set data" and v: "v = (x - ?m) / (?s + std_eps)"
    using assms by (auto simp: detect_zscore_def Let_def)
  have n: "1 \<le> real (length data)" using x by (cases data) auto
  have "(x - ?m)\<^sup>2 \<le> (real (length data) - 1) * np_var data" using x by (rule samuelson)
  then have "sqrt ((x - ?m)\<^sup>2) \<le> sqrt ((real (length data) - 1) * np_var data)"
    by (rule real_sqrt_le_mono)
  then have dev: "\<bar>x - ?m\<bar> \<le> ?r * ?s" using n by (simp add: real_sqrt_mult np_std_def)
  have s: "0 \<le> ?s" by (rule np_std_nonneg)
  have n': "Suc 0 \<le> length data" using x by (cases data) auto
  have "?r * ?s \<le> ?r * (?s + std_eps)" using less_imp_le [OF std_eps_pos] n' by (intro mult_left_mono) auto
  then have "\<bar>x - ?m\<bar> \<le> ?r * (?s + std_eps)" using dev by linarith
  then have dev2: "\<bar>x - ?m\<bar> \<le> ?r * (?s + std_eps)" .
  have pos: "0 < ?s + std_eps" using s std_eps_pos by linarith
  have "\<bar>v\<bar> = \<bar>x - ?m\<bar> / (?s + std_eps)" using pos by (simp add: v abs_divide)
  also have "\<dots> \<le> ?r" by (simp only: pos_divide_le_eq [OF pos]) (rule dev2)
  finally show ?thesis .
qed

lemma detect_zscore_quiet:
  assumes "sqrt (real (length data) - 1) \<le> threshold d"
  shows "\<forall>b \<in> set (fst (detect_zscore d data)). \<not> b"
proof -
  have fs: "fst (detect_zscore d data) = map (\<lambda>v. threshold d < \<bar>v\<bar>) (snd (detect_zscore d data))"
    by (simp add: detect_zscore_def Let_def)
  have "\<not> threshold d < \<bar>v\<bar>" if "v \<in> set (snd (detect_zscore d data))" for v
    using zscore_abs_le [OF that] assms by linarith
  then show ?thesis unfolding fs by auto
qed

lemma detector_detect_Inr:
  assumes "detector_detect d data = Inr r"
  shows "length (mask r) = length data \<and> anomaly_indices r = np_where (mask r) \<and>
         anomaly_values r = np_select data (mask r) \<and> n_anomalies r = length (filter id (mask r))"
  using assms
  by (auto simp: detector_detect_def detect_zscore_def detect_iqr_def detect_modified_zscore_def Let_def
      split: if_splits sum.splits option.splits prod.splits)

lemma detector_detect_zscore:
  "detector_detect (detector_init ''zscore'' thr) data =
     Inr \<lparr>mask = fst (detect_zscore (detector_init ''zscore'' thr) data),
          anomaly_indices = np_where (fst (detect_zscore (detector_init ''zscore'' thr) data)),
          anomaly_values = np_select data (fst (detect_zscore (detector_init ''zscore'' thr) data)),
          n_anomalies = length (filter id (fst (detect_zscore (detector_init ''zscore'' thr) data))),
          method_specific = ZScores (snd (detect_zscore (detector_init ''zscore'' thr) data))\<rparr>"
  by (simp add: detector_detect_def detector_init_def split: prod.split)

lemma detect_Inr:
  assumes "detect data meth thr = Inr rep"
  shows "\<exists>r. detector_detect (detector_init meth thr) data = Inr r \<and> data \<noteq> [] \<and>
           total_points rep = length data \<and> rep_n_anomalies rep = n_anomalies r \<and>
           anomaly_rate rep = real (n_anomalies r) / real (length data) * 100 \<and>
           rep_indices rep = anomaly_indices r \<and> rep_values rep = anomaly_values r \<and>
           cleaned rep = (if np_select data (map Not (mask r)) = [] then None
                          else Some (stats_of (np_select data (map Not (mask r)))))"
proof (cases "detector_detect (detector_init meth thr) data")
  case (Inl e)
  then show ?thesis using assms by (simp add: detect_def)
next
  case (Inr r)
  have ne: "data \<noteq> []"
  proof
    assume "data = []"
    then show False using assms Inr by (simp add: detect_def)
  qed
  have "rep = \<lparr>rep_method = meth, rep_threshold = thr, total_points = length data,
                rep_n_anomalies = n_anomalies r,
                anomaly_rate = real (n_anomalies r) / real (length data) * 100,
                rep_indices = anomaly_indices r, rep_values = anomaly_values r,
                severity = get_anomaly_classification (detector_init meth thr) data,
                method_details = method_specific r, original = stats_of data,
                cleaned = (if np_select data (map Not (mask r)) = [] then None
                           else Some (stats_of (np_select data (map Not (mask r)))))\<rparr>"
    using assms Inr ne unfolding detect_def Let_def by simp
  then show ?thesis using Inr ne by simp
qed

lemma detect_zscore_exists:
  "data \<noteq> [] \<Longrightarrow> \<exists>rep. detect data ''zscore'' thr = Inr rep"
  by (simp add: detect_def detector_detect_zscore Let_def)

lemma detector_detect_Inl:
  "detector_detect d data = Inl e \<longleftrightarrow>
     (det_method d \<notin> set [''zscore'', ''iqr'', ''modified_zscore''] \<and> e = ValueError) \<or>
     (det_method d = ''iqr'' \<and> data = [] \<and> e = IndexError)"
  by (auto simp: detector_detect_def detect_iqr_def np_percentile_def Let_def
      split: prod.splits sum.splits if_splits)

lemma length_mask_le: "length (filter id m) \<le> length m"
  by (rule length_filter_le)

lemma length_filter_Not: "length (filter id (map Not m)) = length m - length (filter id m)"
proof -
  have "length (filter id (map Not m)) = length (filter Not m)" by (simp add: comp_def)
  also have "\<dots> = length m - length (filter id m)"
    using sum_length_filter_compl [of id m] by (simp add: comp_def)
  finally show ?thesis .
qed

section \<open>Properties\<close>

text \<open>C14: with the z-score method, a series of \<open>n\<close> points can have no anomaly when the
  threshold is at least \<open>\<surd>(n - 1)\<close>: by Samuelson's inequality no population z-score
  exceeds \<open>\<surd>(n - 1)\<close>. At the default threshold 3 the detector never flags a point of
  a series of at most 10 values.\<close>

theorem zscore_quiet_small_samples:
  assumes "detect data ''zscore'' thr = Inr rep" "sqrt (real (length data) - 1) \<le> thr"
  shows "rep_indices rep = [] \<and> rep_n_anomalies rep = 0 \<and> anomaly_rate rep = 0"
proof -
  obtain r where r: "detector_detect (detector_init ''zscore'' thr) data = Inr r"
    and rep: "rep_n_anomalies rep = n_anomalies r" "rep_indices rep = anomaly_indices r"
      "anomaly_rate rep = real (n_anomalies r) / real (length data) * 100"
    using detect_Inr [OF assms(1)] by blast
  have "\<forall>b \<in> set (fst (detect_zscore (detector_init ''zscore'' thr) data)). \<not> b"
    using assms(2) by (intro detect_zscore_quiet) (simp add: detector_init_def)
  then have "np_where (fst (detect_zscore (detector_init ''zscore'' thr) data)) = [] \<and>
             length (filter id (fst (detect_zscore (detector_init ''zscore'' thr) data))) = 0"
    by (rule np_where_quiet)
  then show ?thesis using r rep by (auto simp: detector_detect_zscore)
qed

theorem zscore_quiet_small_samples_witness:
  "\<exists>rep. detect [1, 2, 3, 40] ''zscore'' 2 = Inr rep \<and> sqrt (real (length [1, 2, 3, 40::real]) - 1) \<le> 2 \<and>
     rep_indices rep = [] \<and> rep_n_anomalies rep = 0 \<and> anomaly_rate rep = 0"
proof -
  obtain rep where run: "detect [1, 2, 3, 40] ''zscore'' 2 = Inr rep" using detect_zscore_exists by blast
  have "sqrt (real (length [1, 2, 3, 40::real]) - 1) = sqrt 3" by simp
  also have "\<dots> \<le> sqrt 4" by (subst real_sqrt_le_iff) simp
  also have "\<dots> = 2" by (simp add: real_sqrt_four)
  finally have s: "sqrt (real (length [1, 2, 3, 40::real]) - 1) \<le> 2" .
  show ?thesis using zscore_quiet_small_samples [OF run s] run s by blast
qed


text \<open>The example of the module's docstring, \<open>detect([20, 21, 22, 50, 21, 22, 20],
  "zscore", 3.0)\<close>, which the docstring says flags index 3, flags nothing: seven points
  allow no z-score above \<open>\<surd>6 < 3\<close>.\<close>

theorem docstring_example_flags_nothing:
  "\<exists>rep. detect [20, 21, 22, 50, 21, 22, 20] ''zscore'' 3 = Inr rep \<and> rep_indices rep = []"
proof -
  obtain rep where run: "detect [20, 21, 22, 50, 21, 22, 20] ''zscore'' 3 = Inr rep"
    using detect_zscore_exists by blast
  then obtain r where r: "detector_detect (detector_init ''zscore'' 3) [20, 21, 22, 50, 21, 22, 20] = Inr r"
    and idx: "rep_indices rep = anomaly_indices r"
    using detect_Inr by blast
  have "sqrt (real (length [20, 21, 22, 50, 21, 22, 20::real]) - 1) = sqrt 6" by simp
  also have "\<dots> \<le> sqrt 9" by (subst real_sqrt_le_iff) simp
  also have "\<dots> = 3" by (simp add: real_sqrt_eq_iff [symmetric])
  finally have "\<forall>b \<in> set (fst (detect_zscore (detector_init ''zscore'' 3) [20, 21, 22, 50, 21, 22, 20])). \<not> b"
    by (intro detect_zscore_quiet) (simp add: detector_init_def)
  then have "np_where (fst (detect_zscore (detector_init ''zscore'' 3) [20, 21, 22, 50, 21, 22, 20])) = []"
    using np_where_quiet by blast
  then show ?thesis using run r idx by (auto simp: detector_detect_zscore)
qed

text \<open>The IQR fences. The quartiles lie within the data and in order, the IQR is
  their difference, and with a non-negative multiplier no point between the quartiles
  is flagged.\<close>

theorem iqr_fences:
  assumes "detect_iqr d data = Inr (m, b)"
  shows "Min (set data) \<le> q1 b \<and> q1 b \<le> q3 b \<and> q3 b \<le> Max (set data) \<and> iqr b = q3 b - q1 b \<and>
         length m = length data \<and>
         (0 \<le> threshold d \<longrightarrow> (\<forall>i < length data. q1 b \<le> data ! i \<and> data ! i \<le> q3 b \<longrightarrow> \<not> m ! i))"
proof -
  have ne: "data \<noteq> []" using assms by (auto simp: detect_iqr_def np_percentile_def)
  let ?a = "lerp_at (sort data) ((length data - 1) * 25)" and ?b = "lerp_at (sort data) ((length data - 1) * 75)"
  have b: "b = \<lparr>q1 = ?a, q3 = ?b, iqr = ?b - ?a, lower_bound = ?a - threshold d * (?b - ?a),
               upper_bound = ?b + threshold d * (?b - ?a)\<rparr>"
    and m: "m = map (\<lambda>x. x < ?a - threshold d * (?b - ?a) \<or> ?b + threshold d * (?b - ?a) < x) data"
    using assms ne by (simp_all add: detect_iqr_def np_percentile_Inr Let_def)
  have lo: "Min (set data) \<le> ?a" using np_percentile_range [of 25 data] ne by simp
  have hi: "?b \<le> Max (set data)" using np_percentile_range [of 75 data] ne by simp
  have mono: "?a \<le> ?b" using np_percentile_mono [of 25 75 data] ne by simp
  have "\<not> m ! i" if "0 \<le> threshold d" "i < length data" "?a \<le> data ! i" "data ! i \<le> ?b" for i
  proof -
    have t: "0 \<le> threshold d * (?b - ?a)" using that(1) mono by simp
    have "m ! i = (data ! i < ?a - threshold d * (?b - ?a) \<or> ?b + threshold d * (?b - ?a) < data ! i)"
      using that(2) m by simp
    then show ?thesis using t that(3,4) by linarith
  qed
  then show ?thesis using lo hi mono b m by simp
qed

theorem iqr_fences_witness:
  "detect_iqr (detector_init ''iqr'' 1.5) [1, 2, 3, 4, 100] =
     Inr ([False, False, False, False, True], \<lparr>q1 = 2, q3 = 4, iqr = 2, lower_bound = -1, upper_bound = 7\<rparr>) \<and>
   Min (set [1, 2, 3, 4, 100::real]) \<le> 2 \<and> (2::real) \<le> 4 \<and> 4 \<le> Max (set [1, 2, 3, 4, 100::real])"
proof -
  have run: "detect_iqr (detector_init ''iqr'' 1.5) [1, 2, 3, 4, 100] =
     Inr ([False, False, False, False, True], \<lparr>q1 = 2, q3 = 4, iqr = 2, lower_bound = -1, upper_bound = 7\<rparr>)"
    by (simp add: detect_iqr_def np_percentile_def lerp_at_def detector_init_def)
  show ?thesis using iqr_fences [OF run] run by simp
qed

text \<open>C15: the detection result is consistent with its mask: the anomaly values are the
  data at the anomaly indices, which are increasing, in range and flagged, and the count
  is their number.\<close>

theorem detection_consistent:
  assumes "detector_detect d data = Inr r"
  shows "length (mask r) = length data \<and> anomaly_values r = map (\<lambda>i. data ! i) (anomaly_indices r) \<and>
         n_anomalies r = length (anomaly_indices r) \<and> sorted_wrt (<) (anomaly_indices r) \<and>
         (\<forall>i \<in> set (anomaly_indices r). i < length data \<and> mask r ! i)"
  using detector_detect_Inr [OF assms]
  by (simp add: np_select_where length_np_where sorted_np_where np_where_nth)

theorem detection_consistent_witness:
  "\<exists>r. detector_detect (detector_init ''iqr'' 1.5) [1, 2, 3, 4, 100] = Inr r \<and>
     anomaly_values r = map (\<lambda>i. [1, 2, 3, 4, 100::real] ! i) (anomaly_indices r) \<and>
     n_anomalies r = length (anomaly_indices r)"
proof -
  obtain r where run: "detector_detect (detector_init ''iqr'' 1.5) [1, 2, 3, 4, 100::real] = Inr r"
    by (simp add: detector_detect_def detect_iqr_def np_percentile_def lerp_at_def detector_init_def)
  show ?thesis using detection_consistent [OF run] run by blast
qed


text \<open>The severity classes agree with the z-score detector: \<open>severe\<close> is the set of
  points the z-score method flags at threshold 4, the three classes together are the
  points it flags at threshold 2, and the classes are pairwise disjoint.\<close>

theorem classification_matches_zscore:
  "severe (get_anomaly_classification d data) = np_where (fst (detect_zscore (detector_init ''zscore'' 4) data)) \<and>
   set (mild (get_anomaly_classification d data)) \<union> set (moderate (get_anomaly_classification d data)) \<union>
     set (severe (get_anomaly_classification d data)) =
     set (np_where (fst (detect_zscore (detector_init ''zscore'' 2) data))) \<and>
   set (mild (get_anomaly_classification d data)) \<inter> set (moderate (get_anomaly_classification d data)) = {} \<and>
   set (mild (get_anomaly_classification d data)) \<inter> set (severe (get_anomaly_classification d data)) = {} \<and>
   set (moderate (get_anomaly_classification d data)) \<inter> set (severe (get_anomaly_classification d data)) = {}"
proof -
  let ?z = "\<lambda>x. (x - np_mean data) / (np_std data + std_eps)"
  have sev: "severe (get_anomaly_classification d data) = np_where (fst (detect_zscore (detector_init ''zscore'' 4) data))"
    by (simp add: get_anomaly_classification_def detect_zscore_def detector_init_def Let_def comp_def)
  have cls: "set (mild (get_anomaly_classification d data)) = {i. i < length data \<and> 2 < \<bar>?z (data ! i)\<bar> \<and> \<bar>?z (data ! i)\<bar> \<le> 3}"
      "set (moderate (get_anomaly_classification d data)) = {i. i < length data \<and> 3 < \<bar>?z (data ! i)\<bar> \<and> \<bar>?z (data ! i)\<bar> \<le> 4}"
      "set (severe (get_anomaly_classification d data)) = {i. i < length data \<and> 4 < \<bar>?z (data ! i)\<bar>}"
    by (auto simp: get_anomaly_classification_def Let_def np_where_nth)
  have two: "set (np_where (fst (detect_zscore (detector_init ''zscore'' 2) data))) =
             {i. i < length data \<and> 2 < \<bar>?z (data ! i)\<bar>}"
    by (auto simp: detect_zscore_def detector_init_def Let_def np_where_nth)
  show ?thesis using sev unfolding cls two by auto
qed

text \<open>C16: the outcome of the module function \<open>detect\<close> on every input: an unknown
  method raises \<open>ValueError\<close>; an empty series raises \<open>IndexError\<close> in
  \<open>np.percentile\<close> for the IQR method and \<open>ZeroDivisionError\<close> in the anomaly rate
  for the other two; every other call returns a report.\<close>

theorem detect_outcome:
  "detect data meth thr \<in>
     (if meth \<notin> set [''zscore'', ''iqr'', ''modified_zscore''] then {Inl ValueError}
      else if data = [] then {if meth = ''iqr'' then Inl IndexError else Inl ZeroDivisionError}
      else range Inr)"
proof (cases "detector_detect (detector_init meth thr) data")
  case (Inl e)
  then have det: "detect data meth thr = Inl e" by (simp add: detect_def)
  from Inl have "(meth \<notin> set [''zscore'', ''iqr'', ''modified_zscore''] \<and> e = ValueError) \<or>
                 (meth = ''iqr'' \<and> data = [] \<and> e = IndexError)"
    by (simp add: detector_detect_Inl detector_init_def)
  then show ?thesis using det by auto
next
  case (Inr r)
  then have ok: "meth \<in> set [''zscore'', ''iqr'', ''modified_zscore''] \<and> \<not> (meth = ''iqr'' \<and> data = [])"
    using detector_detect_Inl [of "detector_init meth thr" data ValueError]
          detector_detect_Inl [of "detector_init meth thr" data IndexError]
    by (auto simp: detector_init_def)
  show ?thesis
  proof (cases "data = []")
    case True
    then have "detect data meth thr = Inl ZeroDivisionError" using Inr by (simp add: detect_def Let_def)
    then show ?thesis using ok True by auto
  next
    case False
    then have "detect data meth thr \<in> range Inr" using Inr by (simp add: detect_def Let_def)
    then show ?thesis using ok False by auto
  qed
qed

text \<open>The reported rate is a percentage, and the cleaned statistics are absent exactly
  when every point is an anomaly.\<close>

theorem report_rate_bounds:
  assumes "detect data meth thr = Inr rep"
  shows "0 \<le> anomaly_rate rep \<and> anomaly_rate rep \<le> 100 \<and> rep_n_anomalies rep \<le> total_points rep \<and>
         (cleaned rep = None \<longleftrightarrow> rep_n_anomalies rep = total_points rep)"
proof -
  obtain r where r: "detector_detect (detector_init meth thr) data = Inr r" and ne: "data \<noteq> []"
    and rep: "total_points rep = length data" "rep_n_anomalies rep = n_anomalies r"
      "anomaly_rate rep = real (n_anomalies r) / real (length data) * 100"
      "cleaned rep = (if np_select data (map Not (mask r)) = [] then None
                      else Some (stats_of (np_select data (map Not (mask r)))))"
    using detect_Inr [OF assms] by blast
  note c = detector_detect_Inr [OF r]
  have k: "n_anomalies r \<le> length data" using c length_mask_le [of "mask r"] by simp
  have "length (np_select data (map Not (mask r))) = length (filter id (map Not (mask r)))"
    by (rule length_np_select) (simp add: c)
  also have "\<dots> = length data - n_anomalies r" using c by (simp only: length_filter_Not)
  finally have "length (np_select data (map Not (mask r))) = length data - n_anomalies r" .
  then have clean: "np_select data (map Not (mask r)) = [] \<longleftrightarrow> n_anomalies r = length data"
    using k by auto
  have "real (n_anomalies r) / real (length data) \<le> 1" using k ne by simp
  then have "real (n_anomalies r) / real (length data) * 100 \<le> 1 * 100" by (rule mult_right_mono) simp_all
  then have le: "anomaly_rate rep \<le> 100" by (simp only: rep(3))
  have ge: "0 \<le> anomaly_rate rep" by (simp only: rep(3)) simp
  show ?thesis using le ge rep(1,2,4) k clean by auto
qed

theorem report_rate_bounds_witness:
  "\<exists>rep. detect [1, 2, 3, 4, 100] ''iqr'' 1.5 = Inr rep \<and> 0 \<le> anomaly_rate rep \<and> anomaly_rate rep \<le> 100 \<and>
     (cleaned rep = None \<longleftrightarrow> rep_n_anomalies rep = total_points rep)"
proof -
  obtain rep where run: "detect [1, 2, 3, 4, 100::real] ''iqr'' 1.5 = Inr rep"
    by (simp add: detect_def detector_detect_def detect_iqr_def np_percentile_def lerp_at_def
        detector_init_def Let_def)
  show ?thesis using report_rate_bounds [OF run] run by (intro exI [of _ rep]) simp
qed

end
