(* ===== verification/Trend.thy ===== *)
theory Trend
  imports NumPyOrder
begin

text \<open>
  Trend analysis, \<open>src/python-backend/algorithms/scientific/trend_analysis.py\<close>: the
  Mann-Kendall test and Sen's slope of the class \<open>TrendAnalyzer\<close>, and the module
  function \<open>analyze\<close>. The object holds only \<open>alpha\<close>, which no method changes. The
  library routines the code calls and the repository does not define (scipy's normal
  \<open>cdf\<close> and \<open>ppf\<close>, \<open>scipy.stats.linregress\<close>, and the optional package
  \<open>pymannkendall\<close>) are the fields of the record \<open>trend_lib\<close>, a parameter of the model:
  \<open>mk_original = None\<close> is the \<open>ImportError\<close> branch (\<open>HAS_MK = False\<close>), and
  \<open>mk_seasonal\<close> returns \<open>None\<close> where the seasonal test raises.
  The double loops over index pairs \<open>i < j\<close> are folds over \<open>mk_pairs n\<close>, the pairs in
  the loops' order. Python's \<open>int()\<close> of a float truncates towards zero (\<open>py_int\<close>) and
  a list index may be negative (\<open>py_nth\<close>).
\<close>

section \<open>Library interface and data\<close>

record pmk_result =
  pmk_trend :: string
  pmk_h :: bool
  pmk_p :: real
  pmk_z :: real
  pmk_tau :: real
  pmk_s :: real
  pmk_slope :: real
  pmk_intercept :: real

record seasonal_result =
  seas_trend :: string
  seas_p :: real
  seas_z :: real

record linreg =
  lr_slope :: real
  lr_intercept :: real
  lr_r :: real
  lr_p :: real
  lr_stderr :: real

record trend_lib =
  norm_cdf :: "real \<Rightarrow> real"
  norm_ppf :: "real \<Rightarrow> real"
  linregress :: "vec \<Rightarrow> vec \<Rightarrow> linreg"
  mk_original :: "(vec \<Rightarrow> pmk_result) option"
  mk_seasonal :: "vec \<Rightarrow> seasonal_result option"

record trend_analyzer =
  alpha :: real

definition trend_analyzer_init :: "real \<Rightarrow> trend_analyzer" where
  "trend_analyzer_init a = \<lparr>alpha = a\<rparr>"

record mk_result =
  s_statistic :: int
  var_s :: real
  z_statistic :: real
  p_value :: real
  trend :: string
  significant :: bool
  n_ties :: nat
  mk_alpha :: real

record sens_result =
  median_slope :: real
  slope_per_unit :: real
  lower_ci :: "real option"
  upper_ci :: "real option"
  n_slopes_computed :: nat
  intercept :: real

record trend_summary =
  trend_direction :: string
  is_significant :: bool
  summary_slope :: real
  change_per_decade :: real
  total_change :: real
  percent_change :: "real option"

record trend_analysis =
  mann_kendall :: mk_result
  sens :: sens_result
  summary :: trend_summary

record data_info =
  n_observations :: nat
  first_value :: real
  last_value :: real
  info_mean :: real
  info_std :: real

record trend_report =
  report_info :: data_info
  mann_kendall_result :: mk_result
  sens_slope_result :: sens_result
  linear_regression :: linreg
  pymannkendall :: "(pmk_result \<times> seasonal_result option) option"
  report_summary :: trend_summary

section \<open>Python helpers\<close>

text \<open>The pairs \<open>(i, j)\<close> of \<open>for i in range(n - 1): for j in range(i + 1, n)\<close>.\<close>

definition mk_pairs :: "nat \<Rightarrow> (nat \<times> nat) list" where
  "mk_pairs n = concat (map (\<lambda>i. map (\<lambda>j. (i, j)) [Suc i..<n]) [0..<n - 1])"

section \<open>The Mann-Kendall test\<close>

definition mk_step :: "vec \<Rightarrow> nat \<times> nat \<Rightarrow> int \<Rightarrow> int" where
  "mk_step data p s =
     (let diff = data ! snd p - data ! fst p
      in if 0 < diff then s + 1 else if diff < 0 then s - 1 else s)"

definition mk_s :: "vec \<Rightarrow> int" where
  "mk_s data = fold (mk_step data) (mk_pairs (length data)) 0"

text \<open>\<open>np.unique(data, return_counts=True)\<close>: the counts of the distinct values in
  increasing order; the tie groups are the counts above one.\<close>

definition tie_groups :: "vec \<Rightarrow> nat list" where
  "tie_groups data = filter (\<lambda>t. 1 < t) (map (count_list data) (remdups (sort data)))"

definition tie_term :: "int \<Rightarrow> int" where
  "tie_term t = t * (t - 1) * (2 * t + 5)"

definition mk_var_s :: "vec \<Rightarrow> real" where
  "mk_var_s data =
     real_of_int (tie_term (int (length data)) - sum_list (map (\<lambda>t. tie_term (int t)) (tie_groups data))) / 18"

text \<open>The continuity-corrected \<open>Z\<close>. A zero variance makes numpy's division \<open>inf\<close> or
  \<open>nan\<close>.\<close>

definition mk_z :: "int \<Rightarrow> real \<Rightarrow> py_error + real" where
  "mk_z s v =
     (if s = 0 then Inr 0
      else if v \<le> 0 then Inl NonFinite
      else if 0 < s then Inr ((real_of_int s - 1) / sqrt v)
      else Inr ((real_of_int s + 1) / sqrt v))"

definition mann_kendall_test :: "trend_lib \<Rightarrow> trend_analyzer \<Rightarrow> vec \<Rightarrow> py_error + mk_result" where
  "mann_kendall_test L a data =
     (let s = mk_s data; v = mk_var_s data
      in case mk_z s v of
           Inl e \<Rightarrow> Inl e
         | Inr z \<Rightarrow>
             (let p = 2 * (1 - norm_cdf L \<bar>z\<bar>);
                  tr = (if p < alpha a then (if 0 < z then ''increasing'' else ''decreasing'')
                        else ''no_trend'')
              in Inr \<lparr>s_statistic = s, var_s = v, z_statistic = z, p_value = p, trend = tr,
                      significant = (p < alpha a), n_ties = length (tie_groups data),
                      mk_alpha = alpha a\<rparr>))"

section \<open>Sen's slope\<close>

definition sen_slopes :: "vec \<Rightarrow> vec" where
  "sen_slopes data = map (\<lambda>(i, j). (data ! j - data ! i) / real (j - i)) (mk_pairs (length data))"

text \<open>\<open>sens_slope\<close>. The entries of the result are evaluated in order: the confidence
  bounds index the sorted slopes (an empty array raises \<open>IndexError\<close> at \<open>upper_ci\<close>),
  and the medians are \<open>nan\<close> only for an empty array.\<close>

definition sens_slope :: "trend_lib \<Rightarrow> trend_analyzer \<Rightarrow> vec \<Rightarrow> py_error + sens_result" where
  "sens_slope L a data =
     (let n = length data; slopes = sen_slopes data; N = length slopes; ss = sort slopes;
          z_alpha = norm_ppf L (1 - alpha a / 2);
          c_alpha = z_alpha * sqrt (real_of_int (int n * (int n - 1) * (2 * int n + 5)) / 18);
          lo = py_int (max 0 ((real N - c_alpha) / 2));
          up = py_int (min (real N - 1) ((real N + c_alpha) / 2))
      in case (if lo < int N then map_sum id Some (py_nth ss lo) else Inr None) of
           Inl e \<Rightarrow> Inl e
         | Inr lci \<Rightarrow>
             (case (if up < int N then map_sum id Some (py_nth ss up) else Inr None) of
                Inl e \<Rightarrow> Inl e
              | Inr uci \<Rightarrow>
                  (case np_median slopes of
                     None \<Rightarrow> Inl NonFinite
                   | Some m \<Rightarrow>
                       (case np_median (map (\<lambda>i. data ! i - m * real i) [0..<n]) of
                          None \<Rightarrow> Inl NonFinite
                        | Some b \<Rightarrow>
                            Inr \<lparr>median_slope = m, slope_per_unit = m, lower_ci = lci, upper_ci = uci,
                                 n_slopes_computed = N, intercept = b\<rparr>))))"

section \<open>Analysis\<close>

text \<open>The method \<open>analyze\<close>: \<open>percent_change\<close> reads \<open>data[0]\<close>.\<close>

definition trend_analyze :: "trend_lib \<Rightarrow> trend_analyzer \<Rightarrow> vec \<Rightarrow> py_error + trend_analysis" where
  "trend_analyze L a data =
     (case mann_kendall_test L a data of
        Inl e \<Rightarrow> Inl e
      | Inr mk \<Rightarrow>
          (case sens_slope L a data of
             Inl e \<Rightarrow> Inl e
           | Inr sr \<Rightarrow>
               (let n = length data; cpd = median_slope sr * 10;
                    total = median_slope sr * (real n - 1)
                in if data = [] then Inl IndexError
                   else Inr \<lparr>mann_kendall = mk, sens = sr,
                             summary = \<lparr>trend_direction = trend mk, is_significant = significant mk,
                                        summary_slope = median_slope sr, change_per_decade = cpd,
                                        total_change = total,
                                        percent_change = (if data ! 0 \<noteq> 0
                                                          then Some (total / data ! 0 * 100) else None)\<rparr>\<rparr>)))"

text \<open>The module function \<open>analyze\<close>: at least four points, the optional
  \<open>pymannkendall\<close> results, the analysis at \<open>alpha = 0.05\<close> and the linear regression.\<close>

definition analyze :: "trend_lib \<Rightarrow> vec \<Rightarrow> py_error + trend_report" where
  "analyze L data =
     (if length data < 4 then Inl ValueError
      else
        (let pm = (case mk_original L of
                     None \<Rightarrow> None
                   | Some f \<Rightarrow> Some (f data, if 12 \<le> length data then mk_seasonal L data else None))
         in case trend_analyze L (trend_analyzer_init 0.05) data of
              Inl e \<Rightarrow> Inl e
            | Inr c \<Rightarrow>
                Inr \<lparr>report_info = \<lparr>n_observations = length data, first_value = hd data,
                                     last_value = last data, info_mean = np_mean data,
                                     info_std = np_std data\<rparr>,
                     mann_kendall_result = mann_kendall c, sens_slope_result = sens c,
                     linear_regression = linregress L (map real [0..<length data]) data,
                     pymannkendall = pm, report_summary = summary c\<rparr>))"

text \<open>A stand-in for the statistics library, for the examples: a step function in
  place of the normal \<open>cdf\<close> and a constant \<open>ppf\<close>.\<close>

definition example_lib :: trend_lib where
  "example_lib =
     \<lparr>norm_cdf = (\<lambda>x. if x = 0 then 1 / 2 else 1), norm_ppf = (\<lambda>_. 2),
      linregress = (\<lambda>_ _. \<lparr>lr_slope = 0, lr_intercept = 0, lr_r = 0, lr_p = 1, lr_stderr = 0\<rparr>),
      mk_original = None, mk_seasonal = (\<lambda>_. None)\<rparr>"

section \<open>Reference specification\<close>

text \<open>The docstring's \<open>S = \<Sum>\<^sub>i\<^sub><\<^sub>j sgn(x\<^sub>j - x\<^sub>i)\<close>, as the numbers of concordant and
  discordant pairs of indices (compare the inversions of a list).\<close>

definition index_pairs :: "nat \<Rightarrow> (nat \<times> nat) set" where
  "index_pairs n = {(i, j). i < j \<and> j < n}"

definition concordant :: "vec \<Rightarrow> (nat \<times> nat) set" where
  "concordant data = {(i, j). i < j \<and> j < length data \<and> data ! i < data ! j}"

definition discordant :: "vec \<Rightarrow> (nat \<times> nat) set" where
  "discordant data = {(i, j). i < j \<and> j < length data \<and> data ! j < data ! i}"

text \<open>The loop's statistic as a sum of signs over the pairs.\<close>

definition pair_sign :: "vec \<Rightarrow> nat \<times> nat \<Rightarrow> int" where
  "pair_sign data p = of_bool (data ! fst p < data ! snd p) - of_bool (data ! snd p < data ! fst p)"

section \<open>Lemmas on the index pairs\<close>

lemma set_mk_pairs: "set (mk_pairs n) = index_pairs n"
proof
  show "set (mk_pairs n) \<subseteq> index_pairs n" by (auto simp: mk_pairs_def index_pairs_def)
  show "index_pairs n \<subseteq> set (mk_pairs n)"
  proof clarify
    fix a b assume "(a, b) \<in> index_pairs n"
    then have ab: "a < b" "b < n" by (auto simp: index_pairs_def)
    then have "a \<in> set [0..<n - 1]" by simp
    moreover have "(a, b) \<in> set (map (\<lambda>j. (a, j)) [Suc a..<n])" using ab by simp
    ultimately show "(a, b) \<in> set (mk_pairs n)" unfolding mk_pairs_def by auto
  qed
qed

lemma distinct_mk_pairs: "distinct (mk_pairs n)"
  unfolding mk_pairs_def
proof (rule distinct_concat)
  show "distinct (map (\<lambda>i. map (\<lambda>j. (i, j)) [Suc i..<n]) [0..<n - 1])"
  proof (rule distinct_map [THEN iffD2], rule conjI)
    show "inj_on (\<lambda>i. map (\<lambda>j. (i, j)) [Suc i..<n]) (set [0..<n - 1])"
    proof (rule inj_onI)
      fix i i' assume i: "i \<in> set [0..<n - 1]" "i' \<in> set [0..<n - 1]"
        and eq: "map (\<lambda>j. (i, j)) [Suc i..<n] = map (\<lambda>j. (i', j)) [Suc i'..<n]"
      have "Suc i < n" using i(1) by auto
      then have "[Suc i..<n] \<noteq> []" by simp
      then obtain j js where "[Suc i..<n] = j # js" by (cases "[Suc i..<n]") auto
      then show "i = i'" using eq by (cases "[Suc i'..<n]") auto
    qed
  qed simp
qed (auto simp: distinct_map inj_on_def)

lemma finite_index_pairs [simp]: "finite (index_pairs n)"
  by (simp add: set_mk_pairs [symmetric])

lemma index_pairs_Suc: "index_pairs (Suc n) = index_pairs n \<union> (\<lambda>i. (i, n)) ` {..<n}"
  by (auto simp: index_pairs_def)

lemma card_index_pairs: "card (index_pairs n) * 2 = n * (n - 1)"
proof (induction n)
  case 0
  then show ?case by (simp add: index_pairs_def)
next
  case (Suc n)
  have disj: "index_pairs n \<inter> (\<lambda>i. (i, n)) ` {..<n} = {}" by (auto simp: index_pairs_def)
  have "card ((\<lambda>i. (i, n)) ` {..<n}) = n" by (simp add: card_image inj_on_def)
  then have "card (index_pairs (Suc n)) = card (index_pairs n) + n"
    using disj by (simp add: index_pairs_Suc card_Un_disjoint)
  then show ?case using Suc.IH by (cases n) (simp_all add: algebra_simps)
qed


lemma fold_mk_step: "fold (mk_step data) ps s = s + sum_list (map (pair_sign data) ps)"
  by (induction ps arbitrary: s) (auto simp: mk_step_def pair_sign_def Let_def)

lemma mk_s_sum: "mk_s data = sum (pair_sign data) (index_pairs (length data))"
  using fold_mk_step [of data "mk_pairs (length data)" 0] distinct_mk_pairs [of "length data"]
  by (simp add: mk_s_def sum_list_distinct_conv_sum_set set_mk_pairs)

lemma abs_pair_sign: "\<bar>pair_sign data p\<bar> \<le> 1"
  by (simp add: pair_sign_def)

section \<open>The variance of the statistic\<close>

lemma tie_term_add:
  "tie_term (a + b) = tie_term a + tie_term b + 6 * a * b * (a + b + 1)"
  by (simp add: tie_term_def algebra_simps)

lemma tie_term_small: "t \<le> 1 \<Longrightarrow> tie_term (int t) = 0"
  by (cases t) (auto simp: tie_term_def)

lemma tie_sum_le:
  "sum_list (map (\<lambda>t. tie_term (int t)) cs) \<le> tie_term (int (sum_list cs))"
proof (induction cs)
  case (Cons c cs)
  have "0 \<le> 6 * int c * int (sum_list cs) * (int c + int (sum_list cs) + 1)" by simp
  then have "tie_term (int c) + sum_list (map (\<lambda>t. tie_term (int t)) cs) \<le>
             tie_term (int c) + tie_term (int (sum_list cs)) + 6 * int c * int (sum_list cs) * (int c + int (sum_list cs) + 1)"
    using Cons.IH by linarith
  then show ?case using tie_term_add [of "int c" "int (sum_list cs)"] by simp
qed (simp add: tie_term_def)

lemma tie_sum_lt:
  assumes "x \<in> set cs" "1 \<le> x" "1 \<le> sum_list cs - x"
  shows "sum_list (map (\<lambda>t. tie_term (int t)) cs) < tie_term (int (sum_list cs))"
proof -
  let ?r = "remove1 x cs"
  have split: "sum_list cs = x + sum_list ?r" using sum_list_map_remove1 [OF assms(1), of id] by simp
  have "sum_list (map (\<lambda>t. tie_term (int t)) cs) = tie_term (int x) + sum_list (map (\<lambda>t. tie_term (int t)) ?r)"
    by (rule sum_list_map_remove1 [OF assms(1)])
  also have "\<dots> \<le> tie_term (int x) + tie_term (int (sum_list ?r))" using tie_sum_le [of ?r] by simp
  also have "\<dots> < tie_term (int x + int (sum_list ?r))"
  proof -
    have "0 < 6 * int x * int (sum_list ?r) * (int x + int (sum_list ?r) + 1)"
      using assms(2,3) split by simp
    then show ?thesis using tie_term_add [of "int x" "int (sum_list ?r)"] by simp
  qed
  finally show ?thesis using split by simp
qed

lemma tie_groups_sum:
  "sum_list (map (\<lambda>t. tie_term (int t)) (tie_groups data)) =
   sum_list (map (\<lambda>t. tie_term (int t)) (map (count_list data) (remdups (sort data))))"
proof -
  have "sum_list (map (\<lambda>t. tie_term (int t)) (filter (\<lambda>t. 1 < t) cs)) = sum_list (map (\<lambda>t. tie_term (int t)) cs)"
    for cs :: "nat list"
    by (induction cs) (auto simp: tie_term_small)
  then show ?thesis by (simp add: tie_groups_def)
qed

lemma counts_sum: "sum_list (map (count_list data) (remdups (sort data))) = length data"
proof -
  have "sum_list (map (count_list data) (remdups (sort data))) = sum (count_list data) (set data)"
    by (simp add: sum_list_distinct_conv_sum_set)
  also have "\<dots> = length data" by (rule sum_count_set) simp_all
  finally show ?thesis .
qed

lemma mk_var_s_nonneg: "0 \<le> mk_var_s data"
  using tie_sum_le [of "map (count_list data) (remdups (sort data))"]
  by (simp add: mk_var_s_def tie_groups_sum counts_sum)

lemma mk_var_s_pos:
  assumes "x \<in> set data" "y \<in> set data" "x \<noteq> y"
  shows "0 < mk_var_s data"
proof -
  let ?cs = "map (count_list data) (remdups (sort data))"
  have cx: "count_list data x \<in> set ?cs" using assms(1) by simp
  have "1 \<le> count_list data x" "1 \<le> count_list data y"
    using assms(1,2) count_list_0_iff [of data x] count_list_0_iff [of data y] by simp_all
  moreover have "sum (count_list data) {x, y} \<le> sum (count_list data) (set data)"
    using assms by (intro sum_mono2) auto
  ultimately have "1 \<le> sum_list ?cs - count_list data x"
    using assms(3) sum_count_set [of data "set data"] counts_sum [of data] by simp
  then have "sum_list (map (\<lambda>t. tie_term (int t)) ?cs) < tie_term (int (sum_list ?cs))"
    using tie_sum_lt [OF cx] \<open>1 \<le> count_list data x\<close> by blast
  then show ?thesis by (simp add: mk_var_s_def tie_groups_sum counts_sum)
qed

lemma tie_sum_set:
  "sum_list (map (\<lambda>t. tie_term (int t)) (map (count_list data) (remdups (sort data)))) =
   (\<Sum>v\<in>set data. tie_term (int (count_list data v)))"
  by (simp add: sum_list_distinct_conv_sum_set comp_def)

lemma mk_var_s_constant:
  assumes "\<forall>x\<in>set data. \<forall>y\<in>set data. x = y"
  shows "mk_var_s data = 0"
proof (cases data)
  case Nil
  then show ?thesis by (simp add: mk_var_s_def tie_groups_def tie_term_def)
next
  case (Cons x xs)
  then have set: "set data = {x}" using assms by auto
  then have "filter ((=) x) data = data" by (simp add: filter_id_conv)
  then have "count_list data x = length data" by (metis count_list_eq_length_filter)
  then have "(\<Sum>v\<in>set data. tie_term (int (count_list data v))) = tie_term (int (length data))"
    using set by simp
  then show ?thesis using tie_sum_set [of data] by (simp add: mk_var_s_def tie_groups_sum)
qed

lemma mk_s_nonzero_distinct:
  assumes "mk_s data \<noteq> 0"
  shows "\<exists>x\<in>set data. \<exists>y\<in>set data. x \<noteq> y"
proof (rule ccontr)
  assume "\<not> (\<exists>x\<in>set data. \<exists>y\<in>set data. x \<noteq> y)"
  then have eq: "\<forall>x\<in>set data. \<forall>y\<in>set data. x = y" by blast
  have "pair_sign data p = 0" if "p \<in> index_pairs (length data)" for p
  proof -
    have "fst p < length data" "snd p < length data" using that by (auto simp: index_pairs_def)
    then have "data ! fst p = data ! snd p" using eq nth_mem by blast
    then show ?thesis by (simp add: pair_sign_def)
  qed
  then have "mk_s data = 0" by (simp add: mk_s_sum)
  then show False using assms by simp
qed

lemma mk_z_defined: "\<exists>z. mk_z (mk_s data) (mk_var_s data) = Inr z"
proof (cases "mk_s data = 0")
  case True
  then show ?thesis by (simp add: mk_z_def)
next
  case False
  then obtain x y where "x \<in> set data" "y \<in> set data" "x \<noteq> y" using mk_s_nonzero_distinct by blast
  then have "0 < mk_var_s data" by (rule mk_var_s_pos)
  then show ?thesis by (simp add: mk_z_def)
qed

lemma mk_z_sign:
  assumes "mk_z s v = Inr z"
  shows "(0 < z \<longleftrightarrow> 1 < s) \<and> (z < 0 \<longleftrightarrow> s < -1)"
proof (cases "s = 0")
  case True
  then show ?thesis using assms by (simp add: mk_z_def)
next
  case False
  then have v: "0 < v" using assms by (auto simp: mk_z_def split: if_splits)
  show ?thesis
  proof (cases "0 < s")
    case True
    then have "z = (real_of_int s - 1) / sqrt v" using assms v by (simp add: mk_z_def)
    then show ?thesis using v True by (simp add: zero_less_divide_iff divide_less_0_iff)
  next
    case neg: False
    then have "z = (real_of_int s + 1) / sqrt v" using assms v False by (simp add: mk_z_def)
    moreover have "(real_of_int s + 1 < 0) = (s < -1)" by linarith
    ultimately show ?thesis using v neg False by (simp add: zero_less_divide_iff divide_less_0_iff)
  qed
qed

lemma mann_kendall_test_Inr:
  assumes "mk_z (mk_s data) (mk_var_s data) = Inr z"
  shows "mann_kendall_test L a data =
     Inr \<lparr>s_statistic = mk_s data, var_s = mk_var_s data, z_statistic = z,
          p_value = 2 * (1 - norm_cdf L \<bar>z\<bar>),
          trend = (if 2 * (1 - norm_cdf L \<bar>z\<bar>) < alpha a
                   then (if 0 < z then ''increasing'' else ''decreasing'') else ''no_trend''),
          significant = (2 * (1 - norm_cdf L \<bar>z\<bar>) < alpha a),
          n_ties = length (tie_groups data), mk_alpha = alpha a\<rparr>"
  using assms by (simp add: mann_kendall_test_def Let_def)

section \<open>Sen's slope\<close>

lemma length_mk_pairs: "length (mk_pairs n) * 2 = n * (n - 1)"
  using distinct_card [OF distinct_mk_pairs [of n]] card_index_pairs [of n] by (simp add: set_mk_pairs)

lemma length_sen_slopes: "length (sen_slopes data) = length (mk_pairs (length data))"
  by (simp add: sen_slopes_def)

lemma sen_slopes_nonempty:
  assumes "2 \<le> length data"
  shows "1 \<le> length (sen_slopes data)"
proof -
  have "2 * 1 \<le> length data * (length data - 1)" using assms by (intro mult_le_mono) auto
  then show ?thesis using length_mk_pairs [of "length data"] by (simp add: length_sen_slopes)
qed

lemma py_nth_Inr: "0 \<le> i \<Longrightarrow> i < int (length xs) \<Longrightarrow> py_nth xs i = Inr (xs ! nat i)"
  by (simp add: py_nth_def)

text \<open>With a nonnegative \<open>c_alpha\<close> both confidence indices fall inside the sorted
  slopes.\<close>

lemma ci_indices:
  assumes "0 \<le> c" "1 \<le> N"
  shows "0 \<le> py_int (max 0 ((real N - c) / 2)) \<and> py_int (max 0 ((real N - c) / 2)) < int N"
    and "0 \<le> py_int (min (real N - 1) ((real N + c) / 2)) \<and> py_int (min (real N - 1) ((real N + c) / 2)) < int N"
proof -
  have "max 0 ((real N - c) / 2) < real N" using assms by simp
  then show "0 \<le> py_int (max 0 ((real N - c) / 2)) \<and> py_int (max 0 ((real N - c) / 2)) < int N"
    by (simp add: py_int_def floor_less_iff)
  have "0 \<le> min (real N - 1) ((real N + c) / 2)" using assms by simp
  moreover have "min (real N - 1) ((real N + c) / 2) < real N" by simp
  ultimately show "0 \<le> py_int (min (real N - 1) ((real N + c) / 2)) \<and> py_int (min (real N - 1) ((real N + c) / 2)) < int N"
    by (simp add: py_int_def floor_less_iff)
qed

text \<open>\<open>sens_slope\<close> succeeds on at least two points when \<open>ppf(1 - alpha/2) \<ge> 0\<close>: its
  median slope and intercept are the two medians, its bounds are slopes.\<close>

lemma sens_slope_Inr:
  assumes "2 \<le> length data" "0 \<le> norm_ppf L (1 - alpha a / 2)"
  shows "\<exists>r. sens_slope L a data = Inr r \<and>
             np_median (sen_slopes data) = Some (median_slope r) \<and>
             np_median (map (\<lambda>i. data ! i - median_slope r * real i) [0..<length data]) = Some (intercept r) \<and>
             slope_per_unit r = median_slope r \<and>
             n_slopes_computed r = length (sen_slopes data) \<and>
             lower_ci r \<in> Some ` set (sen_slopes data) \<and> upper_ci r \<in> Some ` set (sen_slopes data)"
proof -
  let ?n = "length data" and ?N = "length (sen_slopes data)" and ?ss = "sort (sen_slopes data)"
  define c where "c = norm_ppf L (1 - alpha a / 2) * sqrt (real_of_int (int ?n * (int ?n - 1) * (2 * int ?n + 5)) / 18)"
  have c0: "0 \<le> c"
  proof -
    have "0 \<le> real_of_int (int ?n * (int ?n - 1) * (2 * int ?n + 5))" using assms(1) by simp
    then show ?thesis using assms(2) by (simp add: c_def)
  qed
  have N: "1 \<le> ?N" using sen_slopes_nonempty [OF assms(1)] .
  define lo where "lo = py_int (max 0 ((real ?N - c) / 2))"
  define up where "up = py_int (min (real ?N - 1) ((real ?N + c) / 2))"
  have lo: "0 \<le> lo" "lo < int ?N" and up: "0 \<le> up" "up < int ?N"
    using ci_indices [OF c0 N] by (simp_all add: lo_def up_def)
  obtain m where m: "np_median (sen_slopes data) = Some m" using N by (cases "np_median (sen_slopes data)") auto
  obtain b where b: "np_median (map (\<lambda>i. data ! i - m * real i) [0..<?n]) = Some b"
    using assms(1) by (cases "np_median (map (\<lambda>i. data ! i - m * real i) [0..<?n])") auto
  have nlo: "py_nth ?ss lo = Inr (?ss ! nat lo)" and nup: "py_nth ?ss up = Inr (?ss ! nat up)"
    using lo up by (simp_all add: py_nth_Inr)
  have eq: "sens_slope L a data =
     Inr \<lparr>median_slope = m, slope_per_unit = m, lower_ci = Some (?ss ! nat lo), upper_ci = Some (?ss ! nat up),
          n_slopes_computed = ?N, intercept = b\<rparr>"
    unfolding sens_slope_def Let_def c_def [symmetric] lo_def [symmetric] up_def [symmetric]
    using lo(2) up(2) nlo nup m b by simp
  have "?ss ! nat lo \<in> set (sen_slopes data)" "?ss ! nat up \<in> set (sen_slopes data)"
    using lo up by (metis length_sort nat_less_iff nth_mem set_sort)+
  then show ?thesis using eq m b by auto
qed

lemma sen_slopes_linear:
  "sen_slopes (map (\<lambda>i. c + b * real i) [0..<n]) = replicate (length (mk_pairs n)) b"
proof -
  have "(\<lambda>(i, j). (map (\<lambda>i. c + b * real i) [0..<n] ! j - map (\<lambda>i. c + b * real i) [0..<n] ! i) / real (j - i)) p = b"
    if pin: "p \<in> set (mk_pairs n)" for p
  proof -
    have "p \<in> index_pairs n" using pin by (simp only: set_mk_pairs)
    then obtain i j where p: "p = (i, j)" "i < j" "j < n" by (cases p) (auto simp: index_pairs_def)
    have d: "real (j - i) = real j - real i" "real j - real i \<noteq> 0" using p(2) by (simp_all add: of_nat_diff)
    have "(c + b * real j - (c + b * real i)) / real (j - i) = b * (real j - real i) / (real j - real i)"
      unfolding d(1) by (simp add: right_diff_distrib)
    also have "\<dots> = b" using d(2) by simp
    finally show ?thesis using p by simp
  qed
  then have "sen_slopes (map (\<lambda>i. c + b * real i) [0..<n]) = map (\<lambda>_. b) (mk_pairs n)"
    unfolding sen_slopes_def length_map length_upt diff_zero by (rule map_cong [OF refl])
  then show ?thesis by (simp only: map_replicate_const)
qed

lemma np_median_replicate: "0 < k \<Longrightarrow> np_median (replicate k x) = Some x"
proof -
  assume k: "0 < k"
  have "sort (replicate k x) = replicate k x" by (simp add: sorted_sort_id)
  then show ?thesis using k by (simp add: np_median_def Let_def)
qed

lemma py_int_nonneg: "0 \<le> x \<Longrightarrow> 0 \<le> py_int x"
  by (simp add: py_int_def)

lemma py_int_neg: "x \<le> -1 \<Longrightarrow> py_int x \<le> -1"
  by (simp add: py_int_def ceiling_le_iff)

lemma py_nth_Nil [simp]: "py_nth [] i = Inl IndexError"
  by (simp add: py_nth_def)

lemma mk_pairs_short: "n < 2 \<Longrightarrow> mk_pairs n = []"
  by (simp add: mk_pairs_def)

text \<open>On fewer than two points there is no slope: the lower bound is \<open>None\<close>, and
  \<open>sorted_slopes[upper_idx]\<close> with \<open>upper_idx \<le> -1\<close> raises \<open>IndexError\<close>.\<close>

lemma sens_slope_short:
  assumes "length data < 2"
  shows "sens_slope L a data = Inl IndexError"
proof -
  have e: "sen_slopes data = []" using assms by (simp add: sen_slopes_def mk_pairs_short)
  have "\<not> py_int (max 0 ((0 - c) / 2)) < 0" for c :: real using py_int_nonneg [of "max 0 ((0 - c) / 2)"] by simp
  moreover have "py_int (min (0 - 1) ((0 + c) / 2)) < 0" for c :: real using py_int_neg [of "min (0 - 1) ((0 + c) / 2)"] by simp
  ultimately show ?thesis unfolding sens_slope_def Let_def e by simp
qed

section \<open>The analysis\<close>

lemma trend_analyze_Inr:
  assumes "2 \<le> length data" "0 \<le> norm_ppf L (1 - alpha a / 2)"
    and mk: "mann_kendall_test L a data = Inr mk"
  shows "\<exists>c. trend_analyze L a data = Inr c \<and> mann_kendall c = mk \<and>
             trend_direction (summary c) = trend mk \<and> is_significant (summary c) = significant mk \<and>
             summary_slope (summary c) = median_slope (sens c) \<and>
             total_change (summary c) = median_slope (sens c) * (real (length data) - 1)"
proof -
  obtain sr where sr: "sens_slope L a data = Inr sr" using sens_slope_Inr [OF assms(1,2)] by blast
  have "data \<noteq> []" using assms(1) by auto
  then show ?thesis using mk sr by (simp add: trend_analyze_def Let_def)
qed

lemma analyze_Inr:
  assumes "4 \<le> length data" "0 \<le> norm_ppf L (1 - 0.05 / 2)"
    and mk: "mann_kendall_test L (trend_analyzer_init 0.05) data = Inr mk"
  shows "\<exists>rep. analyze L data = Inr rep \<and> mann_kendall_result rep = mk \<and>
             trend_direction (report_summary rep) = trend mk \<and>
             summary_slope (report_summary rep) = median_slope (sens_slope_result rep) \<and>
             change_per_decade (report_summary rep) = median_slope (sens_slope_result rep) * 10 \<and>
             sens_slope L (trend_analyzer_init 0.05) data = Inr (sens_slope_result rep) \<and>
             n_observations (report_info rep) = length data \<and>
             (pymannkendall rep = None \<longleftrightarrow> mk_original L = None)"
proof -
  let ?a = "trend_analyzer_init 0.05"
  have "2 \<le> length data" "0 \<le> norm_ppf L (1 - alpha ?a / 2)" using assms(1,2) by (simp_all add: trend_analyzer_init_def)
  then obtain sr where sr: "sens_slope L ?a data = Inr sr" using sens_slope_Inr by blast
  have "data \<noteq> []" using assms(1) by auto
  then show ?thesis using assms(1) mk sr
    by (simp add: analyze_def trend_analyze_def Let_def split: option.split)
qed

lemma sens_slope_linear_fields:
  assumes "2 \<le> n" "sens_slope L a (map (\<lambda>i. c + b * real i) [0..<n]) = Inr r"
    and med: "np_median (sen_slopes (map (\<lambda>i. c + b * real i) [0..<n])) = Some (median_slope r)"
    and icp: "np_median (map (\<lambda>i. map (\<lambda>i. c + b * real i) [0..<n] ! i - median_slope r * real i) [0..<n]) = Some (intercept r)"
  shows "median_slope r = b \<and> intercept r = c"
proof -
  let ?d = "map (\<lambda>i. c + b * real i) [0..<n]"
  have "1 \<le> length (mk_pairs n)" using sen_slopes_nonempty [of ?d] assms(1) by (simp add: length_sen_slopes)
  then have N: "0 < length (mk_pairs n)" by linarith
  then have mb: "median_slope r = b" using med by (simp add: sen_slopes_linear np_median_replicate)
  have "map (\<lambda>i. ?d ! i - b * real i) [0..<n] = replicate n c"
    by (rule nth_equalityI) simp_all
  then have "intercept r = c" using icp mb assms(1) np_median_replicate [of n c] by simp
  then show ?thesis using mb by blast
qed

section \<open>Properties of the Mann-Kendall statistic\<close>

text \<open>C17: the statistic the double loop computes is the number of concordant pairs
  minus the number of discordant pairs, the docstring's
  \<open>S = \<Sum>\<^sub>i\<^sub><\<^sub>j sgn(x\<^sub>j - x\<^sub>i)\<close>.\<close>

theorem mk_s_concordance:
  "mk_s data = int (card (concordant data)) - int (card (discordant data))"
proof -
  let ?P = "index_pairs (length data)"
  have "mk_s data = (\<Sum>p\<in>?P. of_bool (data ! fst p < data ! snd p)) -
                    (\<Sum>p\<in>?P. (of_bool (data ! snd p < data ! fst p) :: int))"
    by (simp add: mk_s_sum pair_sign_def sum_subtractf)
  also have "\<dots> = int (card (?P \<inter> {p. data ! fst p < data ! snd p})) -
                   int (card (?P \<inter> {p. data ! snd p < data ! fst p}))"
    by simp
  also have "?P \<inter> {p. data ! fst p < data ! snd p} = concordant data"
    by (auto simp: index_pairs_def concordant_def)
  also have "?P \<inter> {p. data ! snd p < data ! fst p} = discordant data"
    by (auto simp: index_pairs_def discordant_def)
  finally show ?thesis .
qed

text \<open>\<open>|S| \<le> n(n - 1)/2\<close>, with equality \<open>S = n(n - 1)/2\<close> on a strictly
  increasing series.\<close>

theorem mk_s_bounds:
  "2 * \<bar>mk_s data\<bar> \<le> int (length data * (length data - 1)) \<and>
   (sorted_wrt (<) data \<longrightarrow> 2 * mk_s data = int (length data * (length data - 1)))"
proof -
  let ?P = "index_pairs (length data)"
  have "\<bar>mk_s data\<bar> \<le> (\<Sum>p\<in>?P. \<bar>pair_sign data p\<bar>)"
    unfolding mk_s_sum by (rule sum_abs)
  also have "\<dots> \<le> (\<Sum>p\<in>?P. 1)" by (intro sum_mono abs_pair_sign)
  also have "\<dots> = int (card ?P)" by simp
  finally have le: "2 * \<bar>mk_s data\<bar> \<le> int (card ?P * 2)" by simp
  have "pair_sign data p = 1" if s: "sorted_wrt (<) data" and p: "p \<in> ?P" for p
  proof -
    obtain i j where ij: "p = (i, j)" "i < j" "j < length data" using p by (auto simp: index_pairs_def)
    then have "data ! i < data ! j" using s by (simp add: sorted_wrt_nth_less)
    then show ?thesis using ij by (simp add: pair_sign_def)
  qed
  then have "sorted_wrt (<) data \<longrightarrow> mk_s data = int (card ?P)" by (simp add: mk_s_sum)
  moreover have c: "int (card ?P * 2) = int (length data * (length data - 1))"
    by (simp only: card_index_pairs)
  moreover have "2 * int (card ?P) = int (card ?P * 2)" by simp
  ultimately show ?thesis using le by auto
qed

theorem mk_s_bounds_witness:
  "2 * mk_s [1, 2, 3] = 6 \<and> 2 * \<bar>mk_s [3, 1, 2]\<bar> \<le> 6"
  using mk_s_bounds [of "[1, 2, 3]"] mk_s_bounds [of "[3, 1, 2]"] by simp


text \<open>The tie-corrected variance of \<open>S\<close> is never negative, and it is positive
  exactly when the series holds two different values.\<close>

theorem mk_var_s_sign:
  "0 \<le> mk_var_s data \<and> (0 < mk_var_s data \<longleftrightarrow> (\<exists>x\<in>set data. \<exists>y\<in>set data. x \<noteq> y))"
proof -
  have "\<exists>x\<in>set data. \<exists>y\<in>set data. x \<noteq> y" if "0 < mk_var_s data"
  proof (rule ccontr)
    assume "\<not> (\<exists>x\<in>set data. \<exists>y\<in>set data. x \<noteq> y)"
    then have "mk_var_s data = 0" by (intro mk_var_s_constant) blast
    then show False using that by simp
  qed
  then show ?thesis using mk_var_s_nonneg [of data] mk_var_s_pos [of _ data] by blast
qed

theorem mk_var_s_sign_witness:
  "0 < mk_var_s [1, 2] \<and> mk_var_s [3, 3] = 0"
  using mk_var_s_sign [of "[1, 2]"] mk_var_s_sign [of "[3, 3]"] by auto

text \<open>The Mann-Kendall test never divides by a zero variance: it returns a result
  for every series, with the loop's \<open>S\<close>, the tie-corrected variance and the number
  of tie groups.\<close>

theorem mann_kendall_total:
  "\<exists>r. mann_kendall_test L a data = Inr r \<and> s_statistic r = mk_s data \<and>
       var_s r = mk_var_s data \<and> n_ties r = length (tie_groups data)"
proof -
  obtain z where "mk_z (mk_s data) (mk_var_s data) = Inr z" using mk_z_defined by blast
  then show ?thesis using mann_kendall_test_Inr by simp
qed

text \<open>C18: where the normal \<open>cdf\<close> is \<open>1/2\<close> at 0 and \<open>alpha \<le> 1\<close>, a reported increasing
  trend has \<open>S > 1\<close>, a reported decreasing trend \<open>S < -1\<close>, and the trend is
  \<open>no_trend\<close> exactly when the result is not significant.\<close>

theorem mk_trend_sound:
  assumes "norm_cdf L 0 = 1 / 2" "alpha a \<le> 1" "mann_kendall_test L a data = Inr r"
  shows "(trend r = ''increasing'' \<longrightarrow> 1 < mk_s data) \<and>
         (trend r = ''decreasing'' \<longrightarrow> mk_s data < -1) \<and>
         (trend r = ''no_trend'' \<longleftrightarrow> \<not> significant r)"
proof -
  obtain z where z: "mk_z (mk_s data) (mk_var_s data) = Inr z" using mk_z_defined by blast
  let ?p = "2 * (1 - norm_cdf L \<bar>z\<bar>)"
  have tr: "trend r = (if ?p < alpha a then (if 0 < z then ''increasing'' else ''decreasing'') else ''no_trend'')"
    and sig: "significant r = (?p < alpha a)"
    using assms(3) mann_kendall_test_Inr [OF z, of L a] by auto
  have "z \<noteq> 0" if "?p < alpha a" using that assms(1,2) by auto
  then show ?thesis using tr sig mk_z_sign [OF z] by auto
qed

theorem mk_trend_sound_witness:
  "\<exists>r. mann_kendall_test example_lib (trend_analyzer_init 0.05) [1, 2, 3, 4] = Inr r \<and>
       trend r = ''increasing'' \<and> 1 < mk_s [1, 2, 3, 4]"
proof -
  have s: "mk_s [1, 2, 3, 4] = 6" by (simp add: mk_s_def mk_pairs_def mk_step_def)
  obtain z where z: "mk_z (mk_s [1, 2, 3, 4]) (mk_var_s [1, 2, 3, 4]) = Inr z" using mk_z_defined by blast
  have "0 < z" using mk_z_sign [OF z] s by simp
  then obtain r where r: "mann_kendall_test example_lib (trend_analyzer_init 0.05) [1, 2, 3, 4] = Inr r"
    and inc: "trend r = ''increasing''"
    using mann_kendall_test_Inr [OF z] by (simp add: example_lib_def trend_analyzer_init_def)
  have "1 < mk_s [1, 2, 3, 4]"
    using mk_trend_sound [OF _ _ r] inc by (simp add: example_lib_def trend_analyzer_init_def)
  then show ?thesis using r inc by blast
qed


text \<open>C19: on a linear series \<open>c + b i\<close> of at least two points Sen's slope returns
  the slope \<open>b\<close> and the intercept \<open>c\<close>, and both confidence bounds are \<open>b\<close>, where
  \<open>ppf(1 - alpha/2) \<ge> 0\<close>.\<close>

theorem sens_slope_linear:
  assumes "2 \<le> n" "0 \<le> norm_ppf L (1 - alpha a / 2)"
  shows "\<exists>r. sens_slope L a (map (\<lambda>i. c + b * real i) [0..<n]) = Inr r \<and>
             median_slope r = b \<and> intercept r = c \<and> lower_ci r = Some b \<and> upper_ci r = Some b"
proof -
  let ?d = "map (\<lambda>i. c + b * real i) [0..<n]"
  obtain r where r: "sens_slope L a ?d = Inr r"
    and med: "np_median (sen_slopes ?d) = Some (median_slope r)"
    and icp: "np_median (map (\<lambda>i. ?d ! i - median_slope r * real i) [0..<n]) = Some (intercept r)"
    and ci: "lower_ci r \<in> Some ` set (sen_slopes ?d)" "upper_ci r \<in> Some ` set (sen_slopes ?d)"
    using sens_slope_Inr [of ?d L a] assms by auto
  have "1 \<le> length (mk_pairs n)" using sen_slopes_nonempty [of ?d] assms(1) by (simp add: length_sen_slopes)
  then have "length (mk_pairs n) \<noteq> 0" by linarith
  then have "lower_ci r = Some b" "upper_ci r = Some b" using ci by (auto simp: sen_slopes_linear)
  then show ?thesis using r sens_slope_linear_fields [OF assms(1) r med icp] by blast
qed

theorem sens_slope_linear_witness:
  "\<exists>r. sens_slope example_lib (trend_analyzer_init 0.05) (map (\<lambda>i. 1 + 2 * real i) [0..<3]) = Inr r \<and>
       median_slope r = 2 \<and> intercept r = 1 \<and> lower_ci r = Some 2 \<and> upper_ci r = Some 2"
  using sens_slope_linear [of 3 example_lib "trend_analyzer_init 0.05" 1 2]
  by (simp add: example_lib_def trend_analyzer_init_def)

text \<open>C20: the module function \<open>analyze\<close> raises \<open>ValueError\<close> below four points; from
  four points on, where \<open>ppf(0.975) \<ge> 0\<close>, it returns a report whose Mann-Kendall
  statistic is the loop's \<open>S\<close>, whose summary direction is the test's trend, and which
  holds \<open>pymannkendall\<close> results exactly when that package is installed.\<close>

theorem analyze_outcome:
  "(length data < 4 \<longrightarrow> analyze L data = Inl ValueError) \<and>
   (4 \<le> length data \<and> 0 \<le> norm_ppf L (1 - 0.05 / 2) \<longrightarrow>
      (\<exists>rep. analyze L data = Inr rep \<and> s_statistic (mann_kendall_result rep) = mk_s data \<and>
             trend_direction (report_summary rep) = trend (mann_kendall_result rep) \<and>
             n_observations (report_info rep) = length data \<and>
             (pymannkendall rep = None \<longleftrightarrow> mk_original L = None)))"
proof (intro conjI impI)
  show "analyze L data = Inl ValueError" if "length data < 4" using that by (simp add: analyze_def)
next
  assume as: "4 \<le> length data \<and> 0 \<le> norm_ppf L (1 - 0.05 / 2)"
  obtain mk where mk: "mann_kendall_test L (trend_analyzer_init 0.05) data = Inr mk" and s: "s_statistic mk = mk_s data"
    using mann_kendall_total [of L "trend_analyzer_init 0.05" data] by blast
  show "\<exists>rep. analyze L data = Inr rep \<and> s_statistic (mann_kendall_result rep) = mk_s data \<and>
             trend_direction (report_summary rep) = trend (mann_kendall_result rep) \<and>
             n_observations (report_info rep) = length data \<and>
             (pymannkendall rep = None \<longleftrightarrow> mk_original L = None)"
    using analyze_Inr [OF _ _ mk] as s by auto
qed

theorem analyze_outcome_witness:
  "analyze example_lib [1, 2, 3] = Inl ValueError \<and>
   (\<exists>rep. analyze example_lib [1, 2, 3, 4] = Inr rep \<and>
          s_statistic (mann_kendall_result rep) = mk_s [1, 2, 3, 4] \<and> pymannkendall rep = None)"
  using analyze_outcome [of "[1, 2, 3]" example_lib] analyze_outcome [of "[1, 2, 3, 4]" example_lib]
  by (simp add: example_lib_def) blast


text \<open>The docstring example of \<open>analyze\<close>: the temperatures
  \<open>[20, 20.5, \<dots>, 23]\<close> are reported as an increasing trend, with Sen's slope 0.5 per
  step and 5 per decade, for any normal \<open>cdf\<close> that is monotone with \<open>cdf(3) > 0.975\<close>
  and \<open>ppf(0.975) \<ge> 0\<close>.\<close>

theorem docstring_example_increasing:
  assumes "mono (norm_cdf L)" "0.975 < norm_cdf L 3" "0 \<le> norm_ppf L (1 - 0.05 / 2)"
  shows "\<exists>rep. analyze L [20, 20.5, 21, 21.5, 22, 22.5, 23] = Inr rep \<and>
             trend_direction (report_summary rep) = ''increasing'' \<and>
             summary_slope (report_summary rep) = 0.5 \<and> change_per_decade (report_summary rep) = 5"
proof -
  let ?t = "[20, 20.5, 21, 21.5, 22, 22.5, 23] :: vec"
  have lin: "map (\<lambda>i. 20 + 1 / 2 * real i) [0..<7] = ?t" by (simp add: upt_rec)
  have s: "mk_s ?t = 21" by (simp add: mk_s_def mk_pairs_def mk_step_def upt_rec)
  have "tie_groups ?t = []" by (simp add: tie_groups_def)
  then have v: "mk_var_s ?t = 133 / 3" by (simp only: mk_var_s_def) (simp add: tie_term_def)
  let ?z = "20 / sqrt (133 / 3)"
  have z: "mk_z (mk_s ?t) (mk_var_s ?t) = Inr ?z" using s v by (simp add: mk_z_def)
  have "sqrt (133 / 3) \<le> sqrt ((20 / 3)\<^sup>2)" by (simp add: power2_eq_square)
  then have "sqrt (133 / 3) \<le> 20 / 3" by simp
  then have "3 \<le> ?z" by (simp add: le_divide_eq)
  then have "norm_cdf L 3 \<le> norm_cdf L \<bar>?z\<bar>" using assms(1) by (simp add: mono_def)
  then have p: "2 * (1 - norm_cdf L \<bar>?z\<bar>) < alpha (trend_analyzer_init 0.05)"
    using assms(2) by (simp add: trend_analyzer_init_def)
  have "0 < ?z" by simp
  then obtain mk where mk: "mann_kendall_test L (trend_analyzer_init 0.05) ?t = Inr mk"
    and inc: "trend mk = ''increasing''"
    using mann_kendall_test_Inr [OF z, of L "trend_analyzer_init 0.05"] p by simp
  obtain rep where rep: "analyze L ?t = Inr rep" "trend_direction (report_summary rep) = ''increasing''"
    and sl: "summary_slope (report_summary rep) = median_slope (sens_slope_result rep)"
      "change_per_decade (report_summary rep) = median_slope (sens_slope_result rep) * 10"
    and sr: "sens_slope L (trend_analyzer_init 0.05) ?t = Inr (sens_slope_result rep)"
    using analyze_Inr [OF _ assms(3) mk] inc by auto
  have ppf: "0 \<le> norm_ppf L (1 - alpha (trend_analyzer_init 0.05) / 2)"
    using assms(3) by (simp add: trend_analyzer_init_def)
  let ?d = "map (\<lambda>i. 20 + 1 / 2 * real i) [0..<7]"
  have "2 \<le> length ?d" by simp
  from sens_slope_Inr [OF this ppf] obtain r where r: "sens_slope L (trend_analyzer_init 0.05) ?d = Inr r"
    and med: "np_median (sen_slopes ?d) = Some (median_slope r)"
    and icp: "np_median (map (\<lambda>i. ?d ! i - median_slope r * real i) [0..<length ?d]) = Some (intercept r)"
    by blast
  have "median_slope r = 1 / 2"
    using sens_slope_linear_fields [of 7 L "trend_analyzer_init 0.05" 20 "1 / 2" r] r med icp
    by (simp only: length_map length_upt diff_zero)
  moreover have "r = sens_slope_result rep" using r sr unfolding lin by simp
  ultimately show ?thesis using rep sl by simp
qed

theorem docstring_example_increasing_witness:
  "\<exists>rep. analyze \<lparr>norm_cdf = (\<lambda>x. min 1 (max 0 x)), norm_ppf = (\<lambda>_. 2),
           linregress = (\<lambda>_ _. \<lparr>lr_slope = 0, lr_intercept = 0, lr_r = 0, lr_p = 1, lr_stderr = 0\<rparr>),
           mk_original = None, mk_seasonal = (\<lambda>_. None)\<rparr>
         [20, 20.5, 21, 21.5, 22, 22.5, 23] = Inr rep \<and>
       trend_direction (report_summary rep) = ''increasing'' \<and>
       summary_slope (report_summary rep) = 0.5 \<and> change_per_decade (report_summary rep) = 5"
proof -
  have "mono (\<lambda>x::real. min 1 (max 0 x))" by (auto simp: mono_def min_def max_def)
  then show ?thesis using docstring_example_increasing [of
    "\<lparr>norm_cdf = (\<lambda>x. min 1 (max 0 x)), norm_ppf = (\<lambda>_. 2),
       linregress = (\<lambda>_ _. \<lparr>lr_slope = 0, lr_intercept = 0, lr_r = 0, lr_p = 1, lr_stderr = 0\<rparr>),
       mk_original = None, mk_seasonal = (\<lambda>_. None)\<rparr>"] by simp
qed


text \<open>The method \<open>TrendAnalyzer.analyze\<close> on a series of fewer than two points
  raises \<open>IndexError\<close> (in \<open>sens_slope\<close>, which reads the last element of the empty
  array of slopes); only the module function's four-point guard keeps it away.\<close>

theorem short_series_index_error:
  assumes "length data < 2"
  shows "trend_analyze L a data = Inl IndexError"
proof -
  obtain z where "mk_z (mk_s data) (mk_var_s data) = Inr z" using mk_z_defined by blast
  then show ?thesis using mann_kendall_test_Inr sens_slope_short [OF assms] by (simp add: trend_analyze_def)
qed

theorem short_series_index_error_witness:
  "trend_analyze example_lib (trend_analyzer_init 0.05) [5] = Inl IndexError"
  using short_series_index_error [of "[5]" example_lib "trend_analyzer_init 0.05"] by simp

end
