(* ===== verification/Kalman.thy ===== *)
theory Kalman
  imports NumPyOrder
begin

text \<open>
  The Kalman filter, \<open>src/python-backend/algorithms/scientific/kalman_filter.py\<close>:
  the class \<open>WeatherKalmanFilter\<close> (a constant-velocity model over filterpy's
  \<open>KalmanFilter\<close>) and the module function \<open>run_filter\<close>. filterpy is a library
  the code only calls; its \<open>predict\<close> and \<open>update\<close> are modelled from the library's
  semantics (\<open>P = F P F\<^sup>T + Q\<close>, and the Joseph form
  \<open>P = (I - K H) P (I - K H)\<^sup>T + K R K\<^sup>T\<close> after \<open>S = H P H\<^sup>T + R\<close> is inverted
  by \<open>np.linalg.inv\<close>, which raises \<open>LinAlgError\<close> on a singular \<open>S\<close>). The state
  has two components and one is observed, so the matrices are \<open>2 \<times> 2\<close> records,
  \<open>H = [1, 0]\<close> is written out (\<open>H x\<close> is the position, \<open>P H\<^sup>T\<close> the first column
  of \<open>P\<close>), and \<open>R\<close> and \<open>S\<close> are scalars. The object keeps the filterpy fields
  the code reads or that \<open>predict\<close> and \<open>update\<close> write.
\<close>

section \<open>Two-by-two matrices\<close>

record mat2 =
  e00 :: real
  e01 :: real
  e10 :: real
  e11 :: real

definition mat2_mul :: "mat2 \<Rightarrow> mat2 \<Rightarrow> mat2" where
  "mat2_mul A B =
     \<lparr>e00 = e00 A * e00 B + e01 A * e10 B, e01 = e00 A * e01 B + e01 A * e11 B,
      e10 = e10 A * e00 B + e11 A * e10 B, e11 = e10 A * e01 B + e11 A * e11 B\<rparr>"

definition mat2_T :: "mat2 \<Rightarrow> mat2" where
  "mat2_T A = \<lparr>e00 = e00 A, e01 = e10 A, e10 = e01 A, e11 = e11 A\<rparr>"

definition mat2_add :: "mat2 \<Rightarrow> mat2 \<Rightarrow> mat2" where
  "mat2_add A B = \<lparr>e00 = e00 A + e00 B, e01 = e01 A + e01 B, e10 = e10 A + e10 B, e11 = e11 A + e11 B\<rparr>"

definition mat2_sub :: "mat2 \<Rightarrow> mat2 \<Rightarrow> mat2" where
  "mat2_sub A B = \<lparr>e00 = e00 A - e00 B, e01 = e01 A - e01 B, e10 = e10 A - e10 B, e11 = e11 A - e11 B\<rparr>"

definition mat2_scale :: "real \<Rightarrow> mat2 \<Rightarrow> mat2" where
  "mat2_scale c A = \<lparr>e00 = c * e00 A, e01 = c * e01 A, e10 = c * e10 A, e11 = c * e11 A\<rparr>"

definition mat2_eye :: mat2 where
  "mat2_eye = \<lparr>e00 = 1, e01 = 0, e10 = 0, e11 = 1\<rparr>"

definition mat2_vec :: "mat2 \<Rightarrow> real \<times> real \<Rightarrow> real \<times> real" where
  "mat2_vec A v = (e00 A * fst v + e01 A * snd v, e10 A * fst v + e11 A * snd v)"

text \<open>The outer product \<open>u u\<^sup>T\<close> of a column, and \<open>K H\<close> for \<open>H = [1, 0]\<close>.\<close>

definition outer :: "real \<times> real \<Rightarrow> mat2" where
  "outer u = \<lparr>e00 = fst u * fst u, e01 = fst u * snd u, e10 = snd u * fst u, e11 = snd u * snd u\<rparr>"

definition gain_H :: "real \<times> real \<Rightarrow> mat2" where
  "gain_H k = \<lparr>e00 = fst k, e01 = 0, e10 = snd k, e11 = 0\<rparr>"

section \<open>The filter object\<close>

text \<open>The constant-velocity transition \<open>F\<close> of \<open>__init__\<close> and the process noise
  shape of \<open>configure\<close>.\<close>

definition F_cv :: mat2 where
  "F_cv = \<lparr>e00 = 1, e01 = 1, e10 = 0, e11 = 1\<rparr>"

definition Q_shape :: mat2 where
  "Q_shape = \<lparr>e00 = 0.25, e01 = 0.5, e10 = 0.5, e11 = 1\<rparr>"

record kf_state =
  kx :: "real \<times> real"
  kP :: mat2
  kQ :: mat2
  kR :: real
  kK :: "real \<times> real"
  kx_prior :: "real \<times> real"
  kP_prior :: mat2

text \<open>\<open>WeatherKalmanFilter()\<close>: filterpy starts from \<open>x = 0\<close>, \<open>P = Q = I\<close>,
  \<open>R = I\<close>, \<open>K = 0\<close>; the constructor then sets \<open>F\<close>, \<open>H\<close>, scales \<open>P\<close> by 1000 and
  sets \<open>x = 0\<close>.\<close>

definition kf_init :: kf_state where
  "kf_init =
     \<lparr>kx = (0, 0), kP = mat2_scale 1000 mat2_eye, kQ = mat2_eye, kR = 1, kK = (0, 0),
      kx_prior = (0, 0), kP_prior = mat2_eye\<rparr>"

definition configure :: "real \<Rightarrow> real \<Rightarrow> kf_state \<Rightarrow> kf_state" where
  "configure q r s = s\<lparr>kQ := mat2_scale q Q_shape, kR := r\<rparr>"

text \<open>filterpy's \<open>predict()\<close>: \<open>x = F x\<close>, \<open>P = F P F\<^sup>T + Q\<close>, and copies of both.\<close>

definition kf_predict :: "kf_state \<Rightarrow> kf_state" where
  "kf_predict s =
     (let x = mat2_vec F_cv (kx s); P = mat2_add (mat2_mul (mat2_mul F_cv (kP s)) (mat2_T F_cv)) (kQ s)
      in s\<lparr>kx := x, kP := P, kx_prior := x, kP_prior := P\<rparr>)"

text \<open>filterpy's \<open>update(z)\<close>: the residual \<open>y = z - H x\<close>, \<open>S = H P H\<^sup>T + R\<close> and its
  inverse (a singular \<open>S\<close> raises before anything the model keeps is written), the
  gain \<open>K = P H\<^sup>T S\<^sup>-\<^sup>1\<close>, the state and the Joseph-form covariance.\<close>

definition kf_update :: "real \<Rightarrow> kf_state \<Rightarrow> (py_error + unit) \<times> kf_state" where
  "kf_update z s =
     (let y = z - fst (kx s); P = kP s; S = e00 P + kR s
      in if S = 0 then (Inl LinAlgError, s)
         else
           (let K = (e00 P / S, e10 P / S);
                x = (fst (kx s) + fst K * y, snd (kx s) + snd K * y);
                IKH = mat2_sub mat2_eye (gain_H K);
                P' = mat2_add (mat2_mul (mat2_mul IKH P) (mat2_T IKH)) (mat2_scale (kR s) (outer K))
            in (Inr (), s\<lparr>kx := x, kP := P', kK := K\<rparr>)))"

text \<open>One pass of the loop of \<open>filter_data\<close>: what it appends to its five lists.\<close>

record kf_output =
  out_pos :: real
  out_vel :: real
  out_gain :: real
  out_unc :: real
  out_innov :: real

fun filter_loop :: "vec \<Rightarrow> kf_state \<Rightarrow> (py_error + kf_output list) \<times> kf_state" where
  "filter_loop [] s = (Inr [], s)"
| "filter_loop (z # zs) s =
     (let s1 = kf_predict s; innov = z - fst (kx s1)
      in case kf_update z s1 of
           (Inl e, s2) \<Rightarrow> (Inl e, s2)
         | (Inr _, s2) \<Rightarrow>
             (case filter_loop zs s2 of
                (Inl e, s3) \<Rightarrow> (Inl e, s3)
              | (Inr outs, s3) \<Rightarrow>
                  (Inr (\<lparr>out_pos = fst (kx s2), out_vel = snd (kx s2), out_gain = fst (kK s2),
                          out_unc = e00 (kP s2), out_innov = innov\<rparr> # outs), s3)))"

record filter_result =
  filtered :: vec
  velocities :: vec
  kalman_gains :: vec
  uncertainties :: vec
  innovations :: vec
  final_state :: "real \<times> real"
  final_covariance :: mat2

text \<open>\<open>filter_data\<close>: \<open>observations[0]\<close> raises \<open>IndexError\<close> on an empty list.\<close>

definition filter_data :: "vec \<Rightarrow> kf_state \<Rightarrow> (py_error + filter_result) \<times> kf_state" where
  "filter_data obs s =
     (if obs = [] then (Inl IndexError, s)
      else
        (case filter_loop obs (s\<lparr>kx := (hd obs, 0)\<rparr>) of
           (Inl e, s') \<Rightarrow> (Inl e, s')
         | (Inr outs, s') \<Rightarrow>
             (Inr \<lparr>filtered = map out_pos outs, velocities = map out_vel outs,
                   kalman_gains = map out_gain outs, uncertainties = map out_unc outs,
                   innovations = map out_innov outs, final_state = kx s', final_covariance = kP s'\<rparr>, s')))"

fun predict_loop :: "nat \<Rightarrow> kf_state \<Rightarrow> vec \<times> kf_state" where
  "predict_loop 0 s = ([], s)"
| "predict_loop (Suc n) s =
     (let s1 = kf_predict s; (fs, s2) = predict_loop n s1 in (fst (kx s1) # fs, s2))"

text \<open>\<open>forecast(steps)\<close>: \<open>range(steps)\<close> is empty for a negative count; \<open>x\<close> and
  \<open>P\<close> are restored afterwards (the prior copies are not).\<close>

definition forecast :: "int \<Rightarrow> kf_state \<Rightarrow> vec \<times> kf_state" where
  "forecast steps s =
     (let (fs, s') = predict_loop (nat steps) s in (fs, s'\<lparr>kx := kx s, kP := kP s\<rparr>))"


text \<open>Python's \<open>round(x, n)\<close> on a float (and numpy's on a \<open>float64\<close>): to the nearest
  multiple of \<open>10\<^sup>-\<^sup>n\<close>, a tie going to the even neighbour.\<close>

definition round_half_even :: "real \<Rightarrow> int" where
  "round_half_even y =
     (let f = \<lfloor>y\<rfloor>; d = y - of_int f
      in if d < 1 / 2 then f else if 1 / 2 < d then f + 1 else if even f then f else f + 1)"

definition py_round :: "nat \<Rightarrow> real \<Rightarrow> real" where
  "py_round n x = of_int (round_half_even (x * 10 ^ n)) / 10 ^ n"

text \<open>\<open>xs[-k:]\<close>.\<close>

definition py_last :: "nat \<Rightarrow> 'a list \<Rightarrow> 'a list" where
  "py_last k xs = drop (length xs - k) xs"

record kalman_report =
  data_points :: nat
  process_noise :: real
  measurement_noise :: real
  data_min :: real
  data_max :: real
  data_mean :: real
  filtered_all :: vec
  filtered_last_10 :: vec
  forecast_7_days :: vec
  velocities_last_5 :: vec
  report_final_state :: "real \<times> real"
  avg_kalman_gain :: real
  final_kalman_gain :: real
  final_uncertainty :: real
  avg_innovation :: real
  noise_reduction_percent :: real
  rmse_metric :: real
  snr_improvement :: real

text \<open>\<open>run_filter\<close>: at least three points, a fresh configured filter, the filtered
  series, a seven-step forecast and the quality metrics.\<close>

definition run_filter :: "vec \<Rightarrow> real \<Rightarrow> real \<Rightarrow> py_error + kalman_report" where
  "run_filter data q r =
     (if length data < 3 then Inl ValueError
      else
        (case filter_data data (configure q r kf_init) of
           (Inl e, _) \<Rightarrow> Inl e
         | (Inr res, s1) \<Rightarrow>
             (let fc = fst (forecast 7 s1); ov = np_var data; fv = np_var (filtered res);
                  nr = (if 0 < ov then (1 - fv / ov) * 100 else 0)
              in case np_sub data (filtered res) of
                   Inl e \<Rightarrow> Inl e
                 | Inr d \<Rightarrow>
                     Inr \<lparr>data_points = length data, process_noise = q, measurement_noise = r,
                          data_min = np_min data, data_max = np_max data, data_mean = np_mean data,
                          filtered_all = filtered res, filtered_last_10 = py_last 10 (filtered res),
                          forecast_7_days = fc, velocities_last_5 = py_last 5 (velocities res),
                          report_final_state = final_state res,
                          avg_kalman_gain = np_mean (kalman_gains res),
                          final_kalman_gain = last (kalman_gains res),
                          final_uncertainty = last (uncertainties res),
                          avg_innovation = np_mean (map abs (innovations res)),
                          noise_reduction_percent = py_round 2 (max 0 nr),
                          rmse_metric = py_round 4 (sqrt (np_mean (map (\<lambda>e. e\<^sup>2) d))),
                          snr_improvement = py_round 2 (if 0 < fv then ov / fv else 1)\<rparr>)))"

section \<open>Specifications\<close>

text \<open>A symmetric positive semidefinite \<open>2 \<times> 2\<close> matrix, and its quadratic form.\<close>

definition psd2 :: "mat2 \<Rightarrow> bool" where
  "psd2 P \<longleftrightarrow> e01 P = e10 P \<and> 0 \<le> e00 P \<and> 0 \<le> e11 P \<and> (e01 P)\<^sup>2 \<le> e00 P * e11 P"

definition quad :: "mat2 \<Rightarrow> real \<Rightarrow> real \<Rightarrow> real" where
  "quad P a b = e00 P * a\<^sup>2 + (e01 P + e10 P) * a * b + e11 P * b\<^sup>2"

text \<open>The docstring's covariance update \<open>P = (I - K H) P\<close>.\<close>

definition textbook_update :: "mat2 \<Rightarrow> real \<times> real \<Rightarrow> mat2" where
  "textbook_update P K = mat2_mul (mat2_sub mat2_eye (gain_H K)) P"


text \<open>The invariant of the filter object: both covariances symmetric positive
  semidefinite, the measurement noise nonnegative.\<close>

definition kf_inv :: "kf_state \<Rightarrow> bool" where
  "kf_inv s \<longleftrightarrow> psd2 (kP s) \<and> psd2 (kQ s) \<and> 0 \<le> kR s"

text \<open>The states a \<open>WeatherKalmanFilter\<close> object reaches through its public methods,
  configured with nonnegative noise.\<close>

inductive kf_reach :: "kf_state \<Rightarrow> bool" where
  init: "kf_reach kf_init"
| configure: "kf_reach s \<Longrightarrow> 0 \<le> q \<Longrightarrow> 0 \<le> r \<Longrightarrow> kf_reach (configure q r s)"
| filter: "kf_reach s \<Longrightarrow> filter_data obs s = (res, s') \<Longrightarrow> kf_reach s'"
| forecast: "kf_reach s \<Longrightarrow> kf_reach (snd (forecast k s))"

section \<open>Lemmas on the matrices\<close>

lemma quad_congr:
  "quad (mat2_mul (mat2_mul A P) (mat2_T A)) a b = quad P (e00 A * a + e10 A * b) (e01 A * a + e11 A * b)"
  by (simp add: quad_def mat2_mul_def mat2_T_def power2_eq_square algebra_simps)

lemma psd2_quad:
  assumes "psd2 P" shows "0 \<le> quad P a b"
proof (cases "e00 P = 0")
  case True
  then have "e01 P = 0" "e10 P = 0" using assms by (auto simp: psd2_def)
  then show ?thesis using True assms by (simp add: quad_def psd2_def)
next
  case False
  then have p: "0 < e00 P" using assms by (simp add: psd2_def)
  have "e00 P * quad P a b = (e00 P * a + e01 P * b)\<^sup>2 + (e00 P * e11 P - (e01 P)\<^sup>2) * b\<^sup>2"
    using assms by (simp add: quad_def psd2_def power2_eq_square algebra_simps)
  moreover have "0 \<le> (e00 P * a + e01 P * b)\<^sup>2 + (e00 P * e11 P - (e01 P)\<^sup>2) * b\<^sup>2"
  proof -
    have "0 \<le> e00 P * e11 P - (e01 P)\<^sup>2" using assms unfolding psd2_def by linarith
    then show ?thesis by (intro add_nonneg_nonneg) simp_all
  qed
  ultimately have "0 \<le> e00 P * quad P a b" by simp
  then show ?thesis using p by (simp add: zero_le_mult_iff)
qed

lemma quad_psd2:
  assumes sym: "e01 P = e10 P" and q: "\<And>a b. 0 \<le> quad P a b"
  shows "psd2 P"
proof -
  have d0: "0 \<le> e00 P" using q [of 1 0] by (simp add: quad_def)
  have d1: "0 \<le> e11 P" using q [of 0 1] by (simp add: quad_def)
  have "(e01 P)\<^sup>2 \<le> e00 P * e11 P"
  proof (cases "e11 P = 0")
    case True
    have "0 \<le> quad P (e01 P) (- (e00 P + 1))" by (rule q)
    then have "(e01 P)\<^sup>2 * (e00 P + 2) \<le> 0"
      using True sym by (simp add: quad_def power2_eq_square algebra_simps)
    moreover have "0 < e00 P + 2" using d0 by simp
    ultimately have "(e01 P)\<^sup>2 \<le> 0" by (simp add: mult_le_0_iff)
    then show ?thesis using True by simp
  next
    case False
    then have p: "0 < e11 P" using d1 by simp
    have "0 \<le> quad P (e11 P) (- e01 P)" by (rule q)
    then have "0 \<le> e11 P * (e00 P * e11 P - (e01 P)\<^sup>2)"
      using sym by (simp add: quad_def power2_eq_square algebra_simps)
    then show ?thesis using p by (simp add: zero_le_mult_iff)
  qed
  then show ?thesis using sym d0 d1 by (simp add: psd2_def)
qed

lemma psd2_congr:
  assumes "psd2 P" shows "psd2 (mat2_mul (mat2_mul A P) (mat2_T A))"
proof (rule quad_psd2)
  show "e01 (mat2_mul (mat2_mul A P) (mat2_T A)) = e10 (mat2_mul (mat2_mul A P) (mat2_T A))"
    using assms by (simp add: psd2_def mat2_mul_def mat2_T_def algebra_simps)
  show "0 \<le> quad (mat2_mul (mat2_mul A P) (mat2_T A)) a b" for a b
    unfolding quad_congr by (rule psd2_quad [OF assms])
qed

lemma quad_add: "quad (mat2_add P Q) a b = quad P a b + quad Q a b"
  by (simp add: quad_def mat2_add_def algebra_simps)

lemma psd2_add:
  assumes "psd2 P" "psd2 Q" shows "psd2 (mat2_add P Q)"
proof (rule quad_psd2)
  show "e01 (mat2_add P Q) = e10 (mat2_add P Q)" using assms by (simp add: psd2_def mat2_add_def)
  show "0 \<le> quad (mat2_add P Q) a b" for a b
    unfolding quad_add using psd2_quad [OF assms(1)] psd2_quad [OF assms(2)] by (rule add_nonneg_nonneg)
qed

lemma psd2_scale:
  assumes "0 \<le> c" "psd2 P" shows "psd2 (mat2_scale c P)"
proof (rule quad_psd2)
  show "e01 (mat2_scale c P) = e10 (mat2_scale c P)" using assms by (simp add: psd2_def mat2_scale_def)
  show "0 \<le> quad (mat2_scale c P) a b" for a b
  proof -
    have "quad (mat2_scale c P) a b = c * quad P a b" by (simp add: quad_def mat2_scale_def algebra_simps)
    then show ?thesis using assms psd2_quad [OF assms(2)] by simp
  qed
qed

lemma psd2_outer: "psd2 (outer u)"
  by (simp add: psd2_def outer_def power2_eq_square)

lemma psd2_Q_shape: "psd2 Q_shape"
  by (simp add: psd2_def Q_shape_def power2_eq_square)


section \<open>Lemmas on predict and update\<close>

lemma joseph_scalar:
  fixes p r :: real
  assumes "p + r \<noteq> 0"
  shows "(1 - p / (p + r))\<^sup>2 * p + r * (p / (p + r))\<^sup>2 = p * r / (p + r)"
proof -
  have a: "1 - p / (p + r) = r / (p + r)" using assms by (simp add: field_simps)
  have "(r / (p + r))\<^sup>2 * p + r * (p / (p + r))\<^sup>2 = (p * r) * (p + r) / ((p + r) * (p + r))"
    by (simp add: power_divide power2_eq_square add_divide_distrib algebra_simps)
  also have "\<dots> = p * r / (p + r)" using assms by simp
  finally show ?thesis unfolding a .
qed

lemma kf_predict_simps [simp]:
  "kQ (kf_predict s) = kQ s" "kR (kf_predict s) = kR s" "kK (kf_predict s) = kK s"
  "kx (kf_predict s) = mat2_vec F_cv (kx s)"
  "kP (kf_predict s) = mat2_add (mat2_mul (mat2_mul F_cv (kP s)) (mat2_T F_cv)) (kQ s)"
  by (simp_all add: kf_predict_def Let_def)

lemma kf_predict_inv: "kf_inv s \<Longrightarrow> kf_inv (kf_predict s)"
  by (simp add: kf_inv_def psd2_add psd2_congr)

lemma kf_update_Inl: "kf_update z s = (Inl e, s') \<Longrightarrow> s' = s \<and> e = LinAlgError"
  by (simp add: kf_update_def Let_def split: if_splits)

lemma kf_update_Inr:
  assumes "kf_update z s = (Inr u, s')"
  shows "e00 (kP s) + kR s \<noteq> 0 \<and> kQ s' = kQ s \<and> kR s' = kR s \<and>
         kK s' = (e00 (kP s) / (e00 (kP s) + kR s), e10 (kP s) / (e00 (kP s) + kR s)) \<and>
         kP s' = mat2_add (mat2_mul (mat2_mul (mat2_sub mat2_eye (gain_H (kK s'))) (kP s))
                                    (mat2_T (mat2_sub mat2_eye (gain_H (kK s')))))
                          (mat2_scale (kR s) (outer (kK s')))"
  using assms by (auto simp: kf_update_def Let_def split: if_splits)

lemma kf_update_inv:
  assumes "kf_inv s" "kf_update z s = (u, s')"
  shows "kf_inv s'"
proof (cases u)
  case (Inl e)
  then show ?thesis using assms kf_update_Inl by auto
next
  case (Inr v)
  note up = kf_update_Inr [OF assms(2) [unfolded Inr]]
  have "psd2 (kP s')" unfolding up [THEN conjunct2, THEN conjunct2, THEN conjunct2, THEN conjunct2]
    using assms(1) by (intro psd2_add psd2_congr psd2_scale psd2_outer) (auto simp: kf_inv_def)
  then show ?thesis using assms(1) up by (simp add: kf_inv_def)
qed

lemma kf_update_succeeds:
  assumes "kf_inv s" "0 < kR s"
  shows "\<exists>s'. kf_update z s = (Inr (), s')"
proof -
  have "e00 (kP s) + kR s \<noteq> 0" using assms by (simp add: kf_inv_def psd2_def add_nonneg_pos)
  then show ?thesis by (simp add: kf_update_def Let_def)
qed

text \<open>The position entries of the update: the gain lies in \<open>[0, 1]\<close> and the position
  variance becomes \<open>P\<^sub>0\<^sub>0 R / (P\<^sub>0\<^sub>0 + R)\<close>, no more than before.\<close>

lemma kf_update_position:
  assumes "kf_inv s" "kf_update z s = (Inr u, s')"
  shows "0 \<le> fst (kK s') \<and> fst (kK s') \<le> 1 \<and>
         e00 (kP s') = e00 (kP s) * kR s / (e00 (kP s) + kR s) \<and>
         0 \<le> e00 (kP s') \<and> e00 (kP s') \<le> e00 (kP s)"
proof -
  let ?p = "e00 (kP s)" and ?r = "kR s"
  note up = kf_update_Inr [OF assms(2)]
  have p: "0 \<le> ?p" "0 \<le> ?r" using assms(1) by (simp_all add: kf_inv_def psd2_def)
  have S: "0 < ?p + ?r" using up p by linarith
  have k: "fst (kK s') = ?p / (?p + ?r)" using up by simp
  have "e00 (kP s') = (1 - ?p / (?p + ?r))\<^sup>2 * ?p + ?r * (?p / (?p + ?r))\<^sup>2"
    using up by (simp add: mat2_mul_def mat2_T_def mat2_add_def mat2_sub_def mat2_eye_def gain_H_def
                           mat2_scale_def outer_def power2_eq_square algebra_simps)
  also have "\<dots> = ?p * ?r / (?p + ?r)"
    using S by (intro joseph_scalar) simp
  finally have e: "e00 (kP s') = ?p * ?r / (?p + ?r)" .
  have "?p * ?r / (?p + ?r) \<le> ?p"
    using S p by (simp add: divide_le_eq mult_left_mono)
  then show ?thesis using k e S p by (simp add: divide_le_eq)
qed


lemma joseph_form:
  assumes a: "(1 - fst K) * e00 P - r * fst K = 0" and b: "(e10 P - snd K * e00 P) - r * snd K = 0"
  shows "mat2_add (mat2_mul (mat2_mul (mat2_sub mat2_eye (gain_H K)) P) (mat2_T (mat2_sub mat2_eye (gain_H K))))
                  (mat2_scale r (outer K)) =
         mat2_mul (mat2_sub mat2_eye (gain_H K)) P"
    (is "?J = ?T")
proof (rule mat2.equality)
  have "e00 ?J - e00 ?T = - fst K * ((1 - fst K) * e00 P - r * fst K)"
    by (simp add: mat2_add_def mat2_mul_def mat2_sub_def mat2_eye_def gain_H_def mat2_T_def mat2_scale_def
                  outer_def algebra_simps)
  then show "e00 ?J = e00 ?T" using a by simp
  have "e01 ?J - e01 ?T = - snd K * ((1 - fst K) * e00 P - r * fst K)"
    by (simp add: mat2_add_def mat2_mul_def mat2_sub_def mat2_eye_def gain_H_def mat2_T_def mat2_scale_def
                  outer_def algebra_simps)
  then show "e01 ?J = e01 ?T" using a by simp
  have "e10 ?J - e10 ?T = - fst K * ((e10 P - snd K * e00 P) - r * snd K)"
    by (simp add: mat2_add_def mat2_mul_def mat2_sub_def mat2_eye_def gain_H_def mat2_T_def mat2_scale_def
                  outer_def algebra_simps)
  then show "e10 ?J = e10 ?T" using b by simp
  have "e11 ?J - e11 ?T = - snd K * ((e10 P - snd K * e00 P) - r * snd K)"
    by (simp add: mat2_add_def mat2_mul_def mat2_sub_def mat2_eye_def gain_H_def mat2_T_def mat2_scale_def
                  outer_def algebra_simps)
  then show "e11 ?J = e11 ?T" using b by simp
qed (simp add: mat2_add_def mat2_mul_def)

lemma joseph_textbook_eq:
  assumes "kf_update z s = (Inr u, s')"
  shows "kP s' = textbook_update (kP s) (kK s')"
proof -
  note up = kf_update_Inr [OF assms]
  have S: "e00 (kP s) + kR s \<noteq> 0" and K: "kK s' = (e00 (kP s) / (e00 (kP s) + kR s), e10 (kP s) / (e00 (kP s) + kR s))"
    using up by simp_all
  have "(1 - fst (kK s')) * e00 (kP s) - kR s * fst (kK s') = 0"
    "(e10 (kP s) - snd (kK s') * e00 (kP s)) - kR s * snd (kK s') = 0"
    using S unfolding K by (simp_all add: field_simps)
  then show ?thesis using up unfolding textbook_update_def by (simp only: joseph_form)
qed

section \<open>Lemmas on the loops\<close>

lemma filter_loop_Cons_cases:
  assumes "filter_loop (z # zs) s = (res, s')"
  obtains (err) "kf_update z (kf_predict s) = (Inl LinAlgError, s')" "res = Inl LinAlgError"
  | (ok) u r3 s2 where "kf_update z (kf_predict s) = (Inr u, s2)" "filter_loop zs s2 = (r3, s')"
      "res = (case r3 of Inl e \<Rightarrow> Inl e
              | Inr outs \<Rightarrow> Inr (\<lparr>out_pos = fst (kx s2), out_vel = snd (kx s2), out_gain = fst (kK s2),
                                  out_unc = e00 (kP s2), out_innov = z - fst (kx (kf_predict s))\<rparr> # outs))"
proof -
  obtain u s2 where up: "kf_update z (kf_predict s) = (u, s2)" by (cases "kf_update z (kf_predict s)")
  show ?thesis
  proof (cases u)
    case (Inl e)
    then have "s2 = kf_predict s" "e = LinAlgError" using up kf_update_Inl by blast+
    then show ?thesis using up assms Inl err by (simp add: Let_def)
  next
    case (Inr v)
    obtain r3 s3 where lp: "filter_loop zs s2 = (r3, s3)" by (cases "filter_loop zs s2")
    then show ?thesis using up assms Inr ok by (cases r3) (auto simp: Let_def)
  qed
qed

lemma filter_loop_inv:
  "kf_inv s \<Longrightarrow> filter_loop zs s = (res, s') \<Longrightarrow> kf_inv s' \<and> kQ s' = kQ s \<and> kR s' = kR s"
proof (induction zs arbitrary: s res s')
  case Nil
  then show ?case by simp
next
  case (Cons z zs)
  have p: "kf_inv (kf_predict s)" using Cons.prems(1) by (rule kf_predict_inv)
  from Cons.prems(2) show ?case
  proof (cases rule: filter_loop_Cons_cases)
    case err
    then show ?thesis using kf_update_Inl [OF err(1)] p by simp
  next
    case (ok u r3 s2)
    have i2: "kf_inv s2" using kf_update_inv [OF p ok(1)] .
    have e2: "kQ s2 = kQ s" "kR s2 = kR s" using kf_update_Inr [OF ok(1)] by simp_all
    show ?thesis using Cons.IH [OF i2 ok(2)] e2 by simp
  qed
qed


lemma filter_loop_ok:
  assumes "kf_inv s" "0 < kR s"
  shows "\<exists>outs s'. filter_loop zs s = (Inr outs, s') \<and> length outs = length zs \<and> kf_inv s' \<and>
           (\<forall>w\<in>set outs. 0 \<le> out_gain w \<and> out_gain w \<le> 1 \<and> 0 \<le> out_unc w)"
  using assms
proof (induction zs arbitrary: s)
  case Nil
  then show ?case by simp
next
  case (Cons z zs)
  have p: "kf_inv (kf_predict s)" "0 < kR (kf_predict s)" using Cons.prems kf_predict_inv by simp_all
  obtain s2 where up: "kf_update z (kf_predict s) = (Inr (), s2)" using kf_update_succeeds [OF p] by blast
  have i2: "kf_inv s2" using kf_update_inv [OF p(1) up] .
  have r2: "0 < kR s2" using kf_update_Inr [OF up] p(2) by simp
  have pos: "0 \<le> fst (kK s2) \<and> fst (kK s2) \<le> 1 \<and> 0 \<le> e00 (kP s2)"
    using kf_update_position [OF p(1) up] by simp
  obtain outs s' where lp: "filter_loop zs s2 = (Inr outs, s')" "length outs = length zs" "kf_inv s'"
    "\<forall>w\<in>set outs. 0 \<le> out_gain w \<and> out_gain w \<le> 1 \<and> 0 \<le> out_unc w"
    using Cons.IH [OF i2 r2] by blast
  show ?case using up lp pos by (simp add: Let_def)
qed

lemma predict_loop_Suc:
  "predict_loop (Suc n) s = (fst (kx (kf_predict s)) # fst (predict_loop n (kf_predict s)),
                             snd (predict_loop n (kf_predict s)))"
  by (simp add: Let_def split_def)

lemma predict_loop_eq:
  "fst (predict_loop n s) = map (\<lambda>k. fst (kx s) + real k * snd (kx s)) [1..<Suc n] \<and>
   kx (snd (predict_loop n s)) = (fst (kx s) + real n * snd (kx s), snd (kx s)) \<and>
   kQ (snd (predict_loop n s)) = kQ s \<and> kR (snd (predict_loop n s)) = kR s \<and>
   kK (snd (predict_loop n s)) = kK s"
proof (induction n arbitrary: s)
  case 0
  then show ?case by simp
next
  case (Suc n)
  let ?s1 = "kf_predict s"
  have x1: "kx ?s1 = (fst (kx s) + snd (kx s), snd (kx s))" by (simp add: mat2_vec_def F_cv_def)
  have x1': "mat2_vec F_cv (kx s) = (fst (kx s) + snd (kx s), snd (kx s))" by (simp add: mat2_vec_def F_cv_def)
  have m: "map (\<lambda>k. fst (kx s) + snd (kx s) + real k * snd (kx s)) [1..<Suc n] =
           map (\<lambda>k. fst (kx s) + real k * snd (kx s)) [2..<Suc (Suc n)]"
  proof -
    have "[2..<Suc (Suc n)] = map Suc [1..<Suc n]" by (simp add: map_Suc_upt numeral_2_eq_2)
    then show ?thesis by (simp add: algebra_simps del: upt_Suc)
  qed
  have u: "[1..<Suc (Suc n)] = 1 # [2..<Suc (Suc n)]"
    using upt_conv_Cons [of 1 "Suc (Suc n)"] by (simp add: numeral_2_eq_2)
  have "fst (predict_loop n ?s1) = map (\<lambda>k. fst (kx s) + snd (kx s) + real k * snd (kx s)) [1..<Suc n]"
    using Suc.IH [of ?s1] x1 by (simp del: upt_Suc)
  then have "fst (predict_loop (Suc n) s) = map (\<lambda>k. fst (kx s) + real k * snd (kx s)) [1..<Suc (Suc n)]"
    unfolding predict_loop_Suc u m using x1 by simp
  moreover have "kx (snd (predict_loop (Suc n) s)) = (fst (kx s) + real (Suc n) * snd (kx s), snd (kx s))"
    using Suc.IH [of ?s1] x1 unfolding predict_loop_Suc by (simp add: algebra_simps)
  ultimately show ?case using Suc.IH [of ?s1] x1' unfolding predict_loop_Suc by (simp del: upt_Suc)
qed

lemma forecast_eq:
  "fst (forecast k s) = map (\<lambda>j. fst (kx s) + real j * snd (kx s)) [1..<Suc (nat k)] \<and>
   kx (snd (forecast k s)) = kx s \<and> kP (snd (forecast k s)) = kP s \<and>
   kQ (snd (forecast k s)) = kQ s \<and> kR (snd (forecast k s)) = kR s \<and> kK (snd (forecast k s)) = kK s"
proof -
  obtain fs s' where e: "predict_loop (nat k) s = (fs, s')" by (cases "predict_loop (nat k) s")
  then show ?thesis using predict_loop_eq [of "nat k" s] by (simp add: forecast_def)
qed


lemma psd2_eye: "psd2 mat2_eye"
  by (simp add: psd2_def mat2_eye_def)

lemma kf_inv_configured: "0 \<le> q \<Longrightarrow> 0 \<le> r \<Longrightarrow> kf_inv (configure q r kf_init)"
  by (simp add: kf_inv_def configure_def kf_init_def psd2_scale psd2_eye psd2_Q_shape)

lemma kf_inv_set_x [simp]: "kf_inv (s\<lparr>kx := x\<rparr>) = kf_inv s"
  by (simp add: kf_inv_def)

lemma filter_data_inv:
  assumes "kf_inv s" "filter_data obs s = (res, s')"
  shows "kf_inv s'"
proof (cases "obs = []")
  case True
  then show ?thesis using assms by (simp add: filter_data_def)
next
  case False
  obtain r0 s0 where lp: "filter_loop obs (s\<lparr>kx := (hd obs, 0)\<rparr>) = (r0, s0)"
    by (cases "filter_loop obs (s\<lparr>kx := (hd obs, 0)\<rparr>)")
  then have "s' = s0" using assms(2) False by (cases r0) (simp_all add: filter_data_def)
  then show ?thesis using filter_loop_inv [OF _ lp] assms(1) by simp
qed

lemma filter_data_ok:
  assumes "kf_inv s" "0 < kR s" "obs \<noteq> []"
  shows "\<exists>res s'. filter_data obs s = (Inr res, s') \<and> length (filtered res) = length obs \<and>
           final_state res = kx s' \<and> length (kalman_gains res) = length obs \<and>
           length (uncertainties res) = length obs \<and>
           (\<forall>g\<in>set (kalman_gains res). 0 \<le> g \<and> g \<le> 1) \<and> (\<forall>u\<in>set (uncertainties res). 0 \<le> u)"
proof -
  obtain outs s' where lp: "filter_loop obs (s\<lparr>kx := (hd obs, 0)\<rparr>) = (Inr outs, s')" "length outs = length obs"
    "\<forall>w\<in>set outs. 0 \<le> out_gain w \<and> out_gain w \<le> 1 \<and> 0 \<le> out_unc w"
    using filter_loop_ok [of "s\<lparr>kx := (hd obs, 0)\<rparr>" obs] assms by auto
  then show ?thesis using assms(3) by (auto simp: filter_data_def)
qed

lemma filter_loop_length:
  "filter_loop zs s = (Inr outs, s') \<Longrightarrow> length outs = length zs"
proof (induction zs arbitrary: s outs)
  case Nil
  then show ?case by simp
next
  case (Cons z zs)
  from Cons.prems show ?case
  proof (cases rule: filter_loop_Cons_cases)
    case err
    then show ?thesis by simp
  next
    case (ok u r3 s2)
    then obtain outs' where r3: "r3 = Inr outs'" by (cases r3) auto
    then have "length outs = Suc (length outs')" using ok(3) by simp
    then show ?thesis using Cons.IH [OF ok(2) [unfolded r3]] by simp
  qed
qed

lemma run_filter_singular:
  assumes "3 \<le> length data"
  shows "run_filter data 0 0 = Inl LinAlgError"
proof -
  obtain a b c rest where d: "data = a # b # c # rest"
    using assms by (auto simp: numeral_3_eq_3 Suc_le_length_iff)
  show ?thesis unfolding d
    by (simp add: run_filter_def filter_data_def configure_def kf_init_def kf_predict_def kf_update_def
        mat2_mul_def mat2_add_def mat2_sub_def mat2_scale_def mat2_eye_def mat2_T_def mat2_vec_def
        F_cv_def Q_shape_def gain_H_def outer_def Let_def)
qed

lemma run_filter_Inr:
  assumes as: "3 \<le> length data \<and> 0 \<le> q \<and> 0 < r"
  shows "\<exists>rep. run_filter data q r = Inr rep \<and> length (filtered_all rep) = length data \<and>
             forecast_7_days rep =
               map (\<lambda>j. fst (report_final_state rep) + real j * snd (report_final_state rep)) [1..<8] \<and>
             0 \<le> final_kalman_gain rep \<and> final_kalman_gain rep \<le> 1 \<and> 0 \<le> final_uncertainty rep"
proof -
  let ?s0 = "configure q r kf_init"
  have i0: "kf_inv ?s0" "0 < kR ?s0" using as kf_inv_configured [of q r] by (simp_all add: configure_def)
  have ne: "data \<noteq> []" using as by auto
  obtain res s' where fd: "filter_data data ?s0 = (Inr res, s')" and l: "length (filtered res) = length data"
    and fs: "final_state res = kx s'" and lg: "length (kalman_gains res) = length data"
    and lu: "length (uncertainties res) = length data"
    and g: "\<forall>g\<in>set (kalman_gains res). 0 \<le> g \<and> g \<le> 1" and u: "\<forall>u\<in>set (uncertainties res). 0 \<le> u"
    using filter_data_ok [OF i0 ne] by blast
  have "kalman_gains res \<noteq> []" "uncertainties res \<noteq> []" using lg lu ne by auto
  then have "last (kalman_gains res) \<in> set (kalman_gains res)" "last (uncertainties res) \<in> set (uncertainties res)"
    by (simp_all add: last_in_set)
  then have b: "0 \<le> last (kalman_gains res) \<and> last (kalman_gains res) \<le> 1 \<and> 0 \<le> last (uncertainties res)"
    using g u by blast
  have "fst (forecast 7 s') = map (\<lambda>j. fst (kx s') + real j * snd (kx s')) [1..<8]"
    using forecast_eq [of 7 s'] by simp
  then show "\<exists>rep. run_filter data q r = Inr rep \<and> length (filtered_all rep) = length data \<and>
             forecast_7_days rep =
               map (\<lambda>j. fst (report_final_state rep) + real j * snd (report_final_state rep)) [1..<8] \<and>
             0 \<le> final_kalman_gain rep \<and> final_kalman_gain rep \<le> 1 \<and> 0 \<le> final_uncertainty rep"
    using as fd l fs b by (simp add: run_filter_def Let_def)
qed

section \<open>Properties of the filter\<close>

text \<open>C21: every state a filter object reaches through its constructor,
  \<open>configure\<close> with nonnegative noise, \<open>filter_data\<close> and \<open>forecast\<close> has symmetric
  positive semidefinite state and process covariances and a nonnegative measurement
  noise.\<close>

theorem kf_reach_inv:
  assumes "kf_reach s"
  shows "kf_inv s"
  using assms
proof (induction rule: kf_reach.induct)
  case init
  then show ?case by (simp add: kf_inv_def kf_init_def psd2_scale psd2_eye)
next
  case (configure s q r)
  then show ?case by (simp add: kf_inv_def configure_def psd2_scale psd2_Q_shape)
next
  case (filter s obs res s')
  then show ?case using filter_data_inv by blast
next
  case (forecast s k)
  then show ?case using forecast_eq [of k s] by (simp add: kf_inv_def)
qed

theorem kf_reach_inv_witness:
  "kf_inv (snd (filter_data [20.1, 20.5] (configure 0.1 1 kf_init)))"
proof -
  have "kf_reach (configure 0.1 1 kf_init)" by (rule kf_reach.configure [OF kf_reach.init]) simp_all
  moreover have "filter_data [20.1, 20.5] (configure 0.1 1 kf_init) =
      (fst (filter_data [20.1, 20.5] (configure 0.1 1 kf_init)), snd (filter_data [20.1, 20.5] (configure 0.1 1 kf_init)))"
    by simp
  ultimately have "kf_reach (snd (filter_data [20.1, 20.5] (configure 0.1 1 kf_init)))"
    by (rule kf_reach.filter)
  then show ?thesis by (rule kf_reach_inv)
qed

text \<open>C22: \<open>run_filter\<close> raises \<open>ValueError\<close> below three points; from three points on,
  with nonnegative process noise and positive measurement noise, it returns a report
  with one filtered value per observation, a forecast that extrapolates the final
  state linearly over seven steps, a final gain in \<open>[0, 1]\<close> and a nonnegative final
  uncertainty.\<close>

theorem run_filter_outcome:
  "(length data < 3 \<longrightarrow> run_filter data q r = Inl ValueError) \<and>
   (3 \<le> length data \<and> 0 \<le> q \<and> 0 < r \<longrightarrow>
      (\<exists>rep. run_filter data q r = Inr rep \<and> length (filtered_all rep) = length data \<and>
             forecast_7_days rep =
               map (\<lambda>j. fst (report_final_state rep) + real j * snd (report_final_state rep)) [1..<8] \<and>
             0 \<le> final_kalman_gain rep \<and> final_kalman_gain rep \<le> 1 \<and> 0 \<le> final_uncertainty rep))"
proof (intro conjI impI)
  show "run_filter data q r = Inl ValueError" if "length data < 3" using that by (simp add: run_filter_def)
next
  assume "3 \<le> length data \<and> 0 \<le> q \<and> 0 < r"
  then show "\<exists>rep. run_filter data q r = Inr rep \<and> length (filtered_all rep) = length data \<and>
             forecast_7_days rep =
               map (\<lambda>j. fst (report_final_state rep) + real j * snd (report_final_state rep)) [1..<8] \<and>
             0 \<le> final_kalman_gain rep \<and> final_kalman_gain rep \<le> 1 \<and> 0 \<le> final_uncertainty rep"
    by (rule run_filter_Inr)
qed

theorem run_filter_outcome_witness:
  "run_filter [20.1, 20.5] 0.1 1 = Inl ValueError \<and>
   (\<exists>rep. run_filter [20.1, 20.5, 21.2] 0.1 1 = Inr rep \<and> length (filtered_all rep) = 3)"
  using run_filter_outcome [of "[20.1, 20.5]" "0.1" 1] run_filter_outcome [of "[20.1, 20.5, 21.2]" "0.1" 1]
  by auto

text \<open>C23: with zero process noise and zero measurement noise, \<open>run_filter\<close> raises
  \<open>LinAlgError\<close> on every series of at least three points: the covariance collapses
  to zero after two updates, so \<open>S = H P H\<^sup>T + R\<close> is singular at the third.\<close>

theorem zero_noise_singular:
  assumes "3 \<le> length data"
  shows "run_filter data 0 0 = Inl LinAlgError"
  using assms by (rule run_filter_singular)

theorem zero_noise_singular_witness:
  "run_filter [20.1, 20.5, 21.2, 20.8, 21.5, 22.0] 0 0 = Inl LinAlgError"
  by (rule zero_noise_singular) simp


text \<open>C24: the covariance update the loop of \<open>filter_data\<close> runs through filterpy (the
  Joseph form) equals the docstring's \<open>P = (I - K H) P\<close> on the predicted covariance,
  whenever the step succeeds.\<close>

theorem filter_step_textbook:
  assumes "filter_loop [z] s = (Inr outs, s')"
  shows "kP s' = textbook_update (kP (kf_predict s)) (kK s')"
  using assms
proof (cases rule: filter_loop_Cons_cases)
  case err
  then show ?thesis using assms by simp
next
  case (ok u r3 s2)
  then have "s' = s2" by simp
  then show ?thesis using joseph_textbook_eq [OF ok(1)] by simp
qed

theorem filter_step_textbook_witness:
  "\<exists>outs s'. filter_loop [20] (configure 0.1 1 kf_init) = (Inr outs, s') \<and>
     kP s' = textbook_update (kP (kf_predict (configure 0.1 1 kf_init))) (kK s')"
proof -
  have "kf_inv (configure 0.1 1 kf_init)" "0 < kR (configure 0.1 1 kf_init)"
    using kf_inv_configured [of "0.1" 1] by (simp_all add: configure_def)
  then obtain outs s' where lp: "filter_loop [20] (configure 0.1 1 kf_init) = (Inr outs, s')"
    using filter_loop_ok by blast
  then show ?thesis using filter_step_textbook [OF lp] by blast
qed

text \<open>\<open>forecast(k)\<close> extrapolates the current state linearly, \<open>x\<^sub>0 + j v\<close> for
  \<open>j = 1 .. k\<close> (nothing for a negative \<open>k\<close>), and leaves the estimate, its covariance,
  the noise and the gain as they were.\<close>

theorem forecast_linear:
  "forecast k s = (map (\<lambda>j. fst (kx s) + real j * snd (kx s)) [1..<Suc (nat k)], snd (forecast k s)) \<and>
   kx (snd (forecast k s)) = kx s \<and> kP (snd (forecast k s)) = kP s \<and>
   kQ (snd (forecast k s)) = kQ s \<and> kR (snd (forecast k s)) = kR s \<and> kK (snd (forecast k s)) = kK s"
  using forecast_eq [of k s] by (simp add: prod_eq_iff)


lemma round_half_even_nonneg: "0 \<le> y \<Longrightarrow> 0 \<le> round_half_even y"
  by (simp add: round_half_even_def Let_def)

lemma py_round_nonneg: "0 \<le> x \<Longrightarrow> 0 \<le> py_round n x"
  by (simp add: py_round_def round_half_even_nonneg)

text \<open>C25: the report of \<open>run_filter\<close> agrees with its series: one filtered value per
  observation, \<open>filtered_last_10\<close> is the suffix of the filtered series (its last ten
  values, fewer on a shorter series), the last five velocities and seven forecast values;
  the reported minimum, mean and maximum of the data are in order; and the noise
  reduction, clipped at 0 before rounding, is never negative.\<close>

theorem run_filter_shape:
  assumes "run_filter data q r = Inr rep"
  shows "data_points rep = length data \<and> length (filtered_all rep) = length data \<and>
         filtered_last_10 rep = drop (length data - 10) (filtered_all rep) \<and>
         length (filtered_last_10 rep) = min 10 (length data) \<and>
         length (velocities_last_5 rep) = min 5 (length data) \<and> length (forecast_7_days rep) = 7 \<and>
         data_min rep \<le> data_mean rep \<and> data_mean rep \<le> data_max rep \<and>
         0 \<le> noise_reduction_percent rep"
proof -
  have ne: "data \<noteq> []" using assms by (auto simp: run_filter_def)
  obtain outs s' where lp: "filter_loop data ((configure q r kf_init)\<lparr>kx := (hd data, 0)\<rparr>) = (Inr outs, s')"
    using assms ne by (auto simp: run_filter_def filter_data_def split: prod.splits sum.splits if_splits)
  have l: "length outs = length data" using filter_loop_length [OF lp] .
  have "length (fst (forecast 7 s')) = 7" using forecast_eq [of 7 s'] by simp
  moreover have "np_min data \<le> np_mean data \<and> np_mean data \<le> np_max data"
    using np_mean_between [OF ne] by (simp add: np_min_Min [OF ne] np_max_Max [OF ne])
  ultimately show ?thesis using assms ne lp l
    by (auto simp: run_filter_def filter_data_def py_last_def Let_def py_round_nonneg split: if_splits sum.splits)
qed

theorem run_filter_shape_witness:
  "\<exists>rep. run_filter [20.1, 20.5, 21.2] 0.1 1 = Inr rep \<and> length (filtered_last_10 rep) = 3 \<and>
         length (velocities_last_5 rep) = 3 \<and> length (forecast_7_days rep) = 7"
proof -
  have "kf_inv (configure 0.1 1 kf_init)" "0 < kR (configure 0.1 1 kf_init)"
    using kf_inv_configured [of "0.1" 1] by (simp_all add: configure_def)
  then obtain res s' where fd: "filter_data [20.1, 20.5, 21.2] (configure 0.1 1 kf_init) = (Inr res, s')"
    and l: "length (filtered res) = length [20.1, 20.5, 21.2 :: real]"
    using filter_data_ok [of "configure 0.1 1 kf_init" "[20.1, 20.5, 21.2]"] by blast
  then have "\<exists>rep. run_filter [20.1, 20.5, 21.2] 0.1 1 = Inr rep" by (simp add: run_filter_def Let_def)
  then obtain rep where rep: "run_filter [20.1, 20.5, 21.2] 0.1 1 = Inr rep" by blast
  show ?thesis using run_filter_shape [OF rep] rep by auto
qed

end
