(* ===== verification/Arima.thy ===== *)
theory Arima
  imports NumPyOrder
begin

text \<open>
  The ARIMA wrapper, \<open>src/python-backend/algorithms/scientific/arima_model.py\<close>: the
  class \<open>WeatherARIMA\<close> (\<open>fit\<close>, \<open>forecast\<close>, \<open>diagnostics\<close>, \<open>get_equation\<close>) and
  the module function \<open>run_forecast\<close>. The estimation is statsmodels' and is not
  modelled: the routines the code calls (\<open>ARIMA(...).fit()\<close> with the attributes
  the code reads, \<open>get_forecast\<close>, \<open>adfuller\<close>, \<open>acf\<close>, \<open>pacf\<close>, \<open>acorr_ljungbox\<close>)
  are the fields of the record \<open>sm_lib\<close>, a parameter of the model. What the code
  computes itself is modelled: the object's state, the guards, the lag count, the
  residual moments, the trend of the differences and the in-sample metrics with
  numpy's broadcasting. Strings are byte strings: the \<open>\<epsilon>\<close> of the equation is its
  UTF-8 encoding.
\<close>

section \<open>numpy helpers\<close>

text \<open>\<open>np.diff\<close>, and \<open>a / b\<close> with broadcasting; a zero divisor makes numpy return
  \<open>inf\<close> or \<open>nan\<close>.\<close>

definition np_diff :: "vec \<Rightarrow> vec" where
  "np_diff xs = map2 (-) (tl xs) xs"

definition np_div :: "vec \<Rightarrow> vec \<Rightarrow> py_error + vec" where
  "np_div xs ys =
     (if length xs = length ys \<or> length ys = 1 \<or> length xs = 1
      then (if 0 \<in> set ys then Inl NonFinite
            else if length xs = length ys then Inr (map2 (/) xs ys)
            else if length ys = 1 then Inr (map (\<lambda>x. x / hd ys) xs)
            else Inr (map (\<lambda>y. hd xs / y) ys))
      else Inl ValueError)"

section \<open>The statsmodels interface\<close>

text \<open>A fitted model: the attributes \<open>fit\<close>, \<open>diagnostics\<close>, \<open>get_equation\<close> and
  \<open>run_forecast\<close> read, and \<open>get_forecast(steps)\<close> (mean, 95 percent bounds, variance).\<close>

record sm_results =
  sm_aic :: real
  sm_bic :: real
  sm_hqic :: real
  sm_llf :: real
  sm_arparams :: vec
  sm_maparams :: vec
  sm_params :: vec
  sm_resid :: vec
  sm_fittedvalues :: vec
  sm_forecast :: "int \<Rightarrow> py_error + vec \<times> vec \<times> vec \<times> vec"

record adf_result =
  adf_stat :: real
  adf_pvalue :: real
  adf_usedlag :: int
  adf_nobs :: int
  adf_crit1 :: real
  adf_crit5 :: real
  adf_crit10 :: real

text \<open>The library: \<open>ARIMA(data, order=...)\<close> (which validates its arguments),
  \<open>.fit()\<close>, \<open>adfuller\<close>, \<open>acf\<close>, \<open>pacf\<close>, the p-value of \<open>acorr_ljungbox\<close> at lag 10,
  and the format \<open>:.4f\<close> of a float.\<close>

record sm_lib =
  sm_model :: "int \<times> int \<times> int \<Rightarrow> vec \<Rightarrow> py_error option"
  sm_fit :: "int \<times> int \<times> int \<Rightarrow> vec \<Rightarrow> py_error + sm_results"
  adfuller :: "vec \<Rightarrow> py_error + adf_result"
  sm_acf :: "vec \<Rightarrow> int \<Rightarrow> py_error + vec"
  sm_pacf :: "vec \<Rightarrow> int \<Rightarrow> py_error + vec"
  ljungbox_p :: "vec \<Rightarrow> py_error + real"
  fmt4 :: "real \<Rightarrow> string"

section \<open>The object\<close>

text \<open>\<open>self.order\<close>, \<open>self.model\<close> (the unfitted model, known by its arguments),
  \<open>self.fitted\<close> and \<open>self.data\<close>.\<close>

record arima_state =
  arima_order :: "int \<times> int \<times> int"
  arima_model :: "((int \<times> int \<times> int) \<times> vec) option"
  arima_fitted :: "sm_results option"
  arima_data :: "vec option"

definition arima_init :: "int \<times> int \<times> int \<Rightarrow> arima_state" where
  "arima_init order = \<lparr>arima_order = order, arima_model = None, arima_fitted = None, arima_data = None\<rparr>"

record fit_stats =
  fs_aic :: real
  fs_bic :: real
  fs_hqic :: real
  fs_log_likelihood :: real
  fs_ar_coefficients :: vec
  fs_ma_coefficients :: vec
  fs_sigma2 :: real

text \<open>\<open>fit\<close>: \<open>self.data\<close> is assigned first, then \<open>self.model\<close> if the constructor
  accepts the arguments, then \<open>self.fitted\<close>; \<open>params[-1]\<close> raises on an empty
  parameter vector. (\<open>arparams.tolist() if len(arparams) > 0 else []\<close> is
  \<open>arparams\<close> either way.)\<close>

definition arima_fit :: "sm_lib \<Rightarrow> arima_state \<Rightarrow> vec \<Rightarrow> (py_error + fit_stats) \<times> arima_state" where
  "arima_fit L s data =
     (let s1 = s\<lparr>arima_data := Some data\<rparr>
      in case sm_model L (arima_order s) data of
           Some e \<Rightarrow> (Inl e, s1)
         | None \<Rightarrow>
             (let s2 = s1\<lparr>arima_model := Some (arima_order s, data)\<rparr>
              in case sm_fit L (arima_order s) data of
                   Inl e \<Rightarrow> (Inl e, s2)
                 | Inr r \<Rightarrow>
                     (let s3 = s2\<lparr>arima_fitted := Some r\<rparr>
                      in if sm_params r = [] then (Inl IndexError, s3)
                         else (Inr \<lparr>fs_aic = sm_aic r, fs_bic = sm_bic r, fs_hqic = sm_hqic r,
                                    fs_log_likelihood = sm_llf r, fs_ar_coefficients = sm_arparams r,
                                    fs_ma_coefficients = sm_maparams r, fs_sigma2 = last (sm_params r)\<rparr>, s3))))"

record forecast_result =
  fc_forecast :: vec
  fc_lower_95 :: vec
  fc_upper_95 :: vec
  fc_variance :: vec

definition arima_forecast :: "arima_state \<Rightarrow> int \<Rightarrow> py_error + forecast_result" where
  "arima_forecast s steps =
     (case arima_fitted s of
        None \<Rightarrow> Inl ValueError
      | Some r \<Rightarrow>
          (case sm_forecast r steps of
             Inl e \<Rightarrow> Inl e
           | Inr (m, lo, hi, v) \<Rightarrow>
               Inr \<lparr>fc_forecast = m, fc_lower_95 = lo, fc_upper_95 = hi, fc_variance = v\<rparr>))"

text \<open>The result of \<open>diagnostics\<close>. The residual entries are \<open>None\<close> when the model is
  not fitted. Where numpy computes \<open>nan\<close> or \<open>inf\<close> (a zero residual deviation, an
  empty residual vector) the function still returns; \<open>diag_finite\<close> records
  whether every float of the result is finite.\<close>

record diag_result =
  dg_adf :: adf_result
  dg_is_stationary :: bool
  dg_acf :: vec
  dg_pacf :: vec
  dg_resid_mean :: "real option"
  dg_resid_std :: "real option"
  dg_resid_skew :: "real option"
  dg_resid_kurtosis :: "real option"
  dg_ljung_box_p :: "real option"
  dg_is_white_noise :: "bool option"
  dg_finite :: bool

text \<open>\<open>len(data) // 2 - 1\<close> with Python's floor division.\<close>

definition n_lags :: "vec \<Rightarrow> int" where
  "n_lags data = min 10 (int (length data) div 2 - 1)"

definition diagnostics :: "sm_lib \<Rightarrow> arima_state \<Rightarrow> vec \<Rightarrow> py_error + diag_result" where
  "diagnostics L s data =
     (case adfuller L data of
        Inl e \<Rightarrow> Inl e
      | Inr adf \<Rightarrow>
          (case sm_acf L data (n_lags data) of
             Inl e \<Rightarrow> Inl e
           | Inr acfv \<Rightarrow>
               (case sm_pacf L data (n_lags data) of
                  Inl e \<Rightarrow> Inl e
                | Inr pacfv \<Rightarrow>
                    (let base = \<lparr>dg_adf = adf, dg_is_stationary = (adf_pvalue adf < 0.05),
                                 dg_acf = acfv, dg_pacf = pacfv, dg_resid_mean = None, dg_resid_std = None,
                                 dg_resid_skew = None, dg_resid_kurtosis = None, dg_ljung_box_p = None,
                                 dg_is_white_noise = None, dg_finite = True\<rparr>
                     in case arima_fitted s of
                          None \<Rightarrow> Inr base
                        | Some r \<Rightarrow>
                            (let res = sm_resid r; m = np_mean res; sd = np_std res;
                                 z = map (\<lambda>x. (x - m) / sd) res
                             in case ljungbox_p L res of
                                  Inl e \<Rightarrow> Inl e
                                | Inr lb \<Rightarrow>
                                    Inr (base\<lparr>dg_resid_mean := Some m, dg_resid_std := Some sd,
                                               dg_resid_skew := Some (np_mean (map (\<lambda>x. x ^ 3) z)),
                                               dg_resid_kurtosis := Some (np_mean (map (\<lambda>x. x ^ 4) z) - 3),
                                               dg_ljung_box_p := Some lb,
                                               dg_is_white_noise := (if lb \<noteq> 0 then Some (0.05 < lb) else None),
                                               dg_finite := (res \<noteq> [] \<and> sd \<noteq> 0)\<rparr>))))))"


section \<open>The equation string\<close>

text \<open>The UTF-8 bytes of \<open>\<epsilon>\<close>.\<close>

definition eps_utf8 :: string where
  "eps_utf8 = [CHR 0xCE, CHR 0xB5]"

definition get_equation :: "sm_lib \<Rightarrow> arima_state \<Rightarrow> string" where
  "get_equation L s =
     (case arima_fitted s of
        None \<Rightarrow> ''Model not fitted yet''
      | Some r \<Rightarrow>
          (case arima_order s of
             (p, d, q) \<Rightarrow>
               (let ar = sm_arparams r; ma = sm_maparams r;
                    eq = ''ARIMA('' @ py_str_int p @ '','' @ py_str_int d @ '','' @ py_str_int q @ ''): '';
                    eq1 = (if ar \<noteq> []
                           then eq @ ''y_t = '' @
                                py_join '' + '' (map (\<lambda>i. fmt4 L (ar ! i) @ ''*y_{t-'' @ py_str_int (int i + 1) @ ''}'')
                                                  [0..<length ar])
                           else eq @ ''y_t = '');
                    eq2 = (if ma \<noteq> []
                           then eq1 @ '' + '' @
                                py_join '' + '' (map (\<lambda>i. fmt4 L (ma ! i) @ ''*'' @ eps_utf8 @ ''_{t-'' @
                                                            py_str_int (int i + 1) @ ''}'') [0..<length ma])
                           else eq1)
                in eq2 @ '' + '' @ eps_utf8 @ ''_t'')))"

section \<open>The module function\<close>

record arima_report =
  rep_order :: "int \<times> int \<times> int"
  rep_equation :: string
  rep_fit_statistics :: fit_stats
  rep_forecast :: forecast_result
  rep_diagnostics :: diag_result
  rep_mae :: real
  rep_rmse :: real
  rep_mape :: "real option"
  rep_n_observations :: nat
  rep_trend :: string
  rep_mean :: real
  rep_std :: real
  rep_min :: real
  rep_max :: real

text \<open>The direction of \<open>np.mean(np.diff(data))\<close>.\<close>

definition diff_trend :: "vec \<Rightarrow> string" where
  "diff_trend data =
     (let md = np_mean (np_diff data)
      in if 0 < md then ''increasing'' else if md < 0 then ''decreasing'' else ''stable'')"

text \<open>\<open>run_forecast\<close>: at least ten points, a fresh object fitted, a forecast, the
  diagnostics, the trend and the in-sample metrics. \<open>mape\<close> divides the residuals by
  \<open>data[1:]\<close> when no value after the first is zero. The exceptions come in the
  order the code raises them; a \<open>nan\<close> or \<open>inf\<close> in the result (\<open>Inl NonFinite\<close>)
  surfaces only afterwards, when the response is encoded.\<close>

definition run_forecast :: "sm_lib \<Rightarrow> vec \<Rightarrow> int \<times> int \<times> int \<Rightarrow> int \<Rightarrow> py_error + arima_report" where
  "run_forecast L data order steps =
     (if length data < 10 then Inl ValueError
      else
        (case arima_fit L (arima_init order) data of
           (Inl e, _) \<Rightarrow> Inl e
         | (Inr fs, s1) \<Rightarrow>
             (case arima_forecast s1 steps of
                Inl e \<Rightarrow> Inl e
              | Inr fc \<Rightarrow>
                  (case diagnostics L s1 data of
                     Inl e \<Rightarrow> Inl e
                   | Inr dg \<Rightarrow>
                       (case arima_fitted s1 of
                          None \<Rightarrow> Inl AttributeError
                        | Some r \<Rightarrow>
                            (let res = sm_resid r
                             in case (if list_all (\<lambda>x. x \<noteq> 0) (tl data)
                                      then map_sum id Some (np_div res (tl data)) else Inr None) of
                                  Inl e \<Rightarrow> Inl e
                                | Inr qs \<Rightarrow>
                                    (if \<not> (dg_finite dg \<and> res \<noteq> []) then Inl NonFinite
                                     else Inr \<lparr>rep_order = order, rep_equation = get_equation L s1,
                                               rep_fit_statistics = fs, rep_forecast = fc, rep_diagnostics = dg,
                                               rep_mae = np_mean (map abs res),
                                               rep_rmse = sqrt (np_mean (map (\<lambda>e. e\<^sup>2) res)),
                                               rep_mape = map_option (\<lambda>q. np_mean (map abs q) * 100) qs,
                                               rep_n_observations = length data, rep_trend = diff_trend data,
                                               rep_mean = np_mean data, rep_std = np_std data,
                                               rep_min = np_min data, rep_max = np_max data\<rparr>)))))))"


section \<open>Lemmas\<close>

lemma np_diff_Cons2 [simp]: "np_diff (x # y # zs) = (y - x) # np_diff (y # zs)"
  by (simp add: np_diff_def)

lemma np_diff_single [simp]: "np_diff [x] = []"
  by (simp add: np_diff_def)

lemma length_np_diff: "length (np_diff xs) = length xs - 1"
  by (simp add: np_diff_def)

text \<open>The differences telescope.\<close>

lemma sum_np_diff: "xs \<noteq> [] \<Longrightarrow> sum_list (np_diff xs) = last xs - hd xs"
proof (induction xs rule: induct_list012)
  case (3 x y zs)
  then show ?case by simp
qed simp_all

lemma diff_trend_ends:
  assumes "2 \<le> length data"
  shows "diff_trend data =
           (if hd data < last data then ''increasing''
            else if last data < hd data then ''decreasing'' else ''stable'')"
proof -
  have ne: "data \<noteq> []" using assms by auto
  have n: "0 < real (length data - 1)" using assms by simp
  have "np_mean (np_diff data) = (last data - hd data) / real (length data - 1)"
    using sum_np_diff [OF ne] by (simp add: np_mean_def length_np_diff)
  then show ?thesis using n ne by (simp add: diff_trend_def Let_def zero_less_divide_iff divide_less_0_iff)
qed

text \<open>Residuals as long as the series cannot be divided by \<open>data[1:]\<close>.\<close>

lemma mape_broadcast:
  assumes "length res = length data" "3 \<le> length data"
  shows "np_div res (tl data) = Inl ValueError"
proof -
  have "length res \<noteq> length (tl data)" "length (tl data) \<noteq> 1" "length res \<noteq> 1" using assms by auto
  then show ?thesis by (simp add: np_div_def)
qed

lemma arima_fit_Inr:
  assumes "arima_fit L s data = (Inr fs, s1)"
  shows "\<exists>r. sm_fit L (arima_order s) data = Inr r \<and> arima_fitted s1 = Some r"
  using assms by (auto simp: arima_fit_def Let_def split: option.splits sum.splits if_splits)

section \<open>Properties\<close>

text \<open>A stand-in for statsmodels, for the examples: residuals one per observation, as
  statsmodels' ARIMA returns them.\<close>

definition example_sm :: sm_lib where
  "example_sm =
     \<lparr>sm_model = (\<lambda>_ _. None),
      sm_fit = (\<lambda>_ d. Inr \<lparr>sm_aic = 0, sm_bic = 0, sm_hqic = 0, sm_llf = 0, sm_arparams = [], sm_maparams = [],
                            sm_params = [1], sm_resid = d, sm_fittedvalues = d,
                            sm_forecast = (\<lambda>_. Inr ([], [], [], []))\<rparr>),
      adfuller = (\<lambda>_. Inr \<lparr>adf_stat = 0, adf_pvalue = 0.5, adf_usedlag = 0, adf_nobs = 0,
                          adf_crit1 = 0, adf_crit5 = 0, adf_crit10 = 0\<rparr>),
      sm_acf = (\<lambda>_ _. Inr []), sm_pacf = (\<lambda>_ _. Inr []), ljungbox_p = (\<lambda>_. Inr 0.5),
      fmt4 = (\<lambda>_. ''0.0000'')\<rparr>"

text \<open>Under the hypotheses of the \<open>mape\<close> property, \<open>run_forecast\<close> raises whatever the
  fit, the forecast or the diagnostics raise, and \<open>ValueError\<close> after them.\<close>

lemma run_forecast_mape_step:
  assumes "10 \<le> length data" "list_all (\<lambda>x. x \<noteq> 0) (tl data)"
    and "\<forall>r. sm_fit L order data = Inr r \<longrightarrow> length (sm_resid r) = length data"
  shows "run_forecast L data order steps =
           (case arima_fit L (arima_init order) data of
              (Inl e, _) \<Rightarrow> Inl e
            | (Inr fs, s1) \<Rightarrow>
                (case arima_forecast s1 steps of Inl e \<Rightarrow> Inl e
                 | Inr fc \<Rightarrow> (case diagnostics L s1 data of Inl e \<Rightarrow> Inl e | Inr dg \<Rightarrow> Inl ValueError)))"
proof -
  have lt: "\<not> length data < 10" using assms(1) by simp
  obtain rf s1 where af: "arima_fit L (arima_init order) data = (rf, s1)" by (cases "arima_fit L (arima_init order) data")
  show ?thesis
  proof (cases rf)
    case (Inl e)
    then show ?thesis using af lt by (simp add: run_forecast_def)
  next
    case (Inr fs)
    obtain r where r: "sm_fit L order data = Inr r" "arima_fitted s1 = Some r"
      using arima_fit_Inr [OF af [unfolded Inr]] by (auto simp: arima_init_def)
    have div: "np_div (sm_resid r) (tl data) = Inl ValueError"
      using mape_broadcast [of "sm_resid r" data] assms(1,3) r(1) by simp
    show ?thesis
      using lt af Inr r(2) div assms(2) by (simp add: run_forecast_def split: sum.split)
  qed
qed

lemma run_forecast_mape_Inl:
  assumes "10 \<le> length data" "list_all (\<lambda>x. x \<noteq> 0) (tl data)"
    and "\<forall>r. sm_fit L order data = Inr r \<longrightarrow> length (sm_resid r) = length data"
  shows "\<exists>e. run_forecast L data order steps = Inl e"
  unfolding run_forecast_mape_step [OF assms] by (auto split: prod.split sum.split)

text \<open>C27: \<open>run_forecast\<close> never returns a result on a series whose values after the
  first are all non-zero, when the fitted model has one residual per observation (as
  statsmodels' ARIMA has): \<open>residuals / data_array[1:]\<close> cannot broadcast, so once the
  fit, the forecast and the diagnostics succeed it raises \<open>ValueError\<close>.\<close>

theorem mape_never_computed:
  assumes "10 \<le> length data" "list_all (\<lambda>x. x \<noteq> 0) (tl data)"
    and "\<forall>r. sm_fit L order data = Inr r \<longrightarrow> length (sm_resid r) = length data"
  shows "(\<forall>rep. run_forecast L data order steps \<noteq> Inr rep) \<and>
         ((\<exists>fs s1 fc dg. arima_fit L (arima_init order) data = (Inr fs, s1) \<and>
             arima_forecast s1 steps = Inr fc \<and> diagnostics L s1 data = Inr dg) \<longrightarrow>
          run_forecast L data order steps = Inl ValueError)"
  using run_forecast_mape_step [OF assms, of steps] by (auto split: prod.split sum.split)

theorem mape_never_computed_witness:
  "run_forecast example_sm [1, 2, 3, 4, 5, 6, 7, 8, 9, 10] (2, 1, 1) 7 = Inl ValueError"
proof -
  have "\<forall>r. sm_fit example_sm (2, 1, 1) [1, 2, 3, 4, 5, 6, 7, 8, 9, 10] = Inr r \<longrightarrow>
          length (sm_resid r) = length [1, 2, 3, 4, 5, 6, 7, 8, 9, 10 :: real]"
    by (auto simp: example_sm_def)
  moreover have "\<exists>fs s1 fc dg. arima_fit example_sm (arima_init (2, 1, 1)) [1, 2, 3, 4, 5, 6, 7, 8, 9, 10] = (Inr fs, s1) \<and>
             arima_forecast s1 7 = Inr fc \<and> diagnostics example_sm s1 [1, 2, 3, 4, 5, 6, 7, 8, 9, 10] = Inr dg"
    by (simp add: arima_fit_def arima_init_def arima_forecast_def diagnostics_def example_sm_def Let_def)
  ultimately show ?thesis using mape_never_computed [of "[1, 2, 3, 4, 5, 6, 7, 8, 9, 10]" example_sm "(2, 1, 1)" 7]
    by simp
qed

text \<open>The trend \<open>run_forecast\<close> reports is the direction from the first to the
  last observation: the mean of the differences telescopes to
  \<open>(x\<^sub>n - x\<^sub>1) / (n - 1)\<close>.\<close>

theorem run_forecast_trend:
  assumes "run_forecast L data order steps = Inr rep"
  shows "rep_trend rep =
           (if hd data < last data then ''increasing''
            else if last data < hd data then ''decreasing'' else ''stable'')"
proof -
  have "2 \<le> length data" using assms by (auto simp: run_forecast_def split: if_splits)
  moreover have "rep_trend rep = diff_trend data"
    using assms by (auto simp: run_forecast_def Let_def split: if_splits sum.splits prod.splits option.splits)
  ultimately show ?thesis using diff_trend_ends by simp
qed

theorem run_forecast_trend_witness:
  "\<exists>rep. run_forecast example_sm [1, 0, 2, 3, 4, 5, 6, 7, 8, 9] (2, 1, 1) 7 = Inr rep \<and>
         rep_trend rep = ''increasing''"
proof -
  have "np_std [1, 0, 2, 3, 4, 5, 6, 7, 8, 9 :: real] \<noteq> 0"
    by (simp add: np_std_def np_var_def np_mean_def power2_eq_square)
  then obtain rep where rep: "run_forecast example_sm [1, 0, 2, 3, 4, 5, 6, 7, 8, 9] (2, 1, 1) 7 = Inr rep"
    by (simp add: run_forecast_def arima_fit_def arima_init_def arima_forecast_def diagnostics_def
                  example_sm_def Let_def)
  then show ?thesis using run_forecast_trend [OF rep] by simp
qed

end
