(* ===== verification/SkLearn.thy ===== *)
theory SkLearn
  imports NumPy
begin

text \<open>
  The scikit-learn routines the machine-learning wrappers of \<open>algorithms/ml/\<close> share,
  modelled from the library's semantics (they are not code of the repository), and the
  pieces of wrapper code the wrappers repeat. \<open>train_test_split(X, y, test_size=0.2,
  random_state=42)\<close> takes \<open>ceil(0.2 n)\<close> test rows and the rest for training, in the
  order of a permutation of the row indices drawn from the seeded generator; the
  permutation is the parameter \<open>perm\<close> with its contract \<open>valid_perm\<close>. The metrics
  are \<open>mean_absolute_error\<close>, \<open>mean_squared_error\<close> and \<open>r2_score\<close> with their
  input checks; \<open>r2_score\<close> of fewer than two samples is \<open>nan\<close> (the value
  \<open>None\<close> here). \<open>cross_val_score(..., cv=5)\<close> needs five samples for its folds;
  the fold scores themselves come from the estimator and are a parameter of each
  wrapper. Floats are reals: \<open>ceil(0.2 * n)\<close> is computed exactly, whereas the
  float product rounds up for some \<open>n\<close> (\<open>0.2 * 15\<close> is slightly above 3).
\<close>

section \<open>\<open>train_test_split\<close>\<close>

record split =
  sp_X_train :: "vec list"
  sp_X_test :: "vec list"
  sp_y_train :: vec
  sp_y_test :: vec

definition valid_perm :: "(nat \<Rightarrow> nat list) \<Rightarrow> bool" where
  "valid_perm perm \<longleftrightarrow> (\<forall>n. mset (perm n) = mset [0..<n])"

text \<open>The sizes of the split: \<open>ValueError\<close> when no training row is left.\<close>

definition tts_sizes :: "nat \<Rightarrow> py_error + nat \<times> nat" where
  "tts_sizes n =
     (let n_test = nat \<lceil>0.2 * real n\<rceil>; n_train = n - n_test
      in if n_train = 0 then Inl ValueError else Inr (n_train, n_test))"

definition train_test_split :: "(nat \<Rightarrow> nat list) \<Rightarrow> vec list \<Rightarrow> vec \<Rightarrow> py_error + split" where
  "train_test_split perm X y =
     (if length X \<noteq> length y then Inl ValueError
      else case tts_sizes (length y) of
             Inl e \<Rightarrow> Inl e
           | Inr (n_train, n_test) \<Rightarrow>
               (let p = perm (length y); te = take n_test p; tr = take n_train (drop n_test p)
                in Inr \<lparr>sp_X_train = map (\<lambda>i. X ! i) tr, sp_X_test = map (\<lambda>i. X ! i) te,
                        sp_y_train = map (\<lambda>i. y ! i) tr, sp_y_test = map (\<lambda>i. y ! i) te\<rparr>))"

section \<open>Metrics\<close>

text \<open>The input check of the metrics: same length, at least one sample.\<close>

definition check_targets :: "vec \<Rightarrow> vec \<Rightarrow> py_error + unit" where
  "check_targets y p = (if length y \<noteq> length p \<or> y = [] then Inl ValueError else Inr ())"

definition mean_absolute_error :: "vec \<Rightarrow> vec \<Rightarrow> py_error + real" where
  "mean_absolute_error y p =
     map_sum id (\<lambda>_. np_mean (map2 (\<lambda>a b. \<bar>a - b\<bar>) y p)) (check_targets y p)"

definition mean_squared_error :: "vec \<Rightarrow> vec \<Rightarrow> py_error + real" where
  "mean_squared_error y p =
     map_sum id (\<lambda>_. np_mean (map2 (\<lambda>a b. (a - b)\<^sup>2) y p)) (check_targets y p)"

text \<open>\<open>r2_score\<close> with \<open>force_finite=True\<close>: a constant target gives 1 for a perfect
  prediction and 0 otherwise.\<close>

definition r2_score :: "vec \<Rightarrow> vec \<Rightarrow> py_error + real option" where
  "r2_score y p =
     map_sum id
       (\<lambda>_. if length y < 2 then None
            else let ss_res = sum_list (map2 (\<lambda>a b. (a - b)\<^sup>2) y p);
                     ss_tot = sum_list (map (\<lambda>a. (a - np_mean y)\<^sup>2) y)
                 in Some (if ss_tot = 0 then (if ss_res = 0 then 1 else 0) else 1 - ss_res / ss_tot))
       (check_targets y p)"

record test_metrics =
  tm_mae :: real
  tm_rmse :: real
  tm_r2 :: "real option"

text \<open>The three metrics every wrapper reports on its test rows, in the order they are
  computed.\<close>

definition score_test :: "vec \<Rightarrow> vec \<Rightarrow> py_error + test_metrics" where
  "score_test y p =
     (case mean_absolute_error y p of Inl e \<Rightarrow> Inl e
      | Inr mae \<Rightarrow> (case mean_squared_error y p of Inl e \<Rightarrow> Inl e
      | Inr mse \<Rightarrow> (case r2_score y p of Inl e \<Rightarrow> Inl e
      | Inr r2 \<Rightarrow> Inr \<lparr>tm_mae = mae, tm_rmse = sqrt mse, tm_r2 = r2\<rparr>)))"

section \<open>Cross-validation\<close>

text \<open>\<open>cross_val_score(model, X, y, cv=5, scoring='neg_mean_absolute_error')\<close>:
  \<open>KFold\<close> raises \<open>ValueError\<close> with fewer than five samples; otherwise the five fold
  scores are the estimator's (\<open>folds\<close>).\<close>

definition cross_val_score :: "(vec list \<Rightarrow> vec \<Rightarrow> vec) \<Rightarrow> vec list \<Rightarrow> vec \<Rightarrow> py_error + vec" where
  "cross_val_score folds X y = (if length y < 5 then Inl ValueError else Inr (folds X y))"

record cv_summary =
  cv_scores :: vec
  cv_mean :: real
  cv_std :: real

text \<open>The \<open>"cross_validation"\<close> entry of the wrappers' metrics.\<close>

definition cv_report :: "vec \<Rightarrow> cv_summary" where
  "cv_report s = \<lparr>cv_scores = map uminus s, cv_mean = - np_mean s, cv_std = np_std s\<rparr>"

section \<open>Feature names\<close>

definition weather_feature_names :: "string list" where
  "weather_feature_names =
     [''temperature_lag1'', ''temperature_lag2'', ''humidity'', ''pressure'', ''wind_speed'',
      ''day_of_year'', ''month'']"

text \<open>\<open>dict(zip(self.feature_names[:n_features], importances))\<close> with
  \<open>n_features = min(X.shape[1], len(self.feature_names))\<close>; \<open>X.shape[1]\<close> of a
  one-dimensional array raises \<open>IndexError\<close>.\<close>

definition n_columns :: "vec list \<Rightarrow> py_error + nat" where
  "n_columns X = (if X = [] then Inl IndexError else Inr (length (hd X)))"

definition feature_importance :: "nat \<Rightarrow> vec \<Rightarrow> real pydict" where
  "feature_importance ncols imp =
     zip (take (min ncols (length weather_feature_names)) weather_feature_names) imp"

section \<open>Lemmas\<close>

lemma tts_sizes_small: "n \<le> 1 \<Longrightarrow> tts_sizes n = Inl ValueError"
proof -
  assume "n \<le> 1"
  then consider "n = 0" | "n = 1" by linarith
  then show ?thesis
  proof cases
    case 2
    have "\<lceil>0.2 :: real\<rceil> = 1" by (simp add: ceiling_eq_iff)
    then show ?thesis using 2 by (simp add: tts_sizes_def Let_def)
  qed (simp add: tts_sizes_def)
qed

lemma ceiling_fifth_pos: "1 \<le> n \<Longrightarrow> 1 \<le> \<lceil>0.2 * real n\<rceil>"
  by (simp add: one_le_ceiling)

lemma ceiling_fifth_less: "2 \<le> n \<Longrightarrow> nat \<lceil>0.2 * real n\<rceil> < n"
proof -
  assume n: "2 \<le> n"
  have "0.2 * real n \<le> of_int (int n - 1)" using n by simp
  then have "\<lceil>0.2 * real n\<rceil> \<le> int n - 1" by (rule ceiling_le)
  then show ?thesis using n by linarith
qed

lemma tts_sizes_ok:
  assumes "2 \<le> n"
  shows "tts_sizes n = Inr (n - nat \<lceil>0.2 * real n\<rceil>, nat \<lceil>0.2 * real n\<rceil>)
         \<and> 1 \<le> nat \<lceil>0.2 * real n\<rceil> \<and> nat \<lceil>0.2 * real n\<rceil> < n"
proof -
  have "1 \<le> nat \<lceil>0.2 * real n\<rceil>" using ceiling_fifth_pos [of n] assms by linarith
  moreover have "nat \<lceil>0.2 * real n\<rceil> < n" using assms by (rule ceiling_fifth_less)
  ultimately show ?thesis unfolding tts_sizes_def Let_def by simp
qed

lemma n_test_five: "nat \<lceil>0.2 * real (5::nat)\<rceil> = 1"
  by simp

lemma n_test_two: "6 \<le> n \<Longrightarrow> 2 \<le> nat \<lceil>0.2 * real n\<rceil>"
proof -
  assume "6 \<le> n"
  then have "1 < 0.2 * real n" by simp
  then have "1 < \<lceil>0.2 * real n\<rceil>" by (subst less_ceiling_iff) simp
  then show ?thesis by linarith
qed

lemma length_perm: "valid_perm perm \<Longrightarrow> length (perm n) = n"
  unfolding valid_perm_def by (metis length_upt minus_nat.diff_0 size_mset)

lemma train_test_split_ok:
  assumes "valid_perm perm" "length X = length y" "2 \<le> length y"
  shows "\<exists>sp. train_test_split perm X y = Inr sp \<and>
           length (sp_y_test sp) = nat \<lceil>0.2 * real (length y)\<rceil> \<and>
           length (sp_X_test sp) = length (sp_y_test sp) \<and>
           length (sp_y_train sp) = length y - nat \<lceil>0.2 * real (length y)\<rceil> \<and>
           length (sp_X_train sp) = length (sp_y_train sp)"
proof -
  have lp: "length (perm (length y)) = length y" using assms(1) by (rule length_perm)
  show ?thesis using tts_sizes_ok [OF assms(3)] assms(2) lp
    by (simp add: train_test_split_def Let_def)
qed

lemma train_test_split_small:
  "length X = length y \<Longrightarrow> length y \<le> 1 \<Longrightarrow> train_test_split perm X y = Inl ValueError"
  by (simp add: train_test_split_def tts_sizes_small)

lemma score_test_ok:
  assumes "length p = length y" "y \<noteq> []"
  shows "\<exists>tm. score_test y p = Inr tm \<and> (tm_r2 tm = None \<longleftrightarrow> length y < 2)"
  using assms
  by (simp add: score_test_def mean_absolute_error_def mean_squared_error_def r2_score_def check_targets_def Let_def)

end
