(* ===== verification/RandomForest.thy ===== *)
theory RandomForest
  imports SkLearn
begin

text \<open>
  \<open>algorithms/ml/random_forest.py\<close>: the class \<open>WeatherRandomForest\<close> and the module
  function \<open>train_and_predict\<close>. The object is the record \<open>weather_rf\<close>: the three
  hyper-parameters it reports, the fitted forest (\<open>None\<close> until \<open>fit\<close>), the feature
  names and \<open>is_trained\<close>. scikit-learn's \<open>RandomForestRegressor\<close> with the
  configuration of \<open>__init__\<close> is the parameter \<open>rf_lib\<close>: \<open>fit\<close>, \<open>predict\<close>,
  the per-tree predictions, the cross-validation fold scores, the feature importances
  and the out-of-bag score. What the wrapper computes itself is modelled: the order of
  the calls, the guards, the metrics on the test rows, \<open>mape\<close> with its zero guard,
  the per-tree mean, spread and interval, and the result. The constant
  \<open>mathematical_formulation\<close> strings of the result are not modelled.
\<close>

section \<open>The estimator\<close>

record 'm rf_lib =
  rf_fit :: "vec list \<Rightarrow> vec \<Rightarrow> py_error + 'm"
  rf_predict :: "'m \<Rightarrow> vec list \<Rightarrow> py_error + vec"
  rf_tree_predict :: "'m \<Rightarrow> vec list \<Rightarrow> py_error + vec list"
  rf_cv_folds :: "vec list \<Rightarrow> vec \<Rightarrow> vec"
  rf_importances :: "'m \<Rightarrow> vec"
  rf_oob_score :: "'m \<Rightarrow> real"

text \<open>An estimator that fits every training set and predicts one value per row, from
  every one of its trees.\<close>

definition rf_lib_total :: "'m rf_lib \<Rightarrow> bool" where
  "rf_lib_total L \<longleftrightarrow>
     (\<forall>X y. \<exists>m. rf_fit L X y = Inr m) \<and>
     (\<forall>m X. \<exists>p. rf_predict L m X = Inr p \<and> length p = length X) \<and>
     (\<forall>m X. \<exists>ts. rf_tree_predict L m X = Inr ts \<and> ts \<noteq> [] \<and> (\<forall>t \<in> set ts. length t = length X))"

section \<open>The object\<close>

record 'm weather_rf =
  rf_n_estimators :: int
  rf_max_depth :: int
  rf_min_samples_split :: int
  rf_model :: "'m option"
  rf_feature_names :: "string list"
  rf_is_trained :: bool

definition WeatherRandomForest :: "int \<Rightarrow> int \<Rightarrow> int \<Rightarrow> 'm weather_rf" where
  "WeatherRandomForest ne md mss =
     \<lparr>rf_n_estimators = ne, rf_max_depth = md, rf_min_samples_split = mss, rf_model = None,
      rf_feature_names = weather_feature_names, rf_is_trained = False\<rparr>"

record rf_train_metrics =
  rf_n_samples :: nat
  rf_n_features :: nat
  rf_cross_validation :: cv_summary
  rf_test_metrics :: test_metrics
  rf_mape :: "real option"
  rf_oob :: real
  rf_feature_importance :: "real pydict"
  rf_model_params :: "int \<times> int \<times> int"

text \<open>\<open>np.mean(np.abs((y_test - y_pred) / y_test)) * 100 if np.all(y_test != 0) else None\<close>.\<close>

definition mape_guarded :: "vec \<Rightarrow> vec \<Rightarrow> real option" where
  "mape_guarded yt yp =
     (if list_all (\<lambda>v. v \<noteq> 0) yt then Some (np_mean (map2 (\<lambda>a b. \<bar>(a - b) / a\<bar>) yt yp) * 100)
      else None)"

text \<open>\<open>train\<close>: split, fit (after which the object is trained), cross-validate on all
  rows, predict the test rows, score them, then read the width of \<open>X\<close>.\<close>

definition WeatherRandomForest_train ::
  "'m rf_lib \<Rightarrow> (nat \<Rightarrow> nat list) \<Rightarrow> 'm weather_rf \<Rightarrow> vec list \<Rightarrow> vec \<Rightarrow>
   (py_error + rf_train_metrics) \<times> 'm weather_rf" where
  "WeatherRandomForest_train L perm self X y =
     (case train_test_split perm X y of
        Inl e \<Rightarrow> (Inl e, self)
      | Inr sp \<Rightarrow>
          (case rf_fit L (sp_X_train sp) (sp_y_train sp) of
             Inl e \<Rightarrow> (Inl e, self)
           | Inr m \<Rightarrow>
               (let self1 = self\<lparr>rf_model := Some m, rf_is_trained := True\<rparr>
                in case cross_val_score (rf_cv_folds L) X y of
                     Inl e \<Rightarrow> (Inl e, self1)
                   | Inr cv \<Rightarrow>
                       (case rf_predict L m (sp_X_test sp) of
                          Inl e \<Rightarrow> (Inl e, self1)
                        | Inr yp \<Rightarrow>
                            (case score_test (sp_y_test sp) yp of
                               Inl e \<Rightarrow> (Inl e, self1)
                             | Inr tm \<Rightarrow>
                                 (case n_columns X of
                                    Inl e \<Rightarrow> (Inl e, self1)
                                  | Inr nc \<Rightarrow>
                                      (Inr \<lparr>rf_n_samples = length y, rf_n_features = nc,
                                            rf_cross_validation = cv_report cv, rf_test_metrics = tm,
                                            rf_mape = mape_guarded (sp_y_test sp) yp,
                                            rf_oob = rf_oob_score L m,
                                            rf_feature_importance =
                                              feature_importance nc (rf_importances L m),
                                            rf_model_params = (rf_n_estimators self, rf_max_depth self,
                                                               rf_min_samples_split self)\<rparr>,
                                       self1)))))))"

text \<open>\<open>predict\<close>: \<open>ValueError\<close> before training; an unfitted forest raises
  scikit-learn's \<open>NotFittedError\<close>, a \<open>ValueError\<close>.\<close>

definition WeatherRandomForest_predict :: "'m rf_lib \<Rightarrow> 'm weather_rf \<Rightarrow> vec list \<Rightarrow> py_error + vec" where
  "WeatherRandomForest_predict L self X =
     (if \<not> rf_is_trained self then Inl ValueError
      else case rf_model self of None \<Rightarrow> Inl ValueError | Some m \<Rightarrow> rf_predict L m X)"

text \<open>\<open>np.mean(A, axis=0)\<close> and \<open>np.std(A, axis=0)\<close> of the trees' predictions, one
  row per tree.\<close>

definition col_mean :: "vec list \<Rightarrow> vec" where
  "col_mean T = map (\<lambda>j. np_mean (map (\<lambda>t. t ! j) T)) [0..<length (hd T)]"

definition col_std :: "vec list \<Rightarrow> vec" where
  "col_std T = map (\<lambda>j. np_std (map (\<lambda>t. t ! j) T)) [0..<length (hd T)]"

record uncertainty =
  u_mean :: vec
  u_std :: vec
  u_lower :: vec
  u_upper :: vec

definition WeatherRandomForest_predict_with_uncertainty ::
  "'m rf_lib \<Rightarrow> 'm weather_rf \<Rightarrow> vec list \<Rightarrow> py_error + uncertainty" where
  "WeatherRandomForest_predict_with_uncertainty L self X =
     (if \<not> rf_is_trained self then Inl ValueError
      else case rf_model self of
             None \<Rightarrow> Inl ValueError
           | Some m \<Rightarrow>
               (case rf_tree_predict L m X of
                  Inl e \<Rightarrow> Inl e
                | Inr T \<Rightarrow>
                    (let mu = col_mean T; sd = col_std T
                     in Inr \<lparr>u_mean = mu, u_std = sd,
                             u_lower = map2 (\<lambda>a b. a - 1.96 * b) mu sd,
                             u_upper = map2 (\<lambda>a b. a + 1.96 * b) mu sd\<rparr>)))"

section \<open>\<open>train_and_predict\<close>\<close>

record rf_result =
  rf_algorithm :: string
  rf_library :: string
  rf_version :: string
  rf_reference :: string
  rf_model_config :: "int \<times> int \<times> int \<times> string"
  rf_training_metrics :: rf_train_metrics
  rf_predictions :: "uncertainty option"

text \<open>A forest of 100 trees of depth at most 10; the predictions, when asked for, are
  the per-tree mean with its spread and interval. A \<open>nan\<close> among the metrics
  (\<open>r2\<close> of a single test row) makes the response fail afterwards.\<close>

definition random_forest_train_and_predict ::
  "'m rf_lib \<Rightarrow> (nat \<Rightarrow> nat list) \<Rightarrow> vec list \<Rightarrow> vec \<Rightarrow> vec list option \<Rightarrow> py_error + rf_result" where
  "random_forest_train_and_predict L perm X y Xp =
     (let rf = WeatherRandomForest 100 10 5
      in case WeatherRandomForest_train L perm rf X y of
           (Inl e, _) \<Rightarrow> Inl e
         | (Inr tm, rf1) \<Rightarrow>
             (let result = \<lparr>rf_algorithm = ''Random Forest'', rf_library = ''scikit-learn'',
                            rf_version = ''1.4.0'',
                            rf_reference = ''Breiman, L. (2001). Random Forests. Machine Learning, 45(1), 5-32'',
                            rf_model_config = (100, 10, 5, ''sqrt''), rf_training_metrics = tm,
                            rf_predictions = None\<rparr>
              in case (case Xp of None \<Rightarrow> Inr result
                       | Some Xp' \<Rightarrow> map_sum id (\<lambda>u. result\<lparr>rf_predictions := Some u\<rparr>)
                                       (WeatherRandomForest_predict_with_uncertainty L rf1 Xp')) of
                   Inl e \<Rightarrow> Inl e
                 | Inr r \<Rightarrow> if tm_r2 (rf_test_metrics tm) = None then Inl NonFinite else Inr r))"

section \<open>Lemmas\<close>

lemma rf_lib_totalD:
  assumes "rf_lib_total L"
  shows "\<exists>m. rf_fit L X y = Inr m"
    and "\<exists>p. rf_predict L m X = Inr p \<and> length p = length X"
    and "\<exists>ts. rf_tree_predict L m X = Inr ts \<and> ts \<noteq> [] \<and> (\<forall>t \<in> set ts. length t = length X)"
  using assms unfolding rf_lib_total_def by blast+

text \<open>The test rows number \<open>ceil(0.2 n)\<close>: one for five samples, two or more from six on.\<close>

lemma test_rows_r2:
  assumes "5 \<le> n"
  shows "nat \<lceil>0.2 * real n\<rceil> < 2 \<longleftrightarrow> n = 5"
proof
  assume "nat \<lceil>0.2 * real n\<rceil> < 2"
  then show "n = 5" using n_test_two [of n] assms by linarith
qed simp

lemma rf_train_outcome:
  assumes L: "rf_lib_total L" and P: "valid_perm perm" and len: "length X = length y"
  shows "(length y < 5 \<longrightarrow> fst (WeatherRandomForest_train L perm self X y) = Inl ValueError) \<and>
         (5 \<le> length y \<longrightarrow>
            (\<exists>tm self'. WeatherRandomForest_train L perm self X y = (Inr tm, self') \<and>
               rf_is_trained self' \<and> rf_model self' \<noteq> None \<and>
               (tm_r2 (rf_test_metrics tm) = None \<longleftrightarrow> length y = 5)))"
proof (intro conjI impI)
  assume small: "length y < 5"
  show "fst (WeatherRandomForest_train L perm self X y) = Inl ValueError"
  proof (cases "length y \<le> 1")
    case True
    then show ?thesis using len by (simp add: WeatherRandomForest_train_def train_test_split_small)
  next
    case False
    then obtain sp where sp: "train_test_split perm X y = Inr sp"
      using train_test_split_ok [OF P len] by fastforce
    obtain m where m: "rf_fit L (sp_X_train sp) (sp_y_train sp) = Inr m" using rf_lib_totalD(1) [OF L] by blast
    show ?thesis using small by (simp add: WeatherRandomForest_train_def sp m cross_val_score_def)
  qed
next
  assume big: "5 \<le> length y"
  obtain sp where sp: "train_test_split perm X y = Inr sp"
    and lt: "length (sp_y_test sp) = nat \<lceil>0.2 * real (length y)\<rceil>"
    and lx: "length (sp_X_test sp) = length (sp_y_test sp)"
    using train_test_split_ok [OF P len] big by fastforce
  obtain m where m: "rf_fit L (sp_X_train sp) (sp_y_train sp) = Inr m" using rf_lib_totalD(1) [OF L] by blast
  obtain yp where yp: "rf_predict L m (sp_X_test sp) = Inr yp" "length yp = length (sp_X_test sp)"
    using rf_lib_totalD(2) [OF L] by blast
  have ne: "sp_y_test sp \<noteq> []" using lt ceiling_fifth_pos [of "length y"] big by auto
  obtain tm where tm: "score_test (sp_y_test sp) yp = Inr tm"
    and r2: "tm_r2 tm = None \<longleftrightarrow> length (sp_y_test sp) < 2"
    using score_test_ok [of yp "sp_y_test sp"] yp lx ne by auto
  have Xne: "X \<noteq> []" using big len by auto
  show "\<exists>tm self'. WeatherRandomForest_train L perm self X y = (Inr tm, self') \<and>
               rf_is_trained self' \<and> rf_model self' \<noteq> None \<and>
               (tm_r2 (rf_test_metrics tm) = None \<longleftrightarrow> length y = 5)"
    using big r2 lt test_rows_r2 [OF big] Xne
    by (simp add: WeatherRandomForest_train_def sp m cross_val_score_def yp tm n_columns_def)
qed

lemma rf_uncertainty_ok:
  assumes "rf_lib_total L" "rf_is_trained self" "rf_model self \<noteq> None"
  shows "\<exists>u. WeatherRandomForest_predict_with_uncertainty L self X = Inr u"
proof -
  obtain m where m: "rf_model self = Some m" using assms(3) by blast
  obtain ts where "rf_tree_predict L m X = Inr ts" using rf_lib_totalD(3) [OF assms(1)] by blast
  then show ?thesis using assms(2) m by (simp add: WeatherRandomForest_predict_with_uncertainty_def Let_def)
qed

lemma col_mean_between:
  assumes "T \<noteq> []" "\<forall>t \<in> set T. length t = n" "j < n"
  shows "length (col_mean T) = n \<and> length (col_std T) = n \<and>
         Min ((\<lambda>t. t ! j) ` set T) \<le> col_mean T ! j \<and> col_mean T ! j \<le> Max ((\<lambda>t. t ! j) ` set T) \<and>
         0 \<le> col_std T ! j"
proof -
  have hd: "length (hd T) = n" using assms(1,2) by simp
  have "map (\<lambda>t. t ! j) T \<noteq> []" using assms(1) by simp
  from np_mean_between [OF this] show ?thesis
    using hd assms(3) by (simp add: col_mean_def col_std_def np_std_nonneg)
qed

section \<open>Properties\<close>

text \<open>An estimator and a permutation that satisfy the contracts, for the examples: every
  prediction is 0 and the split keeps the rows in order.\<close>

definition example_rf :: "unit rf_lib" where
  "example_rf = \<lparr>rf_fit = (\<lambda>X y. Inr ()), rf_predict = (\<lambda>m X. Inr (replicate (length X) 0)),
                 rf_tree_predict = (\<lambda>m X. Inr [replicate (length X) 0, replicate (length X) 1]),
                 rf_cv_folds = (\<lambda>X y. replicate 5 0), rf_importances = (\<lambda>m. []),
                 rf_oob_score = (\<lambda>m. 0)\<rparr>"

definition example_perm :: "nat \<Rightarrow> nat list" where
  "example_perm n = [0..<n]"

lemma example_rf_total: "rf_lib_total example_rf"
  by (simp add: rf_lib_total_def example_rf_def)

lemma example_perm_valid: "valid_perm example_perm"
  by (simp add: valid_perm_def example_perm_def)

text \<open>C30: for an estimator library that answers on every input, \<open>train_and_predict\<close>
  of \<open>random_forest.py\<close> raises \<open>ValueError\<close> below five samples (5-fold
  cross-validation), produces \<open>nan\<close> (\<open>r2\<close> of the single test row) at exactly five,
  and from six on returns a result with predictions exactly when prediction rows were
  given.\<close>

theorem train_and_predict_sample_sizes:
  assumes L: "rf_lib_total L" and P: "valid_perm perm" and len: "length X = length y"
  shows "(length y < 5 \<longrightarrow> random_forest_train_and_predict L perm X y Xp = Inl ValueError) \<and>
         (length y = 5 \<longrightarrow> random_forest_train_and_predict L perm X y Xp = Inl NonFinite) \<and>
         (6 \<le> length y \<longrightarrow>
            (\<exists>r. random_forest_train_and_predict L perm X y Xp = Inr r \<and> (rf_predictions r = None \<longleftrightarrow> Xp = None)))"
proof -
  note tr = rf_train_outcome [OF L P len, of "WeatherRandomForest 100 10 5"]
  have small: "length y < 5 \<Longrightarrow> random_forest_train_and_predict L perm X y Xp = Inl ValueError"
    using tr by (auto simp: random_forest_train_and_predict_def split: prod.split)
  have big: "(length y = 5 \<longrightarrow> random_forest_train_and_predict L perm X y Xp = Inl NonFinite) \<and>
             (6 \<le> length y \<longrightarrow>
                (\<exists>r. random_forest_train_and_predict L perm X y Xp = Inr r \<and> (rf_predictions r = None \<longleftrightarrow> Xp = None)))"
    if b5: "5 \<le> length y"
  proof -
    have "\<exists>tm self'. WeatherRandomForest_train L perm (WeatherRandomForest 100 10 5) X y = (Inr tm, self') \<and>
               rf_is_trained self' \<and> rf_model self' \<noteq> None \<and>
               (tm_r2 (rf_test_metrics tm) = None \<longleftrightarrow> length y = 5)"
      using conjunct2 [OF tr] b5 by (rule mp)
    then obtain tm self' where t: "WeatherRandomForest_train L perm (WeatherRandomForest 100 10 5) X y = (Inr tm, self')"
      and tr': "rf_is_trained self'" "rf_model self' \<noteq> None"
      and r2: "tm_r2 (rf_test_metrics tm) = None \<longleftrightarrow> length y = 5"
      by (elim exE conjE) (rule that)
    show ?thesis
    proof (cases Xp)
      case None
      then show ?thesis using t r2 by (simp add: random_forest_train_and_predict_def)
    next
      case (Some Xp')
      obtain u where "WeatherRandomForest_predict_with_uncertainty L self' Xp' = Inr u"
        using rf_uncertainty_ok [OF L tr'] by blast
      then show ?thesis using t r2 Some by (simp add: random_forest_train_and_predict_def)
    qed
  qed
  show ?thesis using small big by fastforce
qed

theorem train_and_predict_sample_sizes_witness:
  "random_forest_train_and_predict example_rf example_perm [[1], [2], [3], [4], [5]] [1, 2, 3, 4, 5] None = Inl NonFinite \<and>
   (\<exists>r. random_forest_train_and_predict example_rf example_perm [[1], [2], [3], [4], [5], [6]] [1, 2, 3, 4, 5, 6] (Some [[7]]) = Inr r)"
  using train_and_predict_sample_sizes [OF example_rf_total example_perm_valid,
      of "[[1], [2], [3], [4], [5]]" "[1, 2, 3, 4, 5]" None]
    train_and_predict_sample_sizes [OF example_rf_total example_perm_valid,
      of "[[1], [2], [3], [4], [5], [6]]" "[1, 2, 3, 4, 5, 6]" "Some [[7]]"]
  by auto

text \<open>C32: \<open>predict_with_uncertainty\<close> of a trained forest returns one mean per row,
  lying between the least and the greatest prediction of the trees, inside the
  interval \<open>mean \<plusminus> 1.96 std\<close>, whose width is \<open>3.92\<close> standard deviations, the
  standard deviation being numpy's population \<open>std\<close> of the trees' predictions.\<close>

theorem uncertainty_interval:
  assumes L: "rf_lib_total L" and tr: "rf_is_trained self" "rf_model self = Some m"
  shows "\<exists>T u. rf_tree_predict L m X = Inr T \<and> WeatherRandomForest_predict_with_uncertainty L self X = Inr u \<and>
           length (u_mean u) = length X \<and>
           (\<forall>j < length X. Min ((\<lambda>t. t ! j) ` set T) \<le> u_mean u ! j \<and> u_mean u ! j \<le> Max ((\<lambda>t. t ! j) ` set T) \<and>
              u_lower u ! j \<le> u_mean u ! j \<and> u_mean u ! j \<le> u_upper u ! j \<and>
              u_std u ! j = np_std (map (\<lambda>t. t ! j) T) \<and>
              u_upper u ! j - u_lower u ! j = 3.92 * u_std u ! j)"
proof -
  obtain T where T: "rf_tree_predict L m X = Inr T" "T \<noteq> []" "\<forall>t \<in> set T. length t = length X"
    using rf_lib_totalD(3) [OF L] by blast
  have cm: "\<And>j. j < length X \<Longrightarrow> length (col_mean T) = length X \<and> length (col_std T) = length X \<and>
         Min ((\<lambda>t. t ! j) ` set T) \<le> col_mean T ! j \<and> col_mean T ! j \<le> Max ((\<lambda>t. t ! j) ` set T) \<and>
         0 \<le> col_std T ! j"
    using col_mean_between [OF T(2,3)] by blast
  have len: "length (col_mean T) = length X" "length (col_std T) = length X"
    using T(2,3) by (simp_all add: col_mean_def col_std_def)
  have sd: "\<And>j. j < length X \<Longrightarrow> col_std T ! j = np_std (map (\<lambda>t. t ! j) T)"
    using T(2,3) by (simp add: col_std_def)
  show ?thesis using tr T(1) cm len sd
    by (auto simp: WeatherRandomForest_predict_with_uncertainty_def Let_def)
qed

theorem uncertainty_interval_witness:
  "\<exists>u. WeatherRandomForest_predict_with_uncertainty example_rf
          ((WeatherRandomForest 100 10 5)\<lparr>rf_model := Some (), rf_is_trained := True\<rparr>) [[1, 2]] = Inr u \<and>
        u_lower u ! 0 \<le> u_mean u ! 0 \<and> u_mean u ! 0 \<le> u_upper u ! 0"
  using uncertainty_interval [OF example_rf_total, of "(WeatherRandomForest 100 10 5)\<lparr>rf_model := Some (), rf_is_trained := True\<rparr>" "()" "[[1, 2]]"]
  by (auto simp: WeatherRandomForest_def)

end
