(* ===== verification/GradientBoosting.thy ===== *)
theory GradientBoosting
  imports SkLearn
begin

text \<open>
  \<open>algorithms/ml/gradient_boosting.py\<close>: the class \<open>WeatherGradientBoosting\<close> and the
  module function \<open>train_and_predict\<close>. scikit-learn's \<open>GradientBoostingRegressor\<close>
  with the configuration of \<open>__init__\<close> is the parameter \<open>gb_lib\<close>: \<open>fit\<close>,
  \<open>predict\<close>, \<open>staged_predict\<close> (one prediction vector per boosting stage), the
  cross-validation fold scores, the feature importances and the attribute
  \<open>oob_improvement_\<close> (present when \<open>subsample < 1\<close>). \<open>model.score\<close> is the
  \<open>r2_score\<close> of the model's own predictions, as scikit-learn defines it. The learning
  curve keeps the test error of every tenth stage. The constant
  \<open>mathematical_formulation\<close> strings of the result are not modelled.
\<close>

section \<open>The estimator\<close>

record 'm gb_lib =
  gb_fit :: "vec list \<Rightarrow> vec \<Rightarrow> py_error + 'm"
  gb_predict :: "'m \<Rightarrow> vec list \<Rightarrow> py_error + vec"
  gb_staged_predict :: "'m \<Rightarrow> vec list \<Rightarrow> py_error + vec list"
  gb_cv_folds :: "vec list \<Rightarrow> vec \<Rightarrow> vec"
  gb_importances :: "'m \<Rightarrow> vec"
  gb_oob_improvement :: "'m \<Rightarrow> vec option"

section \<open>The object\<close>

record 'm weather_gb =
  gb_n_estimators :: int
  gb_max_depth :: int
  gb_learning_rate :: real
  gb_subsample :: real
  gb_model :: "'m option"
  gb_feature_names :: "string list"
  gb_is_trained :: bool

definition WeatherGradientBoosting :: "int \<Rightarrow> int \<Rightarrow> real \<Rightarrow> real \<Rightarrow> 'm weather_gb" where
  "WeatherGradientBoosting ne md lr ss =
     \<lparr>gb_n_estimators = ne, gb_max_depth = md, gb_learning_rate = lr, gb_subsample = ss, gb_model = None,
      gb_feature_names = weather_feature_names, gb_is_trained = False\<rparr>"

text \<open>\<open>for i, y_pred_staged in enumerate(staged_predict(X_test)): if i % 10 == 0:
  test_scores.append(mean_squared_error(y_test, y_pred_staged))\<close>.\<close>

fun staged_scores :: "nat \<Rightarrow> vec \<Rightarrow> vec list \<Rightarrow> py_error + vec" where
  "staged_scores i yt [] = Inr []"
| "staged_scores i yt (p # ps) =
     (if i mod 10 = 0
      then (case mean_squared_error yt p of
              Inl e \<Rightarrow> Inl e
            | Inr s \<Rightarrow> map_sum id (\<lambda>ss. s # ss) (staged_scores (Suc i) yt ps))
      else staged_scores (Suc i) yt ps)"

record gb_train_metrics =
  gb_n_samples :: nat
  gb_n_features :: nat
  gb_cross_validation :: cv_summary
  gb_test_metrics :: test_metrics
  gb_feature_importance :: "real pydict"
  gb_staged_test_mse :: vec
  gb_train_score :: "real option"
  gb_oob_last :: "vec option"

text \<open>\<open>train\<close>: split, fit, cross-validate, predict the test rows, the learning curve,
  the width of \<open>X\<close>; then, inside the returned dictionary, the test metrics, the
  training score and the last five out-of-bag improvements.\<close>

definition WeatherGradientBoosting_train ::
  "'m gb_lib \<Rightarrow> (nat \<Rightarrow> nat list) \<Rightarrow> 'm weather_gb \<Rightarrow> vec list \<Rightarrow> vec \<Rightarrow>
   (py_error + gb_train_metrics) \<times> 'm weather_gb" where
  "WeatherGradientBoosting_train L perm self X y =
     (case train_test_split perm X y of
        Inl e \<Rightarrow> (Inl e, self)
      | Inr sp \<Rightarrow>
          (case gb_fit L (sp_X_train sp) (sp_y_train sp) of
             Inl e \<Rightarrow> (Inl e, self)
           | Inr m \<Rightarrow>
               (let self1 = self\<lparr>gb_model := Some m, gb_is_trained := True\<rparr>;
                    fail = (\<lambda>e. (Inl e, self1))
                in case cross_val_score (gb_cv_folds L) X y of Inl e \<Rightarrow> fail e
                 | Inr cv \<Rightarrow> (case gb_predict L m (sp_X_test sp) of Inl e \<Rightarrow> fail e
                 | Inr yp \<Rightarrow> (case gb_staged_predict L m (sp_X_test sp) of Inl e \<Rightarrow> fail e
                 | Inr stages \<Rightarrow> (case staged_scores 0 (sp_y_test sp) stages of Inl e \<Rightarrow> fail e
                 | Inr curve \<Rightarrow> (case n_columns X of Inl e \<Rightarrow> fail e
                 | Inr nc \<Rightarrow> (case score_test (sp_y_test sp) yp of Inl e \<Rightarrow> fail e
                 | Inr tm \<Rightarrow> (case gb_predict L m (sp_X_train sp) of Inl e \<Rightarrow> fail e
                 | Inr ytr \<Rightarrow> (case r2_score (sp_y_train sp) ytr of Inl e \<Rightarrow> fail e
                 | Inr trs \<Rightarrow>
                     (Inr \<lparr>gb_n_samples = length y, gb_n_features = nc,
                           gb_cross_validation = cv_report cv, gb_test_metrics = tm,
                           gb_feature_importance = feature_importance nc (gb_importances L m),
                           gb_staged_test_mse = curve, gb_train_score = trs,
                           gb_oob_last = map_option (\<lambda>v. drop (length v - 5) v) (gb_oob_improvement L m)\<rparr>,
                      self1)))))))))))"

definition WeatherGradientBoosting_predict :: "'m gb_lib \<Rightarrow> 'm weather_gb \<Rightarrow> vec list \<Rightarrow> py_error + vec" where
  "WeatherGradientBoosting_predict L self X =
     (if \<not> gb_is_trained self then Inl ValueError
      else case gb_model self of None \<Rightarrow> Inl ValueError | Some m \<Rightarrow> gb_predict L m X)"

section \<open>\<open>train_and_predict\<close>\<close>

record gb_result =
  gb_algorithm :: string
  gb_library :: string
  gb_version :: string
  gb_reference :: string
  gb_model_config :: "int \<times> int \<times> real \<times> real"
  gb_training_metrics :: gb_train_metrics
  gb_predictions :: "vec option"

text \<open>A \<open>nan\<close> among the metrics (\<open>r2\<close> of a single test row or training score of a
  single training row) makes the response fail afterwards.\<close>

definition gradient_boosting_train_and_predict ::
  "'m gb_lib \<Rightarrow> (nat \<Rightarrow> nat list) \<Rightarrow> vec list \<Rightarrow> vec \<Rightarrow> vec list option \<Rightarrow> py_error + gb_result" where
  "gradient_boosting_train_and_predict L perm X y Xp =
     (let gb = WeatherGradientBoosting 100 5 0.1 0.8
      in case WeatherGradientBoosting_train L perm gb X y of
           (Inl e, _) \<Rightarrow> Inl e
         | (Inr tm, gb1) \<Rightarrow>
             (let result = \<lparr>gb_algorithm = ''Gradient Boosting'', gb_library = ''scikit-learn'',
                            gb_version = ''1.4.0'',
                            gb_reference = ''Friedman, J.H. (2001). Greedy Function Approximation'',
                            gb_model_config = (100, 5, 0.1, 0.8), gb_training_metrics = tm,
                            gb_predictions = None\<rparr>
              in case (case Xp of None \<Rightarrow> Inr result
                       | Some Xp' \<Rightarrow> map_sum id (\<lambda>p. result\<lparr>gb_predictions := Some p\<rparr>)
                                       (WeatherGradientBoosting_predict L gb1 Xp')) of
                   Inl e \<Rightarrow> Inl e
                 | Inr r \<Rightarrow> if tm_r2 (gb_test_metrics tm) = None \<or> gb_train_score tm = None
                            then Inl NonFinite else Inr r))"

section \<open>Lemmas\<close>

text \<open>The learning curve: one test error for each stage whose index is a multiple of
  ten, in order.\<close>

lemma staged_scores_eq:
  assumes "\<forall>p \<in> set ps. length p = length yt" "yt \<noteq> []"
  shows "staged_scores i yt ps =
           Inr (map (\<lambda>k. np_mean (map2 (\<lambda>a b. (a - b)\<^sup>2) yt (ps ! k)))
                    (filter (\<lambda>k. (i + k) mod 10 = 0) [0..<length ps]))"
  using assms
proof (induction ps arbitrary: i)
  case Nil
  then show ?case by simp
next
  case (Cons p ps)
  have ih: "staged_scores (Suc i) yt ps =
           Inr (map (\<lambda>k. np_mean (map2 (\<lambda>a b. (a - b)\<^sup>2) yt (ps ! k)))
                    (filter (\<lambda>k. (Suc i + k) mod 10 = 0) [0..<length ps]))"
    using Cons by simp
  have up: "[0..<length (p # ps)] = 0 # map Suc [0..<length ps]"
    by (simp add: map_Suc_upt upt_conv_Cons del: upt_Suc)
  have mse: "mean_squared_error yt p = Inr (np_mean (map2 (\<lambda>a b. (a - b)\<^sup>2) yt p))"
    using Cons.prems by (simp add: mean_squared_error_def check_targets_def)
  show ?case unfolding up using ih mse
    by (simp add: filter_map comp_def)
qed

end
