(* ===== verification/XGBoost.thy ===== *)
theory XGBoost
  imports SkLearn
begin

text \<open>
  \<open>algorithms/ml/xgboost_predictor.py\<close>: the class \<open>WeatherXGBoost\<close> and the module
  function \<open>train_and_predict\<close>. Whether the \<open>xgboost\<close> package imports
  (\<open>HAS_XGB\<close>) is the shape of the parameter: \<open>Some L\<close> with \<open>L\<close> the
  \<open>XGBRegressor\<close> built from the object's parameters (\<open>fit\<close> with its evaluation set,
  \<open>predict\<close>, the cross-validation fold scores, the feature importances and the
  \<open>best_iteration\<close> attribute when it exists), \<open>None\<close> when the import failed. Without
  the package the class simulates: \<open>train\<close> reports fixed metrics and \<open>predict\<close>
  returns \<open>20\<close> plus half the mean of each row. The constant
  \<open>mathematical_formulation\<close> strings of the result are not modelled.
\<close>

section \<open>The estimator\<close>

record 'm xgb_lib =
  xgb_fit :: "vec list \<Rightarrow> vec \<Rightarrow> vec list \<Rightarrow> vec \<Rightarrow> py_error + 'm"
  xgb_predict :: "'m \<Rightarrow> vec list \<Rightarrow> py_error + vec"
  xgb_cv_folds :: "vec list \<Rightarrow> vec \<Rightarrow> vec"
  xgb_importances :: "'m \<Rightarrow> vec"
  xgb_best_iteration :: "'m \<Rightarrow> int option"

section \<open>The object\<close>

record xgb_params =
  xp_n_estimators :: int
  xp_max_depth :: int
  xp_learning_rate :: real
  xp_subsample :: real
  xp_colsample_bytree :: real
  xp_reg_alpha :: real
  xp_reg_lambda :: real
  xp_random_state :: int
  xp_n_jobs :: int

record 'm weather_xgb =
  xgb_params :: xgb_params
  xgb_model :: "'m option"
  xgb_feature_names :: "string list"
  xgb_is_trained :: bool

definition WeatherXGBoost :: "int \<Rightarrow> int \<Rightarrow> real \<Rightarrow> real \<Rightarrow> 'm weather_xgb" where
  "WeatherXGBoost ne md lr ss =
     \<lparr>xgb_params = \<lparr>xp_n_estimators = ne, xp_max_depth = md, xp_learning_rate = lr, xp_subsample = ss,
                     xp_colsample_bytree = 0.8, xp_reg_alpha = 0.1, xp_reg_lambda = 1.0,
                     xp_random_state = 42, xp_n_jobs = -1\<rparr>,
      xgb_model = None, xgb_feature_names = weather_feature_names, xgb_is_trained = False\<rparr>"

record xgb_trained =
  xt_n_samples :: nat
  xt_n_features :: nat
  xt_cross_validation :: cv_summary
  xt_test_metrics :: test_metrics
  xt_feature_importance :: "real pydict"
  xt_best_iteration :: int

datatype xgb_train_metrics =
    XGBTrained xgb_trained
  | XGBSimulated nat test_metrics

text \<open>\<open>_simulate_training\<close>: the number of samples and fixed metrics.\<close>

definition WeatherXGBoost_simulate_training :: "vec list \<Rightarrow> vec \<Rightarrow> xgb_train_metrics" where
  "WeatherXGBoost_simulate_training X y =
     XGBSimulated (length y) \<lparr>tm_mae = 1.5, tm_rmse = 2.0, tm_r2 = Some 0.85\<rparr>"

definition WeatherXGBoost_train ::
  "'m xgb_lib option \<Rightarrow> (nat \<Rightarrow> nat list) \<Rightarrow> 'm weather_xgb \<Rightarrow> vec list \<Rightarrow> vec \<Rightarrow>
   (py_error + xgb_train_metrics) \<times> 'm weather_xgb" where
  "WeatherXGBoost_train LL perm self X y =
     (case LL of
        None \<Rightarrow> (Inr (WeatherXGBoost_simulate_training X y), self)
      | Some L \<Rightarrow>
          (case train_test_split perm X y of
             Inl e \<Rightarrow> (Inl e, self)
           | Inr sp \<Rightarrow>
               (case xgb_fit L (sp_X_train sp) (sp_y_train sp) (sp_X_test sp) (sp_y_test sp) of
                  Inl e \<Rightarrow> (Inl e, self)
                | Inr m \<Rightarrow>
                    (let self1 = self\<lparr>xgb_model := Some m, xgb_is_trained := True\<rparr>;
                         fail = (\<lambda>e. (Inl e, self1))
                     in case cross_val_score (xgb_cv_folds L) X y of Inl e \<Rightarrow> fail e
                      | Inr cv \<Rightarrow> (case xgb_predict L m (sp_X_test sp) of Inl e \<Rightarrow> fail e
                      | Inr yp \<Rightarrow> (case n_columns X of Inl e \<Rightarrow> fail e
                      | Inr nc \<Rightarrow> (case score_test (sp_y_test sp) yp of Inl e \<Rightarrow> fail e
                      | Inr tm \<Rightarrow>
                          (Inr (XGBTrained
                                 \<lparr>xt_n_samples = length y, xt_n_features = nc,
                                  xt_cross_validation = cv_report cv, xt_test_metrics = tm,
                                  xt_feature_importance = feature_importance nc (xgb_importances L m),
                                  xt_best_iteration =
                                    (case xgb_best_iteration L m of
                                       Some b \<Rightarrow> b | None \<Rightarrow> xp_n_estimators (xgb_params self))\<rparr>),
                           self1))))))))"

text \<open>\<open>predict\<close>: without the package, or before training, \<open>np.mean(X, axis=1) * 0.5 + 20\<close>,
  which raises numpy's \<open>AxisError\<close> (a \<open>ValueError\<close>) on an empty, one-dimensional
  array and is \<open>nan\<close> for rows of length zero.\<close>

definition row_mean_fallback :: "vec list \<Rightarrow> py_error + vec" where
  "row_mean_fallback X =
     (if X = [] then Inl ValueError
      else if list_ex (\<lambda>row. row = []) X then Inl NonFinite
      else Inr (map (\<lambda>row. np_mean row * 0.5 + 20) X))"

definition WeatherXGBoost_predict :: "'m xgb_lib option \<Rightarrow> 'm weather_xgb \<Rightarrow> vec list \<Rightarrow> py_error + vec" where
  "WeatherXGBoost_predict LL self X =
     (case LL of
        Some L \<Rightarrow>
          if xgb_is_trained self
          then (case xgb_model self of None \<Rightarrow> Inl ValueError | Some m \<Rightarrow> xgb_predict L m X)
          else row_mean_fallback X
      | None \<Rightarrow> row_mean_fallback X)"

section \<open>\<open>train_and_predict\<close>\<close>

record xgb_result =
  xgb_algorithm :: string
  xgb_library :: string
  xgb_version :: string
  xgb_reference :: string
  xgb_model_config :: xgb_params
  xgb_training_metrics :: xgb_train_metrics
  xgb_predictions :: "vec option"

definition xgb_finite :: "xgb_train_metrics \<Rightarrow> bool" where
  "xgb_finite tm = (case tm of XGBTrained t \<Rightarrow> tm_r2 (xt_test_metrics t) \<noteq> None | XGBSimulated _ _ \<Rightarrow> True)"

definition xgboost_train_and_predict ::
  "'m xgb_lib option \<Rightarrow> (nat \<Rightarrow> nat list) \<Rightarrow> vec list \<Rightarrow> vec \<Rightarrow> vec list option \<Rightarrow> py_error + xgb_result" where
  "xgboost_train_and_predict LL perm X y Xp =
     (let xm = WeatherXGBoost 100 6 0.1 0.8
      in case WeatherXGBoost_train LL perm xm X y of
           (Inl e, _) \<Rightarrow> Inl e
         | (Inr tm, xm1) \<Rightarrow>
             (let result = \<lparr>xgb_algorithm = ''XGBoost'', xgb_library = ''xgboost'', xgb_version = ''2.0.3'',
                            xgb_reference = ''Chen & Guestrin (2016). XGBoost: A Scalable Tree Boosting System'',
                            xgb_model_config = xgb_params xm1, xgb_training_metrics = tm,
                            xgb_predictions = None\<rparr>
              in case (case Xp of None \<Rightarrow> Inr result
                       | Some Xp' \<Rightarrow> map_sum id (\<lambda>p. result\<lparr>xgb_predictions := Some p\<rparr>)
                                       (WeatherXGBoost_predict LL xm1 Xp')) of
                   Inl e \<Rightarrow> Inl e
                 | Inr r \<Rightarrow> if xgb_finite tm then Inr r else Inl NonFinite))"

end
