(* ===== verification/EnsembleVoting.thy ===== *)
theory EnsembleVoting
  imports SkLearn
begin

text \<open>
  \<open>algorithms/ml/ensemble_voting.py\<close>: the class \<open>WeatherEnsembleVoting\<close> and the
  module function \<open>train_and_predict\<close>. The constructor maps model names to estimator
  configurations (the datatype \<open>estimator\<close>), skipping unknown names. scikit-learn's
  \<open>VotingRegressor\<close> is modelled from the library's semantics (\<open>voting_fit\<close>,
  \<open>voting_predict\<close>): it rejects an empty estimator list and a weight list of another
  length, fits every estimator, and predicts the (weighted) average of their
  predictions. The sub-estimators' \<open>fit\<close> and \<open>predict\<close> are the parameter
  \<open>ens_lib\<close>, together with the iteration over a fitted ensemble estimator
  (\<open>ens_members\<close>: a forest, a boosted ensemble or AdaBoost iterates over its
  sub-estimators, a linear model is not iterable). \<open>VotingRegressor.estimators_\<close> is
  the list of fitted estimators, without their names; the code's loop
  \<open>for name, model in self.ensemble.estimators_\<close> unpacks each fitted estimator as a
  pair, which succeeds only for an ensemble of exactly two sub-estimators. The
  constant description strings of the result are not modelled.
\<close>

section \<open>Estimators\<close>

datatype estimator =
    RandomForestRegressor nat nat
  | GradientBoostingRegressor nat nat
  | RidgeRegressor real
  | AdaBoostRegressor nat
  | ElasticNetRegressor real real

record 'm ens_lib =
  ens_fit :: "estimator \<Rightarrow> vec list \<Rightarrow> vec \<Rightarrow> py_error + 'm"
  ens_predict :: "'m \<Rightarrow> vec list \<Rightarrow> py_error + vec"
  ens_members :: "'m \<Rightarrow> 'm list option"
  ens_cv_folds :: "vec list \<Rightarrow> vec \<Rightarrow> vec"

text \<open>A fitted random forest iterates over its trees, one per \<open>n_estimators\<close>.\<close>

definition forest_members :: "'m ens_lib \<Rightarrow> bool" where
  "forest_members L \<longleftrightarrow>
     (\<forall>ne md X y m. ens_fit L (RandomForestRegressor ne md) X y = Inr m \<longrightarrow>
        map_option length (ens_members L m) = Some ne)"

text \<open>The loop of \<open>__init__\<close>: each known name appends its estimator.\<close>

fun build_estimators :: "string list \<Rightarrow> (string \<times> estimator) list" where
  "build_estimators [] = []"
| "build_estimators (nm # nms) =
     (if nm = ''random_forest'' then [(''rf'', RandomForestRegressor 50 8)]
      else if nm = ''gradient_boosting'' then [(''gb'', GradientBoostingRegressor 50 4)]
      else if nm = ''ridge'' then [(''ridge'', RidgeRegressor 1.0)]
      else if nm = ''adaboost'' then [(''ada'', AdaBoostRegressor 50)]
      else if nm = ''elastic_net'' then [(''enet'', ElasticNetRegressor 0.1 0.5)]
      else []) @ build_estimators nms"

section \<open>\<open>VotingRegressor\<close>\<close>

record 'm voting =
  v_estimators :: "(string \<times> estimator) list"
  v_weights :: "real list option"
  v_fitted :: "'m list option"

fun fit_all :: "'m ens_lib \<Rightarrow> estimator list \<Rightarrow> vec list \<Rightarrow> vec \<Rightarrow> py_error + 'm list" where
  "fit_all L [] X y = Inr []"
| "fit_all L (e # es) X y =
     (case ens_fit L e X y of
        Inl err \<Rightarrow> Inl err
      | Inr m \<Rightarrow> map_sum id (\<lambda>ms. m # ms) (fit_all L es X y))"

definition voting_fit :: "'m ens_lib \<Rightarrow> 'm voting \<Rightarrow> vec list \<Rightarrow> vec \<Rightarrow> py_error + 'm voting" where
  "voting_fit L v X y =
     (if v_estimators v = [] then Inl ValueError
      else if (case v_weights v of None \<Rightarrow> False | Some w \<Rightarrow> length w \<noteq> length (v_estimators v))
      then Inl ValueError
      else map_sum id (\<lambda>ms. v\<lparr>v_fitted := Some ms\<rparr>) (fit_all L (map snd (v_estimators v)) X y))"

fun predict_all :: "'m ens_lib \<Rightarrow> 'm list \<Rightarrow> vec list \<Rightarrow> py_error + vec list" where
  "predict_all L [] X = Inr []"
| "predict_all L (m # ms) X =
     (case ens_predict L m X of
        Inl e \<Rightarrow> Inl e
      | Inr p \<Rightarrow> map_sum id (\<lambda>ps. p # ps) (predict_all L ms X))"

text \<open>\<open>np.average(predictions, axis=1, weights=weights)\<close>: the mean over the estimators
  for each row, or the weighted mean; weights summing to zero raise
  \<open>ZeroDivisionError\<close>.\<close>

definition np_average_cols :: "vec list \<Rightarrow> real list option \<Rightarrow> py_error + vec" where
  "np_average_cols P w =
     (case w of
        None \<Rightarrow> Inr (map (\<lambda>j. np_mean (map (\<lambda>p. p ! j) P)) [0..<length (hd P)])
      | Some ws \<Rightarrow> if sum_list ws = 0 then Inl ZeroDivisionError
                  else Inr (map (\<lambda>j. sum_list (map2 (\<lambda>wi p. wi * p ! j) ws P) / sum_list ws)
                                [0..<length (hd P)]))"

definition voting_predict :: "'m ens_lib \<Rightarrow> 'm voting \<Rightarrow> vec list \<Rightarrow> py_error + vec" where
  "voting_predict L v X =
     (case v_fitted v of
        None \<Rightarrow> Inl ValueError
      | Some ms \<Rightarrow> (case predict_all L ms X of
                     Inl e \<Rightarrow> Inl e
                   | Inr P \<Rightarrow> np_average_cols P (v_weights v)))"

section \<open>The object\<close>

record 'm weather_ens =
  ens_model_names :: "string list"
  ens_weights :: "real list option"
  ens_ensemble :: "'m voting"
  ens_is_trained :: bool

definition WeatherEnsembleVoting :: "string list option \<Rightarrow> real list option \<Rightarrow> 'm weather_ens" where
  "WeatherEnsembleVoting models weights =
     (let models' = (case models of None \<Rightarrow> [''random_forest'', ''gradient_boosting'', ''ridge'', ''adaboost'']
                                  | Some ms \<Rightarrow> ms)
      in \<lparr>ens_model_names = models', ens_weights = weights,
          ens_ensemble = \<lparr>v_estimators = build_estimators models', v_weights = weights, v_fitted = None\<rparr>,
          ens_is_trained = False\<rparr>)"

text \<open>\<open>name, model = estimator\<close>: a fitted estimator unpacks into a pair only when it
  iterates over exactly two members; an iterable with another number of members
  raises \<open>ValueError\<close>, a non-iterable one \<open>TypeError\<close>.\<close>

definition unpack_pair :: "'m ens_lib \<Rightarrow> 'm \<Rightarrow> py_error + 'm \<times> 'm" where
  "unpack_pair L m =
     (case ens_members L m of
        None \<Rightarrow> Inl TypeError
      | Some [a, b] \<Rightarrow> Inr (a, b)
      | Some _ \<Rightarrow> Inl ValueError)"

text \<open>The loop over \<open>self.ensemble.estimators_\<close>: unpack, predict the test rows,
  score them under the key \<open>name\<close>.\<close>

fun individual_loop ::
  "'m ens_lib \<Rightarrow> vec list \<Rightarrow> vec \<Rightarrow> 'm list \<Rightarrow> ('m \<times> test_metrics) list \<Rightarrow> py_error + ('m \<times> test_metrics) list" where
  "individual_loop L Xt yt [] acc = Inr acc"
| "individual_loop L Xt yt (m # ms) acc =
     (case unpack_pair L m of
        Inl e \<Rightarrow> Inl e
      | Inr (name, model) \<Rightarrow>
          (case ens_predict L model Xt of
             Inl e \<Rightarrow> Inl e
           | Inr p \<Rightarrow> (case score_test yt p of
                         Inl e \<Rightarrow> Inl e
                       | Inr tm \<Rightarrow> individual_loop L Xt yt ms (AList.update name tm acc))))"

record 'm ens_train_metrics =
  en_n_samples :: nat
  en_n_features :: nat
  en_n_models :: nat
  en_model_names :: "string list"
  en_weights :: "real list option"
  en_cross_validation :: cv_summary
  en_ensemble_metrics :: test_metrics
  en_individual_metrics :: "('m \<times> test_metrics) list"
  en_improvement_over_best :: real

definition WeatherEnsembleVoting_train ::
  "'m ens_lib \<Rightarrow> (nat \<Rightarrow> nat list) \<Rightarrow> 'm weather_ens \<Rightarrow> vec list \<Rightarrow> vec \<Rightarrow>
   (py_error + 'm ens_train_metrics) \<times> 'm weather_ens" where
  "WeatherEnsembleVoting_train L perm self X y =
     (case train_test_split perm X y of
        Inl e \<Rightarrow> (Inl e, self)
      | Inr sp \<Rightarrow>
          (case voting_fit L (ens_ensemble self) (sp_X_train sp) (sp_y_train sp) of
             Inl e \<Rightarrow> (Inl e, self)
           | Inr v \<Rightarrow>
               (let self1 = self\<lparr>ens_ensemble := v, ens_is_trained := True\<rparr>;
                    fail = (\<lambda>e. (Inl e, self1))
                in case voting_predict L v (sp_X_test sp) of Inl e \<Rightarrow> fail e
                 | Inr yp \<Rightarrow> (case individual_loop L (sp_X_test sp) (sp_y_test sp)
                                      (case v_fitted v of None \<Rightarrow> [] | Some ms \<Rightarrow> ms) [] of Inl e \<Rightarrow> fail e
                 | Inr ind \<Rightarrow> (case cross_val_score (ens_cv_folds L) X y of Inl e \<Rightarrow> fail e
                 | Inr cv \<Rightarrow> (case n_columns X of Inl e \<Rightarrow> fail e
                 | Inr nc \<Rightarrow> (case score_test (sp_y_test sp) yp of Inl e \<Rightarrow> fail e
                 | Inr tm \<Rightarrow>
                     (if ind = [] then fail ValueError
                      else (Inr \<lparr>en_n_samples = length y, en_n_features = nc,
                                 en_n_models = length (ens_model_names self),
                                 en_model_names = ens_model_names self, en_weights = ens_weights self,
                                 en_cross_validation = cv_report cv, en_ensemble_metrics = tm,
                                 en_individual_metrics = ind,
                                 en_improvement_over_best =
                                   Min (set (map (\<lambda>(_, t). tm_mae t) ind)) - tm_mae tm\<rparr>, self1)))))))))"

definition WeatherEnsembleVoting_predict :: "'m ens_lib \<Rightarrow> 'm weather_ens \<Rightarrow> vec list \<Rightarrow> py_error + vec" where
  "WeatherEnsembleVoting_predict L self X =
     (if \<not> ens_is_trained self then Inl ValueError else voting_predict L (ens_ensemble self) X)"

text \<open>\<open>predict_all_models\<close>: each fitted estimator's predictions, keyed as the loop of
  \<open>train\<close> keys them, then the ensemble's under \<open>"ensemble"\<close>.\<close>

fun members_loop :: "'m ens_lib \<Rightarrow> vec list \<Rightarrow> 'm list \<Rightarrow> ('m \<times> vec) list \<Rightarrow> py_error + ('m \<times> vec) list" where
  "members_loop L X [] acc = Inr acc"
| "members_loop L X (m # ms) acc =
     (case unpack_pair L m of
        Inl e \<Rightarrow> Inl e
      | Inr (name, model) \<Rightarrow>
          (case ens_predict L model X of
             Inl e \<Rightarrow> Inl e
           | Inr p \<Rightarrow> members_loop L X ms (AList.update name p acc)))"

definition WeatherEnsembleVoting_predict_all_models ::
  "'m ens_lib \<Rightarrow> 'm weather_ens \<Rightarrow> vec list \<Rightarrow> py_error + ('m \<times> vec) list \<times> vec" where
  "WeatherEnsembleVoting_predict_all_models L self X =
     (if \<not> ens_is_trained self then Inl ValueError
      else case members_loop L X (case v_fitted (ens_ensemble self) of None \<Rightarrow> [] | Some ms \<Rightarrow> ms) [] of
             Inl e \<Rightarrow> Inl e
           | Inr ps \<Rightarrow> map_sum id (\<lambda>p. (ps, p)) (voting_predict L (ens_ensemble self) X))"

section \<open>\<open>train_and_predict\<close>\<close>

record 'm ens_result =
  en_algorithm :: string
  en_library :: string
  en_version :: string
  en_reference :: string
  en_training_metrics :: "'m ens_train_metrics"
  en_predictions :: "(('m \<times> vec) list \<times> vec) option"

definition ensemble_train_and_predict ::
  "'m ens_lib \<Rightarrow> (nat \<Rightarrow> nat list) \<Rightarrow> vec list \<Rightarrow> vec \<Rightarrow> vec list option \<Rightarrow> py_error + 'm ens_result" where
  "ensemble_train_and_predict L perm X y Xp =
     (let ens = WeatherEnsembleVoting None None
      in case WeatherEnsembleVoting_train L perm ens X y of
           (Inl e, _) \<Rightarrow> Inl e
         | (Inr tm, ens1) \<Rightarrow>
             (let result = \<lparr>en_algorithm = ''Ensemble Voting Regressor'', en_library = ''scikit-learn'',
                            en_version = ''1.4.0'', en_reference = ''scikit-learn.org - Ensemble Methods'',
                            en_training_metrics = tm, en_predictions = None\<rparr>
              in case Xp of
                   None \<Rightarrow> Inr result
                 | Some Xp' \<Rightarrow> map_sum id (\<lambda>p. result\<lparr>en_predictions := Some p\<rparr>)
                                 (WeatherEnsembleVoting_predict_all_models L ens1 Xp')))"

section \<open>Lemmas\<close>

lemma fit_all_Cons:
  "fit_all L (e # es) X y = Inr ms \<Longrightarrow> \<exists>m ms'. ms = m # ms' \<and> ens_fit L e X y = Inr m"
  by (cases "fit_all L es X y") (auto split: sum.splits)

lemma default_estimators:
  "v_estimators (ens_ensemble (WeatherEnsembleVoting None None)) =
     [(''rf'', RandomForestRegressor 50 8), (''gb'', GradientBoostingRegressor 50 4),
      (''ridge'', RidgeRegressor 1.0), (''ada'', AdaBoostRegressor 50)]"
  by (simp add: WeatherEnsembleVoting_def)

lemma default_voting_fit:
  "voting_fit L (ens_ensemble (WeatherEnsembleVoting None None)) X y =
     map_sum id (\<lambda>ms. (ens_ensemble (WeatherEnsembleVoting None None))\<lparr>v_fitted := Some ms\<rparr>)
       (fit_all L [RandomForestRegressor 50 8, GradientBoostingRegressor 50 4, RidgeRegressor 1.0,
                   AdaBoostRegressor 50] X y)"
  by (simp add: voting_fit_def WeatherEnsembleVoting_def del: fit_all.simps)

text \<open>A fitted forest of 50 trees does not unpack into a pair.\<close>

lemma forest_unpack:
  assumes "forest_members L" "ens_fit L (RandomForestRegressor 50 md) X y = Inr m"
  shows "unpack_pair L m = Inl ValueError"
proof -
  obtain xs where "ens_members L m = Some xs" "length xs = 50"
    using assms unfolding forest_members_def by fastforce
  then show ?thesis by (auto simp: unpack_pair_def split: list.split)
qed

lemma default_train_fails:
  assumes "forest_members L"
  shows "\<exists>e. fst (WeatherEnsembleVoting_train L perm (WeatherEnsembleVoting None None) X y) = Inl e"
proof (cases "train_test_split perm X y")
  case (Inl e)
  then show ?thesis by (simp add: WeatherEnsembleVoting_train_def)
next
  case (Inr sp)
  show ?thesis
  proof (cases "voting_fit L (ens_ensemble (WeatherEnsembleVoting None None)) (sp_X_train sp) (sp_y_train sp)")
    case (Inl e)
    then show ?thesis using Inr by (simp add: WeatherEnsembleVoting_train_def)
  next
    case (Inr v)
    let ?es = "[RandomForestRegressor 50 8, GradientBoostingRegressor 50 4, RidgeRegressor 1.0, AdaBoostRegressor 50]"
    have "\<exists>ms. v_fitted v = Some ms \<and> fit_all L ?es (sp_X_train sp) (sp_y_train sp) = Inr ms"
      using Inr by (cases "fit_all L ?es (sp_X_train sp) (sp_y_train sp)")
                   (auto simp: default_voting_fit simp del: fit_all.simps)
    then obtain ms where v: "v_fitted v = Some ms"
      and fa: "fit_all L ?es (sp_X_train sp) (sp_y_train sp) = Inr ms"
      by blast
    then obtain m ms' where ms: "ms = m # ms'"
      and m: "ens_fit L (RandomForestRegressor 50 8) (sp_X_train sp) (sp_y_train sp) = Inr m"
      using fit_all_Cons [OF fa] by blast
    have "unpack_pair L m = Inl ValueError" using forest_unpack [OF assms m] .
    then have "\<exists>e. individual_loop L (sp_X_test sp) (sp_y_test sp) ms [] = Inl e" by (simp add: ms)
    then show ?thesis using \<open>train_test_split perm X y = Inr sp\<close> Inr v
      by (auto simp: WeatherEnsembleVoting_train_def Let_def split: sum.split)
  qed
qed

text \<open>\<open>train_and_predict\<close> never returns: whatever the data, once the default
  ensemble is fitted the loop over \<open>estimators_\<close> unpacks the fitted random forest of
  50 trees as a \<open>(name, model)\<close> pair and raises \<open>ValueError\<close>; every earlier step
  that fails raises too.\<close>

lemma ensemble_never_returns:
  assumes "forest_members L"
  shows "\<forall>r. ensemble_train_and_predict L perm X y Xp \<noteq> Inr r"
proof -
  obtain e where "fst (WeatherEnsembleVoting_train L perm (WeatherEnsembleVoting None None) X y) = Inl e"
    using default_train_fails [OF assms] by blast
  then show ?thesis by (auto simp: ensemble_train_and_predict_def split: prod.split)
qed

text \<open>An estimator library for the examples: a fitted estimator is its configuration,
  ensembles iterate over as many members as they were configured with, and every
  prediction is 0.\<close>

definition example_ens :: "estimator ens_lib" where
  "example_ens =
     \<lparr>ens_fit = (\<lambda>e X y. Inr e), ens_predict = (\<lambda>m X. Inr (replicate (length X) 0)),
      ens_members = (\<lambda>e. case e of RandomForestRegressor ne _ \<Rightarrow> Some (replicate ne e)
                                | GradientBoostingRegressor ne _ \<Rightarrow> Some (replicate ne e)
                                | AdaBoostRegressor ne \<Rightarrow> Some (replicate ne e)
                                | _ \<Rightarrow> None),
      ens_cv_folds = (\<lambda>X y. replicate 5 0)\<rparr>"

lemma forest_members_example: "forest_members example_ens"
  by (simp add: forest_members_def example_ens_def)

end
