(* ===== verification/LSTM.thy ===== *)
theory LSTM
  imports NumPy
begin

text \<open>
  \<open>algorithms/ml/lstm_predictor.py\<close>: the class \<open>WeatherLSTM\<close> and the module function
  \<open>train_and_predict\<close>. numpy arrays are the datatype \<open>nd_array\<close> by their number of
  dimensions (\<open>Arr0\<close> is the array \<open>np.array(None)\<close>); \<open>np.array\<close> of a list of
  rows (\<open>np_array_rows\<close>) gives a one-dimensional empty array for an empty list and
  raises \<open>ValueError\<close> on rows of different lengths. Whether TensorFlow imports
  (\<open>HAS_TF\<close>) is the shape of the parameter: \<open>Some T\<close> with \<open>T\<close> the Keras calls
  the class makes (building the network for a sequence length and a number of
  features, \<open>fit\<close> returning the history dictionary, \<open>predict\<close>,
  \<open>count_params\<close>), \<open>None\<close> when the import failed; then \<open>train\<close> simulates a
  history and \<open>predict\<close> averages the features of the last time step. The request is
  a dictionary whose keys may be absent (\<open>lstm_dict\<close>); \<open>X_predict\<close> is read
  whenever its key is present, even when its value is \<open>None\<close>. The constant
  \<open>mathematical_formulation\<close> strings of the result are not modelled.
\<close>

section \<open>Arrays\<close>

text \<open>A three-dimensional array keeps its shape beside its data, so that a time axis
  of length zero still has a number of features.\<close>

datatype nd_array = Arr0 | Arr1 vec | Arr2 "vec list" | Arr3 "nat \<times> nat \<times> nat" "vec list list"

definition np_array_rows :: "vec list \<Rightarrow> py_error + nd_array" where
  "np_array_rows X = (if X = [] then Inr (Arr1 []) else map_sum id Arr2 (np_array2 X))"

fun nd_shape :: "nd_array \<Rightarrow> nat list" where
  "nd_shape Arr0 = []"
| "nd_shape (Arr1 v) = [length v]"
| "nd_shape (Arr2 X) = [length X, length (hd X)]"
| "nd_shape (Arr3 (n, k, f) X) = [n, k, f]"

text \<open>\<open>if len(X.shape) == 2: X = X.reshape((X.shape[0], X.shape[1], 1))\<close>.\<close>

definition reshape3 :: "nd_array \<Rightarrow> nd_array" where
  "reshape3 a =
     (case a of Arr2 X \<Rightarrow> Arr3 (length X, length (hd X), 1) (map (map (\<lambda>x. [x])) X) | _ \<Rightarrow> a)"

text \<open>\<open>X.shape[i]\<close>, raising \<open>IndexError\<close> past the last dimension.\<close>

definition shape_at :: "nd_array \<Rightarrow> nat \<Rightarrow> py_error + nat" where
  "shape_at a i = (if i < length (nd_shape a) then Inr (nd_shape a ! i) else Inl IndexError)"

section \<open>Keras\<close>

record 'k tf_lib =
  tf_build :: "nat \<Rightarrow> nat \<Rightarrow> py_error + 'k"
  tf_fit :: "'k \<Rightarrow> nd_array \<Rightarrow> vec \<Rightarrow> int \<Rightarrow> py_error + 'k \<times> vec pydict"
  tf_predict :: "'k \<Rightarrow> nd_array \<Rightarrow> py_error + vec"
  tf_count_params :: "'k \<Rightarrow> int"

text \<open>Keras converts the input of \<open>predict\<close> to a tensor of the model's three
  dimensions; an array of another number of dimensions is rejected.\<close>

definition tf_needs_3d :: "'k tf_lib \<Rightarrow> bool" where
  "tf_needs_3d T \<longleftrightarrow> (\<forall>k a. (\<forall>d X. a \<noteq> Arr3 d X) \<longrightarrow> (\<exists>e. tf_predict T k a = Inl e))"

section \<open>The object\<close>

record 'k weather_lstm =
  sequence_length :: nat
  n_features :: nat
  hidden_units :: "int list"
  lstm_model :: "'k option"

definition WeatherLSTM :: "'k tf_lib option \<Rightarrow> nat \<Rightarrow> nat \<Rightarrow> py_error + 'k weather_lstm" where
  "WeatherLSTM TT sl nf =
     (case TT of
        None \<Rightarrow> Inr \<lparr>sequence_length = sl, n_features = nf, hidden_units = [64, 32], lstm_model = None\<rparr>
      | Some T \<Rightarrow> map_sum id (\<lambda>k. \<lparr>sequence_length = sl, n_features = nf, hidden_units = [64, 32],
                                    lstm_model = Some k\<rparr>) (tf_build T sl nf))"

record lstm_trained =
  epochs_trained :: nat
  final_loss :: real
  final_val_loss :: real
  final_mae :: real
  final_val_mae :: real
  best_val_loss :: real
  history_loss :: vec
  history_val_loss :: vec
  history_mae :: vec
  history_val_mae :: vec
  early_stopped :: bool

datatype lstm_metrics =
    LSTMTrained lstm_trained
  | LSTMSimulated int vec vec

text \<open>\<open>history.history[key]\<close>, raising \<open>KeyError\<close> for a missing key, and
  \<open>xs[-1]\<close> and \<open>min(xs)\<close> on a list.\<close>

definition hist_get :: "vec pydict \<Rightarrow> string \<Rightarrow> py_error + vec" where
  "hist_get h k = (case map_of h k of None \<Rightarrow> Inl KeyError | Some v \<Rightarrow> Inr v)"

definition py_min :: "vec \<Rightarrow> py_error + real" where
  "py_min xs = (if xs = [] then Inl ValueError else Inr (Min (set xs)))"

text \<open>\<open>_simulate_training\<close>: the fixed figures, with losses decaying by 0.9 per epoch.\<close>

definition WeatherLSTM_simulate_training :: "int \<Rightarrow> lstm_metrics" where
  "WeatherLSTM_simulate_training epochs =
     LSTMSimulated epochs (map (\<lambda>i. 0.5 * 0.9 ^ i) [0..<nat epochs])
                          (map (\<lambda>i. 0.6 * 0.9 ^ i) [0..<nat epochs])"

text \<open>\<open>train\<close>: with Keras, \<open>fit\<close> with early stopping and the figures of its history,
  read in the order of the returned dictionary.\<close>

definition WeatherLSTM_train ::
  "'k tf_lib option \<Rightarrow> 'k weather_lstm \<Rightarrow> nd_array \<Rightarrow> vec \<Rightarrow> int \<Rightarrow>
   (py_error + lstm_metrics) \<times> 'k weather_lstm" where
  "WeatherLSTM_train TT self X y epochs =
     (case (TT, lstm_model self) of
        (Some T, Some k) \<Rightarrow>
          (case tf_fit T k X y epochs of
             Inl e \<Rightarrow> (Inl e, self)
           | Inr (k1, h) \<Rightarrow>
               (let self1 = self\<lparr>lstm_model := Some k1\<rparr>
                in case hist_get h ''loss'' of Inl e \<Rightarrow> (Inl e, self1)
                 | Inr loss \<Rightarrow> (case py_nth loss (-1) of Inl e \<Rightarrow> (Inl e, self1)
                 | Inr fl \<Rightarrow> (case hist_get h ''val_loss'' of Inl e \<Rightarrow> (Inl e, self1)
                 | Inr vloss \<Rightarrow> (case py_nth vloss (-1) of Inl e \<Rightarrow> (Inl e, self1)
                 | Inr fvl \<Rightarrow> (case hist_get h ''mae'' of Inl e \<Rightarrow> (Inl e, self1)
                 | Inr mae \<Rightarrow> (case py_nth mae (-1) of Inl e \<Rightarrow> (Inl e, self1)
                 | Inr fm \<Rightarrow> (case hist_get h ''val_mae'' of Inl e \<Rightarrow> (Inl e, self1)
                 | Inr vmae \<Rightarrow> (case py_nth vmae (-1) of Inl e \<Rightarrow> (Inl e, self1)
                 | Inr fvm \<Rightarrow> (case py_min vloss of Inl e \<Rightarrow> (Inl e, self1)
                 | Inr bvl \<Rightarrow>
                     (Inr (LSTMTrained \<lparr>epochs_trained = length loss, final_loss = fl, final_val_loss = fvl,
                                         final_mae = fm, final_val_mae = fvm, best_val_loss = bvl,
                                         history_loss = loss, history_val_loss = vloss, history_mae = mae,
                                         history_val_mae = vmae, early_stopped = int (length loss) < epochs\<rparr>),
                      self1)))))))))))
      | _ \<Rightarrow> (case TT of
                None \<Rightarrow> (Inr (WeatherLSTM_simulate_training epochs), self)
              | Some T \<Rightarrow> (Inl AttributeError, self)))"

text \<open>\<open>predict\<close>: without Keras, \<open>np.mean(X[:, -1, :], axis=1)\<close>, which needs three
  dimensions and a time step (\<open>IndexError\<close> otherwise) and is \<open>nan\<close> without
  features; an empty batch gives an empty array.\<close>

definition last_step_mean :: "nd_array \<Rightarrow> py_error + vec" where
  "last_step_mean a =
     (case a of
        Arr3 (n, k, f) X \<Rightarrow> if k = 0 then Inl IndexError
                            else if f = 0 \<and> n \<noteq> 0 then Inl NonFinite
                            else Inr (map (\<lambda>s. np_mean (last s)) X)
      | _ \<Rightarrow> Inl IndexError)"

definition WeatherLSTM_predict :: "'k tf_lib option \<Rightarrow> 'k weather_lstm \<Rightarrow> nd_array \<Rightarrow> py_error + vec" where
  "WeatherLSTM_predict TT self X =
     (case (TT, lstm_model self) of
        (Some T, Some k) \<Rightarrow> tf_predict T k X
      | _ \<Rightarrow> last_step_mean X)"

record architecture =
  arch_type :: string
  arch_layers :: "string list"
  arch_input_shape :: "nat \<times> nat"
  arch_total_params :: "int option"
  arch_optimizer :: string
  arch_loss :: string

text \<open>\<open>get_architecture\<close>; \<open>total_params\<close> is \<open>"N/A"\<close> (here \<open>None\<close>) without Keras.\<close>

definition WeatherLSTM_get_architecture ::
  "'k tf_lib option \<Rightarrow> 'k weather_lstm \<Rightarrow> py_error + architecture" where
  "WeatherLSTM_get_architecture TT self =
     (case py_nth (hidden_units self) 0 of Inl e \<Rightarrow> Inl e
      | Inr h0 \<Rightarrow> (case py_nth (hidden_units self) 1 of Inl e \<Rightarrow> Inl e
      | Inr h1 \<Rightarrow>
          Inr \<lparr>arch_type = ''Stacked LSTM'',
               arch_layers = [''LSTM('' @ py_str_int h0 @ '', return_sequences=True)'', ''BatchNormalization()'',
                              ''Dropout(0.2)'', ''LSTM('' @ py_str_int h1 @ '')'', ''BatchNormalization()'',
                              ''Dropout(0.2)'', ''Dense(16, relu)'', ''Dense(1)''],
               arch_input_shape = (sequence_length self, n_features self),
               arch_total_params =
                 (case (TT, lstm_model self) of (Some T, Some k) \<Rightarrow> Some (tf_count_params T k) | _ \<Rightarrow> None),
               arch_optimizer = ''Adam(lr=0.001)'', arch_loss = ''MSE''\<rparr>))"

section \<open>\<open>train_and_predict\<close>\<close>

text \<open>The request dictionary: \<open>None\<close> for an absent key; \<open>X_predict\<close> may be present
  with the value \<open>None\<close>.\<close>

record lstm_dict =
  ld_X_train :: "vec list option"
  ld_y_train :: "vec option"
  ld_X_predict :: "vec list option option"
  ld_epochs :: "int option"

record lstm_result =
  ls_algorithm :: string
  ls_library :: string
  ls_version :: string
  ls_reference :: string
  ls_architecture :: architecture
  ls_training_metrics :: lstm_metrics
  ls_input_shape :: "nat \<times> nat \<times> nat"
  ls_predictions :: "vec option"

text \<open>\<open>np.array(request["X_predict"])\<close>: \<open>None\<close> gives a zero-dimensional array.\<close>

definition np_array_opt :: "vec list option \<Rightarrow> py_error + nd_array" where
  "np_array_opt v = (case v of None \<Rightarrow> Inr Arr0 | Some X \<Rightarrow> np_array_rows X)"

definition lstm_train_and_predict ::
  "'k tf_lib option \<Rightarrow> lstm_dict \<Rightarrow> py_error + lstm_result" where
  "lstm_train_and_predict TT rq =
     (case np_array_rows (case ld_X_train rq of None \<Rightarrow> [] | Some X \<Rightarrow> X) of
        Inl e \<Rightarrow> Inl e
      | Inr X0 \<Rightarrow>
          (let y = (case ld_y_train rq of None \<Rightarrow> [] | Some v \<Rightarrow> v);
               epochs = (case ld_epochs rq of None \<Rightarrow> 50 | Some k \<Rightarrow> k);
               X = (if length (nd_shape X0) = 2 then reshape3 X0 else X0)
           in case shape_at X 1 of Inl e \<Rightarrow> Inl e
            | Inr sl \<Rightarrow> (case shape_at X 2 of Inl e \<Rightarrow> Inl e
            | Inr nf \<Rightarrow> (case WeatherLSTM TT sl nf of Inl e \<Rightarrow> Inl e
            | Inr lstm \<Rightarrow> (case WeatherLSTM_train TT lstm X y epochs of (Inl e, _) \<Rightarrow> Inl e
            | (Inr tm, lstm1) \<Rightarrow> (case WeatherLSTM_get_architecture TT lstm1 of Inl e \<Rightarrow> Inl e
            | Inr arch \<Rightarrow>
                (let result = \<lparr>ls_algorithm = ''LSTM Neural Network'', ls_library = ''TensorFlow/Keras'',
                               ls_version = ''2.15.0'',
                               ls_reference = ''Hochreiter & Schmidhuber (1997). Long Short-Term Memory'',
                               ls_architecture = arch, ls_training_metrics = tm,
                               ls_input_shape = (nd_shape X ! 0, sl, nf), ls_predictions = None\<rparr>
                 in case ld_X_predict rq of
                      None \<Rightarrow> Inr result
                    | Some xp \<Rightarrow>
                        (case np_array_opt xp of Inl e \<Rightarrow> Inl e
                         | Inr XP0 \<Rightarrow>
                             (let XP = (if length (nd_shape XP0) = 2 then reshape3 XP0 else XP0)
                              in map_sum id (\<lambda>p. result\<lparr>ls_predictions := Some p\<rparr>)
                                   (WeatherLSTM_predict TT lstm1 XP))))))))))"

section \<open>Lemmas\<close>

text \<open>Prediction on an array that is not three-dimensional raises, with or without
  Keras.\<close>

lemma predict_not_3d:
  assumes "\<forall>T. TT = Some T \<longrightarrow> tf_needs_3d T" "\<forall>d X. a \<noteq> Arr3 d X"
  shows "\<exists>e. WeatherLSTM_predict TT self a = Inl e"
  using assms
  by (cases a) (auto simp: WeatherLSTM_predict_def last_step_mean_def tf_needs_3d_def split: option.split)

text \<open>When the key \<open>X_predict\<close> is present with the value \<open>None\<close>, \<open>np.array(None)\<close>
  has no dimension and \<open>train_and_predict\<close> raises, whatever happened before.\<close>

lemma predict_None_fails:
  assumes "\<forall>T. TT = Some T \<longrightarrow> tf_needs_3d T" "ld_X_predict rq = Some None"
  shows "\<exists>e. lstm_train_and_predict TT rq = Inl e"
proof -
  have "\<forall>self. \<exists>e. WeatherLSTM_predict TT self Arr0 = Inl e"
    using predict_not_3d [OF assms(1)] by simp
  then have "\<exists>err. \<forall>self. WeatherLSTM_predict TT self Arr0 = Inl (err self)"
    by (rule choice)
  then obtain err where p: "\<And>self. WeatherLSTM_predict TT self Arr0 = Inl (err self)"
    by blast
  show ?thesis
    unfolding lstm_train_and_predict_def using assms(2)
    by (auto simp: p np_array_opt_def Let_def split: sum.split prod.split)
qed

lemma np_array_rows_rect:
  "X \<noteq> [] \<Longrightarrow> list_all (\<lambda>row. length row = length (hd X)) X \<Longrightarrow> np_array_rows X = Inr (Arr2 X)"
  by (simp add: np_array_rows_def)

lemma last_step_mean_reshape:
  assumes "list_all (\<lambda>row. length row = length (hd X)) X" "hd X \<noteq> []"
  shows "last_step_mean (reshape3 (Arr2 X)) = Inr (map last X)"
proof -
  have "\<forall>row \<in> set X. row \<noteq> []" using assms by (auto simp: list_all_iff)
  then have "map (\<lambda>s. np_mean (last s)) (map (map (\<lambda>x. [x])) X) = map last X"
    by (auto simp: last_map np_mean_def)
  then show ?thesis using assms(2) by (simp add: last_step_mean_def reshape3_def)
qed

lemma nd_shape_reshape [simp]: "nd_shape (reshape3 (Arr2 X)) = [length X, length (hd X), 1]"
  by (simp add: reshape3_def)

section \<open>Properties\<close>

text \<open>C31: without TensorFlow, \<open>train_and_predict\<close> on rectangular training rows and
  rectangular, non-empty prediction rows succeeds: it reports the simulated training,
  the input shape with one feature, no parameter count, and as prediction of each row
  the row's last value (the mean over the one feature of the last time step), a
  persistence forecast that ignores the training data.\<close>

theorem simulated_persistence:
  assumes "X \<noteq> []" "list_all (\<lambda>row. length row = length (hd X)) X"
    and "Xp \<noteq> []" "list_all (\<lambda>row. length row = length (hd Xp)) Xp" "hd Xp \<noteq> []"
  shows "\<exists>r. lstm_train_and_predict (None :: 'k tf_lib option)
                \<lparr>ld_X_train = Some X, ld_y_train = y, ld_X_predict = Some (Some Xp), ld_epochs = ep\<rparr> = Inr r \<and>
             ls_training_metrics r = WeatherLSTM_simulate_training (case ep of None \<Rightarrow> 50 | Some k \<Rightarrow> k) \<and>
             ls_input_shape r = (length X, length (hd X), 1) \<and>
             ls_predictions r = Some (map last Xp) \<and>
             arch_total_params (ls_architecture r) = None"
  using assms
  by (simp add: lstm_train_and_predict_def np_array_rows_rect last_step_mean_reshape np_array_opt_def
      WeatherLSTM_def WeatherLSTM_train_def WeatherLSTM_predict_def WeatherLSTM_get_architecture_def
      shape_at_def py_nth_def Let_def)

theorem simulated_persistence_witness:
  "ls_predictions (projr (lstm_train_and_predict (None :: unit tf_lib option)
      \<lparr>ld_X_train = Some [[1, 2]], ld_y_train = Some [1], ld_X_predict = Some (Some [[3, 5], [4, 7]]),
       ld_epochs = Some 2\<rparr>)) = Some [5, 7]"
  using simulated_persistence [where 'k = unit and X = "[[1, 2]]" and Xp = "[[3, 5], [4, 7]]"
      and y = "Some [1]" and ep = "Some 2"]
  by auto

end
