(* ===== verification/Quantum.thy ===== *)
theory Quantum
  imports NumPy
begin

text \<open>
  The quantum modules of \<open>algorithms/quantum/\<close>: \<open>vqe_optimizer.py\<close>,
  \<open>qaoa_solver.py\<close>, \<open>qsvm_classifier.py\<close>, \<open>qnn_regression.py\<close> and
  \<open>grover_search.py\<close>. None of them runs a circuit: each class computes its result
  from numpy's global random generator and from constants. The generator is the
  parameter \<open>np_random\<close> of the model, a record of the three sampling routines the
  modules call, each taking the generator's state and returning the samples with
  the next state; \<open>valid_random\<close> is numpy's contract for them (sizes and ranges;
  \<open>randint\<close> only for a non-empty range, the only one the modules ask for).
  Every operation returns its outcome together with the generator's state after
  it, so that the draws of consecutive calls are ordered as in the program, and an
  exception raised after a draw leaves the advanced state behind.
\<close>

section \<open>numpy's global random generator\<close>

text \<open>\<open>np.random.random(k)\<close>, \<open>np.random.randint(lo, hi, k)\<close> and
  \<open>np.random.normal(mu, sigma, k)\<close>, with the generator state threaded through.\<close>

record 's np_random =
  rnd_random :: "'s \<Rightarrow> nat \<Rightarrow> vec \<times> 's"
  rnd_randint :: "'s \<Rightarrow> int \<Rightarrow> int \<Rightarrow> nat \<Rightarrow> int list \<times> 's"
  rnd_normal :: "'s \<Rightarrow> real \<Rightarrow> real \<Rightarrow> nat \<Rightarrow> vec \<times> 's"

definition valid_random :: "'s np_random \<Rightarrow> bool" where
  "valid_random R \<longleftrightarrow>
     (\<forall>s k. length (fst (rnd_random R s k)) = k \<and>
            (\<forall>u \<in> set (fst (rnd_random R s k)). 0 \<le> u \<and> u < 1)) \<and>
     (\<forall>s lo hi k. lo < hi \<longrightarrow> length (fst (rnd_randint R s lo hi k)) = k \<and>
            (\<forall>v \<in> set (fst (rnd_randint R s lo hi k)). lo \<le> v \<and> v < hi)) \<and>
     (\<forall>s mu sd k. length (fst (rnd_normal R s mu sd k)) = k)"

text \<open>The shape of the module functions' results: the three strings naming the
  algorithm, and the class's result.\<close>

record 'r quantum_report =
  q_algorithm :: string
  q_library :: string
  q_reference :: string
  q_results :: 'r

record ('m, 'p) qml_report =
  qml_algorithm :: string
  qml_library :: string
  qml_reference :: string
  training_metrics :: 'm
  predictions :: "'p option"

section \<open>VQE (\<open>vqe_optimizer.py\<close>)\<close>

record weather_vqe =
  vqe_num_qubits :: int
  vqe_layers :: int

definition WeatherVQE :: "int \<Rightarrow> int \<Rightarrow> weather_vqe" where
  "WeatherVQE nq ly = \<lparr>vqe_num_qubits = nq, vqe_layers = ly\<rparr>"

record vqe_result =
  optimal_energy :: real
  optimal_parameters :: vec
  vqe_iterations :: int
  model_weights :: "real pydict"
  circuit_depth :: int

text \<open>\<open>WeatherVQE.optimize\<close>. The four weather parameters are read and scaled and
  then not used. \<open>np.random.random\<close> raises \<open>ValueError\<close> on a negative size; the
  weights are the absolute cosines of the first four parameters divided by their
  sum (numpy divides by zero without raising); the energy is a second draw; the
  dictionary then indexes \<open>weights[0]\<close> to \<open>weights[3]\<close>, which raises
  \<open>IndexError\<close> when fewer than four parameters were drawn.\<close>

definition WeatherVQE_optimize ::
  "'s np_random \<Rightarrow> weather_vqe \<Rightarrow> real pydict \<Rightarrow> 's \<Rightarrow> (py_error + vqe_result) \<times> 's" where
  "WeatherVQE_optimize R self wp s =
     (let temp = dict_get wp ''temperature'' 20 / 50;
          humidity = dict_get wp ''humidity'' 50 / 100;
          pressure = dict_get wp ''pressure'' 1013 / 1050;
          wind = dict_get wp ''wind_speed'' 10 / 50;
          k = vqe_num_qubits self * vqe_layers self * 2
      in if k < 0 then (Inl ValueError, s)
         else
           let (u, s1) = rnd_random R s (nat k);
               optimal_params = map (\<lambda>x. x * 2 * pi) u;
               w = map (\<lambda>p. \<bar>cos p\<bar>) (take 4 optimal_params);
               total = sum_list w;
               (e, s2) = rnd_random R s1 1
           in if length w < 4 then (Inl IndexError, s2)
              else if total = 0 then (Inl NonFinite, s2)
              else (Inr \<lparr>optimal_energy = - 0.8 - 0.1 * hd e,
                         optimal_parameters = optimal_params,
                         vqe_iterations = 100,
                         model_weights = [(''IFS'', w ! 0 / total), (''GFS'', w ! 1 / total),
                                          (''ICON'', w ! 2 / total), (''ERA5'', w ! 3 / total)],
                         circuit_depth = vqe_layers self * 2 + 1\<rparr>, s2))"

definition vqe_optimize ::
  "'s np_random \<Rightarrow> real pydict \<Rightarrow> int \<Rightarrow> int \<Rightarrow> 's \<Rightarrow> (py_error + vqe_result quantum_report) \<times> 's" where
  "vqe_optimize R wp nq ly s =
     (let (r, s') = WeatherVQE_optimize R (WeatherVQE nq ly) wp s
      in (case r of Inl e \<Rightarrow> Inl e
          | Inr res \<Rightarrow> Inr \<lparr>q_algorithm = ''VQE'', q_library = ''Qiskit'',
                            q_reference = ''Peruzzo et al. (2014)'', q_results = res\<rparr>, s'))"

section \<open>QAOA (\<open>qaoa_solver.py\<close>)\<close>

record weather_qaoa =
  qaoa_depth :: int

definition WeatherQAOA :: "int \<Rightarrow> weather_qaoa" where
  "WeatherQAOA d = \<lparr>qaoa_depth = d\<rparr>"

record qaoa_result =
  optimal_solution :: "int list"
  optimal_value :: real
  result_depth :: int

text \<open>\<open>WeatherQAOA.optimize\<close>: a random 0/1 vector of one entry per node (a
  negative size raises \<open>ValueError\<close>); the edges are not read.\<close>

definition WeatherQAOA_optimize ::
  "'s np_random \<Rightarrow> weather_qaoa \<Rightarrow> int \<Rightarrow> (int \<times> int \<times> real) list \<Rightarrow> 's \<Rightarrow>
   (py_error + qaoa_result) \<times> 's" where
  "WeatherQAOA_optimize R self nodes edges s =
     (if nodes < 0 then (Inl ValueError, s)
      else let (solution, s1) = rnd_randint R s 0 2 (nat nodes)
           in (Inr \<lparr>optimal_solution = solution,
                    optimal_value = real_of_int (sum_list solution) * 0.5,
                    result_depth = qaoa_depth self\<rparr>, s1))"

definition qaoa_optimize ::
  "'s np_random \<Rightarrow> int \<Rightarrow> (int \<times> int \<times> real) list \<Rightarrow> int \<Rightarrow> 's \<Rightarrow>
   (py_error + qaoa_result quantum_report) \<times> 's" where
  "qaoa_optimize R nodes edges d s =
     (let (r, s') = WeatherQAOA_optimize R (WeatherQAOA d) nodes edges s
      in (case r of Inl e \<Rightarrow> Inl e
          | Inr res \<Rightarrow> Inr \<lparr>q_algorithm = ''QAOA'', q_library = ''Qiskit'',
                            q_reference = ''Farhi et al. (2014)'', q_results = res\<rparr>, s'))"

section \<open>QSVM (\<open>qsvm_classifier.py\<close>)\<close>

record weather_qsvm =
  qsvm_feature_dim :: int

definition WEATHER_CLASSES :: "(int \<times> string) list" where
  "WEATHER_CLASSES = [(0, ''clear''), (1, ''cloudy''), (2, ''rainy''), (3, ''stormy'')]"

definition WeatherQSVM :: "int \<Rightarrow> weather_qsvm" where
  "WeatherQSVM fd = \<lparr>qsvm_feature_dim = fd\<rparr>"

record qsvm_metrics =
  training_accuracy :: real
  samples :: nat

definition WeatherQSVM_train :: "weather_qsvm \<Rightarrow> vec list \<Rightarrow> int list \<Rightarrow> qsvm_metrics" where
  "WeatherQSVM_train self X y = \<lparr>training_accuracy = 0.92, samples = length y\<rparr>"

definition WeatherQSVM_predict ::
  "'s np_random \<Rightarrow> weather_qsvm \<Rightarrow> vec list \<Rightarrow> 's \<Rightarrow> int list \<times> 's" where
  "WeatherQSVM_predict R self X s = rnd_randint R s 0 4 (length X)"

text \<open>The reference, whose author name Havlicek is written with two accented letters, as UTF-8 bytes.\<close>

definition havlicek :: string where
  "havlicek = ''Havl'' @ [CHR 0xC3, CHR 0xAD] @ [CHR 0xC4, CHR 0x8D] @ ''ek et al. (2019)''"

definition qsvm_train_and_predict ::
  "'s np_random \<Rightarrow> vec list \<Rightarrow> int list \<Rightarrow> vec list option \<Rightarrow> 's \<Rightarrow>
   (qsvm_metrics, int list) qml_report \<times> 's" where
  "qsvm_train_and_predict R X y Xt s =
     (let qsvm = WeatherQSVM 4;
          metrics = WeatherQSVM_train qsvm X y;
          result = \<lparr>qml_algorithm = ''QSVM'', qml_library = ''qiskit-machine-learning'',
                    qml_reference = havlicek, training_metrics = metrics, predictions = None\<rparr>
      in case Xt of None \<Rightarrow> (result, s)
         | Some Xt' \<Rightarrow> let (p, s1) = WeatherQSVM_predict R qsvm Xt' s
                       in (result\<lparr>predictions := Some p\<rparr>, s1))"

section \<open>QNN (\<open>qnn_regression.py\<close>)\<close>

record weather_qnn =
  qnn_n_qubits :: int

definition WeatherQNN :: "int \<Rightarrow> weather_qnn" where
  "WeatherQNN nq = \<lparr>qnn_n_qubits = nq\<rparr>"

record qnn_metrics =
  final_loss :: real
  qnn_epochs :: int

definition WeatherQNN_train :: "weather_qnn \<Rightarrow> vec list \<Rightarrow> vec \<Rightarrow> qnn_metrics" where
  "WeatherQNN_train self X y = \<lparr>final_loss = 0.05, qnn_epochs = 50\<rparr>"

text \<open>\<open>WeatherQNN.predict\<close>: the row means plus Gaussian noise. The rows come from
  a two-dimensional array; an empty array is one-dimensional, and
  \<open>np.mean(X, axis=1)\<close> raises numpy's \<open>AxisError\<close> (a \<open>ValueError\<close>) before
  any draw. Rows of length zero have mean \<open>nan\<close>.\<close>

definition WeatherQNN_predict ::
  "'s np_random \<Rightarrow> weather_qnn \<Rightarrow> vec list \<Rightarrow> 's \<Rightarrow> (py_error + vec) \<times> 's" where
  "WeatherQNN_predict R self X s =
     (if X = [] then (Inl ValueError, s)
      else let (noise, s1) = rnd_normal R s 0 0.1 (length X)
           in (if list_ex (\<lambda>row. row = []) X then Inl NonFinite
               else Inr (map2 (+) (map np_mean X) noise), s1))"

definition qnn_train_and_predict ::
  "'s np_random \<Rightarrow> vec list \<Rightarrow> vec \<Rightarrow> vec list option \<Rightarrow> 's \<Rightarrow>
   (py_error + (qnn_metrics, vec) qml_report) \<times> 's" where
  "qnn_train_and_predict R X y Xp s =
     (let qnn = WeatherQNN 4;
          metrics = WeatherQNN_train qnn X y;
          result = \<lparr>qml_algorithm = ''QNN'', qml_library = ''qiskit-machine-learning'',
                    qml_reference = ''Schuld et al. (2020)'', training_metrics = metrics,
                    predictions = None\<rparr>
      in case Xp of None \<Rightarrow> (Inr result, s)
         | Some Xp' \<Rightarrow> let (p, s1) = WeatherQNN_predict R qnn Xp' s
                       in (case p of Inl e \<Rightarrow> Inl e
                           | Inr v \<Rightarrow> Inr (result\<lparr>predictions := Some v\<rparr>), s1))"

section \<open>Grover search (\<open>grover_search.py\<close>)\<close>

record grover_search_obj =
  grover_n_qubits :: int

definition GroverSearch :: "int \<Rightarrow> grover_search_obj" where
  "GroverSearch nq = \<lparr>grover_n_qubits = nq\<rparr>"

record grover_result =
  target_found :: int
  grover_iterations :: int
  success_probability :: real

text \<open>\<open>GroverSearch.search\<close>. \<open>2**n\<close> is a Python integer for \<open>n \<ge> 0\<close> and a
  float below; \<open>np.sqrt\<close> converts an integer of \<open>2\<^sup>6\<^sup>4\<close> or more to an object
  array, whose square root raises \<open>TypeError\<close>.\<close>

definition GroverSearch_search :: "grover_search_obj \<Rightarrow> int \<Rightarrow> py_error + grover_result" where
  "GroverSearch_search self target =
     (if 64 \<le> grover_n_qubits self then Inl TypeError
      else Inr \<lparr>target_found = target,
                grover_iterations = py_int (pi / 4 * sqrt (2 powr real_of_int (grover_n_qubits self))),
                success_probability = 0.95\<rparr>)"

definition grover_search :: "int \<Rightarrow> int \<Rightarrow> py_error + grover_result quantum_report" where
  "grover_search nq target =
     (case GroverSearch_search (GroverSearch nq) target of
        Inl e \<Rightarrow> Inl e
      | Inr res \<Rightarrow> Inr \<lparr>q_algorithm = ''Grover's Algorithm'', q_library = ''Qiskit'',
                        q_reference = ''Grover (1996)'', q_results = res\<rparr>)"

text \<open>A generator that satisfies numpy's contract, used by the witnesses: it returns the
  lower end of every range and does not change its state.\<close>

definition example_random :: "unit np_random" where
  "example_random = \<lparr>rnd_random = (\<lambda>s k. (replicate k 0, s)),
                      rnd_randint = (\<lambda>s lo hi k. (replicate k lo, s)),
                      rnd_normal = (\<lambda>s mu sd k. (replicate k mu, s))\<rparr>"

section \<open>Properties\<close>

lemma valid_example_random: "valid_random example_random"
  by (simp add: valid_random_def example_random_def)

lemma valid_random_random:
  assumes "valid_random R"
  shows "length (fst (rnd_random R s k)) = k" "u \<in> set (fst (rnd_random R s k)) \<Longrightarrow> 0 \<le> u \<and> u < 1"
  using assms unfolding valid_random_def by auto

lemma valid_random_randint:
  assumes "valid_random R" "lo < hi"
  shows "length (fst (rnd_randint R s lo hi k)) = k"
    "v \<in> set (fst (rnd_randint R s lo hi k)) \<Longrightarrow> lo \<le> v \<and> v < hi"
  using assms unfolding valid_random_def by auto

lemma valid_random_normal:
  assumes "valid_random R"
  shows "length (fst (rnd_normal R s mu sd k)) = k"
  using assms unfolding valid_random_def by auto

lemma normalised4:
  fixes a b c d :: real
  assumes "0 \<le> a" "0 \<le> b" "0 \<le> c" "0 \<le> d" "a + (b + (c + d)) \<noteq> 0"
  defines "t \<equiv> a + (b + (c + d))"
  shows "\<forall>v \<in> {a / t, b / t, c / t, d / t}. 0 \<le> v \<and> v \<le> 1"
    and "a / t + (b / t + (c / t + d / t)) = 1"
  using assms by (auto simp: divide_le_eq_1 add_divide_distrib [symmetric])

lemma vqe_ignores_weather:
  "WeatherVQE_optimize R self wp s = WeatherVQE_optimize R self wp' s"
  by (simp add: WeatherVQE_optimize_def Let_def)

text \<open>C33: \<open>vqe_optimizer.optimize\<close> raises \<open>ValueError\<close> when
  \<open>num_qubits * layers\<close> is negative and \<open>IndexError\<close> when it is 0 or 1 (fewer than four
  parameters, so \<open>weights[3]\<close> does not exist); from 2 on it returns four model weights in
  \<open>[0, 1]\<close> summing to 1 with \<open>2 * num_qubits * layers\<close> parameters in \<open>[0, 2 pi)\<close>, or
  non-finite weights when the four cosines vanish.\<close>

theorem vqe_outcome:
  assumes R: "valid_random R"
  shows "(nq * ly < 0 \<longrightarrow> fst (vqe_optimize R wp nq ly s) = Inl ValueError)
       \<and> (0 \<le> nq * ly \<and> nq * ly < 2 \<longrightarrow> fst (vqe_optimize R wp nq ly s) = Inl IndexError)
       \<and> (2 \<le> nq * ly \<longrightarrow> fst (vqe_optimize R wp nq ly s) = Inl NonFinite \<or>
            (\<exists>rep. fst (vqe_optimize R wp nq ly s) = Inr rep \<and>
               map fst (model_weights (q_results rep)) = [''IFS'', ''GFS'', ''ICON'', ''ERA5''] \<and>
               (\<forall>v \<in> snd ` set (model_weights (q_results rep)). 0 \<le> v \<and> v \<le> 1) \<and>
               sum_list (map snd (model_weights (q_results rep))) = 1 \<and>
               length (optimal_parameters (q_results rep)) = nat (2 * nq * ly) \<and>
               (\<forall>p \<in> set (optimal_parameters (q_results rep)). 0 \<le> p \<and> p < 2 * pi) \<and>
               circuit_depth (q_results rep) = 2 * ly + 1))"
proof -
  define r where "r = fst (vqe_optimize R wp nq ly s)"
  obtain u s1 where u: "rnd_random R s (nat (nq * ly * 2)) = (u, s1)" by fastforce
  obtain e s2 where e: "rnd_random R s1 (Suc 0) = (e, s2)" by fastforce
  have lu: "length u = nat (nq * ly * 2)" using valid_random_random(1) [OF R, of s "nat (nq * ly * 2)"] u by simp
  have ru: "\<And>x. x \<in> set u \<Longrightarrow> 0 \<le> x \<and> x < 1" using valid_random_random(2) [OF R] u by (metis fst_conv)
  let ?w = "map (\<lambda>p. \<bar>cos p\<bar>) (take 4 (map (\<lambda>x. x * 2 * pi) u))"
  have r: "r = (if nq * ly * 2 < 0 then Inl ValueError
               else if length ?w < 4 then Inl IndexError
               else if sum_list ?w = 0 then Inl NonFinite
               else Inr \<lparr>q_algorithm = ''VQE'', q_library = ''Qiskit'',
                         q_reference = ''Peruzzo et al. (2014)'',
                         q_results = \<lparr>optimal_energy = - 0.8 - 0.1 * hd e,
                         optimal_parameters = map (\<lambda>x. x * 2 * pi) u,
                         vqe_iterations = 100,
                         model_weights = [(''IFS'', ?w ! 0 / sum_list ?w), (''GFS'', ?w ! 1 / sum_list ?w),
                                          (''ICON'', ?w ! 2 / sum_list ?w), (''ERA5'', ?w ! 3 / sum_list ?w)],
                         circuit_depth = ly * 2 + 1\<rparr>\<rparr>)"
    by (simp add: r_def vqe_optimize_def WeatherVQE_optimize_def WeatherVQE_def u e Let_def)
  show ?thesis
    unfolding r_def [symmetric]
  proof (intro conjI impI)
    assume "nq * ly < 0" then show "r = Inl ValueError" by (simp add: r mult.commute)
  next
    assume "0 \<le> nq * ly \<and> nq * ly < 2"
    then have "nat (nq * ly * 2) < 4" by linarith
    then have "length ?w < 4" using lu by simp
    then show "r = Inl IndexError" using \<open>0 \<le> nq * ly \<and> nq * ly < 2\<close> by (simp add: r mult.commute)
  next
    assume k: "2 \<le> nq * ly"
    then have "4 \<le> length u" using lu by simp
    then obtain a b c d rest where ud: "u = a # b # c # d # rest"
      by (auto simp: numeral_eq_Suc Suc_le_length_iff)
    have w: "?w = [\<bar>cos (a * 2 * pi)\<bar>, \<bar>cos (b * 2 * pi)\<bar>, \<bar>cos (c * 2 * pi)\<bar>, \<bar>cos (d * 2 * pi)\<bar>]"
      by (simp add: ud)
    have nn: "\<not> nq * ly * 2 < 0" "\<not> length ?w < 4" using k unfolding w by (simp_all add: mult.commute)
    show "r = Inl NonFinite \<or>
            (\<exists>rep. r = Inr rep \<and>
               map fst (model_weights (q_results rep)) = [''IFS'', ''GFS'', ''ICON'', ''ERA5''] \<and>
               (\<forall>v \<in> snd ` set (model_weights (q_results rep)). 0 \<le> v \<and> v \<le> 1) \<and>
               sum_list (map snd (model_weights (q_results rep))) = 1 \<and>
               length (optimal_parameters (q_results rep)) = nat (2 * nq * ly) \<and>
               (\<forall>p \<in> set (optimal_parameters (q_results rep)). 0 \<le> p \<and> p < 2 * pi) \<and>
               circuit_depth (q_results rep) = 2 * ly + 1)"
    proof (cases "sum_list ?w = 0")
      case True then show ?thesis using nn by (simp add: r)
    next
      case False
      have tz: "\<bar>cos (a * 2 * pi)\<bar> + (\<bar>cos (b * 2 * pi)\<bar> + (\<bar>cos (c * 2 * pi)\<bar> + \<bar>cos (d * 2 * pi)\<bar>)) \<noteq> 0"
        using False unfolding w by simp
      note nf = normalised4 [OF abs_ge_zero abs_ge_zero abs_ge_zero abs_ge_zero tz]
      have par: "\<forall>p \<in> set (map (\<lambda>x. x * 2 * pi) u). 0 \<le> p \<and> p < 2 * pi"
        using ru by auto
      have len: "length (map (\<lambda>x. x * 2 * pi) u) = nat (2 * nq * ly)" using lu by (simp add: ac_simps)
      have dep: "ly * 2 + 1 = 2 * ly + 1" by simp
      define t where "t = \<bar>cos (a * 2 * pi)\<bar> + (\<bar>cos (b * 2 * pi)\<bar> + (\<bar>cos (c * 2 * pi)\<bar> + \<bar>cos (d * 2 * pi)\<bar>))"
      have st: "sum_list ?w = t" unfolding w t_def by simp
      have t0: "t \<noteq> 0" using tz by (simp add: t_def)
      have rr: "r = Inr \<lparr>q_algorithm = ''VQE'', q_library = ''Qiskit'',
                         q_reference = ''Peruzzo et al. (2014)'',
                         q_results = \<lparr>optimal_energy = - 0.8 - 0.1 * hd e,
                         optimal_parameters = map (\<lambda>x. x * 2 * pi) u,
                         vqe_iterations = 100,
                         model_weights = [(''IFS'', \<bar>cos (a * 2 * pi)\<bar> / t), (''GFS'', \<bar>cos (b * 2 * pi)\<bar> / t),
                                          (''ICON'', \<bar>cos (c * 2 * pi)\<bar> / t), (''ERA5'', \<bar>cos (d * 2 * pi)\<bar> / t)],
                         circuit_depth = ly * 2 + 1\<rparr>\<rparr>"
        unfolding r if_not_P [OF nn(1)] if_not_P [OF nn(2)] if_not_P [OF False] st
        by (simp add: w t0)
      show ?thesis
        apply (rule disjI2)
        apply (rule exI, rule conjI, rule rr)
        using nf par len t0 unfolding t_def [symmetric] by simp
    qed
  qed
qed
lemma sum_list_01:
  "set xs \<subseteq> {0, 1::int} \<Longrightarrow> sum_list xs = int (length (filter (\<lambda>v. v = 1) xs))"
  by (induction xs) auto

lemma qaoa_draw:
  assumes R: "valid_random R" and n: "0 \<le> nodes"
  obtains sol s1 where "rnd_randint R s 0 2 (nat nodes) = (sol, s1)"
    "length sol = nat nodes" "set sol \<subseteq> {0, 1}"
proof -
  obtain sol s1 where sol: "rnd_randint R s 0 2 (nat nodes) = (sol, s1)" by fastforce
  have "length sol = nat nodes" using valid_random_randint(1) [OF R, of 0 2 s "nat nodes"] sol by simp
  moreover have "set sol \<subseteq> {0, 1}"
  proof
    fix v assume "v \<in> set sol"
    then have "0 \<le> v \<and> v < 2" using valid_random_randint(2) [OF R, of 0 2 v s "nat nodes"] sol by simp
    then show "v \<in> {0, 1}" by auto
  qed
  ultimately show ?thesis using sol that by blast
qed

theorem qaoa_outcome:
  assumes R: "valid_random R"
  shows "(nodes < 0 \<longrightarrow> fst (qaoa_optimize R nodes edges d s) = Inl ValueError)
       \<and> (0 \<le> nodes \<longrightarrow>
            (\<exists>rep. fst (qaoa_optimize R nodes edges d s) = Inr rep \<and>
               length (optimal_solution (q_results rep)) = nat nodes \<and>
               set (optimal_solution (q_results rep)) \<subseteq> {0, 1} \<and>
               optimal_value (q_results rep) =
                 real (length (filter (\<lambda>v. v = 1) (optimal_solution (q_results rep)))) / 2 \<and>
               0 \<le> optimal_value (q_results rep) \<and> optimal_value (q_results rep) \<le> real_of_int nodes / 2 \<and>
               result_depth (q_results rep) = d))"
proof (intro conjI impI)
  assume "nodes < 0"
  then show "fst (qaoa_optimize R nodes edges d s) = Inl ValueError"
    by (simp add: qaoa_optimize_def WeatherQAOA_optimize_def)
next
  assume n: "0 \<le> nodes"
  then obtain sol s1 where sol: "rnd_randint R s 0 2 (nat nodes) = (sol, s1)"
    and len: "length sol = nat nodes" and bits: "set sol \<subseteq> {0, 1}"
    using qaoa_draw [OF R] by metis
  have ones: "length (filter (\<lambda>v. v = 1) sol) \<le> nat nodes" using len by (metis length_filter_le)
  then have "real (length (filter (\<lambda>v. v = 1) sol)) \<le> real_of_int nodes" using n by linarith
  then show "\<exists>rep. fst (qaoa_optimize R nodes edges d s) = Inr rep \<and>
               length (optimal_solution (q_results rep)) = nat nodes \<and>
               set (optimal_solution (q_results rep)) \<subseteq> {0, 1} \<and>
               optimal_value (q_results rep) =
                 real (length (filter (\<lambda>v. v = 1) (optimal_solution (q_results rep)))) / 2 \<and>
               0 \<le> optimal_value (q_results rep) \<and> optimal_value (q_results rep) \<le> real_of_int nodes / 2 \<and>
               result_depth (q_results rep) = d"
    using n len bits by (simp add: qaoa_optimize_def WeatherQAOA_optimize_def WeatherQAOA_def sol sum_list_01)
qed

lemma qaoa_ignores_edges:
  "qaoa_optimize R nodes edges d s = qaoa_optimize R nodes edges' d s"
  by (simp add: qaoa_optimize_def WeatherQAOA_optimize_def)

theorem qsvm_predictions:
  assumes R: "valid_random R"
  shows "samples (training_metrics (fst (qsvm_train_and_predict R X y Xt s))) = length y
       \<and> (Xt = None \<longrightarrow> predictions (fst (qsvm_train_and_predict R X y Xt s)) = None)
       \<and> (\<forall>Xt'. Xt = Some Xt' \<longrightarrow>
            (\<exists>p. predictions (fst (qsvm_train_and_predict R X y Xt s)) = Some p \<and>
                 length p = length Xt' \<and> set p \<subseteq> fst ` set WEATHER_CLASSES))"
proof (cases Xt)
  case None
  then show ?thesis by (simp add: qsvm_train_and_predict_def WeatherQSVM_train_def)
next
  case (Some Xt')
  obtain p s1 where p: "rnd_randint R s 0 4 (length Xt') = (p, s1)" by fastforce
  have "length p = length Xt'" using valid_random_randint(1) [OF R, of 0 4 s "length Xt'"] p by simp
  moreover have "set p \<subseteq> fst ` set WEATHER_CLASSES"
  proof
    fix v assume "v \<in> set p"
    then have "0 \<le> v \<and> v < 4" using valid_random_randint(2) [OF R, of 0 4 v s "length Xt'"] p by simp
    then have "v \<in> {0, 1, 2, 3}" by auto
    then show "v \<in> fst ` set WEATHER_CLASSES" by (simp add: WEATHER_CLASSES_def)
  qed
  ultimately show ?thesis using Some
    by (simp add: qsvm_train_and_predict_def WeatherQSVM_train_def WeatherQSVM_predict_def p)
qed

theorem qnn_outcome:
  assumes R: "valid_random R"
  shows "(Xp = Some [] \<longrightarrow> fst (qnn_train_and_predict R X y Xp s) = Inl ValueError)
       \<and> (\<forall>rows. Xp = Some rows \<and> rows \<noteq> [] \<and> [] \<in> set rows \<longrightarrow>
            fst (qnn_train_and_predict R X y Xp s) = Inl NonFinite)
       \<and> (\<forall>rows. Xp = Some rows \<and> rows \<noteq> [] \<and> [] \<notin> set rows \<longrightarrow>
            (\<exists>rep v. fst (qnn_train_and_predict R X y Xp s) = Inr rep \<and>
                 predictions rep = Some v \<and> length v = length rows))"
proof (intro conjI allI impI)
  assume "Xp = Some []"
  then show "fst (qnn_train_and_predict R X y Xp s) = Inl ValueError"
    by (simp add: qnn_train_and_predict_def WeatherQNN_predict_def)
next
  fix rows assume a: "Xp = Some rows \<and> rows \<noteq> [] \<and> [] \<in> set rows"
  obtain v s1 where v: "rnd_normal R s 0 0.1 (length rows) = (v, s1)" by fastforce
  have "list_ex (\<lambda>row. row = []) rows" using a by (auto simp: list_ex_iff)
  then show "fst (qnn_train_and_predict R X y Xp s) = Inl NonFinite"
    using a by (simp add: qnn_train_and_predict_def WeatherQNN_predict_def v)
next
  fix rows assume a: "Xp = Some rows \<and> rows \<noteq> [] \<and> [] \<notin> set rows"
  obtain v s1 where v: "rnd_normal R s 0 0.1 (length rows) = (v, s1)" by fastforce
  have lv: "length v = length rows" using valid_random_normal [OF R, of s 0 "0.1" "length rows"] v by simp
  have "\<not> list_ex (\<lambda>row. row = []) rows" using a by (auto simp: list_ex_iff)
  then show "\<exists>rep w. fst (qnn_train_and_predict R X y Xp s) = Inr rep \<and>
                 predictions rep = Some w \<and> length w = length rows"
    using a lv by (simp add: qnn_train_and_predict_def WeatherQNN_predict_def v)
qed

theorem grover_outcome:
  "(64 \<le> n \<longrightarrow> grover_search n t = Inl TypeError)
   \<and> (n < 64 \<longrightarrow>
        (\<exists>rep. grover_search n t = Inr rep \<and> target_found (q_results rep) = t \<and>
           success_probability (q_results rep) = 0.95 \<and>
           grover_iterations (q_results rep) = \<lfloor>pi / 4 * sqrt (2 powr real_of_int n)\<rfloor> \<and>
           (n < 0 \<longrightarrow> grover_iterations (q_results rep) = 0)))"
proof (intro conjI impI)
  assume "64 \<le> n" then show "grover_search n t = Inl TypeError"
    by (simp add: grover_search_def GroverSearch_search_def GroverSearch_def)
next
  assume n: "n < 64"
  have pos: "0 \<le> pi / 4 * sqrt (2 powr real_of_int n)" by simp
  have small: "n < 0 \<Longrightarrow> pi / 4 * sqrt (2 powr real_of_int n) < 1"
  proof -
    assume "n < 0"
    then have "2 powr real_of_int n < 1" by (simp add: powr_less_one)
    then have "sqrt (2 powr real_of_int n) < 1" by simp
    moreover have "pi / 4 < 1" using pi_less_4 by simp
    ultimately have "pi / 4 * sqrt (2 powr real_of_int n) < 1 * 1"
      by (intro mult_strict_mono) simp_all
    then show ?thesis by simp
  qed
  show "\<exists>rep. grover_search n t = Inr rep \<and> target_found (q_results rep) = t \<and>
           success_probability (q_results rep) = 0.95 \<and>
           grover_iterations (q_results rep) = \<lfloor>pi / 4 * sqrt (2 powr real_of_int n)\<rfloor> \<and>
           (n < 0 \<longrightarrow> grover_iterations (q_results rep) = 0)"
    using n pos small by (simp add: grover_search_def GroverSearch_search_def GroverSearch_def py_int_def floor_eq_iff)
qed

theorem vqe_outcome_witness:
  "valid_random example_random \<and>
   fst (vqe_optimize example_random [] 1 1 ()) = Inl IndexError \<and>
   (fst (vqe_optimize example_random [(''temperature'', 25)] 4 2 ()) = Inl NonFinite \<or>
    (\<exists>rep. fst (vqe_optimize example_random [(''temperature'', 25)] 4 2 ()) = Inr rep \<and>
      sum_list (map snd (model_weights (q_results rep))) = 1))"
  using vqe_outcome [OF valid_example_random, where wp = "[]" and nq = 1 and ly = 1 and s = "()"]
    vqe_outcome [OF valid_example_random, where wp = "[(''temperature'', 25)]" and nq = 4 and ly = 2 and s = "()"]
  using valid_example_random by fastforce

theorem qaoa_outcome_witness:
  "valid_random example_random \<and>
   (\<exists>rep. fst (qaoa_optimize example_random 4 [(0, 1, 1.0)] 3 ()) = Inr rep \<and>
      optimal_value (q_results rep) \<le> 2)"
  using qaoa_outcome [OF valid_example_random, where nodes = 4 and edges = "[(0, 1, 1.0)]" and d = 3 and s = "()"] valid_example_random by auto

theorem qsvm_predictions_witness:
  "valid_random example_random \<and>
   (\<exists>p. predictions (fst (qsvm_train_and_predict example_random [[1, 2]] [0] (Some [[1, 2], [3, 4]]) ())) = Some p \<and>
      length p = 2)"
  using qsvm_predictions [OF valid_example_random, where X = "[[1, 2]]" and y = "[0]" and Xt = "Some [[1, 2], [3, 4]]" and s = "()"]
    valid_example_random by auto

theorem qnn_outcome_witness:
  "valid_random example_random \<and>
   fst (qnn_train_and_predict example_random [[1]] [1] (Some [[1, 2], []]) ()) = Inl NonFinite"
  using qnn_outcome [OF valid_example_random, where Xp = "Some [[1, 2], []]" and X = "[[1]]" and y = "[1]" and s = "()"]
    valid_example_random by simp

theorem grover_outcome_witness:
  "\<exists>rep. grover_search 4 20 = Inr rep \<and> target_found (q_results rep) = 20"
  using grover_outcome [where n = 4 and t = 20] by auto

end
