(* ===== verification/Services.thy ===== *)
theory Services
  imports NumPy
begin

text \<open>
  The helper modules of \<open>services/\<close>. \<open>weather_processor.py\<close> standardises a series
  (\<open>normalize_features\<close>) and cuts it into training windows for sequence models
  (\<open>create_sequences\<close>); \<open>ibm_quantum_service.py\<close> reads two environment
  variables and returns a constant backend description. The environment is an
  association list from variable names to values. No module of the repository calls
  these functions; \<open>main.py\<close> imports the two modules and does not use them.
  \<open>create_sequences\<close> takes any integer \<open>seq_length\<close> (its default is 24): with a
  negative one Python's slices and indices count from the end (\<open>py_slice\<close>,
  \<open>py_nth\<close>).
\<close>

section \<open>\<open>weather_processor.py\<close>\<close>

text \<open>\<open>(data - np.mean(data)) / (np.std(data) + 0.00000001)\<close>. On an empty array numpy's
  mean is \<open>nan\<close>, but the result is the empty array, so no \<open>nan\<close> reaches it.\<close>

definition normalize_features :: "vec \<Rightarrow> vec" where
  "normalize_features data = map (\<lambda>x. (x - np_mean data) / (np_std data + 0.00000001)) data"

text \<open>The loop appends the window \<open>data[i:i+seq_length]\<close> to \<open>X\<close> and the next value
  \<open>data[i+seq_length]\<close> to \<open>y\<close>, for \<open>i\<close> in \<open>range(len(data) - seq_length)\<close>; a
  negative index counts from the end and one past it raises \<open>IndexError\<close>.\<close>

fun cs_loop :: "vec \<Rightarrow> int \<Rightarrow> int list \<Rightarrow> py_error + vec list \<times> vec" where
  "cs_loop data s [] = Inr ([], [])"
| "cs_loop data s (i # is) =
     (case py_nth data (i + s) of
        Inl e \<Rightarrow> Inl e
      | Inr v \<Rightarrow> map_sum id (\<lambda>(X, y). (py_slice data i (i + s) # X, v # y)) (cs_loop data s is))"

text \<open>\<open>np.array(X), np.array(y)\<close>: windows of different lengths raise \<open>ValueError\<close>.\<close>

definition create_sequences :: "vec \<Rightarrow> int \<Rightarrow> py_error + vec list \<times> vec" where
  "create_sequences data seq_length =
     (case cs_loop data seq_length (map int [0..<nat (int (length data) - seq_length)]) of
        Inl e \<Rightarrow> Inl e
      | Inr (X, y) \<Rightarrow> map_sum id (\<lambda>X'. (X', y)) (np_array2 X))"

section \<open>\<open>ibm_quantum_service.py\<close>\<close>

type_synonym environ = "(string \<times> string) list"

definition IBM_QUANTUM_TOKEN :: "environ \<Rightarrow> string option" where
  "IBM_QUANTUM_TOKEN env = map_of env ''IBM_QUANTUM_TOKEN''"

definition IBM_QUANTUM_INSTANCE :: "environ \<Rightarrow> string" where
  "IBM_QUANTUM_INSTANCE env = dict_get env ''IBM_QUANTUM_INSTANCE'' ''ibm-q/open/main''"

record backend_info =
  backend :: string
  backend_status :: string
  qubits :: int

definition get_backend :: backend_info where
  "get_backend = \<lparr>backend = ''ibm_brisbane'', backend_status = ''available'', qubits = 127\<rparr>"

section \<open>Properties\<close>

lemma normalize_features_affine:
  "normalize_features data = map (\<lambda>x. inverse (np_std data + 0.00000001) * x + (- np_mean data / (np_std data + 0.00000001))) data"
  by (simp add: normalize_features_def field_simps diff_divide_distrib)

lemma centre_zero: "inverse c * m + - m / c = (0::real)"
  by (simp add: divide_inverse)

lemma cs_loop_valid:
  assumes "\<forall>i \<in> set is. - int (length data) \<le> i + s \<and> i + s < int (length data)"
  shows "cs_loop data s is = Inr (map (\<lambda>i. py_slice data i (i + s)) is,
                                   map (\<lambda>i. projr (py_nth data (i + s))) is)"
  using assms by (induction "is") (auto simp: py_nth_def)

lemma cs_loop_nat:
  assumes "\<forall>i \<in> set is. i + k < length data"
  shows "cs_loop data (int k) (map int is) = Inr (map (\<lambda>i. take k (drop i data)) is, map (\<lambda>i. data ! (i + k)) is)"
proof -
  have v: "\<forall>i \<in> set (map int is). - int (length data) \<le> i + int k \<and> i + int k < int (length data)"
    using assms by auto
  have w: "\<And>i. i \<in> set is \<Longrightarrow> py_slice data (int i) (int i + int k) = take k (drop i data)"
    using assms by (simp add: less_imp_le_nat)
  have t: "\<And>i. i \<in> set is \<Longrightarrow> projr (py_nth data (int i + int k)) = data ! (i + k)"
    using assms by (auto simp: py_nth_def simp flip: of_nat_add)
  show ?thesis using w t by (simp add: cs_loop_valid [OF v])
qed

lemma create_sequences_nat:
  "create_sequences data (int k) =
     Inr (map (\<lambda>i. take k (drop i data)) [0..<length data - k], drop k data)"
proof -
  have "\<forall>i \<in> set [0..<length data - k]. i + k < length data" by auto
  note l = cs_loop_nat [OF this]
  have r: "list_all (\<lambda>w. length w = length (hd (map (\<lambda>i. take k (drop i data)) [0..<length data - k])))
             (map (\<lambda>i. take k (drop i data)) [0..<length data - k])"
    by (cases "length data - k") (auto simp: list_all_iff upt_conv_Cons simp del: upt_Suc)
  have d: "map (\<lambda>i. data ! (i + k)) [0..<length data - k] = drop k data"
    by (rule nth_equalityI) (simp_all add: add.commute)
  show ?thesis using l r d by (simp add: create_sequences_def nat_diff_distrib' del: upt_Suc)
qed


lemma cs_negative_valid:
  assumes "m \<le> length data"
  shows "\<forall>i \<in> set (map int [0..<length data + m]). - int (length data) \<le> i + - int m \<and> i + - int m < int (length data)"
  using assms by auto

lemma window_next:
  "i + k < length data \<Longrightarrow> take k (drop i data) @ [data ! (i + k)] = take (Suc k) (drop i data)"
  by (simp add: take_Suc_conv_app_nth add.commute)

text \<open>\<open>normalize_features\<close> of a non-empty series has mean 0 and standard deviation
  \<open>sigma / (sigma + 1e-8)\<close>, below 1: the added constant keeps the division defined and
  makes the result slightly less than standardised.\<close>

theorem normalize_features_standardises:
  assumes "data \<noteq> []"
  shows "np_mean (normalize_features data) = 0 \<and>
         np_std (normalize_features data) = np_std data / (np_std data + 0.00000001) \<and>
         np_std (normalize_features data) < 1"
proof -
  let ?a = "inverse (np_std data + 0.00000001)" and ?b = "- np_mean data / (np_std data + 0.00000001)"
  have pos: "0 < np_std data + 0.00000001" using np_var_nonneg by (simp add: np_std_def add_nonneg_pos)
  have m: "np_mean (normalize_features data) = ?a * np_mean data + ?b"
    unfolding normalize_features_affine using assms by (rule np_mean_affine)
  have v: "np_var (normalize_features data) = ?a\<^sup>2 * np_var data"
    unfolding normalize_features_affine by (rule np_var_affine)
  have "np_std (normalize_features data) = sqrt (?a\<^sup>2) * np_std data"
    by (simp add: np_std_def v real_sqrt_mult)
  also have "\<dots> = ?a * np_std data" using pos by simp
  finally have s: "np_std (normalize_features data) = np_std data / (np_std data + 0.00000001)"
    by (simp only: divide_inverse mult.commute)
  have m0: "np_mean (normalize_features data) = 0"
    unfolding m by (rule centre_zero)
  have "np_std data / (np_std data + 0.00000001) < 1" using pos by simp
  then show ?thesis using m0 s by (simp only: simp_thms)
qed

text \<open>C34: \<open>create_sequences\<close> yields \<open>len(data) - seq_length\<close> windows, each window
  followed by its target is the slice of \<open>seq_length + 1\<close> values at its position, and the
  first window followed by all targets gives back the series.\<close>

theorem create_sequences_roundtrip:
  "\<exists>X y. create_sequences data (int k) = Inr (X, y) \<and>
         length X = length data - k \<and> length y = length data - k \<and>
         (\<forall>i < length X. X ! i @ [y ! i] = take (Suc k) (drop i data)) \<and>
         (k < length data \<longrightarrow> X ! 0 @ y = data)"
proof -
  let ?X = "map (\<lambda>i. take k (drop i data)) [0..<length data - k]" and ?y = "drop k data"
  have "\<forall>i < length ?X. ?X ! i @ [?y ! i] = take (Suc k) (drop i data)"
  proof (intro allI impI)
    fix i assume "i < length ?X"
    then have i: "i < length data - k" by simp
    then have "i + k < length data" by linarith
    then show "?X ! i @ [?y ! i] = take (Suc k) (drop i data)"
      using window_next [of i k data] i by (simp add: add.commute [of k i])
  qed
  then show ?thesis by (simp add: create_sequences_nat)
qed

text \<open>C35: with a negative \<open>seq_length\<close> the windows are slices counted from the end:
  when \<open>-seq_length\<close> is below the length, the first windows are long and the later
  ones empty, so \<open>np.array\<close> raises \<open>ValueError\<close>; above the length the first
  target index is out of range (\<open>IndexError\<close>); at the length every window is
  empty and the targets are the series twice.\<close>

theorem negative_seq_length:
  assumes "s < 0"
  shows "(- s < int (length data) \<longrightarrow> create_sequences data s = Inl ValueError) \<and>
         (int (length data) < - s \<longrightarrow> create_sequences data s = Inl IndexError) \<and>
         (- s = int (length data) \<longrightarrow>
            create_sequences data s = Inr (replicate (2 * length data) [], data @ data))"
proof -
  define m where "m = nat (- s)"
  have s: "s = - int m" and m0: "0 < m" using assms by (simp_all add: m_def)
  have idx: "nat (int (length data) - s) = length data + m" by (simp add: s)
  have short: "create_sequences data s = Inl ValueError" if lt: "m < length data"
  proof -
    let ?X = "map (\<lambda>i. py_slice data i (i + s)) (map int [0..<length data + m])"
    have l: "\<exists>y. cs_loop data s (map int [0..<length data + m]) = Inr (?X, y)"
      using cs_loop_valid [OF cs_negative_valid [of m data]] lt by (simp add: s)
    have hd: "length (hd ?X) = length data - m"
      using lt m0 py_slice_head [OF m0 lt] by (simp add: s upt_conv_Cons del: upt_Suc)
    have ml: "m < length data + m" using lt by linarith
    have "data \<noteq> []" using lt by auto
    then have "?X ! m = []" using lt ml by (simp add: s nth_map del: upt_Suc)
    then have e: "[] \<in> set ?X" using ml by (metis length_map length_upt nth_mem diff_zero)
    have "length data - m \<noteq> 0" using lt by simp
    then have "\<not> list_all (\<lambda>w. length w = length (hd ?X)) ?X"
      using e hd unfolding list_all_iff by (metis list.size(3))
    then show ?thesis using l unfolding create_sequences_def idx by (auto simp: np_array2_def)
  qed
  have long: "create_sequences data s = Inl IndexError" if gt: "length data < m"
  proof -
    have "[0..<length data + m] = 0 # [1..<length data + m]" using m0 by (simp add: upt_conv_Cons)
    then show ?thesis using gt unfolding create_sequences_def idx by (simp add: py_nth_def s)
  qed
  have equal: "create_sequences data s = Inr (replicate (2 * length data) [], data @ data)"
    if eq: "m = length data"
  proof -
    let ?X = "map (\<lambda>i. py_slice data i (i + s)) (map int [0..<length data + m])"
    have X: "?X = replicate (2 * length data) []"
      using eq by (simp add: s map_replicate_const comp_def mult_2)
    have y: "map (\<lambda>i. projr (py_nth data (i + s))) (map int [0..<length data + m]) = data @ data"
      using eq by (auto intro!: nth_equalityI simp: s py_nth_def nth_append nat_diff_distrib)
    have r: "list_all (\<lambda>row. length row = length (hd (replicate (2 * length data) ([] :: vec))))
               (replicate (2 * length data) [])"
      by (cases "2 * length data") (auto simp: list_all_iff)
    show ?thesis
      using cs_loop_valid [OF cs_negative_valid [of m data]] eq X y np_array2_rect [OF r]
      unfolding create_sequences_def idx by (simp add: s)
  qed
  show ?thesis using short long equal by (simp add: s)
qed

theorem normalize_features_standardises_witness:
  "np_mean (normalize_features [1, 3]) = 0 \<and> np_std (normalize_features [1, 3]) < 1"
  using normalize_features_standardises [of "[1, 3]"] by simp

theorem create_sequences_roundtrip_witness:
  "\<exists>X y. create_sequences [1, 2, 3, 4] 2 = Inr (X, y) \<and> X ! 0 @ y = [1, 2, 3, 4]"
  using create_sequences_roundtrip [of "[1, 2, 3, 4]" 2] by auto

theorem negative_seq_length_witness:
  "create_sequences [1, 2, 3] (- 1) = Inl ValueError \<and> create_sequences [1] (- 2) = Inl IndexError \<and>
   create_sequences [1, 2] (- 2) = Inr ([[], [], [], []], [1, 2, 1, 2])"
  using negative_seq_length [of "- 1" "[1, 2, 3]"] negative_seq_length [of "- 2" "[1]"]
    negative_seq_length [of "- 2" "[1, 2]"]
  by (simp add: numeral_eq_Suc)

end
