(* ===== verification/Api.thy ===== *)
theory Api
  imports BiasCorrection BMARun Anomaly Trend Kalman Arima Quantum RandomForest GradientBoosting XGBoost
    EnsembleVoting LSTM Services
begin

text \<open>
  The FastAPI service of \<open>main.py\<close>. A request body is validated by pydantic into one
  of the request models (a missing required field is answered with status 422; the
  defaults of \<open>Field(...)\<close> fill the optional ones); the endpoint then calls one
  module function inside \<open>try\<close> and turns any exception into
  \<open>HTTPException(status_code=500, detail=str(e))\<close>. A result holding \<open>nan\<close> or
  \<open>inf\<close> (\<open>Inl NonFinite\<close> in the model) leaves the handler normally and fails
  when the response is encoded as JSON, outside the \<open>try\<close>; the server then answers
  500 without a detail. Responses are the datatype \<open>http_response\<close>: \<open>Ok\<close> for
  status 200 with the module's result, \<open>HTTPError\<close> with the status and the detail.
  The scientific and machine-learning endpoints call the modelled module functions
  (the latter with the modules' library parameters: the estimators, the permutation
  of \<open>train_test_split\<close>, whether \<open>xgboost\<close> or TensorFlow imports), the quantum
  endpoints the modelled placeholders with the random generator's state threaded
  through. \<open>/api/code\<close> looks the pair of path
  parameters up in its table of \<open>get_source_code\<close> functions (\<open>inspect.getsource\<close>
  is the parameter \<open>src\<close>, from module name to text); \<open>/health\<close> and
  \<open>/api/algorithms\<close> return constant data.
\<close>

section \<open>Responses\<close>

datatype http_detail = Detail py_error | NotFound string | ValidationError | ServerError

datatype 'a http_response = Ok 'a | HTTPError nat http_detail

definition status :: "'a http_response \<Rightarrow> nat" where
  "status r = (case r of Ok _ \<Rightarrow> 200 | HTTPError c _ \<Rightarrow> c)"

text \<open>The \<open>try\<close>/\<open>except Exception\<close> of every POST endpoint, and the JSON encoding
  after it.\<close>

definition handle :: "py_error + 'a \<Rightarrow> 'a http_response" where
  "handle r = (case r of
       Inr v \<Rightarrow> Ok v
     | Inl NonFinite \<Rightarrow> HTTPError 500 ServerError
     | Inl e \<Rightarrow> HTTPError 500 (Detail e))"

text \<open>pydantic's validation in front of a handler: 422 when the body lacks a required
  field.\<close>

definition post :: "'q option \<Rightarrow> ('q \<Rightarrow> 'a http_response) \<Rightarrow> 'a http_response" where
  "post q f = (case q of None \<Rightarrow> HTTPError 422 ValidationError | Some r \<Rightarrow> f r)"

text \<open>\<open>Field(default)\<close>: the body's value, or the default when the field is absent.\<close>

definition field :: "'a \<Rightarrow> 'a option \<Rightarrow> 'a" where
  "field d v = (case v of None \<Rightarrow> d | Some x \<Rightarrow> x)"

section \<open>Request models\<close>

record kalman_request =
  kr_data :: vec
  kr_process_noise :: real
  kr_measurement_noise :: real

definition KalmanRequest :: "vec option \<Rightarrow> real option \<Rightarrow> real option \<Rightarrow> kalman_request option" where
  "KalmanRequest d q r = map_option (\<lambda>d. \<lparr>kr_data = d, kr_process_noise = field 0.1 q,
                                          kr_measurement_noise = field 1.0 r\<rparr>) d"

record arima_request =
  ar_data :: vec
  ar_order :: "int \<times> int \<times> int"
  ar_forecast_steps :: int

definition ARIMARequest :: "vec option \<Rightarrow> (int \<times> int \<times> int) option \<Rightarrow> int option \<Rightarrow> arima_request option" where
  "ARIMARequest d ord k = map_option (\<lambda>d. \<lparr>ar_data = d, ar_order = field (2, 1, 1) ord,
                                            ar_forecast_steps = field 7 k\<rparr>) d"

record bayesian_request =
  br_models_predictions :: "vec pydict"
  br_observations :: vec
  br_prior_weights :: "real pydict option"

definition BayesianRequest ::
  "vec pydict option \<Rightarrow> vec option \<Rightarrow> real pydict option \<Rightarrow> bayesian_request option" where
  "BayesianRequest m obs pw =
     (case (m, obs) of
        (Some m, Some obs) \<Rightarrow> Some \<lparr>br_models_predictions = m, br_observations = obs, br_prior_weights = pw\<rparr>
      | _ \<Rightarrow> None)"

record bias_request =
  bc_predictions :: vec
  bc_observations :: vec
  bc_method :: string

definition BiasRequest :: "vec option \<Rightarrow> vec option \<Rightarrow> string option \<Rightarrow> bias_request option" where
  "BiasRequest p obs m =
     (case (p, obs) of
        (Some p, Some obs) \<Rightarrow> Some \<lparr>bc_predictions = p, bc_observations = obs, bc_method = field ''quantile'' m\<rparr>
      | _ \<Rightarrow> None)"

record anomaly_request =
  an_data :: vec
  an_method :: string
  an_threshold :: real

definition AnomalyRequest :: "vec option \<Rightarrow> string option \<Rightarrow> real option \<Rightarrow> anomaly_request option" where
  "AnomalyRequest d m t = map_option (\<lambda>d. \<lparr>an_data = d, an_method = field ''zscore'' m,
                                           an_threshold = field 3.0 t\<rparr>) d"

record trend_request =
  tr_data :: vec

definition TrendRequest :: "vec option \<Rightarrow> trend_request option" where
  "TrendRequest d = map_option (\<lambda>d. \<lparr>tr_data = d\<rparr>) d"

text \<open>\<open>RandomForestRequest\<close>, \<open>XGBoostRequest\<close>, \<open>GradientBoostingRequest\<close>,
  \<open>EnsembleRequest\<close> and \<open>QNNRequest\<close> declare the same three fields.\<close>

record ml_request =
  X_train :: "vec list"
  y_train :: vec
  X_predict :: "vec list option"

definition RandomForestRequest :: "vec list option \<Rightarrow> vec option \<Rightarrow> vec list option \<Rightarrow> ml_request option" where
  "RandomForestRequest X y Xp =
     (case (X, y) of (Some X, Some y) \<Rightarrow> Some \<lparr>X_train = X, y_train = y, X_predict = Xp\<rparr> | _ \<Rightarrow> None)"

definition XGBoostRequest :: "vec list option \<Rightarrow> vec option \<Rightarrow> vec list option \<Rightarrow> ml_request option" where
  "XGBoostRequest X y Xp =
     (case (X, y) of (Some X, Some y) \<Rightarrow> Some \<lparr>X_train = X, y_train = y, X_predict = Xp\<rparr> | _ \<Rightarrow> None)"

definition GradientBoostingRequest :: "vec list option \<Rightarrow> vec option \<Rightarrow> vec list option \<Rightarrow> ml_request option" where
  "GradientBoostingRequest X y Xp =
     (case (X, y) of (Some X, Some y) \<Rightarrow> Some \<lparr>X_train = X, y_train = y, X_predict = Xp\<rparr> | _ \<Rightarrow> None)"

definition EnsembleRequest :: "vec list option \<Rightarrow> vec option \<Rightarrow> vec list option \<Rightarrow> ml_request option" where
  "EnsembleRequest X y Xp =
     (case (X, y) of (Some X, Some y) \<Rightarrow> Some \<lparr>X_train = X, y_train = y, X_predict = Xp\<rparr> | _ \<Rightarrow> None)"

definition QNNRequest :: "vec list option \<Rightarrow> vec option \<Rightarrow> vec list option \<Rightarrow> ml_request option" where
  "QNNRequest X y Xp =
     (case (X, y) of (Some X, Some y) \<Rightarrow> Some \<lparr>X_train = X, y_train = y, X_predict = Xp\<rparr> | _ \<Rightarrow> None)"

record lstm_request =
  lr_X_train :: "vec list"
  lr_y_train :: vec
  lr_X_predict :: "vec list option"
  lr_epochs :: int

definition LSTMRequest ::
  "vec list option \<Rightarrow> vec option \<Rightarrow> vec list option \<Rightarrow> int option \<Rightarrow> lstm_request option" where
  "LSTMRequest X y Xp ep =
     (case (X, y) of
        (Some X, Some y) \<Rightarrow> Some \<lparr>lr_X_train = X, lr_y_train = y, lr_X_predict = Xp, lr_epochs = field 50 ep\<rparr>
      | _ \<Rightarrow> None)"

record vqe_request =
  vq_weather_params :: "real pydict"
  vq_num_qubits :: int
  vq_layers :: int

definition VQERequest :: "real pydict option \<Rightarrow> int option \<Rightarrow> int option \<Rightarrow> vqe_request option" where
  "VQERequest wp nq ly = map_option (\<lambda>wp. \<lparr>vq_weather_params = wp, vq_num_qubits = field 4 nq,
                                              vq_layers = field 2 ly\<rparr>) wp"

record qaoa_request =
  qa_nodes :: int
  qa_edges :: "(int \<times> int \<times> real) list"
  qa_depth :: int

definition QAOARequest :: "int option \<Rightarrow> (int \<times> int \<times> real) list option \<Rightarrow> int option \<Rightarrow> qaoa_request" where
  "QAOARequest n e d = \<lparr>qa_nodes = field 4 n, qa_edges = field [] e, qa_depth = field 3 d\<rparr>"

record qsvm_request =
  qs_X_train :: "vec list"
  qs_y_train :: "int list"
  qs_X_test :: "vec list option"

definition QSVMRequest :: "vec list option \<Rightarrow> int list option \<Rightarrow> vec list option \<Rightarrow> qsvm_request option" where
  "QSVMRequest X y Xt =
     (case (X, y) of (Some X, Some y) \<Rightarrow> Some \<lparr>qs_X_train = X, qs_y_train = y, qs_X_test = Xt\<rparr> | _ \<Rightarrow> None)"

record grover_request =
  gr_n_qubits :: int
  gr_target_state :: int

definition GroverRequest :: "int option \<Rightarrow> int option \<Rightarrow> grover_request" where
  "GroverRequest n t = \<lparr>gr_n_qubits = field 4 n, gr_target_state = field 0 t\<rparr>"

section \<open>numpy conversions of the machine-learning endpoints\<close>

text \<open>\<open>np.array(X) if X else None\<close>: an absent list and an empty one both give
  \<open>None\<close>.\<close>

definition np_optional :: "vec list option \<Rightarrow> py_error + vec list option" where
  "np_optional X = (case X of
       None \<Rightarrow> Inr None
     | Some X' \<Rightarrow> if X' = [] then Inr None else map_sum id Some (np_array2 X'))"

section \<open>Scientific endpoints\<close>

definition run_kalman :: "kalman_request \<Rightarrow> kalman_report http_response" where
  "run_kalman req = handle (run_filter (kr_data req) (kr_process_noise req) (kr_measurement_noise req))"

definition run_arima :: "sm_lib \<Rightarrow> arima_request \<Rightarrow> arima_report http_response" where
  "run_arima L req = handle (run_forecast L (ar_data req) (ar_order req) (ar_forecast_steps req))"

definition run_bayesian :: "bayesian_request \<Rightarrow> bma_result http_response" where
  "run_bayesian req =
     handle (run_bma (br_models_predictions req) (br_observations req) (br_prior_weights req))"

definition run_bias_correction :: "'g gamma_lib \<Rightarrow> bias_request \<Rightarrow> (vec \<times> qm_statistics) http_response" where
  "run_bias_correction GL req =
     handle (run_correction GL (bc_predictions req) (bc_observations req) (bc_method req))"

definition run_anomaly_detection :: "anomaly_request \<Rightarrow> anomaly_report http_response" where
  "run_anomaly_detection req = handle (detect (an_data req) (an_method req) (an_threshold req))"

definition run_trend_analysis :: "trend_lib \<Rightarrow> trend_request \<Rightarrow> trend_report http_response" where
  "run_trend_analysis TL req = handle (analyze TL (tr_data req))"

section \<open>Machine-learning endpoints\<close>

text \<open>The arguments are converted in the order of the call: \<open>np.array(X_train)\<close>,
  \<open>np.array(y_train)\<close> (a list of floats, which converts), then the optional
  prediction rows; \<open>train\<close> is the module's \<open>train_and_predict\<close>.\<close>

definition ml_call ::
  "(vec list \<Rightarrow> vec \<Rightarrow> vec list option \<Rightarrow> py_error + 'r) \<Rightarrow> ml_request \<Rightarrow> py_error + 'r" where
  "ml_call train req =
     (case np_array2 (X_train req) of
        Inl e \<Rightarrow> Inl e
      | Inr X \<Rightarrow> (case np_optional (X_predict req) of
                    Inl e \<Rightarrow> Inl e
                  | Inr Xp \<Rightarrow> train X (y_train req) Xp))"

definition run_random_forest ::
  "'m rf_lib \<Rightarrow> (nat \<Rightarrow> nat list) \<Rightarrow> ml_request \<Rightarrow> rf_result http_response" where
  "run_random_forest L perm req = handle (ml_call (random_forest_train_and_predict L perm) req)"

definition run_xgboost ::
  "'m xgb_lib option \<Rightarrow> (nat \<Rightarrow> nat list) \<Rightarrow> ml_request \<Rightarrow> xgb_result http_response" where
  "run_xgboost LL perm req = handle (ml_call (xgboost_train_and_predict LL perm) req)"

definition run_gradient_boosting ::
  "'m gb_lib \<Rightarrow> (nat \<Rightarrow> nat list) \<Rightarrow> ml_request \<Rightarrow> gb_result http_response" where
  "run_gradient_boosting L perm req = handle (ml_call (gradient_boosting_train_and_predict L perm) req)"

definition run_ensemble ::
  "'m ens_lib \<Rightarrow> (nat \<Rightarrow> nat list) \<Rightarrow> ml_request \<Rightarrow> 'm ens_result http_response" where
  "run_ensemble L perm req = handle (ml_call (ensemble_train_and_predict L perm) req)"

text \<open>The LSTM endpoint passes the request's lists unconverted, in a dictionary that
  always holds the four keys; \<open>X_predict\<close> is there with the value \<open>None\<close> when
  the body has none.\<close>

definition run_lstm :: "'k tf_lib option \<Rightarrow> lstm_request \<Rightarrow> lstm_result http_response" where
  "run_lstm TT req =
     handle (lstm_train_and_predict TT
               \<lparr>ld_X_train = Some (lr_X_train req), ld_y_train = Some (lr_y_train req),
                ld_X_predict = Some (lr_X_predict req), ld_epochs = Some (lr_epochs req)\<rparr>)"

section \<open>Quantum endpoints\<close>

text \<open>Each returns the response and numpy's generator state after the call.\<close>

definition run_vqe ::
  "'s np_random \<Rightarrow> vqe_request \<Rightarrow> 's \<Rightarrow> vqe_result quantum_report http_response \<times> 's" where
  "run_vqe R req s =
     (let (r, s') = vqe_optimize R (vq_weather_params req) (vq_num_qubits req) (vq_layers req) s
      in (handle r, s'))"

definition run_qaoa ::
  "'s np_random \<Rightarrow> qaoa_request \<Rightarrow> 's \<Rightarrow> qaoa_result quantum_report http_response \<times> 's" where
  "run_qaoa R req s =
     (let (r, s') = qaoa_optimize R (qa_nodes req) (qa_edges req) (qa_depth req) s
      in (handle r, s'))"

definition run_qsvm ::
  "'s np_random \<Rightarrow> qsvm_request \<Rightarrow> 's \<Rightarrow> (qsvm_metrics, int list) qml_report http_response \<times> 's" where
  "run_qsvm R req s =
     (case np_array2 (qs_X_train req) of
        Inl e \<Rightarrow> (handle (Inl e), s)
      | Inr X \<Rightarrow> (case np_optional (qs_X_test req) of
                    Inl e \<Rightarrow> (handle (Inl e), s)
                  | Inr Xt \<Rightarrow> let (r, s') = qsvm_train_and_predict R X (qs_y_train req) Xt s
                              in (handle (Inr r), s')))"

definition run_qnn ::
  "'s np_random \<Rightarrow> ml_request \<Rightarrow> 's \<Rightarrow> (qnn_metrics, vec) qml_report http_response \<times> 's" where
  "run_qnn R req s =
     (case np_array2 (X_train req) of
        Inl e \<Rightarrow> (handle (Inl e), s)
      | Inr X \<Rightarrow> (case np_optional (X_predict req) of
                    Inl e \<Rightarrow> (handle (Inl e), s)
                  | Inr Xp \<Rightarrow> let (r, s') = qnn_train_and_predict R X (y_train req) Xp s
                              in (handle r, s')))"

definition run_grover :: "grover_request \<Rightarrow> grover_result quantum_report http_response" where
  "run_grover req = handle (grover_search (gr_n_qubits req) (gr_target_state req))"

section \<open>Code retrieval, catalogue and health\<close>

text \<open>The table of \<open>get_algorithm_code\<close>: category, algorithm name, and the module
  whose \<open>get_source_code\<close> it calls.\<close>

definition code_mapping :: "(string \<times> (string \<times> string) list) list" where
  "code_mapping =
     [(''scientific'', [(''kalman'', ''kalman_filter''), (''arima'', ''arima_model''),
                        (''bayesian'', ''bayesian_ensemble''), (''bias_correction'', ''bias_correction''),
                        (''anomaly'', ''anomaly_detection''), (''trend'', ''trend_analysis'')]),
      (''ml'', [(''random_forest'', ''random_forest''), (''lstm'', ''lstm_predictor''),
                (''xgboost'', ''xgboost_predictor''), (''gradient_boosting'', ''gradient_boosting''),
                (''ensemble'', ''ensemble_voting'')]),
      (''quantum'', [(''vqe'', ''vqe_optimizer''), (''qaoa'', ''qaoa_solver''), (''qsvm'', ''qsvm_classifier''),
                     (''qnn'', ''qnn_regression''), (''grover'', ''grover_search'')])]"

definition quoted :: "string \<Rightarrow> string" where
  "quoted s = [CHR 0x27] @ s @ [CHR 0x27]"

record code_response =
  code_category :: string
  code_algorithm :: string
  code :: string

definition get_algorithm_code ::
  "(string \<Rightarrow> string) \<Rightarrow> string \<Rightarrow> string \<Rightarrow> code_response http_response" where
  "get_algorithm_code src category algorithm =
     (case map_of code_mapping category of
        None \<Rightarrow> HTTPError 404 (NotFound (''Category '' @ quoted category @ '' not found''))
      | Some algs \<Rightarrow>
          (case map_of algs algorithm of
             None \<Rightarrow> HTTPError 404 (NotFound (''Algorithm '' @ quoted algorithm @ '' not found''))
           | Some m \<Rightarrow> Ok \<lparr>code_category = category, code_algorithm = algorithm, code = src m\<rparr>))"

record algorithm_info =
  info_name :: string
  info_description :: string
  info_library :: string
  info_reference :: string

text \<open>Two references carry letters outside ASCII, written as their UTF-8 bytes.\<close>

definition themessl :: string where
  "themessl = ''Theme'' @ [CHR 0xC3, CHR 0x9F] @ ''l et al. (2011)''"

definition list_algorithms :: "(string \<times> (string \<times> algorithm_info) list) list" where
  "list_algorithms =
     [(''scientific'',
        [(''kalman_filter'', \<lparr>info_name = ''Kalman Filter'', info_description = ''State estimation and noise reduction'',
                              info_library = ''filterpy'', info_reference = ''Kalman, R.E. (1960)''\<rparr>),
         (''arima'', \<lparr>info_name = ''ARIMA'', info_description = ''Time series forecasting'',
                      info_library = ''statsmodels'', info_reference = ''Box & Jenkins (1970)''\<rparr>),
         (''bayesian_ensemble'', \<lparr>info_name = ''Bayesian Model Averaging'',
                                  info_description = ''Probabilistic model combination'',
                                  info_library = ''scipy'', info_reference = ''Hoeting et al. (1999)''\<rparr>),
         (''bias_correction'', \<lparr>info_name = ''Quantile Mapping'', info_description = ''Systematic bias correction'',
                                info_library = ''scipy'', info_reference = themessl\<rparr>),
         (''anomaly_detection'', \<lparr>info_name = ''Anomaly Detection'', info_description = ''Z-score and IQR methods'',
                                  info_library = ''numpy/scipy'', info_reference = ''Standard statistical methods''\<rparr>),
         (''trend_analysis'', \<lparr>info_name = ''Mann-Kendall Test'', info_description = ''Non-parametric trend detection'',
                               info_library = ''pymannkendall'', info_reference = ''Mann (1945), Kendall (1975)''\<rparr>)]),
      (''ml'',
        [(''random_forest'', \<lparr>info_name = ''Random Forest'', info_description = ''Ensemble of decision trees'',
                              info_library = ''scikit-learn'', info_reference = ''Breiman (2001)''\<rparr>),
         (''lstm'', \<lparr>info_name = ''LSTM Neural Network'', info_description = ''Long Short-Term Memory RNN'',
                     info_library = ''TensorFlow/Keras'', info_reference = ''Hochreiter & Schmidhuber (1997)''\<rparr>),
         (''xgboost'', \<lparr>info_name = ''XGBoost'', info_description = ''Extreme Gradient Boosting'',
                        info_library = ''xgboost'', info_reference = ''Chen & Guestrin (2016)''\<rparr>),
         (''gradient_boosting'', \<lparr>info_name = ''Gradient Boosting'', info_description = ''Sequential ensemble method'',
                                  info_library = ''scikit-learn'', info_reference = ''Friedman (2001)''\<rparr>),
         (''ensemble_voting'', \<lparr>info_name = ''Voting Regressor'', info_description = ''Model averaging ensemble'',
                                info_library = ''scikit-learn'', info_reference = ''scikit-learn documentation''\<rparr>)]),
      (''quantum'',
        [(''vqe'', \<lparr>info_name = ''VQE'', info_description = ''Variational Quantum Eigensolver'',
                    info_library = ''Qiskit'', info_reference = ''Peruzzo et al. (2014)''\<rparr>),
         (''qaoa'', \<lparr>info_name = ''QAOA'', info_description = ''Quantum Approximate Optimization'',
                     info_library = ''Qiskit'', info_reference = ''Farhi et al. (2014)''\<rparr>),
         (''qsvm'', \<lparr>info_name = ''QSVM'', info_description = ''Quantum Support Vector Machine'',
                     info_library = ''qiskit-machine-learning'', info_reference = havlicek\<rparr>),
         (''qnn'', \<lparr>info_name = ''QNN'', info_description = ''Quantum Neural Network'',
                    info_library = ''qiskit-machine-learning'', info_reference = ''Schuld et al. (2020)''\<rparr>),
         (''grover'', \<lparr>info_name = ''Grover's Algorithm'', info_description = ''Quantum search algorithm'',
                       info_library = ''Qiskit'', info_reference = ''Grover (1996)''\<rparr>)])]"

record health =
  health_status :: string
  health_version :: string
  health_timestamp :: string
  health_algorithms :: "(string \<times> string list) list"

text \<open>\<open>/health\<close>; the timestamp is \<open>datetime.utcnow().isoformat()\<close>, a parameter.\<close>

definition health_check :: "string \<Rightarrow> health" where
  "health_check now =
     \<lparr>health_status = ''healthy'', health_version = ''1.0.0'', health_timestamp = now,
      health_algorithms =
        [(''scientific'', [''kalman_filter'', ''arima'', ''bayesian_ensemble'',
                           ''bias_correction'', ''anomaly_detection'', ''trend_analysis'']),
         (''ml'', [''random_forest'', ''xgboost'', ''lstm'', ''gradient_boosting'', ''ensemble_voting'']),
         (''quantum'', [''vqe'', ''qaoa'', ''qsvm'', ''qnn'', ''grover''])]\<rparr>"

section \<open>Entry point\<close>

text \<open>\<open>port = int(os.getenv("PORT", 8000))\<close> when \<open>main.py\<close> runs as a script; an
  unparsable value raises \<open>ValueError\<close> before the server starts.\<close>

definition main_port :: "environ \<Rightarrow> py_error + int" where
  "main_port env = (case map_of env ''PORT'' of None \<Rightarrow> Inr 8000 | Some v \<Rightarrow> py_int_of_str v)"

section \<open>Properties\<close>

lemma status_handle [simp]: "status (handle r) = (case r of Inl _ \<Rightarrow> 500 | Inr _ \<Rightarrow> 200)"
  by (simp add: status_def handle_def split: sum.split py_error.split)

lemma handle_Inr [simp]: "handle (Inr v) = Ok v"
  by (simp add: handle_def)

lemma handle_Inl [simp]: "e \<noteq> NonFinite \<Longrightarrow> handle (Inl e) = HTTPError 500 (Detail e)"
  by (cases e) (simp_all add: handle_def)

lemma post_simps [simp]:
  "post None f = HTTPError 422 ValidationError" "post (Some r) f = f r"
  by (simp_all add: post_def)

lemma field_simps_api [simp]: "field d None = d" "field d (Some x) = x"
  by (simp_all add: field_def)

text \<open>The algorithm names \<open>/health\<close> and \<open>/api/algorithms\<close> publish agree,
  category by category; five of them are answered with 404 by \<open>/api/code\<close>, whose table
  uses other keys (\<open>kalman\<close>, \<open>bayesian\<close>, \<open>anomaly\<close>, \<open>trend\<close>, \<open>ensemble\<close>).\<close>

theorem catalogue_code_mismatch:
  "map (\<lambda>(c, ns). (c, set ns)) (health_algorithms (health_check now)) =
     map (\<lambda>(c, algs). (c, set (map fst algs))) list_algorithms \<and>
   [(c, a). (c, algs) \<leftarrow> list_algorithms, (a, i) \<leftarrow> algs, status (get_algorithm_code src c a) = 404] =
     [(''scientific'', ''kalman_filter''), (''scientific'', ''bayesian_ensemble''),
      (''scientific'', ''anomaly_detection''), (''scientific'', ''trend_analysis''), (''ml'', ''ensemble_voting'')]"
  by (simp add: health_check_def list_algorithms_def get_algorithm_code_def code_mapping_def status_def
      insert_commute)

text \<open>\<open>POST /api/scientific/kalman\<close>: a body without \<open>data\<close> is rejected with 422;
  with the default noises (0.1 and 1.0) a series of fewer than three points gives 500 with
  the \<open>ValueError\<close> and a longer one 200 with \<open>run_filter\<close>'s report, one filtered value per
  point; explicit zero noises give 500 with \<open>LinAlgError\<close> on every series of three points
  or more.\<close>

theorem kalman_endpoint:
  "post (KalmanRequest None q r) run_kalman = HTTPError 422 ValidationError \<and>
   (length d < 3 \<longrightarrow> post (KalmanRequest (Some d) None None) run_kalman = HTTPError 500 (Detail ValueError)) \<and>
   (3 \<le> length d \<longrightarrow>
      (\<exists>rep. post (KalmanRequest (Some d) None None) run_kalman = Ok rep \<and>
         length (filtered_all rep) = length d \<and> process_noise rep = 0.1 \<and> measurement_noise rep = 1)) \<and>
   (3 \<le> length d \<longrightarrow>
      post (KalmanRequest (Some d) (Some 0) (Some 0)) run_kalman = HTTPError 500 (Detail LinAlgError))"
proof (intro conjI impI)
  show "post (KalmanRequest None q r) run_kalman = HTTPError 422 ValidationError"
    by (simp add: KalmanRequest_def)
next
  assume "length d < 3"
  then show "post (KalmanRequest (Some d) None None) run_kalman = HTTPError 500 (Detail ValueError)"
    by (simp add: KalmanRequest_def run_kalman_def run_filter_def)
next
  assume "3 \<le> length d"
  then obtain rep where rep: "run_filter d 0.1 1 = Inr rep" "length (filtered_all rep) = length d"
    using run_filter_Inr [of d "0.1" 1] by auto
  have "process_noise rep = 0.1 \<and> measurement_noise rep = 1"
    using rep(1) by (auto simp: run_filter_def Let_def split: if_splits prod.splits sum.splits)
  then show "\<exists>rep. post (KalmanRequest (Some d) None None) run_kalman = Ok rep \<and>
         length (filtered_all rep) = length d \<and> process_noise rep = 0.1 \<and> measurement_noise rep = 1"
    using rep by (simp add: KalmanRequest_def run_kalman_def)
next
  assume "3 \<le> length d"
  then show "post (KalmanRequest (Some d) (Some 0) (Some 0)) run_kalman = HTTPError 500 (Detail LinAlgError)"
    by (simp add: KalmanRequest_def run_kalman_def run_filter_singular)
qed

text \<open>\<open>POST /api/quantum/qnn\<close> answers 200 on every rectangular request whose
  prediction rows, if any, are non-empty: an empty \<open>X_predict\<close> becomes \<open>None\<close> in the
  endpoint, so the module's \<open>AxisError\<close> on a one-dimensional array is never reached.\<close>

theorem qnn_endpoint_ok:
  assumes R: "valid_random R" and X: "list_all (\<lambda>row. length row = length (hd X)) X"
    and Xp: "\<forall>rows. Xp = Some rows \<longrightarrow> list_all (\<lambda>row. length row = length (hd rows)) rows \<and> [] \<notin> set rows"
  shows "status (fst (run_qnn R \<lparr>X_train = X, y_train = y, X_predict = Xp\<rparr> s)) = 200"
proof -
  have conv: "\<exists>Xp'. np_optional Xp = Inr Xp' \<and> (\<forall>rows. Xp' = Some rows \<longrightarrow> rows \<noteq> [] \<and> [] \<notin> set rows)"
    using Xp by (cases Xp) (auto simp: np_optional_def)
  then obtain Xp' where c: "np_optional Xp = Inr Xp'"
    and ne: "\<forall>rows. Xp' = Some rows \<longrightarrow> rows \<noteq> [] \<and> [] \<notin> set rows" by blast
  have "\<exists>rep. fst (qnn_train_and_predict R X y Xp' s) = Inr rep"
  proof (cases Xp')
    case None
    then show ?thesis by (simp add: qnn_train_and_predict_def)
  next
    case (Some rows)
    then show ?thesis using qnn_outcome [OF R, of Xp' X y s] ne by auto
  qed
  then show ?thesis using X c by (auto simp: run_qnn_def split: prod.split)
qed

theorem kalman_endpoint_witness:
  "post (KalmanRequest (Some [20.1, 20.5]) None None) run_kalman = HTTPError 500 (Detail ValueError) \<and>
   post (KalmanRequest (Some [20.1, 20.5, 21.2]) (Some 0) (Some 0)) run_kalman = HTTPError 500 (Detail LinAlgError)"
  using kalman_endpoint [of q r "[20.1, 20.5]"] kalman_endpoint [of q r "[20.1, 20.5, 21.2]"] by simp

theorem qnn_endpoint_ok_witness:
  "status (fst (run_qnn example_random \<lparr>X_train = [[1, 2]], y_train = [1], X_predict = Some []\<rparr> ())) = 200 \<and>
   status (fst (run_qnn example_random \<lparr>X_train = [[1, 2]], y_train = [1], X_predict = Some [[3, 4]]\<rparr> ())) = 200"
  using qnn_endpoint_ok [OF valid_example_random, of "[[1, 2]]" "Some []" "[1]" "()"]
    qnn_endpoint_ok [OF valid_example_random, of "[[1, 2]]" "Some [[3, 4]]" "[1]" "()"]
  by simp

text \<open>C28: \<open>POST /api/ml/lstm\<close> without \<open>X_predict\<close> answers 500 on every body that
  passes validation: the endpoint puts the key \<open>X_predict\<close> with the value \<open>None\<close>
  in the module's dictionary, the module then predicts on \<open>np.array(None)\<close>, which
  has no dimension, and raises (\<open>IndexError\<close> in the fallback, Keras's error with
  TensorFlow), after training has run.\<close>

theorem lstm_endpoint_without_predict:
  assumes "\<forall>T. TT = Some T \<longrightarrow> tf_needs_3d T"
  shows "status (post (LSTMRequest (Some X) (Some y) None ep) (run_lstm TT)) = 500"
proof -
  obtain e where "lstm_train_and_predict TT
      \<lparr>ld_X_train = Some X, ld_y_train = Some y, ld_X_predict = Some None, ld_epochs = Some (field 50 ep)\<rparr> = Inl e"
    using predict_None_fails [OF assms] by fastforce
  then show ?thesis by (simp add: LSTMRequest_def run_lstm_def)
qed

theorem lstm_endpoint_without_predict_witness:
  "status (post (LSTMRequest (Some [[1, 2]]) (Some [1]) None None) (run_lstm (None :: unit tf_lib option))) = 500"
  using lstm_endpoint_without_predict [where TT = "None :: unit tf_lib option" and X = "[[1, 2]]"
      and y = "[1]" and ep = None]
  by simp

text \<open>C29: \<open>POST /api/ml/ensemble\<close> answers 500 on every body: when the estimator
  library iterates a fitted ensemble over its members (as scikit-learn's does),
  \<open>train_and_predict\<close> of \<open>ensemble_voting.py\<close> never returns, and a body whose
  arrays do not convert fails before it.\<close>

theorem ensemble_endpoint_fails:
  assumes "forest_members L"
  shows "status (run_ensemble L perm req) = 500"
proof -
  have "\<forall>r. ml_call (ensemble_train_and_predict L perm) req \<noteq> Inr r"
    using ensemble_never_returns [OF assms] by (auto simp: ml_call_def split: sum.split)
  then show ?thesis by (auto simp: run_ensemble_def split: sum.split)
qed

theorem ensemble_endpoint_fails_witness:
  "status (run_ensemble example_ens (\<lambda>n. [0..<n]) \<lparr>X_train = [[1], [2]], y_train = [1, 2], X_predict = None\<rparr>) = 500"
  using ensemble_endpoint_fails [OF forest_members_example] by simp

end
