(* ===== verification/Spec2Isabelle.thy ===== *)
theory Spec2Isabelle
  imports BiasCorrection BMARun Anomaly Trend Kalman Arima RandomForest GradientBoosting XGBoost
    EnsembleVoting LSTM Quantum Services Api
begin

text \<open>
  \<^bold>\<open>A verification library for the QANWP-AI Python backend\<close>
  (\<open>src/python-backend\<close>).

  \<^bold>\<open>The program.\<close> A FastAPI service (\<open>main.py\<close>) exposes one POST endpoint per
  algorithm; each endpoint calls one module function and maps any exception to an
  HTTP 500 response. The algorithms are independent: no module calls another and
  none keeps state across requests. The scientific modules hold the numerical code
  of the repository: quantile-mapping bias correction (\<open>bias_correction.py\<close>),
  Bayesian model averaging (\<open>bayesian_ensemble.py\<close>), anomaly detection
  (\<open>anomaly_detection.py\<close>), the Mann-Kendall trend test with Sen's slope
  (\<open>trend_analysis.py\<close>), a constant-velocity Kalman filter
  (\<open>kalman_filter.py\<close>) and an ARIMA wrapper (\<open>arima_model.py\<close>). The machine
  learning modules configure scikit-learn, XGBoost and TensorFlow estimators, and
  the quantum modules return randomised placeholder results.

  \<^bold>\<open>Theories.\<close>
  \<^item> \<open>Prelude\<close>: the exception datatype \<open>py_error\<close>, dictionaries as association
    lists (\<open>dict_get\<close>, \<open>dict_has\<close>), \<open>int()\<close> of a float, negative indexing
    (\<open>py_nth\<close>) and slicing (\<open>py_slice\<close>), \<open>str\<close> of an integer, its inverse
    \<open>int()\<close> of a string (\<open>py_int_of_str\<close>) and \<open>str.join\<close>, and shared lemmas on sorted lists,
    convex combinations and weighted sums.
  \<^item> \<open>NumPy\<close>: the library routines the code calls, modelled from their library
    semantics and not mapped to repository lines: \<open>np.mean\<close>, \<open>np.var\<close>,
    \<open>np.std\<close>, broadcasting subtraction \<open>np_sub\<close>, \<open>np.interp\<close> and
    \<open>scipy.interpolate.interp1d\<close> with fill values (\<open>mk_interp1d\<close>,
    \<open>interp1d_call\<close>), with the facts that an interpolant stays within its data
    and reproduces its data at the sample points; \<open>np.array\<close> of a list of rows
    (\<open>np_array2\<close>, mapped to its calls in \<open>main.py\<close>).
  \<^item> \<open>BiasCorrection\<close>: the class \<open>QuantileMappingCorrection\<close>. Its object is the
    record \<open>qm_state\<close> (one field per attribute, \<open>None\<close> for an attribute not
    yet assigned); \<open>fit\<close> returns the outcome of the call and the object after it,
    keeping the assignments made before an exception as Python does; the gamma
    branch's re-entry into \<open>fit\<close> is a recursive call whose termination is proved.
    \<open>transform\<close> returns the corrected values or the exception. The scipy gamma
    distribution is a parameter \<open>gamma_lib\<close> of the model. The object's life cycle is
    the inductive set \<open>qm_reach\<close> of states reachable by \<open>fit\<close> calls.
  \<^item> \<open>BMA\<close>: the class \<open>BayesianModelAveraging\<close>. Its object is the record
    \<open>bma_state\<close>; \<open>compute_weights\<close> returns its outcome and the object after it
    (the variances are stored before the normalisation can fail); \<open>predict\<close> keeps
    the code's two loops, the second indexed by \<open>enumerate\<close> over the whole
    dictionary (\<open>variance_loop\<close>). \<open>mixture_mean\<close> and \<open>mixture_var\<close> are the
    abstract contract of \<open>predict\<close>: the mean and, by the law of total variance,
    the variance of a finite mixture.
  \<^item> \<open>BMARun\<close>: the module function \<open>run_bma\<close>, with the per-model metrics and
    the combined metrics of its result.
  \<^item> \<open>NumPyOrder\<close>: order statistics and boolean indexing of numpy, again from
    the library's semantics: \<open>np.min\<close>, \<open>np.max\<close>, \<open>np.percentile\<close> with its
    default linear method (an integer percent, as every call of the repository
    passes), \<open>np.median\<close>, \<open>np.where(mask)[0]\<close> and \<open>data[mask]\<close>.
  \<^item> \<open>Anomaly\<close>: the class \<open>AnomalyDetector\<close> (\<open>detect_zscore\<close>,
    \<open>detect_iqr\<close>, \<open>detect_modified_zscore\<close>, the dispatch \<open>detect\<close> and
    \<open>get_anomaly_classification\<close>) and the module function \<open>detect\<close>. The object
    holds its method name and threshold, which no method changes.
  \<^item> \<open>Trend\<close>: the class \<open>TrendAnalyzer\<close> (\<open>mann_kendall_test\<close>,
    \<open>sens_slope\<close>, \<open>analyze\<close>) and the module function \<open>analyze\<close>. The double loops
    over index pairs are folds over \<open>mk_pairs\<close>; scipy's normal distribution and
    \<open>linregress\<close> and the optional \<open>pymannkendall\<close> package are the parameter
    \<open>trend_lib\<close>. \<open>index_pairs\<close>, \<open>concordant\<close> and \<open>discordant\<close> are the
    docstring's definition of \<open>S\<close>, the reference the loop is proved against.
  \<^item> \<open>Kalman\<close>: the class \<open>WeatherKalmanFilter\<close> (\<open>__init__\<close>, \<open>configure\<close>,
    \<open>filter_data\<close>, \<open>forecast\<close>) and the module function \<open>run_filter\<close>. The object
    is the record \<open>kf_state\<close> of the filterpy fields the code reads or that
    filterpy's \<open>predict\<close> and \<open>update\<close> write; those two library methods
    (\<open>kf_predict\<close>, \<open>kf_update\<close>, with the Joseph-form covariance update and the
    \<open>LinAlgError\<close> of \<open>np.linalg.inv\<close>) are modelled from the library's semantics.
    Matrices are \<open>2 \<times> 2\<close> records (\<open>mat2\<close>). \<open>kf_reach\<close> is the inductive set of
    states an object reaches through its public methods; \<open>psd2\<close> and
    \<open>textbook_update\<close> are the specifications its invariant and its covariance
    update are proved against.
  \<^item> \<open>Arima\<close>: the class \<open>WeatherARIMA\<close> (\<open>fit\<close>, \<open>forecast\<close>, \<open>diagnostics\<close>,
    \<open>get_equation\<close>) and the module function \<open>run_forecast\<close>. The object is the record
    \<open>arima_state\<close>; statsmodels' estimation, forecast and tests are the parameter
    \<open>sm_lib\<close>. What the code computes itself is modelled: guards, the lag count,
    residual moments, the equation string (as UTF-8 bytes), the trend of the
    differences and the in-sample metrics with numpy's broadcasting (\<open>np_div\<close>).

  \<^item> \<open>SkLearn\<close>: the scikit-learn calls the four tree and ensemble modules share,
    modelled from the library's semantics at their call sites: \<open>train_test_split\<close>
    with \<open>test_size=0.2\<close> (a permutation parameter \<open>perm\<close> stands for
    \<open>random_state=42\<close>; \<open>valid_perm\<close> says it permutes), the metrics
    (\<open>r2_score\<close> is \<open>None\<close>, i.e. \<open>nan\<close>, below two samples),
    \<open>cross_val_score\<close> with \<open>cv=5\<close> (\<open>ValueError\<close> below five samples), the
    cross-validation summary, the feature names and their importances.
  \<^item> \<open>RandomForest\<close>, \<open>GradientBoosting\<close>, \<open>XGBoost\<close>, \<open>EnsembleVoting\<close>: the
    classes \<open>WeatherRandomForest\<close>, \<open>WeatherGradientBoosting\<close>,
    \<open>WeatherXGBoost\<close>, \<open>WeatherEnsembleVoting\<close> of \<open>algorithms/ml\<close> and their
    module functions \<open>train_and_predict\<close>. Each object is a record of its
    attributes; \<open>train\<close> returns its outcome and the object after it (the model and
    \<open>is_trained\<close> are set before later steps can fail, as in Python). The estimators
    are parameters (\<open>rf_lib\<close>, \<open>gb_lib\<close>, \<open>xgb_lib option\<close> with \<open>None\<close> when
    the \<open>xgboost\<close> import fails, \<open>ens_lib\<close>); \<open>VotingRegressor\<close>'s fit and
    averaging and the iteration of a fitted ensemble (\<open>ens_members\<close>) are modelled,
    since the code's loop over \<open>estimators_\<close> depends on them.
  \<^item> \<open>LSTM\<close>: the class \<open>WeatherLSTM\<close> and \<open>train_and_predict\<close> of
    \<open>lstm_predictor.py\<close>, with numpy arrays by their number of dimensions
    (\<open>nd_array\<close>), Keras as the parameter \<open>tf_lib option\<close> (\<open>None\<close> when
    TensorFlow is missing, then the simulated training and the last-time-step
    fallback), and the request dictionary whose \<open>X_predict\<close> key may be present with
    the value \<open>None\<close>.
  \<^item> \<open>Quantum\<close>: the five placeholders of \<open>algorithms/quantum\<close> (VQE, QAOA, QSVM,
    QNN, Grover) and their module functions. They draw from numpy's global generator,
    modelled as the record \<open>np_random\<close> of its draws with the generator state
    threaded explicitly (\<open>valid_random\<close>: draws have the requested length and range).
  \<^item> \<open>Services\<close>: \<open>normalize_features\<close> and \<open>create_sequences\<close> of
    \<open>services/weather_processor.py\<close> (the loop \<open>cs_loop\<close> over every integer
    \<open>seq_length\<close>, with Python's slices \<open>py_slice\<close> and negative indices, then
    \<open>np.array\<close> of the windows) and the environment reads of
    \<open>services/ibm_quantum_service.py\<close>.
  \<^item> \<open>Api\<close>: \<open>main.py\<close>. The pydantic request models (\<open>None\<close> for a body that
    misses a required field, answered 422 by \<open>post\<close>), every endpoint as a call of
    the modelled module function inside \<open>handle\<close> (an exception becomes 500 with
    its detail, a \<open>nan\<close> in the result a 500 of the JSON encoder), the
    conversions \<open>np_array2\<close> and \<open>np_optional\<close>, the \<open>/api/code\<close> table with its
    404s, \<open>/health\<close> and \<open>/api/algorithms\<close>, and the port of the entry point
    (\<open>main_port\<close>, parsed by \<open>py_int_of_str\<close>, Python's \<open>int()\<close> of a string).

  \<^bold>\<open>Floats.\<close> Python floats are \<open>real\<close>: rounding is not modelled. numpy does not
  raise on a division by zero or on the mean of an empty array; it returns
  \<open>inf\<close> or \<open>nan\<close>, which the service's JSON encoding then rejects. The model
  returns \<open>Inl NonFinite\<close> at the point where numpy would produce such a value.
  Dictionaries are association lists in insertion order; the loops over them, over
  index pairs and over observations are structural recursion, so every operation of
  the model is total and no fuel is needed; the
  libraries are given as parameters whose few needed properties are explicit
  hypotheses (\<open>rf_lib_total\<close>, \<open>forest_members\<close>, \<open>tf_needs_3d\<close>,
  \<open>valid_random\<close>), each met by a concrete instance in the witnesses. The one recursion that is not structural, the gamma branch of \<open>fit\<close>
  calling \<open>fit\<close> again, terminates because the re-entry switches the method.

  \<^bold>\<open>Results.\<close> Quantile mapping (\<open>BiasCorrection\<close>): after a successful
  empirical fit, \<open>transform\<close> succeeds on every input, stays within the range of the
  observations, and maps the \<open>k\<close>-th smallest training value to the \<open>k\<close>-th smallest
  observation; the normal method matches means and standard deviations; the gamma
  method's fallback is an empirical fit; every reachable object satisfies the
  empirical invariant; the error paths are values (and two of them are bugs: a
  failed re-fit leaves a half-updated object, and the gamma fallback can leave an
  object that raises \<open>AttributeError\<close>). Bayesian model averaging (\<open>BMA\<close>,
  \<open>BMARun\<close>): the weights are a probability distribution; an exact model outweighs
  an inexact one; \<open>predict\<close> refines the mixture's mean and total variance;
  \<open>run_bma\<close> returns on well-formed input and its result is the mixture, with
  ordered intervals; the variance estimate ignores a constant bias, and exact models
  make \<open>skill_improvement\<close> \<open>nan\<close>. Anomaly detection (\<open>Anomaly\<close>): by
  Samuelson's inequality no z-score exceeds \<open>sqrt (n - 1)\<close>, so the z-score method
  flags nothing on fewer than ten points at the default threshold (the docstring's
  example included); the IQR fences are the quartiles widened by the threshold; the
  detection mask, indices and values agree; the classification is the z-score
  detection's; the module function's outcome, its errors on an empty series, and the
  bounds of its anomaly rate. Trend analysis (\<open>Trend\<close>): the loop's \<open>S\<close> is the
  number of concordant minus discordant pairs and \<open>|S| \<le> n(n - 1)/2\<close>; the
  tie-corrected variance is positive exactly when two values differ, so the test
  never divides by zero; a reported direction agrees with the sign of \<open>S\<close>; Sen's
  slope recovers slope and intercept of a linear series; the module function's guard
  and result, its docstring example, and the \<open>IndexError\<close> of the method on fewer
  than two points. Kalman filter (\<open>Kalman\<close>): every reachable object keeps
  positive semidefinite covariances; \<open>run_filter\<close> returns on three points or more
  with nonnegative process and positive measurement noise, with gains in \<open>[0, 1]\<close>,
  and raises \<open>LinAlgError\<close> on every such series when both noises are zero; filterpy's
  Joseph form equals the docstring's update; \<open>forecast\<close> extrapolates linearly and
  restores the state; the report's summaries agree with its series (the last ten
  filtered values are a suffix, minimum, mean and maximum are ordered, the noise
  reduction is nonnegative). The recursion of \<open>fit\<close> terminates.
  ARIMA (\<open>Arima\<close>): with residuals one per observation, as statsmodels returns them,
  \<open>run_forecast\<close> never succeeds on a series without zeros after its first value
  (the \<open>mape\<close> division cannot broadcast); the reported trend is the direction from
  the first to the last observation.

  Machine learning (\<open>RandomForest\<close>, \<open>GradientBoosting\<close>, \<open>XGBoost\<close>,
  \<open>EnsembleVoting\<close>, \<open>LSTM\<close>, \<open>Api\<close>): the random forest raises below five
  samples, fails with \<open>nan\<close> at exactly five and returns from six on, and its
  uncertainty interval contains the mean, which lies between the trees' extremes,
  with numpy's population standard deviation of the trees; the boosting learning
  curve keeps the test error of every tenth stage (\<open>staged_scores_eq\<close>); the ensemble's training
  never returns, so \<open>/api/ml/ensemble\<close> always answers 500; without TensorFlow the
  LSTM predicts each row's last value; and \<open>/api/ml/lstm\<close> answers 500 on every
  body without \<open>X_predict\<close>, since the endpoint passes the key with \<open>None\<close>.
  Quantum, services and HTTP (\<open>Quantum\<close>, \<open>Services\<close>, \<open>Api\<close>): the VQE
  placeholder's outcome by the product of its parameters (an \<open>IndexError\<close> for 0 or
  1), QAOA, QSVM, QNN and Grover outcomes, \<open>create_sequences\<close> as a round trip
  with the data for a nonnegative \<open>seq_length\<close> and its three outcomes for a
  negative one (\<open>ValueError\<close>, \<open>IndexError\<close>, or empty windows), \<open>normalize_features\<close> standardising up to its \<open>1e-8\<close>, the
  catalogues of \<open>/health\<close> and \<open>/api/algorithms\<close> agreeing while
  \<open>/api/code\<close> answers 404 for five of their entries, and the Kalman and QNN
  endpoints' answers; \<open>int(str(n)) = n\<close> for every integer (\<open>int_str_roundtrip\<close>),
  the parse the entry point applies to \<open>PORT\<close>.

  \<^bold>\<open>Plan.\<close> The rest of \<open>predict\<close>'s error paths in \<open>BMA\<close> (a model without a
  weight before a weighted one makes the enumerate index overrun the stacked rows);
  \<open>predict_all_models\<close> of the ensemble with a two-member estimator library; the
  module functions' three-dimensional inputs, which \<open>main.py\<close> never sends.

  \<^bold>\<open>Not modelled.\<close> The internals of the scikit-learn, XGBoost, TensorFlow,
  statsmodels and filterpy estimators (library code the repository only configures
  and calls; they are parameters); \<open>get_source_code\<close> of every module
  (\<open>inspect.getsource\<close>, whose text is the parameter \<open>src\<close> of \<open>/api/code\<close>);
  the constant \<open>mathematical_formulation\<close> strings of the results; float rounding,
  including that of \<open>ceil(0.2 n)\<close> in \<open>train_test_split\<close>; the FastAPI application and CORS
  configuration and \<open>uvicorn.run\<close> (only the port the entry point reads is modelled); the package initialisers, which only re-export modules.
\<close>

end
